(* ===== verification/Iris_Prelude.thy ===== *)
theory Iris_Prelude
  imports Main "HOL-Library.Word" "HOL-Library.Monad_Syntax"
begin

text \<open>
  Shared vocabulary of the development.

  \<^item> The machine integers of the Rust sources: \<open>u8\<close> \<dots> \<open>u64\<close> are words of that width, \<open>usize\<close> is a
    natural number (every \<open>usize\<close> of the modelled code stays far below \<open>2 ^ 64\<close>).
  \<^item> Casts: \<open>as u64\<close> from a smaller unsigned type is \<^const>\<open>ucast\<close>, \<open>as i32 as i64 as u64\<close> is
    \<open>sext32\<close>.
  \<^item> Array accesses: \<open>idx xs i\<close> is \<open>None\<close> where Rust panics on an index out of bounds.
  \<^item> A two-element array \<open>[T; 2]\<close> is a pair and \<open>at2\<close> selects from it.
  \<^item> Generic lemmas on lists, words and options that the components share.
\<close>

unbundle bit_operations_syntax

type_synonym u8 = "8 word"
type_synonym u16 = "16 word"
type_synonym u32 = "32 word"
type_synonym u64 = "64 word"

named_theorems core_simps \<open>projections of the operations on the components of the core state\<close>
named_theorems inv_intros \<open>every operation keeps the invariant of its component\<close>

section \<open>Casts and bit tests\<close>

abbreviation lo32 :: "u64 \<Rightarrow> u32" where
  "lo32 w \<equiv> ucast w"

abbreviation zext :: "u32 \<Rightarrow> u64" where
  "zext w \<equiv> ucast w"

abbreviation sext32 :: "u32 \<Rightarrow> u64" where
  "sext32 w \<equiv> scast w"

abbreviation shl :: "'a::len word \<Rightarrow> nat \<Rightarrow> 'a word" where
  "shl w n \<equiv> push_bit n w"

abbreviation shr :: "'a::len word \<Rightarrow> nat \<Rightarrow> 'a word" where
  "shr w n \<equiv> drop_bit n w"

definition trailing_ones :: "u64 \<Rightarrow> nat" where
  "trailing_ones w = length (takeWhile (\<lambda>i. bit w i) [0..<64])"

section \<open>Arrays\<close>

definition idx :: "'a list \<Rightarrow> nat \<Rightarrow> 'a option" where
  "idx xs i = (if i < length xs then Some (xs ! i) else None)"

lemma idx_Some [simp]: "i < length xs \<Longrightarrow> idx xs i = Some (xs ! i)"
  by (simp add: idx_def)

lemma idx_eq_Some_iff: "idx xs i = Some x \<longleftrightarrow> i < length xs \<and> xs ! i = x"
  by (auto simp: idx_def)

lemma idx_update: "i < length xs \<Longrightarrow> idx (xs[i := v]) j = (if i = j then Some v else idx xs j)"
  by (auto simp: idx_def)

definition at2 :: "'a \<times> 'a \<Rightarrow> nat \<Rightarrow> 'a" where
  "at2 p i = (if i = 0 then fst p else snd p)"

lemma at2_simps [simp]: "at2 (a, b) 0 = a" "at2 (a, b) 1 = b" "at2 (a, b) (Suc 0) = b"
  by (simp_all add: at2_def)

section \<open>Word lemmas\<close>

lemma and_eq_0_iff_not_bit:
  fixes w :: "'a::len word"
  assumes "n < LENGTH('a)"
  shows "w AND push_bit n 1 = 0 \<longleftrightarrow> \<not> bit w n"
proof
  assume "w AND push_bit n 1 = 0"
  then have "\<not> bit (w AND push_bit n 1) n" by simp
  with assms show "\<not> bit w n" by (simp add: bit_simps)
next
  assume "\<not> bit w n"
  then show "w AND push_bit n 1 = 0"
    by (intro bit_word_eqI) (auto simp: bit_simps)
qed

lemma word_and_commute_mask:
  fixes w m :: "'a::len word"
  shows "(w AND m) AND m = w AND m"
  by (simp add: and.assoc)

lemma unat_drop_bit_div:
  fixes w :: "'a::len word"
  shows "unat (drop_bit n w) = unat w div 2 ^ n"
  unfolding unsigned_drop_bit_eq take_bit_nat_eq_self [OF unsigned_less]
  by (rule drop_bit_eq_div)

lemma unat_drop_bit_less:
  fixes w :: "'a::len word"
  assumes "n \<le> LENGTH('a)"
  shows "unat (drop_bit n w) < 2 ^ (LENGTH('a) - n)"
proof -
  have "unat w < 2 ^ LENGTH('a)" by (rule unsigned_less)
  also have "\<dots> = 2 ^ (LENGTH('a) - n) * 2 ^ n"
    using assms by (simp flip: power_add)
  finally show ?thesis
    by (simp only: unat_drop_bit_div less_mult_imp_div_less)
qed

lemma unat_exp:
  assumes "n < LENGTH('a::len)"
  shows "unat (2 ^ n :: 'a word) = 2 ^ n"
proof -
  have "unat (of_nat (2 ^ n) :: 'a word) = 2 ^ n"
    using assms by (simp only: unat_of_nat) simp
  then show ?thesis by simp
qed

lemma unat_ucast_up:
  fixes w :: "'a::len word"
  assumes "LENGTH('a) \<le> LENGTH('b::len)"
  shows "unat (ucast w :: 'b word) = unat w"
proof -
  have "unat w < 2 ^ LENGTH('b)"
    using unsigned_less [of w] assms by (rule less_le_trans [OF _ power_increasing]) simp
  then show ?thesis by (simp add: unsigned_ucast_eq take_bit_nat_eq_self)
qed

lemma unat_and_not_mask:
  fixes w :: "'a::len word"
  shows "unat (w AND NOT (mask j)) = unat w div 2 ^ j * 2 ^ j"
proof -
  have "w AND NOT (mask j) = push_bit j (drop_bit j w)"
    by (intro bit_word_eqI) (auto simp: bit_simps)
  moreover have "unat w div 2 ^ j * 2 ^ j < 2 ^ LENGTH('a)"
    using unsigned_less [of w] div_times_less_eq_dividend [of "unat w" "2 ^ j"] by (rule le_less_trans [rotated])
  moreover have "unat (push_bit j (drop_bit j w)) = take_bit LENGTH('a) (unat w div 2 ^ j * 2 ^ j)"
    unfolding unsigned_push_bit_eq unat_drop_bit_div by (simp only: push_bit_eq_mult)
  ultimately show ?thesis
    by (simp only: take_bit_nat_eq_self)
qed

lemma bit_beyond: "LENGTH('a) \<le> n \<Longrightarrow> \<not> bit (w :: 'a::len word) n"
  by (meson bit_imp_le_length not_le)

lemma upt_Suc_map: "[0..<Suc n] = 0 # map Suc [0..<n]"
  by (simp add: map_Suc_upt upt_conv_Cons del: upt_Suc)

lemma unat_and_mask:
  fixes w :: "'a::len word"
  shows "unat (w AND mask n) = unat w mod 2 ^ n"
proof -
  have "w AND mask n = take_bit n w" by (simp add: take_bit_eq_mask)
  then have "unat (w AND mask n) = take_bit n (unat w)"
    by (simp add: unsigned_take_bit_eq)
  then show ?thesis by (simp add: take_bit_eq_mod)
qed

lemma unat_or_disjoint:
  fixes p q :: "'a::len word"
  assumes "p AND q = 0"
  shows "unat (p OR q) = unat p + unat q"
proof -
  have "unat p AND unat q = 0" using assms by (simp flip: unsigned_and_eq)
  then show ?thesis by (simp add: unsigned_or_eq disjunctive_add_eq_or)
qed

lemma div_mod_eq_iff: "x = y \<longleftrightarrow> x div n = y div n \<and> x mod n = y mod (n :: nat)"
proof
  assume "x div n = y div n \<and> x mod n = y mod n"
  then have "x div n * n + x mod n = y div n * n + y mod n" by simp
  then show "x = y" by (simp only: div_mult_mod_eq)
qed simp

lemma mod_0_add:
  "x mod m = 0 \<Longrightarrow> k < m \<Longrightarrow> (x + k) div m = x div m" "x mod m = 0 \<Longrightarrow> k < m \<Longrightarrow> (x + k) mod m = (k :: nat)"
  by (auto elim!: dvdE simp: mod_eq_0_iff_dvd)

lemmas word_bits = bit_and_iff bit_or_iff bit_not_iff bit_drop_bit_eq comp_apply
  bit_push_bit_iff bit_mask_iff bit_1_iff

lemma bit_imp_nonzero: "bit (w :: 'a::len word) n \<Longrightarrow> w \<noteq> 0"
  by auto

lemma flag_set_clear:
  fixes s :: "'a::len word"
  assumes "s AND push_bit k 1 = 0"
  shows "(s OR push_bit k 1) AND NOT (push_bit k 1) = s"
proof (rule bit_word_eqI)
  fix n assume n: "n < LENGTH('a)"
  have "k < LENGTH('a) \<Longrightarrow> \<not> bit s k" using assms and_eq_0_iff_not_bit [of k s] by metis
  then show "bit ((s OR push_bit k 1) AND NOT (push_bit k 1)) n = bit s n"
    using n by (auto simp: bit_simps)
qed

lemma small_word_bit:
  fixes w :: "'a::len word"
  assumes "w < 2 ^ k" "bit w n" "k < LENGTH('a)"
  shows "n < k"
proof -
  have "take_bit k (unat w) = unat w"
    using assms(1,3) by (intro take_bit_nat_eq_self) (simp add: word_less_nat_alt unat_exp)
  moreover have "bit (unat w) n" using assms(2) by (simp add: bit_unsigned_iff)
  ultimately show ?thesis by (metis bit_take_bit_iff)
qed

lemma flag_test:
  fixes w :: "'a::len word"
  assumes "k < LENGTH('a)"
  shows "w AND push_bit k 1 = 0 \<longleftrightarrow> \<not> bit w k"
  using assms by (rule and_eq_0_iff_not_bit)

lemma word_take_bit_add:
  fixes a b :: "'a::len word"
  shows "take_bit n (take_bit n a + take_bit n b) = take_bit n (a + b)"
  by transfer (simp add: take_bit_add)

lemma word_take_bit_diff:
  fixes a b :: "'a::len word"
  shows "take_bit n (take_bit n a - take_bit n b) = take_bit n (a - b)"
  by transfer (simp add: take_bit_diff)

end
