(* ===== verification/Hp_Timer.thy ===== *)
theory Hp_Timer
  imports Iris_Prelude
begin

text \<open>
  The high-precision timer manager, \<^verbatim>\<open>src/src/hptimer.rs\<close>: an arena of slots with a
  generation count per slot, a free list, and a FIFO of expired timers.  Callbacks are opaque
  values of type \<^typ>\<open>'c\<close>; running one is the business of the caller, which hands the
  returned \<open>timer_return\<close> back to \<open>tm_finish\<close>.  Instants and durations are nanoseconds, as
  natural numbers.  The lock is modelled by the granularity of the operations: each
  definition below is one critical section of the source.
\<close>

section \<open>Data\<close>

datatype timer_return =
    TContinue
  | TDisable
  | TDelete
  | RescheduleOneShot nat
  | RescheduleRecurring nat

record 'c timer_entry =
  next_expiration :: nat
  period :: "nat option"
  enabled :: bool
  in_fifo :: bool
  callback :: "'c option"

record 'c timer_slot =
  generation :: u32
  timer :: "'c timer_entry option"

record 'c tm_inner =
  slots :: "'c timer_slot list"
  free_indices :: "nat list"
  fifo :: "(nat \<times> u32) list"
  stop :: bool

definition tm_new :: "'c tm_inner" where
  "tm_new = \<lparr>slots = [], free_indices = [], fifo = [], stop = False\<rparr>"

section \<open>Arena\<close>

text \<open>Identifiers carry the generation in the upper and the slot index in the lower half.
  \<open>free_indices\<close> is a \<^verbatim>\<open>Vec\<close> used as a stack; the head of the list is its top.\<close>

definition timer_ident :: "u32 \<Rightarrow> nat \<Rightarrow> u64" where
  "timer_ident g i = shl (zext g) 32 OR word_of_nat i"

definition id_generation :: "u64 \<Rightarrow> u32" where
  "id_generation tid = lo32 (shr tid 32)"

definition id_index :: "u64 \<Rightarrow> nat" where
  "id_index tid = unat (tid AND 0xFFFFFFFF)"

definition tm_allocate :: "'c timer_entry \<Rightarrow> 'c tm_inner \<Rightarrow> u64 \<times> 'c tm_inner" where
  "tm_allocate e tm =
     (let (i, tm) = (case free_indices tm of
                       j # js \<Rightarrow> (j, tm\<lparr>free_indices := js\<rparr>)
                     | [] \<Rightarrow> (length (slots tm),
                              tm\<lparr>slots := slots tm @ [\<lparr>generation = 0, timer = None\<rparr>]\<rparr>));
          g = generation (slots tm ! i) + 1
      in (timer_ident g i, tm\<lparr>slots := (slots tm)[i := \<lparr>generation = g, timer = Some e\<rparr>]\<rparr>))"

definition tm_deallocate :: "u64 \<Rightarrow> 'c tm_inner \<Rightarrow> bool \<times> 'c tm_inner" where
  "tm_deallocate tid tm =
     (let g = id_generation tid; i = id_index tid
      in case idx (slots tm) i of
           None \<Rightarrow> (False, tm)
         | Some s \<Rightarrow>
             if generation s = g \<and> timer s \<noteq> None
             then (True, tm\<lparr>slots := (slots tm)[i := s\<lparr>timer := None\<rparr>],
                           free_indices := i # free_indices tm\<rparr>)
             else (False, tm))"

section \<open>Operations of the manager\<close>

definition add_one_shot :: "nat \<Rightarrow> nat \<Rightarrow> 'c \<Rightarrow> 'c tm_inner \<Rightarrow> u64 \<times> 'c tm_inner" where
  "add_one_shot now expire_in cb =
     tm_allocate \<lparr>next_expiration = now + expire_in, period = None, enabled = True,
                  in_fifo = False, callback = Some cb\<rparr>"

definition add_recurring :: "nat \<Rightarrow> nat \<Rightarrow> 'c \<Rightarrow> 'c tm_inner \<Rightarrow> u64 \<times> 'c tm_inner" where
  "add_recurring expire_at per cb =
     tm_allocate \<lparr>next_expiration = expire_at, period = Some per, enabled = True,
                  in_fifo = False, callback = Some cb\<rparr>"

definition tm_remove :: "u64 \<Rightarrow> 'c tm_inner \<Rightarrow> bool \<times> 'c tm_inner" where
  "tm_remove tid tm = tm_deallocate tid tm"

definition tm_set_enabled :: "bool \<Rightarrow> u64 \<Rightarrow> 'c tm_inner \<Rightarrow> bool \<times> 'c tm_inner" where
  "tm_set_enabled b tid tm =
     (let g = id_generation tid; i = id_index tid
      in case idx (slots tm) i of
           None \<Rightarrow> (False, tm)
         | Some s \<Rightarrow>
             if generation s = g
             then (case timer s of
                     None \<Rightarrow> (False, tm)
                   | Some t \<Rightarrow> (True, tm\<lparr>slots :=
                                 (slots tm)[i := s\<lparr>timer := Some (t\<lparr>enabled := b\<rparr>)\<rparr>]\<rparr>))
             else (False, tm))"

definition tm_enable :: "u64 \<Rightarrow> 'c tm_inner \<Rightarrow> bool \<times> 'c tm_inner" where
  "tm_enable tid tm = tm_set_enabled True tid tm"

definition tm_disable :: "u64 \<Rightarrow> 'c tm_inner \<Rightarrow> bool \<times> 'c tm_inner" where
  "tm_disable tid tm = tm_set_enabled False tid tm"

definition tm_stop :: "'c tm_inner \<Rightarrow> 'c tm_inner" where
  "tm_stop tm = tm\<lparr>stop := True\<rparr>"

section \<open>The worker thread\<close>

text \<open>Phase 1 of the loop: expired timers enter the FIFO in slot order.\<close>

definition tm_scan_slot :: "nat \<Rightarrow> nat \<Rightarrow> 'c tm_inner \<Rightarrow> 'c tm_inner" where
  "tm_scan_slot now i tm =
     (case idx (slots tm) i of
        None \<Rightarrow> tm
      | Some s \<Rightarrow>
          (case timer s of
             None \<Rightarrow> tm
           | Some t \<Rightarrow>
               if enabled t \<and> \<not> in_fifo t \<and> next_expiration t \<le> now
               then tm\<lparr>slots := (slots tm)[i := s\<lparr>timer := Some (t\<lparr>in_fifo := True\<rparr>)\<rparr>],
                       fifo := fifo tm @ [(i, generation s)]\<rparr>
               else tm))"

definition tm_scan :: "nat \<Rightarrow> 'c tm_inner \<Rightarrow> 'c tm_inner" where
  "tm_scan now tm = fold (tm_scan_slot now) [0..<length (slots tm)] tm"

text \<open>Phase 2: the oldest expired timer gives up its callback, unless it has been removed,
  replaced or disabled meanwhile.\<close>

type_synonym 'c to_call = "(nat \<times> u32 \<times> 'c option) option"

definition tm_fetch :: "'c tm_inner \<Rightarrow> 'c to_call \<times> 'c tm_inner" where
  "tm_fetch tm =
     (case fifo tm of
        [] \<Rightarrow> (None, tm)
      | (i, g) # q \<Rightarrow>
          (let tm = tm\<lparr>fifo := q\<rparr>
           in case idx (slots tm) i of
                None \<Rightarrow> (None, tm)
              | Some s \<Rightarrow>
                  if generation s = g
                  then (case timer s of
                          None \<Rightarrow> (None, tm)
                        | Some t \<Rightarrow>
                            let (call, t) = (if enabled t
                                             then (Some (i, g, callback t), t\<lparr>callback := None\<rparr>)
                                             else (None, t))
                            in (call, tm\<lparr>slots := (slots tm)[i := s\<lparr>timer :=
                                                  Some (t\<lparr>in_fifo := False\<rparr>)\<rparr>]\<rparr>))
                  else (None, tm)))"

text \<open>Phase 3: the earliest expiration among the timers not already queued.\<close>

definition earlier_wakeup :: "'c timer_slot \<Rightarrow> nat option \<Rightarrow> nat option" where
  "earlier_wakeup s w =
     (case timer s of
        None \<Rightarrow> w
      | Some t \<Rightarrow>
          if enabled t \<and> \<not> in_fifo t
          then (case w of
                  Some w' \<Rightarrow> if next_expiration t < w' then Some (next_expiration t) else w
                | None \<Rightarrow> Some (next_expiration t))
          else w)"

definition tm_next_wakeup :: "'c tm_inner \<Rightarrow> nat option" where
  "tm_next_wakeup tm = fold earlier_wakeup (slots tm) None"

text \<open>Phase 4, one iteration of the inner loop: what the manager does with the value a
  callback returned.  The first component is \<^term>\<open>Some cb\<close> when a late recurring timer is to
  be called again at once.\<close>

definition MAX_CATCHUP :: nat where "MAX_CATCHUP = 8"

definition tm_finish ::
  "nat \<Rightarrow> nat \<Rightarrow> u32 \<Rightarrow> 'c \<Rightarrow> timer_return \<Rightarrow> nat \<Rightarrow> 'c tm_inner \<Rightarrow> 'c option \<times> 'c tm_inner" where
  "tm_finish now i g cb result catch_up tm =
     (if stop tm then (None, tm)
      else case idx (slots tm) i of
        None \<Rightarrow> (None, tm)
      | Some s \<Rightarrow>
          if generation s \<noteq> g then (None, tm)
          else case timer s of
            None \<Rightarrow> (None, tm)
          | Some t0 \<Rightarrow>
              let t = t0\<lparr>callback := Some cb\<rparr>;
                  put = (\<lambda>u. tm\<lparr>slots := (slots tm)[i := s\<lparr>timer := Some u\<rparr>]\<rparr>)
              in case result of
                   TContinue \<Rightarrow>
                     (case period t of
                        Some p \<Rightarrow>
                          let t = t\<lparr>next_expiration := next_expiration t + p\<rparr>
                          in if catch_up + 1 < MAX_CATCHUP \<and> enabled t \<and> next_expiration t \<le> now
                             then (Some cb, put (t\<lparr>callback := None\<rparr>))
                             else (None, put t)
                      | None \<Rightarrow> (None, snd (tm_deallocate (timer_ident g i) (put t))))
                 | TDisable \<Rightarrow> (None, put (t\<lparr>enabled := False\<rparr>))
                 | TDelete \<Rightarrow> (None, snd (tm_deallocate (timer_ident g i) (put t)))
                 | RescheduleOneShot d \<Rightarrow>
                     (None, put (t\<lparr>next_expiration := now + d, period := None\<rparr>))
                 | RescheduleRecurring p \<Rightarrow>
                     (None, put (t\<lparr>period := Some p,
                                   next_expiration := next_expiration t + p\<rparr>)))"

end
