(* ===== verification/Timer_Worker.thy ===== *)
theory Timer_Worker
  imports Hp_Timer
begin

text \<open>
  The timer manager of \<^verbatim>\<open>src/src/hptimer.rs\<close> as a concurrent system.  The critical sections of
  theory \<open>Hp_Timer\<close> are the events; a callback runs between the event that fetches it and the
  event in which it returns, with the lock free, so that events of other threads interleave with
  it.  The world keeps, beside the shared state, the callback the worker is running, the order of
  the calls and the identifiers handed out.

  The arena invariant holds in every reachable world, identifiers are never reused, a retired
  identifier acts on nothing, a due timer is called, and the worker wakes up in time.
\<close>

section \<open>The system\<close>

datatype 'c tm_event =
    AddOneShot nat nat 'c
  | AddRecurring nat nat 'c
  | Remove u64
  | Enable u64
  | Disable u64
  | Stop
  | Round nat
  | Return nat timer_return

record 'c tm_world =
  shared :: "'c tm_inner"
  running :: "(nat \<times> u32 \<times> 'c \<times> nat) option"
  calls :: "u64 list"
  issued :: "u64 list"

definition world_new :: "'c tm_world" where
  "world_new = \<lparr>shared = tm_new, running = None, calls = [], issued = []\<rparr>"

definition world_add :: "u64 \<times> 'c tm_inner \<Rightarrow> 'c tm_world \<Rightarrow> 'c tm_world" where
  "world_add r w = w\<lparr>shared := snd r, issued := fst r # issued w\<rparr>"

text \<open>One iteration of \<^verbatim>\<open>timer_thread_loop\<close> up to the call.  The thread has left the loop once
  \<open>stop\<close> is set, and it is not there while it runs a callback.\<close>

definition worker_round :: "nat \<Rightarrow> 'c tm_world \<Rightarrow> 'c tm_world" where
  "worker_round now w =
     (if stop (shared w) \<or> running w \<noteq> None then w
      else case tm_fetch (tm_scan now (shared w)) of
             (Some (i, g, Some cb), tm) \<Rightarrow>
               w\<lparr>shared := tm, running := Some (i, g, cb, 0), calls := calls w @ [timer_ident g i]\<rparr>
           | (_, tm) \<Rightarrow> w\<lparr>shared := tm\<rparr>)"

text \<open>The callback returns; a late recurring timer is called again at once.\<close>

definition worker_return :: "nat \<Rightarrow> timer_return \<Rightarrow> 'c tm_world \<Rightarrow> 'c tm_world" where
  "worker_return now result w =
     (case running w of
        None \<Rightarrow> w
      | Some (i, g, cb, k) \<Rightarrow>
          (case tm_finish now i g cb result k (shared w) of
             (Some cb', tm) \<Rightarrow>
               w\<lparr>shared := tm, running := Some (i, g, cb', k + 1), calls := calls w @ [timer_ident g i]\<rparr>
           | (None, tm) \<Rightarrow> w\<lparr>shared := tm, running := None\<rparr>))"

fun tm_exec :: "'c tm_event \<Rightarrow> 'c tm_world \<Rightarrow> 'c tm_world" where
  "tm_exec (AddOneShot now d cb) w = world_add (add_one_shot now d cb (shared w)) w"
| "tm_exec (AddRecurring t p cb) w = world_add (add_recurring t p cb (shared w)) w"
| "tm_exec (Remove tid) w = w\<lparr>shared := snd (tm_remove tid (shared w))\<rparr>"
| "tm_exec (Enable tid) w = w\<lparr>shared := snd (tm_enable tid (shared w))\<rparr>"
| "tm_exec (Disable tid) w = w\<lparr>shared := snd (tm_disable tid (shared w))\<rparr>"
| "tm_exec Stop w = w\<lparr>shared := tm_stop (shared w)\<rparr>"
| "tm_exec (Round now) w = worker_round now w"
| "tm_exec (Return now result) w = worker_return now result w"

text \<open>The generation of a slot is 32 bits wide and so is the index in an identifier: a timer can be
  added as long as its slot has not been used \<open>2 ^ 32 - 1\<close> times and there are fewer than
  \<open>2 ^ 32\<close> slots.\<close>

definition tm_room :: "'c tm_inner \<Rightarrow> bool" where
  "tm_room tm = (case free_indices tm of
                   j # _ \<Rightarrow> unat (generation (slots tm ! j)) + 1 < 2 ^ 32
                 | [] \<Rightarrow> length (slots tm) < 2 ^ 32)"

fun admissible :: "'c tm_event \<Rightarrow> 'c tm_world \<Rightarrow> bool" where
  "admissible (AddOneShot _ _ _) w = tm_room (shared w)"
| "admissible (AddRecurring _ _ _) w = tm_room (shared w)"
| "admissible _ w = True"

inductive tm_steps :: "'c tm_world \<Rightarrow> 'c tm_world \<Rightarrow> bool" for w where
  tm_start: "tm_steps w w"
| tm_next: "tm_steps w v \<Longrightarrow> admissible ev v \<Longrightarrow> tm_steps w (tm_exec ev v)"

abbreviation tm_reach :: "'c tm_world \<Rightarrow> bool" where
  "tm_reach \<equiv> tm_steps world_new"

section \<open>Identifiers\<close>

lemma ident_parts:
  assumes "i < 2 ^ 32"
  shows "id_generation (timer_ident g i) = g" "id_index (timer_ident g i) = i"
proof -
  define v :: u64 where "v = word_of_nat i"
  have u: "unat v = i" using assms by (simp add: v_def unat_of_nat)
  then have "v < 2 ^ 32" using assms by (simp add: word_less_nat_alt)
  then have v: "\<not> bit v n" if "32 \<le> n" for n
    using small_word_bit [of v 32 n] that by auto
  have t: "timer_ident g i = shl (zext g) 32 OR v" by (simp add: timer_ident_def v_def)
  show "id_generation (timer_ident g i) = g"
    unfolding id_generation_def t by (rule bit_word_eqI) (auto simp: bit_simps v)
  have v2: "n < 32" if "bit v n" for n using v [of n] that by linarith
  have "timer_ident g i AND mask 32 = v"
    unfolding t by (rule bit_word_eqI) (auto simp: bit_simps v v2)
  then show "id_index (timer_ident g i) = i"
    using u by (simp add: id_index_def mask_eq_exp_minus_1)
qed

section \<open>The arena\<close>

text \<open>The free list names exactly the empty slots; the queue holds no entry twice and only
  generations a slot has had; the flag of a timer says whether it is queued.\<close>

definition free_ok :: "'c tm_inner \<Rightarrow> bool" where
  "free_ok tm \<longleftrightarrow> distinct (free_indices tm) \<and> length (slots tm) \<le> 2 ^ 32 \<and>
     (\<forall>i. i \<in> set (free_indices tm) \<longleftrightarrow> i < length (slots tm) \<and> timer (slots tm ! i) = None)"

lemma free_iff:
  "free_ok tm \<Longrightarrow> i \<in> set (free_indices tm) \<longleftrightarrow> i < length (slots tm) \<and> timer (slots tm ! i) = None"
  by (simp add: free_ok_def)

lemma free_okI:
  "distinct (free_indices tm) \<Longrightarrow> length (slots tm) \<le> 2 ^ 32 \<Longrightarrow>
   (\<And>i. i \<in> set (free_indices tm) \<longleftrightarrow> i < length (slots tm) \<and> timer (slots tm ! i) = None) \<Longrightarrow> free_ok tm"
  by (simp add: free_ok_def)

definition fifo_ok :: "'c tm_inner \<Rightarrow> bool" where
  "fifo_ok tm \<longleftrightarrow> distinct (fifo tm) \<and>
     (\<forall>(i, g) \<in> set (fifo tm). i < length (slots tm) \<and> g \<le> generation (slots tm ! i)) \<and>
     (\<forall>i < length (slots tm). \<forall>t. timer (slots tm ! i) = Some t \<longrightarrow>
        (in_fifo t \<longleftrightarrow> (i, generation (slots tm ! i)) \<in> set (fifo tm)))"

definition arena_ok :: "'c tm_inner \<Rightarrow> bool" where
  "arena_ok tm \<longleftrightarrow> free_ok tm \<and> fifo_ok tm"

definition live :: "nat \<Rightarrow> u32 \<Rightarrow> 'c tm_inner \<Rightarrow> 'c timer_entry option" where
  "live i g tm = (if i < length (slots tm) \<and> generation (slots tm ! i) = g then timer (slots tm ! i) else None)"

definition put_timer :: "nat \<Rightarrow> 'c timer_entry \<Rightarrow> 'c tm_inner \<Rightarrow> 'c tm_inner" where
  "put_timer i t tm = tm\<lparr>slots := (slots tm)[i := (slots tm ! i)\<lparr>timer := Some t\<rparr>]\<rparr>"

lemma put_timer_fields [simp]:
  "length (slots (put_timer i t tm)) = length (slots tm)" "free_indices (put_timer i t tm) = free_indices tm"
  "fifo (put_timer i t tm) = fifo tm" "stop (put_timer i t tm) = stop tm"
  "generation (slots (put_timer i t tm) ! j) = generation (slots tm ! j)"
  by (cases "i = j"; cases "i < length (slots tm)"; simp add: put_timer_def list_update_beyond)+

lemma put_timer_timer:
  "j < length (slots tm) \<Longrightarrow> timer (slots (put_timer i t tm) ! j) = (if j = i then Some t else timer (slots tm ! j))"
  by (auto simp: put_timer_def nth_list_update)

lemma live_put:
  "live i g tm \<noteq> None \<Longrightarrow> live j h (put_timer i t tm) = (if j = i \<and> h = g then Some t else live j h tm)"
  by (auto simp: live_def put_timer_timer split: if_splits)

lemma live_Some:
  "live i g tm = Some t \<longleftrightarrow> i < length (slots tm) \<and> generation (slots tm ! i) = g \<and> timer (slots tm ! i) = Some t"
  by (auto simp: live_def)

lemma put_timer_none:
  "live i g tm \<noteq> None \<Longrightarrow> j < length (slots tm) \<Longrightarrow>
    timer (slots (put_timer i t tm) ! j) = None \<longleftrightarrow> timer (slots tm ! j) = None"
  by (simp add: put_timer_timer live_def split: if_splits)

lemma put_timer_free: "free_ok tm \<Longrightarrow> live i g tm \<noteq> None \<Longrightarrow> free_ok (put_timer i t tm)"
  by (simp add: free_ok_def put_timer_none [of i g] cong: conj_cong)

lemma fifo_flag:
  "fifo_ok tm \<Longrightarrow> i < length (slots tm) \<Longrightarrow> timer (slots tm ! i) = Some t \<Longrightarrow>
    in_fifo t \<longleftrightarrow> (i, generation (slots tm ! i)) \<in> set (fifo tm)"
  by (simp add: fifo_ok_def)

lemma put_timer_fifo:
  assumes ok: "fifo_ok tm" and t: "live i g tm = Some t" "in_fifo u = in_fifo t"
  shows "fifo_ok (put_timer i u tm)"
proof -
  have "in_fifo v \<longleftrightarrow> (j, generation (slots tm ! j)) \<in> set (fifo tm)"
    if "j < length (slots tm)" "timer (slots (put_timer i u tm) ! j) = Some v" for j v
    using that t fifo_flag [OF ok] unfolding live_Some by (cases "j = i") (auto simp: put_timer_timer)
  then show ?thesis using ok by (simp add: fifo_ok_def)
qed

lemma put_timer_ok:
  assumes "arena_ok tm" "live i g tm = Some t" "in_fifo u = in_fifo t"
  shows "arena_ok (put_timer i u tm)"
  using assms put_timer_free [of tm i g u] put_timer_fifo [of tm i g t u] by (simp add: arena_ok_def)

text \<open>The operations of the manager on a live identifier and on any other one.\<close>

lemma set_enabled_live:
  "tm_set_enabled b tid tm =
     (case live (id_index tid) (id_generation tid) tm of
        Some t \<Rightarrow> (True, put_timer (id_index tid) (t\<lparr>enabled := b\<rparr>) tm)
      | None \<Rightarrow> (False, tm))"
  by (auto simp: tm_set_enabled_def live_def put_timer_def Let_def idx_eq_Some_iff split: option.splits)

definition clear_timer :: "nat \<Rightarrow> 'c tm_inner \<Rightarrow> 'c tm_inner" where
  "clear_timer i tm = tm\<lparr>slots := (slots tm)[i := (slots tm ! i)\<lparr>timer := None\<rparr>],
                        free_indices := i # free_indices tm\<rparr>"

lemma deallocate_live:
  "tm_deallocate tid tm =
     (if live (id_index tid) (id_generation tid) tm = None then (False, tm) else (True, clear_timer (id_index tid) tm))"
  by (auto simp: tm_deallocate_def live_def clear_timer_def Let_def idx_eq_Some_iff split: option.splits)

lemma clear_timer_fields [simp]:
  "length (slots (clear_timer i tm)) = length (slots tm)" "free_indices (clear_timer i tm) = i # free_indices tm"
  "fifo (clear_timer i tm) = fifo tm" "stop (clear_timer i tm) = stop tm"
  "generation (slots (clear_timer i tm) ! j) = generation (slots tm ! j)"
  by (cases "i = j"; cases "i < length (slots tm)"; simp add: clear_timer_def list_update_beyond)+

lemma clear_timer_timer:
  "j < length (slots tm) \<Longrightarrow> timer (slots (clear_timer i tm) ! j) = (if j = i then None else timer (slots tm ! j))"
  by (auto simp: clear_timer_def nth_list_update)

lemma live_clear:
  "live i g tm \<noteq> None \<Longrightarrow> live j h (clear_timer i tm) = (if j = i then None else live j h tm)"
  by (auto simp: live_def clear_timer_timer split: if_splits)

lemma clear_timer_ok:
  assumes ok: "arena_ok tm" and l: "live i g tm \<noteq> None"
  shows "arena_ok (clear_timer i tm)"
proof -
  have i: "i < length (slots tm)" "timer (slots tm ! i) \<noteq> None" using l by (simp_all add: live_def split: if_splits)
  have f: "free_ok tm" using ok by (simp add: arena_ok_def)
  have "free_ok (clear_timer i tm)"
  proof (rule free_okI)
    show "distinct (free_indices (clear_timer i tm))" "length (slots (clear_timer i tm)) \<le> 2 ^ 32"
      using f i free_iff [OF f, of i] by (simp_all add: free_ok_def)
    fix j
    show "j \<in> set (free_indices (clear_timer i tm)) \<longleftrightarrow>
        j < length (slots (clear_timer i tm)) \<and> timer (slots (clear_timer i tm) ! j) = None"
      using i free_iff [OF f, of j] by (cases "j = i") (auto simp: clear_timer_timer)
  qed
  moreover have "fifo_ok (clear_timer i tm)"
    using ok by (simp add: arena_ok_def fifo_ok_def clear_timer_timer)
  ultimately show ?thesis by (simp add: arena_ok_def)
qed

text \<open>Allocation, with the slot it takes.\<close>

definition next_slot :: "'c tm_inner \<Rightarrow> nat" where
  "next_slot tm = (case free_indices tm of j # _ \<Rightarrow> j | [] \<Rightarrow> length (slots tm))"

definition next_generation :: "'c tm_inner \<Rightarrow> u32" where
  "next_generation tm = (case free_indices tm of j # _ \<Rightarrow> generation (slots tm ! j) + 1 | [] \<Rightarrow> 1)"

lemma allocate_ident: "fst (tm_allocate e tm) = timer_ident (next_generation tm) (next_slot tm)"
  by (simp add: tm_allocate_def Let_def next_slot_def next_generation_def split: list.split)

lemma allocate_fields [simp]:
  "fifo (snd (tm_allocate e tm)) = fifo tm" "stop (snd (tm_allocate e tm)) = stop tm"
  "free_indices (snd (tm_allocate e tm)) = tl (free_indices tm)"
  by (simp_all add: tm_allocate_def Let_def split: list.split)

lemma allocate_length:
  "length (slots (snd (tm_allocate e tm))) = length (slots tm) + (if free_indices tm = [] then 1 else 0)"
  by (simp add: tm_allocate_def Let_def split: list.split)

lemma allocate_slot:
  assumes "free_ok tm" "j < length (slots (snd (tm_allocate e tm)))"
  shows "slots (snd (tm_allocate e tm)) ! j =
    (if j = next_slot tm then \<lparr>generation = next_generation tm, timer = Some e\<rparr> else slots tm ! j)"
proof (cases "free_indices tm")
  case Nil
  then show ?thesis using assms by (auto simp: tm_allocate_def Let_def next_slot_def next_generation_def nth_append)
next
  case (Cons k ks)
  then have "k < length (slots tm)" using free_iff [OF assms(1), of k] by simp
  then show ?thesis using Cons assms
    by (auto simp: tm_allocate_def Let_def next_slot_def next_generation_def nth_list_update)
qed

lemma next_slot_cases [consumes 1]:
  assumes "free_ok tm"
  obtains (fresh) "free_indices tm = []" "next_slot tm = length (slots tm)" "next_generation tm = 1"
  | (again) ks where "free_indices tm = next_slot tm # ks" "next_slot tm < length (slots tm)"
      "timer (slots tm ! next_slot tm) = None"
      "next_generation tm = generation (slots tm ! next_slot tm) + 1"
proof (cases "free_indices tm")
  case (Cons k ks)
  then have "k < length (slots tm)" "timer (slots tm ! k) = None" using free_iff [OF assms, of k] by simp_all
  then show thesis using again Cons by (simp add: next_slot_def next_generation_def)
qed (use fresh in \<open>simp add: next_slot_def next_generation_def\<close>)

lemma room_generation:
  assumes "tm_room tm" "free_indices tm = k # ks"
  shows "generation (slots tm ! k) < generation (slots tm ! k) + 1"
proof -
  have "unat (generation (slots tm ! k)) + 1 < 2 ^ LENGTH(32)" using assms by (simp add: tm_room_def)
  then show ?thesis by (simp add: word_less_nat_alt unat_word_ariths)
qed

lemma allocate_ok:
  assumes ok: "arena_ok tm" and room: "tm_room tm" and e: "\<not> in_fifo e"
  shows "arena_ok (snd (tm_allocate e tm))"
proof -
  let ?tm = "snd (tm_allocate e tm)"
  have f: "free_ok tm" and q: "fifo_ok tm" using ok by (simp_all add: arena_ok_def)
  have slot: "j < length (slots ?tm) \<Longrightarrow> slots ?tm ! j =
    (if j = next_slot tm then \<lparr>generation = next_generation tm, timer = Some e\<rparr> else slots tm ! j)" for j
    by (rule allocate_slot [OF f])
  have free: "free_ok ?tm"
  proof (rule free_okI)
    show "distinct (free_indices ?tm)" using f by (simp add: free_ok_def distinct_tl)
    show "length (slots ?tm) \<le> 2 ^ 32"
      using f room by (auto simp: free_ok_def allocate_length tm_room_def split: list.splits)
    fix j
    show "j \<in> set (free_indices ?tm) \<longleftrightarrow> j < length (slots ?tm) \<and> timer (slots ?tm ! j) = None"
      using f
    proof (cases rule: next_slot_cases)
      case fresh
      then show ?thesis using slot [of j] free_iff [OF f, of j] by (auto simp: allocate_length less_Suc_eq)
    next
      case (again ks)
      then have "next_slot tm \<notin> set ks" using f by (simp add: free_ok_def)
      then show ?thesis using again slot [of j] free_iff [OF f, of j] by (auto simp: allocate_length)
    qed
  qed
  have le: "(i, g) \<in> set (fifo tm) \<Longrightarrow> i < length (slots tm) \<and> g \<le> generation (slots tm ! i)" for i g
    using q by (auto simp: fifo_ok_def)
  have new: "g < next_generation tm" if "(next_slot tm, g) \<in> set (fifo tm)" for g
    by (cases rule: next_slot_cases [OF f])
      (use le [OF that] room_generation [OF room] in \<open>force dest: order.strict_trans1\<close>)+
  have "fifo_ok ?tm"
    unfolding fifo_ok_def
  proof (intro conjI allI impI ballI, goal_cases)
    case 1
    then show ?case using q by (simp add: fifo_ok_def)
  next
    case (2 x)
    obtain i g where x: "x = (i, g)" "(i, g) \<in> set (fifo tm)"
      using 2 by (metis allocate_fields(1) surj_pair)
    then show ?case using le [OF x(2)] new [of g] slot [of i] by (auto simp: allocate_length)
  next
    case (3 i t)
    then show ?case using slot [of i] new e fifo_flag [OF q, of i t]
      by (cases "i = next_slot tm") (auto simp: allocate_length next_slot_def less_Suc_eq split: if_splits)
  qed
  with free show ?thesis by (simp add: arena_ok_def)
qed

section \<open>The worker\<close>

definition due :: "nat \<Rightarrow> 'c timer_entry \<Rightarrow> bool" where
  "due now t \<longleftrightarrow> enabled t \<and> \<not> in_fifo t \<and> next_expiration t \<le> now"

definition mark_due :: "nat \<Rightarrow> 'c timer_entry \<Rightarrow> 'c timer_entry" where
  "mark_due now t = (if due now t then t\<lparr>in_fifo := True\<rparr> else t)"

definition queue_timer :: "nat \<Rightarrow> 'c timer_entry \<Rightarrow> 'c tm_inner \<Rightarrow> 'c tm_inner" where
  "queue_timer i t tm =
     (put_timer i (t\<lparr>in_fifo := True\<rparr>) tm)\<lparr>fifo := fifo tm @ [(i, generation (slots tm ! i))]\<rparr>"

lemma scan_slot_eq:
  "i < length (slots tm) \<Longrightarrow> tm_scan_slot now i tm =
     (case timer (slots tm ! i) of
        None \<Rightarrow> tm
      | Some t \<Rightarrow> if due now t then queue_timer i t tm else tm)"
  by (simp add: tm_scan_slot_def idx_def queue_timer_def put_timer_def due_def split: option.split)

lemma queue_timer_ok:
  assumes ok: "arena_ok tm" and i: "i < length (slots tm)" "timer (slots tm ! i) = Some t" "\<not> in_fifo t"
  shows "arena_ok (queue_timer i t tm)"
proof -
  have f: "free_ok tm" and q: "fifo_ok tm" using ok by (simp_all add: arena_ok_def)
  have l: "live i (generation (slots tm ! i)) tm \<noteq> None" using i by (simp add: live_def)
  have "free_ok (queue_timer i t tm)"
    using put_timer_free [OF f l] by (simp add: queue_timer_def free_ok_def)
  moreover have "fifo_ok (queue_timer i t tm)"
    unfolding fifo_ok_def
  proof (intro conjI allI impI, goal_cases)
    case 1
    then show ?case using q fifo_flag [OF q i(1,2)] i(3) by (simp add: queue_timer_def fifo_ok_def)
  next
    case 2
    then show ?case using q i(1) by (simp add: queue_timer_def fifo_ok_def)
  next
    case (3 j u)
    then show ?case using fifo_flag [OF q, of j u]
      by (cases "j = i") (auto simp: queue_timer_def put_timer_timer)
  qed
  ultimately show ?thesis by (simp add: arena_ok_def)
qed

text \<open>What a scan of the first \<open>k\<close> slots does: due timers are marked and queued behind the others,
  and nothing else changes.\<close>

definition scanned :: "nat \<Rightarrow> nat \<Rightarrow> 'c tm_inner \<Rightarrow> 'c tm_inner \<Rightarrow> bool" where
  "scanned now k tm tm' \<longleftrightarrow> arena_ok tm' \<and> length (slots tm') = length (slots tm) \<and> stop tm' = stop tm \<and>
     free_indices tm' = free_indices tm \<and> (\<forall>j. generation (slots tm' ! j) = generation (slots tm ! j)) \<and>
     (\<forall>j < length (slots tm). timer (slots tm' ! j) =
        (if j < k then map_option (mark_due now) (timer (slots tm ! j)) else timer (slots tm ! j))) \<and>
     (\<exists>ext. fifo tm' = fifo tm @ ext)"

lemma scanned_Suc:
  assumes u: "scanned now k tm u" and k: "k < length (slots tm)"
  shows "scanned now (Suc k) tm (tm_scan_slot now k u)"
proof (cases "\<exists>t. timer (slots tm ! k) = Some t \<and> due now t")
  case True
  then obtain t where t: "timer (slots tm ! k) = Some t" "due now t" by blast
  have uk: "k < length (slots u)" "timer (slots u ! k) = Some t" using u k t by (simp_all add: scanned_def)
  then have e: "tm_scan_slot now k u = queue_timer k t u" using t by (simp add: scan_slot_eq)
  have "arena_ok (queue_timer k t u)"
    by (rule queue_timer_ok) (use u uk t in \<open>simp_all add: scanned_def due_def\<close>)
  moreover have "timer (slots (queue_timer k t u) ! j) =
      (if j < Suc k then map_option (mark_due now) (timer (slots tm ! j)) else timer (slots tm ! j))"
    if "j < length (slots tm)" for j
    using that u t by (cases "j = k") (auto simp: scanned_def queue_timer_def put_timer_timer mark_due_def)
  ultimately show ?thesis using u unfolding e by (auto simp: scanned_def queue_timer_def)
next
  case False
  then have "tm_scan_slot now k u = u"
    using k u by (auto simp: scanned_def scan_slot_eq split: option.split)
  moreover have "map_option (mark_due now) (timer (slots tm ! k)) = timer (slots tm ! k)"
    using False by (cases "timer (slots tm ! k)") (auto simp: mark_due_def)
  ultimately show ?thesis using u by (auto simp: scanned_def less_Suc_eq)
qed

lemma scan_scanned:
  assumes "arena_ok tm"
  shows "scanned now (length (slots tm)) tm (tm_scan now tm)"
proof -
  have "k \<le> length (slots tm) \<Longrightarrow> scanned now k tm (fold (tm_scan_slot now) [0..<k] tm)" for k
  proof (induction k)
    case 0
    then show ?case using assms by (simp add: scanned_def)
  qed (simp add: scanned_Suc)
  then show ?thesis by (simp add: tm_scan_def)
qed

text \<open>The head of the queue: a stale or disabled entry is dropped, a live one gives up its
  callback.\<close>

lemma pop_ok:
  assumes ok: "arena_ok tm" and q: "fifo tm = (i, g) # q"
  shows "live i g tm = None \<Longrightarrow> arena_ok (tm\<lparr>fifo := q\<rparr>)"
    "live i g tm = Some t \<Longrightarrow> \<not> in_fifo u \<Longrightarrow> arena_ok (put_timer i u (tm\<lparr>fifo := q\<rparr>))"
proof -
  have f: "free_ok (tm\<lparr>fifo := q\<rparr>)" using ok by (simp add: arena_ok_def free_ok_def)
  have k: "fifo_ok tm" "(i, g) \<notin> set q" using ok q by (simp_all add: arena_ok_def fifo_ok_def)
  {
    assume "live i g tm = None"
    then show "arena_ok (tm\<lparr>fifo := q\<rparr>)"
      using f k(1) q unfolding arena_ok_def fifo_ok_def by (auto simp: live_def split: if_splits)
  next
    assume l: "live i g tm = Some t" and u: "\<not> in_fifo u"
    have "in_fifo v \<longleftrightarrow> (j, generation (slots tm ! j)) \<in> set q"
      if "j < length (slots tm)" "timer (slots (put_timer i u (tm\<lparr>fifo := q\<rparr>)) ! j) = Some v" for j v
      using that l u k(2) fifo_flag [OF k(1), of j v] q
      by (cases "j = i") (auto simp: live_Some put_timer_timer)
    then have "fifo_ok (put_timer i u (tm\<lparr>fifo := q\<rparr>))"
      using k(1) q by (simp add: fifo_ok_def)
    moreover have "free_ok (put_timer i u (tm\<lparr>fifo := q\<rparr>))"
      by (rule put_timer_free [OF f, of i g]) (use l in \<open>simp add: live_def split: if_splits\<close>)
    ultimately show "arena_ok (put_timer i u (tm\<lparr>fifo := q\<rparr>))" by (simp add: arena_ok_def)
  }
qed

lemma fetch_eq:
  "tm_fetch tm = (case fifo tm of
     [] \<Rightarrow> (None, tm)
   | (i, g) # q \<Rightarrow>
       (case live i g tm of
          None \<Rightarrow> (None, tm\<lparr>fifo := q\<rparr>)
        | Some t \<Rightarrow>
            if enabled t
            then (Some (i, g, callback t), put_timer i (t\<lparr>callback := None, in_fifo := False\<rparr>) (tm\<lparr>fifo := q\<rparr>))
            else (None, put_timer i (t\<lparr>in_fifo := False\<rparr>) (tm\<lparr>fifo := q\<rparr>))))"
  by (auto simp: tm_fetch_def Let_def idx_def live_def put_timer_def split: list.split option.split)

text \<open>What becomes of a timer when its callback returns: the callback to call again, if any, and
  the entry, unless the timer is deleted.\<close>

fun finish_entry :: "nat \<Rightarrow> 'c \<Rightarrow> nat \<Rightarrow> timer_return \<Rightarrow> 'c timer_entry \<Rightarrow> 'c option \<times> 'c timer_entry option" where
  "finish_entry now cb k TContinue t =
     (case period t of
        Some p \<Rightarrow>
          if k + 1 < MAX_CATCHUP \<and> enabled t \<and> next_expiration t + p \<le> now
          then (Some cb, Some (t\<lparr>next_expiration := next_expiration t + p, callback := None\<rparr>))
          else (None, Some (t\<lparr>callback := Some cb, next_expiration := next_expiration t + p\<rparr>))
      | None \<Rightarrow> (None, None))"
| "finish_entry now cb k TDisable t = (None, Some (t\<lparr>callback := Some cb, enabled := False\<rparr>))"
| "finish_entry now cb k TDelete t = (None, None)"
| "finish_entry now cb k (RescheduleOneShot d) t =
     (None, Some (t\<lparr>callback := Some cb, next_expiration := now + d, period := None\<rparr>))"
| "finish_entry now cb k (RescheduleRecurring p) t =
     (None, Some (t\<lparr>callback := Some cb, period := Some p, next_expiration := next_expiration t + p\<rparr>))"

lemma clear_put: "clear_timer i (put_timer i t tm) = clear_timer i tm"
  by (cases "i < length (slots tm)") (simp_all add: clear_timer_def put_timer_def list_update_beyond)

lemma finish_eq:
  assumes "i < 2 ^ 32"
  shows "tm_finish now i g cb r k tm =
    (if stop tm then (None, tm)
     else case live i g tm of
            None \<Rightarrow> (None, tm)
          | Some t \<Rightarrow>
              (case finish_entry now cb k r t of
                 (again, Some u) \<Rightarrow> (again, put_timer i u tm)
               | (again, None) \<Rightarrow> (None, clear_timer i tm)))"
proof (cases "stop tm \<or> live i g tm = None")
  case True
  then show ?thesis by (auto simp: tm_finish_def idx_def live_def split: option.split if_splits)
next
  case False
  then obtain t where t: "live i g tm = Some t" and nstop: "\<not> stop tm" by auto
  let ?s = "slots tm ! i"
  have i: "idx (slots tm) i = Some ?s" "generation ?s = g" "timer ?s = Some t"
    using t by (simp_all add: live_Some idx_def)
  have put: "tm\<lparr>slots := (slots tm)[i := ?s\<lparr>timer := Some u\<rparr>]\<rparr> = put_timer i u tm" for u
    by (simp add: put_timer_def)
  have del: "snd (tm_deallocate (timer_ident g i) (put_timer i u tm)) = clear_timer i tm" for u
    by (simp add: deallocate_live ident_parts [OF assms] live_put [of i g tm] t clear_put)
  show ?thesis
    using nstop i t by (cases r) (auto simp: tm_finish_def Let_def put del split: option.split)
qed

section \<open>Generations\<close>

text \<open>Generations only grow and an empty slot keeps its generation until it is filled again, so
  what is known of an identifier stays known.\<close>

definition known :: "nat \<Rightarrow> u32 \<Rightarrow> 'c tm_inner \<Rightarrow> bool" where
  "known i g tm \<longleftrightarrow> i < length (slots tm) \<and> g \<le> generation (slots tm ! i)"

definition evolves :: "'c tm_inner \<Rightarrow> 'c tm_inner \<Rightarrow> bool" where
  "evolves tm tm' \<longleftrightarrow> length (slots tm) \<le> length (slots tm') \<and>
     (\<forall>i < length (slots tm). generation (slots tm ! i) \<le> generation (slots tm' ! i) \<and>
        (generation (slots tm' ! i) = generation (slots tm ! i) \<longrightarrow> timer (slots tm ! i) = None \<longrightarrow>
           timer (slots tm' ! i) = None))"

definition retired :: "u64 \<Rightarrow> 'c tm_inner \<Rightarrow> bool" where
  "retired tid tm \<longleftrightarrow> known (id_index tid) (id_generation tid) tm \<and> live (id_index tid) (id_generation tid) tm = None"

lemma evolves_refl [simp]: "evolves tm tm"
  by (simp add: evolves_def)

lemma evolvesD:
  assumes "evolves tm tm'" "i < length (slots tm)"
  shows "generation (slots tm ! i) \<le> generation (slots tm' ! i)"
    "generation (slots tm' ! i) = generation (slots tm ! i) \<Longrightarrow> timer (slots tm ! i) = None \<Longrightarrow>
       timer (slots tm' ! i) = None"
  using assms unfolding evolves_def by blast+

lemma evolves_trans:
  assumes a: "evolves tm tm'" and b: "evolves tm' tm''"
  shows "evolves tm tm''"
proof -
  have "generation (slots tm ! i) \<le> generation (slots tm'' ! i) \<and>
      (generation (slots tm'' ! i) = generation (slots tm ! i) \<longrightarrow> timer (slots tm ! i) = None \<longrightarrow>
         timer (slots tm'' ! i) = None)" if "i < length (slots tm)" for i
  proof -
    have i: "i < length (slots tm')" using a that by (simp add: evolves_def)
    note 1 = evolvesD [OF a that] and 2 = evolvesD [OF b i]
    show ?thesis
    proof (intro conjI impI)
      show "generation (slots tm ! i) \<le> generation (slots tm'' ! i)" by (rule order.trans [OF 1(1) 2(1)])
      assume g: "generation (slots tm'' ! i) = generation (slots tm ! i)" and n: "timer (slots tm ! i) = None"
      have e: "generation (slots tm' ! i) = generation (slots tm ! i)"
        by (rule order.antisym [OF 2(1) [unfolded g] 1(1)])
      show "timer (slots tm'' ! i) = None" by (rule 2(2) [OF trans [OF g e [symmetric]] 1(2) [OF e n]])
    qed
  qed
  moreover have "length (slots tm) \<le> length (slots tm'')" using a b by (simp add: evolves_def)
  ultimately show ?thesis by (simp add: evolves_def)
qed

lemma evolves_known: "evolves tm tm' \<Longrightarrow> known i g tm \<Longrightarrow> known i g tm'"
  unfolding evolves_def known_def by (meson order.strict_trans2 order.trans)

lemma evolves_retired:
  assumes e: "evolves tm tm'" and r: "retired tid tm"
  shows "retired tid tm'"
proof -
  let ?i = "id_index tid" and ?g = "id_generation tid"
  have k: "?i < length (slots tm)" "?g \<le> generation (slots tm ! ?i)" "live ?i ?g tm = None"
    using r by (simp_all add: retired_def known_def)
  note e' = evolvesD [OF e k(1)]
  have "live ?i ?g tm' = None"
  proof (cases "generation (slots tm' ! ?i) = ?g")
    case True
    then have "generation (slots tm ! ?i) = ?g" using k(2) e'(1) by simp
    then show ?thesis using True k(1,3) e'(2) by (simp add: live_def split: if_splits)
  qed (simp add: live_def)
  then show ?thesis using evolves_known [OF e] r by (simp add: retired_def)
qed

lemma evolves_put: "live i g tm \<noteq> None \<Longrightarrow> evolves tm (put_timer i t tm)"
  by (simp add: evolves_def put_timer_none [of i g])

lemma evolves_clear: "evolves tm (clear_timer i tm)"
  by (simp add: evolves_def clear_timer_timer)

lemma evolves_set_enabled: "evolves tm (snd (tm_set_enabled b tid tm))"
  by (simp add: set_enabled_live evolves_put [of _ "id_generation tid"] split: option.split)

lemma evolves_deallocate: "evolves tm (snd (tm_deallocate tid tm))"
  by (simp add: deallocate_live evolves_clear)

lemma evolves_allocate:
  assumes f: "free_ok tm" and room: "tm_room tm"
  shows "evolves tm (snd (tm_allocate e tm))"
  using f
proof (cases rule: next_slot_cases)
  case fresh
  then show ?thesis by (simp add: evolves_def allocate_slot [OF f] allocate_length)
next
  case (again ks)
  then have "generation (slots tm ! next_slot tm) < next_generation tm"
    using room_generation [OF room] by simp
  then show ?thesis by (auto simp: evolves_def allocate_slot [OF f] allocate_length)
qed

lemma evolves_scan: "arena_ok tm \<Longrightarrow> evolves tm (tm_scan now tm)"
  using scan_scanned [of tm now] by (simp add: scanned_def evolves_def)

lemma evolves_fetch: "evolves tm (snd (tm_fetch tm))"
proof -
  have p: "evolves tm (put_timer i u (tm\<lparr>fifo := q\<rparr>))" if "live i g tm = Some t" for i g t u q
    using evolves_put [of i g tm u] that by (simp add: evolves_def put_timer_def)
  show ?thesis
    by (auto intro: p simp: fetch_eq evolves_def [of tm "tm\<lparr>fifo := _\<rparr>"] split: list.split option.split)
qed

lemma evolves_finish: "i < 2 ^ 32 \<Longrightarrow> evolves tm (snd (tm_finish now i g cb r k tm))"
  by (auto simp: finish_eq evolves_clear evolves_put [of i g] split: option.split prod.split)

section \<open>Invariant\<close>

lemma live_known: "live i g tm = Some t \<Longrightarrow> known i g tm"
  by (simp add: live_Some known_def)

lemma next_not_known:
  assumes f: "free_ok tm" and room: "tm_room tm"
  shows "\<not> known (next_slot tm) (next_generation tm) tm"
  using f
proof (cases rule: next_slot_cases)
  case (again ks)
  then show ?thesis using room_generation [OF room again(1)] by (simp add: known_def not_le)
qed (simp add: known_def)

lemma next_slot_bound:
  assumes f: "free_ok tm" and room: "tm_room tm"
  shows "next_slot tm < 2 ^ 32"
  using f
proof (cases rule: next_slot_cases)
  case fresh
  then show ?thesis using room by (simp add: tm_room_def)
next
  case (again ks)
  moreover have "length (slots tm) \<le> 2 ^ 32" using f by (simp add: free_ok_def)
  ultimately show ?thesis by linarith
qed

lemma live_allocate:
  assumes f: "free_ok tm"
  shows "live j h (snd (tm_allocate e tm)) =
    (if j = next_slot tm then if h = next_generation tm then Some e else None else live j h tm)"
  using f
proof (cases rule: next_slot_cases)
  case fresh
  then show ?thesis by (auto simp: live_def allocate_slot [OF f] allocate_length)
next
  case (again ks)
  then show ?thesis by (auto simp: live_def allocate_slot [OF f] allocate_length)
qed

lemma live_scan: "arena_ok tm \<Longrightarrow> live j h (tm_scan now tm) = map_option (mark_due now) (live j h tm)"
  using scan_scanned [of tm now] by (simp add: live_def scanned_def)

definition runs :: "(nat \<times> u32 \<times> 'c \<times> nat) option \<Rightarrow> nat \<Rightarrow> u32 \<Rightarrow> bool" where
  "runs r i g \<longleftrightarrow> (\<exists>cb k. r = Some (i, g, cb, k))"

lemma runs_simps [simp]:
  "\<not> runs None i g" "runs (Some (j, h, cb, k)) i g \<longleftrightarrow> j = i \<and> h = g"
  by (auto simp: runs_def)

definition run_ok :: "(nat \<times> u32 \<times> 'c \<times> nat) option \<Rightarrow> 'c tm_inner \<Rightarrow> bool" where
  "run_ok r tm \<longleftrightarrow>
     (\<forall>i g cb k. r = Some (i, g, cb, k) \<longrightarrow> known i g tm \<and> k < MAX_CATCHUP \<and> (i, g) \<notin> set (fifo tm)) \<and>
     (\<not> stop tm \<longrightarrow> (\<forall>i g t. live i g tm = Some t \<longrightarrow> (callback t = None \<longleftrightarrow> runs r i g)))"

definition ids_ok :: "'c tm_world \<Rightarrow> bool" where
  "ids_ok w \<longleftrightarrow> distinct (issued w) \<and> set (calls w) \<subseteq> set (issued w) \<and>
     (\<forall>tid \<in> set (issued w). known (id_index tid) (id_generation tid) (shared w)) \<and>
     (\<forall>i g. live i g (shared w) \<noteq> None \<longrightarrow> timer_ident g i \<in> set (issued w))"

definition world_ok :: "'c tm_world \<Rightarrow> bool" where
  "world_ok w \<longleftrightarrow> arena_ok (shared w) \<and> run_ok (running w) (shared w) \<and> ids_ok w"

lemma ids_evolve:
  assumes "ids_ok w" "evolves (shared w) tm" "\<And>i g. live i g tm \<noteq> None \<Longrightarrow> live i g (shared w) \<noteq> None"
    "set cs \<subseteq> set (issued w)"
  shows "ids_ok (w\<lparr>shared := tm, calls := calls w @ cs\<rparr>)"
  using assms evolves_known [OF assms(2)] unfolding ids_ok_def by simp

lemma run_ok_update:
  assumes "run_ok r tm" "evolves tm tm'" "stop tm' = stop tm"
    "\<And>i g t. live i g tm' = Some t \<Longrightarrow> \<exists>u. live i g tm = Some u \<and> callback u = callback t"
    "r = None \<or> set (fifo tm') \<subseteq> set (fifo tm)"
  shows "run_ok r tm'"
  unfolding run_ok_def
proof (intro conjI allI impI)
  show "known i g tm'" "k < MAX_CATCHUP" "(i, g) \<notin> set (fifo tm')" if "r = Some (i, g, cb, k)" for i g cb k
    using that assms(1,5) evolves_known [OF assms(2)] by (auto simp: run_ok_def)
  show "callback t = None \<longleftrightarrow> runs r i g" if "\<not> stop tm'" "live i g tm' = Some t" for i g t
    using assms(4) [OF that(2)] assms(1,3) that(1) by (force simp: run_ok_def)
qed

lemma add_world_ok:
  assumes ok: "world_ok w" and room: "tm_room (shared w)" and e: "\<not> in_fifo e" "callback e \<noteq> None"
  shows "world_ok (world_add (tm_allocate e (shared w)) w)"
    "fst (tm_allocate e (shared w)) \<notin> set (issued w)"
proof -
  let ?tm = "shared w"
  let ?tid = "fst (tm_allocate e ?tm)"
  have a: "arena_ok ?tm" "free_ok ?tm" "run_ok (running w) ?tm" "ids_ok w"
    using ok by (simp_all add: world_ok_def arena_ok_def)
  note ev = evolves_allocate [OF a(2) room, of e]
  have parts: "id_index ?tid = next_slot ?tm" "id_generation ?tid = next_generation ?tm"
    using ident_parts next_slot_bound [OF a(2) room] by (simp_all add: allocate_ident)
  then show new: "?tid \<notin> set (issued w)"
    using next_not_known [OF a(2) room] a(4) by (auto simp: ids_ok_def)
  have known: "known (next_slot ?tm) (next_generation ?tm) (snd (tm_allocate e ?tm))"
    by (rule live_known [where t = e]) (simp add: live_allocate [OF a(2)])
  have "run_ok (running w) (snd (tm_allocate e ?tm))"
    using a(3) e(2) evolves_known [OF ev] next_not_known [OF a(2) room]
    by (auto simp: run_ok_def live_allocate [OF a(2)] runs_def split: if_splits)
  moreover have "ids_ok (world_add (tm_allocate e ?tm) w)"
    using a(4) new evolves_known [OF ev] known parts
    by (auto simp: ids_ok_def world_add_def live_allocate [OF a(2)] allocate_ident split: if_splits)
  ultimately show "world_ok (world_add (tm_allocate e ?tm) w)"
    using allocate_ok [OF a(1) room e(1)] by (simp add: world_ok_def world_add_def)
qed

lemma world_touch:
  assumes ok: "world_ok w" and tm: "arena_ok tm" "evolves (shared w) tm" "stop tm = stop (shared w)"
      "running w = None \<or> set (fifo tm) \<subseteq> set (fifo (shared w))"
    and l: "\<And>i g t. live i g tm = Some t \<Longrightarrow> \<exists>u. live i g (shared w) = Some u \<and> callback u = callback t"
  shows "world_ok (w\<lparr>shared := tm\<rparr>)"
proof -
  have "ids_ok (w\<lparr>shared := tm, calls := calls w @ []\<rparr>)"
    by (rule ids_evolve) (use ok tm in \<open>auto simp: world_ok_def dest: l\<close>)
  then show ?thesis
    using ok tm run_ok_update [OF _ tm(2,3) l tm(4)] by (simp add: world_ok_def ids_ok_def)
qed

lemma deallocate_world_ok:
  assumes ok: "world_ok w"
  shows "world_ok (w\<lparr>shared := snd (tm_deallocate tid (shared w))\<rparr>)"
proof (cases "live (id_index tid) (id_generation tid) (shared w)")
  case (Some t)
  then have l: "live (id_index tid) (id_generation tid) (shared w) \<noteq> None" by simp
  then have "arena_ok (clear_timer (id_index tid) (shared w))"
    using ok by (intro clear_timer_ok [where g = "id_generation tid"]) (simp_all add: world_ok_def)
  then show ?thesis
    by (intro world_touch [OF ok])
      (use Some in \<open>simp_all add: deallocate_live evolves_clear live_clear [OF l] split: if_splits\<close>)
qed (use ok in \<open>simp add: deallocate_live\<close>)

lemma set_enabled_world_ok:
  assumes ok: "world_ok w"
  shows "world_ok (w\<lparr>shared := snd (tm_set_enabled b tid (shared w))\<rparr>)"
proof (cases "live (id_index tid) (id_generation tid) (shared w)")
  case (Some t)
  have l: "live (id_index tid) (id_generation tid) (shared w) \<noteq> None" using Some by simp
  have "arena_ok (put_timer (id_index tid) (t\<lparr>enabled := b\<rparr>) (shared w))"
    by (rule put_timer_ok [OF _ Some]) (use ok in \<open>simp_all add: world_ok_def\<close>)
  then show ?thesis
    by (intro world_touch [OF ok])
      (use Some in \<open>auto simp: set_enabled_live evolves_put [OF l] live_put [OF l] split: if_splits\<close>)
qed (use ok in \<open>simp add: set_enabled_live\<close>)

lemma scan_world_ok: "world_ok w \<Longrightarrow> running w = None \<Longrightarrow> world_ok (w\<lparr>shared := tm_scan now (shared w)\<rparr>)"
  using scan_scanned [of "shared w" now]
  by (intro world_touch)
    (auto simp: world_ok_def scanned_def evolves_scan live_scan mark_due_def split: if_splits)

lemma live_fifo [simp]: "live i g (tm\<lparr>fifo := q\<rparr>) = live i g tm"
  by (simp add: live_def)

lemma evolves_fifo [simp]: "evolves tm (tm'\<lparr>fifo := q\<rparr>) = evolves tm tm'"
  by (simp add: evolves_def)

lemma put_timer_fifo_update: "put_timer i u (tm\<lparr>fifo := q\<rparr>) = (put_timer i u tm)\<lparr>fifo := q\<rparr>"
  by (simp add: put_timer_def)

lemma drop_world_ok:
  assumes ok: "world_ok w" and q: "fifo (shared w) = (i, g) # q"
  shows "live i g (shared w) = None \<Longrightarrow> world_ok (w\<lparr>shared := (shared w)\<lparr>fifo := q\<rparr>\<rparr>)"
    "live i g (shared w) = Some t \<Longrightarrow>
       world_ok (w\<lparr>shared := put_timer i (t\<lparr>in_fifo := False\<rparr>) ((shared w)\<lparr>fifo := q\<rparr>)\<rparr>)"
proof -
  have a: "arena_ok (shared w)" using ok by (simp add: world_ok_def)
  show "world_ok (w\<lparr>shared := (shared w)\<lparr>fifo := q\<rparr>\<rparr>)" if "live i g (shared w) = None"
    by (rule world_touch [OF ok]) (simp_all add: pop_ok(1) [OF a q that] q subset_insertI)
  assume l: "live i g (shared w) = Some t"
  then have l': "live i g (shared w) \<noteq> None" by simp
  show "world_ok (w\<lparr>shared := put_timer i (t\<lparr>in_fifo := False\<rparr>) ((shared w)\<lparr>fifo := q\<rparr>)\<rparr>)"
    by (rule world_touch [OF ok])
      (use l q pop_ok(2) [OF a q l] in
        \<open>auto simp: put_timer_fifo_update evolves_put [OF l'] live_put [OF l'] split: if_splits\<close>)
qed

text \<open>The callback of the head of the queue is there, and the worker takes it along.\<close>

lemma fetch_world_ok:
  assumes ok: "world_ok w" and idle: "running w = None" "\<not> stop (shared w)"
    and r: "tm_fetch (shared w) = (c, tm)"
  shows "c = None \<Longrightarrow> world_ok (w\<lparr>shared := tm\<rparr>)"
    "c = Some (i, g, cbo) \<Longrightarrow> \<exists>cb. cbo = Some cb \<and>
       world_ok (w\<lparr>shared := tm, running := Some (i, g, cb, 0), calls := calls w @ [timer_ident g i]\<rparr>)"
proof -
  let ?tm = "shared w"
  have a: "arena_ok ?tm" "run_ok None ?tm" "ids_ok w" using ok idle by (simp_all add: world_ok_def)
  have c: "fifo ?tm = [] \<and> c = None \<and> tm = ?tm \<or>
    (\<exists>i g q. fifo ?tm = (i, g) # q \<and> live i g ?tm = None \<and> c = None \<and> tm = ?tm\<lparr>fifo := q\<rparr>) \<or>
    (\<exists>i g q t. fifo ?tm = (i, g) # q \<and> live i g ?tm = Some t \<and>
       (enabled t \<and> c = Some (i, g, callback t) \<and>
          tm = put_timer i (t\<lparr>callback := None, in_fifo := False\<rparr>) (?tm\<lparr>fifo := q\<rparr>) \<or>
        \<not> enabled t \<and> c = None \<and> tm = put_timer i (t\<lparr>in_fifo := False\<rparr>) (?tm\<lparr>fifo := q\<rparr>)))"
    using r unfolding fetch_eq by (auto split: list.splits option.splits if_splits)
  {
    assume "c = None"
    then show "world_ok (w\<lparr>shared := tm\<rparr>)"
      using c
      by (elim disjE exE conjE; simp only: option.distinct) (simp_all add: ok drop_world_ok [OF ok])
  next
    assume "c = Some (i, g, cbo)"
    then obtain q t where q: "fifo ?tm = (i, g) # q" "live i g ?tm = Some t" "cbo = callback t"
      "tm = put_timer i (t\<lparr>callback := None, in_fifo := False\<rparr>) (?tm\<lparr>fifo := q\<rparr>)"
      using c by auto
    have l: "live i g ?tm \<noteq> None" using q by simp
    have there: "live j h ?tm = Some v \<Longrightarrow> callback v \<noteq> None" for j h v
      using a(2) idle(2) by (simp add: run_ok_def)
    then obtain cb where cb: "callback t = Some cb" using q(2) by blast
    have ev: "evolves ?tm tm" using q(4) evolves_put [OF l] by (simp add: put_timer_fifo_update)
    have lt: "live j h tm = (if j = i \<and> h = g then Some (t\<lparr>callback := None, in_fifo := False\<rparr>) else live j h ?tm)" for j h
      unfolding q(4) put_timer_fifo_update by (simp add: live_put [OF l])
    have "arena_ok tm" unfolding q(4) by (rule pop_ok(2) [OF a(1) q(1,2)]) simp
    moreover have "(i, g) \<notin> set (fifo tm)" using a(1) q(1,4) by (simp add: arena_ok_def fifo_ok_def)
    then have "run_ok (Some (i, g, cb, 0)) tm"
      using live_known [OF q(2)] evolves_known [OF ev]
      by (auto simp: run_ok_def lt MAX_CATCHUP_def dest: there)
    moreover have "ids_ok (w\<lparr>shared := tm, calls := calls w @ [timer_ident g i]\<rparr>)"
      by (rule ids_evolve [OF a(3) ev]) (use a(3) l in \<open>auto simp: lt ids_ok_def split: if_splits\<close>)
    ultimately show "\<exists>cb. cbo = Some cb \<and>
       world_ok (w\<lparr>shared := tm, running := Some (i, g, cb, 0), calls := calls w @ [timer_ident g i]\<rparr>)"
      using q(3) cb by (simp add: world_ok_def ids_ok_def)
  }
qed

lemma round_world_ok:
  assumes ok: "world_ok w"
  shows "world_ok (worker_round now w)"
proof (cases "stop (shared w) \<or> running w \<noteq> None")
  case False
  let ?w = "w\<lparr>shared := tm_scan now (shared w)\<rparr>"
  have idle: "running w = None" "\<not> stop (shared w)" using False by blast+
  then have idle': "running ?w = None" by simp
  have w: "world_ok ?w" by (rule scan_world_ok [OF ok idle(1)])
  have st: "\<not> stop (shared ?w)"
    using False ok scan_scanned [of "shared w" now] by (simp add: world_ok_def scanned_def)
  obtain c tm where r: "tm_fetch (tm_scan now (shared w)) = (c, tm)" by force
  show ?thesis
  proof (cases c)
    case None
    then show ?thesis
      using fetch_world_ok(1) [OF w idle' st] idle r by (simp add: worker_round_def)
  next
    case (Some x)
    obtain i g cbo where x: "c = Some (i, g, cbo)" using Some by (cases x) auto
    then show ?thesis
      using fetch_world_ok(2) [OF w idle' st _ x] idle r by (auto simp: worker_round_def)
  qed
qed (use ok in \<open>auto simp: worker_round_def\<close>)

lemma finish_entry_cases:
  assumes "finish_entry now cb k r t = (again, u)"
  obtains (gone) "again = None" "u = None"
  | (kept) v where "again = None" "u = Some v" "callback v = Some cb" "in_fifo v = in_fifo t"
  | (late) v where "again = Some cb" "u = Some v" "callback v = None" "in_fifo v = in_fifo t" "k + 1 < MAX_CATCHUP"
  using assms by (cases r) (auto split: option.splits if_splits)

lemma return_world_ok:
  assumes ok: "world_ok w"
  shows "world_ok (worker_return now r w)"
proof (cases "running w")
  case None
  then show ?thesis using ok by (simp add: worker_return_def)
next
  case (Some x)
  then obtain i g cb k where x: "running w = Some (i, g, cb, k)" by (cases x) auto
  let ?tm = "shared w"
  have a: "arena_ok ?tm" "run_ok (Some (i, g, cb, k)) ?tm" "ids_ok w" using ok x by (simp_all add: world_ok_def)
  have i: "i < 2 ^ 32" using a(1,2) by (auto simp: run_ok_def known_def arena_ok_def free_ok_def)
  show ?thesis
  proof (cases "stop ?tm \<or> live i g ?tm = None")
    case True
    then have "run_ok None ?tm" using a(2) by (auto simp: run_ok_def)
    then show ?thesis using True a(1,3) x
      by (auto simp: worker_return_def finish_eq [OF i] world_ok_def ids_ok_def)
  next
    case False
    then obtain t where st: "\<not> stop ?tm" and t: "live i g ?tm = Some t" by auto
    have l: "live i g ?tm \<noteq> None" using t by simp
    have tid: "timer_ident g i \<in> set (issued w)" using a(3) l by (simp add: ids_ok_def)
    note simps = worker_return_def x finish_eq [OF i] st t world_ok_def
    obtain again u where e: "finish_entry now cb k r t = (again, u)" by force
    then show ?thesis
    proof (cases rule: finish_entry_cases)
      case gone
      have "ids_ok (w\<lparr>shared := clear_timer i ?tm, calls := calls w @ []\<rparr>)"
        by (rule ids_evolve [OF a(3)]) (simp_all add: evolves_clear live_clear [OF l] split: if_splits)
      moreover have "run_ok None (clear_timer i ?tm)"
        using a(2) st by (auto simp: run_ok_def live_clear [OF l] split: if_splits)
      ultimately show ?thesis
        using gone e clear_timer_ok [OF a(1) l] by (simp add: simps ids_ok_def)
    next
      case (kept v)
      have "ids_ok (w\<lparr>shared := put_timer i v ?tm, calls := calls w @ []\<rparr>)"
        by (rule ids_evolve [OF a(3)]) (use l in \<open>auto simp: evolves_put [OF l] live_put [OF l] split: if_splits\<close>)
      moreover have "run_ok None (put_timer i v ?tm)"
        using a(2) st kept by (auto simp: run_ok_def live_put [OF l] split: if_splits)
      ultimately show ?thesis
        using kept e put_timer_ok [OF a(1) t kept(4)] by (simp add: simps ids_ok_def)
    next
      case (late v)
      have "ids_ok (w\<lparr>shared := put_timer i v ?tm, calls := calls w @ [timer_ident g i]\<rparr>)"
        by (rule ids_evolve [OF a(3)]) (use l tid in \<open>auto simp: evolves_put [OF l] live_put [OF l] split: if_splits\<close>)
      moreover have "run_ok (Some (i, g, cb, k + 1)) (put_timer i v ?tm)"
        using a(2) st late evolves_known [OF evolves_put [OF l]]
        by (auto simp: run_ok_def live_put [OF l] split: if_splits)
      ultimately show ?thesis
        using late e put_timer_ok [OF a(1) t late(4)] by (simp add: simps ids_ok_def)
    qed
  qed
qed

lemma exec_world_ok: "world_ok w \<Longrightarrow> admissible ev w \<Longrightarrow> world_ok (tm_exec ev w)"
  by (cases ev)
    (simp_all add: add_one_shot_def add_recurring_def add_world_ok tm_remove_def deallocate_world_ok tm_enable_def
      tm_disable_def set_enabled_world_ok round_world_ok return_world_ok,
     simp add: world_ok_def arena_ok_def free_ok_def fifo_ok_def run_ok_def ids_ok_def tm_stop_def known_def live_def)

lemma world_new_ok: "world_ok world_new"
  by (simp add: world_new_def tm_new_def world_ok_def arena_ok_def free_ok_def fifo_ok_def run_ok_def ids_ok_def live_def)

lemma steps_world_ok: "tm_steps w v \<Longrightarrow> world_ok w \<Longrightarrow> world_ok v"
  by (induction rule: tm_steps.induct) (simp_all add: exec_world_ok)

lemmas reach_ok = steps_world_ok [OF _ world_new_ok]

lemma exec_evolves:
  assumes ok: "world_ok w" and ad: "admissible ev w"
  shows "evolves (shared w) (shared (tm_exec ev w))"
proof (cases ev)
  case (Round now)
  have "evolves (shared w) (snd (tm_fetch (tm_scan now (shared w))))"
    by (rule evolves_trans [OF evolves_scan evolves_fetch]) (use ok in \<open>simp add: world_ok_def\<close>)
  then show ?thesis using Round by (auto simp: worker_round_def split: prod.splits option.splits)
next
  case (Return now r)
  show ?thesis
  proof (cases "running w")
    case (Some x)
    then obtain i g cb k where x: "running w = Some (i, g, cb, k)" by (cases x) auto
    then have "i < 2 ^ 32" using ok by (auto simp: world_ok_def run_ok_def known_def arena_ok_def free_ok_def)
    then show ?thesis using evolves_finish [of i "shared w" now g cb r k] x Return
      by (auto simp: worker_return_def split: prod.splits option.splits)
  qed (simp add: Return worker_return_def)
qed (use ok ad in \<open>auto simp: world_add_def add_one_shot_def add_recurring_def evolves_allocate world_ok_def arena_ok_def
      tm_remove_def evolves_deallocate tm_enable_def tm_disable_def evolves_set_enabled tm_stop_def evolves_def [of _ "_\<lparr>stop := _\<rparr>"]\<close>)

text \<open>An event appends at most one call, of a timer that is live when the event happens.\<close>

lemma exec_calls:
  assumes ok: "world_ok w"
  obtains "calls (tm_exec ev w) = calls w"
  | i g where "calls (tm_exec ev w) = calls w @ [timer_ident g i]" "live i g (shared w) \<noteq> None" "i < 2 ^ 32"
proof (cases ev)
  case (Round now)
  have a: "arena_ok (shared w)" using ok by (simp add: world_ok_def)
  show thesis
  proof (cases "calls (tm_exec ev w) = calls w")
    case False
    then obtain i g cb where "fst (tm_fetch (tm_scan now (shared w))) = Some (i, g, Some cb)"
      "calls (tm_exec ev w) = calls w @ [timer_ident g i]"
      using Round by (auto simp: worker_round_def split: prod.splits option.splits if_splits)
    moreover from this have "live i g (shared w) \<noteq> None"
      by (auto simp: fetch_eq live_scan [OF a] split: list.splits option.splits if_splits)
    ultimately show thesis
      using that(2) a by (auto simp: live_def arena_ok_def free_ok_def split: if_splits)
  qed (rule that(1))
next
  case (Return now r)
  show thesis
  proof (cases "calls (tm_exec ev w) = calls w")
    case False
    then obtain i g cb k where x: "running w = Some (i, g, cb, k)" by (auto simp: Return worker_return_def split: option.splits)
    then have i: "i < 2 ^ 32" using ok by (auto simp: world_ok_def run_ok_def known_def arena_ok_def free_ok_def)
    then show thesis using False that(2) [of g i] Return x
      by (auto simp: worker_return_def finish_eq [OF i] split: option.splits if_splits prod.splits)
  qed (rule that(1))
qed (use that(1) in \<open>simp_all add: world_add_def\<close>)

lemma steps_retired:
  assumes "tm_steps w v" "world_ok w" "retired tid (shared w)"
  shows "retired tid (shared v) \<and> (\<exists>cs. calls v = calls w @ cs \<and> tid \<notin> set cs)"
  using assms
proof (induction rule: tm_steps.induct)
  case (tm_next v ev)
  have ok: "world_ok v" by (rule steps_world_ok [OF tm_next.hyps(1) tm_next.prems(1)])
  obtain cs where r: "retired tid (shared v)" and cs: "calls v = calls w @ cs" "tid \<notin> set cs"
    using tm_next by blast
  have "\<exists>ds. calls (tm_exec ev v) = calls v @ ds \<and> tid \<notin> set ds"
    by (rule exec_calls [OF ok, of ev]) (use r in \<open>auto simp: retired_def ident_parts\<close>)
  then show ?case
    using cs evolves_retired [OF exec_evolves [OF ok tm_next.hyps(2)] r] by auto
qed simp

section \<open>Safety\<close>

fun tm_runs :: "'c tm_event list \<Rightarrow> 'c tm_world \<Rightarrow> 'c tm_world" where
  "tm_runs [] w = w"
| "tm_runs (ev # evs) w = tm_runs evs (tm_exec ev w)"

fun run_admissible :: "'c tm_event list \<Rightarrow> 'c tm_world \<Rightarrow> bool" where
  "run_admissible [] w = True"
| "run_admissible (ev # evs) w = (admissible ev w \<and> run_admissible evs (tm_exec ev w))"

lemma steps_trans: "tm_steps u v \<Longrightarrow> tm_steps v w \<Longrightarrow> tm_steps u w"
  by (rotate_tac, induction rule: tm_steps.induct) (auto intro: tm_next)

lemma runs_steps: "run_admissible evs w \<Longrightarrow> tm_steps w (tm_runs evs w)"
proof (induction evs arbitrary: w)
  case (Cons ev evs)
  then have "tm_steps w (tm_exec ev w)" "tm_steps (tm_exec ev w) (tm_runs evs (tm_exec ev w))"
    by (auto intro: tm_start tm_next)
  then show ?case using steps_trans by simp
qed (simp add: tm_start)

text \<open>Three timers for the examples: two one-shots and a recurring one.\<close>

definition demo_timers :: "nat tm_world" where
  "demo_timers = tm_runs [AddOneShot 0 1 10, AddRecurring 2 3 20, AddOneShot 0 9 30] world_new"

lemmas demo_simps = world_new_def tm_new_def world_add_def add_one_shot_def add_recurring_def tm_allocate_def Let_def
  worker_round_def tm_scan_def tm_scan_slot_def tm_fetch_def idx_def tm_remove_def tm_deallocate_def ident_parts
  worker_return_def tm_finish_def tm_next_wakeup_def earlier_wakeup_def live_def upt_rec

lemmas demo_room = tm_room_def demo_simps

lemma demo_timers_reach: "tm_reach demo_timers"
  unfolding demo_timers_def by (rule runs_steps) (simp add: demo_room)

text \<open>
  \<^bold>\<open>C29\<close>.  The timer manager in every reachable state: the free list names exactly the empty slots,
  once each; no timer is queued twice and the flag of a timer says whether it is queued; the
  callback of a timer is away exactly while the worker runs it, so that the worker never finds a
  callback missing; and a late timer is called at most eight times in a row.
\<close>

theorem timer_arena_invariant:
  assumes "tm_reach w"
  shows "distinct (free_indices (shared w)) \<and>
    set (free_indices (shared w)) = {i. i < length (slots (shared w)) \<and> timer (slots (shared w) ! i) = None} \<and>
    distinct (fifo (shared w)) \<and>
    (\<forall>i g t. live i g (shared w) = Some t \<longrightarrow> (in_fifo t \<longleftrightarrow> (i, g) \<in> set (fifo (shared w))) \<and>
       (\<not> stop (shared w) \<longrightarrow> (callback t = None \<longleftrightarrow> (\<exists>cb k. running w = Some (i, g, cb, k))))) \<and>
    (\<forall>i g cb k. running w = Some (i, g, cb, k) \<longrightarrow> k < 8)"
proof -
  have ok: "free_ok (shared w)" "fifo_ok (shared w)" "run_ok (running w) (shared w)"
    using reach_ok [OF assms] by (simp_all add: world_ok_def arena_ok_def)
  have "set (free_indices (shared w)) = {i. i < length (slots (shared w)) \<and> timer (slots (shared w) ! i) = None}"
    using free_iff [OF ok(1)] by auto
  moreover have "in_fifo t \<longleftrightarrow> (i, g) \<in> set (fifo (shared w))" if "live i g (shared w) = Some t" for i g t
    using that fifo_flag [OF ok(2), of i t] by (auto simp: live_Some)
  ultimately show ?thesis
    using ok by (simp add: free_ok_def fifo_ok_def run_ok_def runs_def MAX_CATCHUP_def)
qed

theorem timer_arena_invariant_witness: "tm_reach demo_timers \<and> distinct (fifo (shared demo_timers))"
  using timer_arena_invariant [OF demo_timers_reach] demo_timers_reach by blast

text \<open>
  \<^bold>\<open>C30\<close>.  An identifier that has been removed never refers to anything again: whatever happens
  afterwards, the operations reject it, no new timer gets it, and it is not called any more, not
  even by a callback that was running when it was removed.
\<close>

theorem removed_timer_gone:
  assumes "tm_reach u" "fst (tm_remove tid (shared u))" "tm_steps (tm_exec (Remove tid) u) v"
  shows "tm_remove tid (shared v) = (False, shared v) \<and> tm_enable tid (shared v) = (False, shared v) \<and>
    tm_disable tid (shared v) = (False, shared v) \<and>
    (tm_room (shared v) \<longrightarrow> fst (tm_allocate e (shared v)) \<noteq> tid) \<and>
    (\<exists>cs. calls v = calls u @ cs \<and> tid \<notin> set cs)"
proof -
  have u: "world_ok u" by (rule reach_ok [OF assms(1)])
  have w: "world_ok (tm_exec (Remove tid) u)" by (rule exec_world_ok [OF u]) simp
  have l: "live (id_index tid) (id_generation tid) (shared u) \<noteq> None"
    using assms(2) by (auto simp: tm_remove_def deallocate_live split: if_splits)
  then have "retired tid (shared (tm_exec (Remove tid) u))"
    by (auto simp: retired_def tm_remove_def deallocate_live live_clear [OF l] known_def live_Some)
  then have v: "retired tid (shared v)" "\<exists>cs. calls v = calls u @ cs \<and> tid \<notin> set cs"
    using steps_retired [OF assms(3) w] by auto
  moreover have "fst (tm_allocate e (shared v)) \<noteq> tid" if room: "tm_room (shared v)"
  proof -
    have f: "free_ok (shared v)" using steps_world_ok [OF assms(3) w] by (simp add: world_ok_def arena_ok_def)
    show ?thesis
      using next_not_known [OF f room] v(1) ident_parts [OF next_slot_bound [OF f room]]
      by (auto simp: allocate_ident retired_def)
  qed
  ultimately show ?thesis
    by (simp add: tm_remove_def tm_enable_def tm_disable_def deallocate_live set_enabled_live retired_def)
qed

theorem removed_timer_gone_witness:
  "fst (tm_remove (timer_ident 1 0) (shared demo_timers)) \<and>
   \<not> fst (tm_enable (timer_ident 1 0) (shared (tm_exec (Round 5) (tm_exec (Remove (timer_ident 1 0)) demo_timers))))"
proof -
  have r: "fst (tm_remove (timer_ident 1 0) (shared demo_timers))"
    unfolding demo_timers_def by (simp add: demo_simps)
  have "tm_steps (tm_exec (Remove (timer_ident 1 0)) demo_timers)
      (tm_exec (Round 5) (tm_exec (Remove (timer_ident 1 0)) demo_timers))"
    by (rule tm_next [OF tm_start]) simp
  from removed_timer_gone [OF demo_timers_reach r this] r show ?thesis by simp
qed

section \<open>Progress\<close>

text \<open>The iterations of the worker's loop among the events: a \<^term>\<open>Round now\<close> while a callback runs
  is none.\<close>

fun rounds :: "'c tm_event list \<Rightarrow> 'c tm_world \<Rightarrow> nat" where
  "rounds [] w = 0"
| "rounds (ev # evs) w =
     (case ev of Round _ \<Rightarrow> if running w = None then 1 else 0 | _ \<Rightarrow> 0) + rounds evs (tm_exec ev w)"

fun spares :: "u64 \<Rightarrow> 'c tm_event \<Rightarrow> bool" where
  "spares tid (Remove t) = (t \<noteq> tid)"
| "spares tid (Disable t) = (t \<noteq> tid)"
| "spares tid Stop = False"
| "spares tid _ = True"

text \<open>An enabled timer in the queue with \<open>n\<close> entries ahead of it.\<close>

definition queued :: "nat \<Rightarrow> u32 \<Rightarrow> nat \<Rightarrow> 'c tm_world \<Rightarrow> bool" where
  "queued i g n w \<longleftrightarrow> world_ok w \<and> \<not> stop (shared w) \<and>
     (\<exists>t. live i g (shared w) = Some t \<and> enabled t) \<and> (\<exists>q1 q2. fifo (shared w) = q1 @ (i, g) # q2 \<and> length q1 = n)"

lemma queued_bounds:
  assumes "queued i g n w"
  shows "i < 2 ^ 32" "n < length (fifo (shared w))" "\<not> runs (running w) i g"
proof -
  obtain q1 q2 where q: "fifo (shared w) = q1 @ (i, g) # q2" "length q1 = n" using assms by (auto simp: queued_def)
  then show "n < length (fifo (shared w))" by simp
  show "i < 2 ^ 32"
    using assms by (auto simp: queued_def world_ok_def arena_ok_def free_ok_def live_def split: if_splits)
  have "run_ok (running w) (shared w)" using assms by (simp add: queued_def world_ok_def)
  then show "\<not> runs (running w) i g" using q(1) by (auto simp: run_ok_def runs_def)
qed

lemma queued_touch:
  assumes q: "queued i g n w" and ok: "world_ok v" "stop (shared v) = stop (shared w)" "fifo (shared v) = fifo (shared w)"
    and l: "\<And>t. live i g (shared w) = Some t \<Longrightarrow> enabled t \<Longrightarrow> \<exists>u. live i g (shared v) = Some u \<and> enabled u"
  shows "queued i g n v"
  using q ok l unfolding queued_def by metis

lemma ident_eqD:
  assumes "i < 2 ^ 32" "id_index tid = i" "id_generation tid = g"
  shows "tid = timer_ident g i"
proof (rule bit_word_eqI)
  fix n :: nat
  assume n: "n < LENGTH(64)"
  have g: "bit (id_generation tid) (n - 32) \<longleftrightarrow> bit tid n" if "32 \<le> n"
    using that n by (auto simp: id_generation_def bit_simps)
  have "word_of_nat i = tid AND mask 32"
    using assms(2) [symmetric] by (simp add: id_index_def mask_eq_exp_minus_1)
  then have "bit (word_of_nat i :: u64) n \<longleftrightarrow> n < 32 \<and> bit tid n"
    using n by (simp only: bit_simps) auto
  then show "bit tid n \<longleftrightarrow> bit (timer_ident g i) n"
    using g n assms(3) unfolding timer_ident_def by (auto simp: bit_or_iff bit_push_bit_iff bit_unsigned_iff)
qed

text \<open>What a fetch does to the queue and to a timer other than the one at its head.\<close>

lemma fetch_tail:
  assumes "fifo tm = (j, h) # q"
  shows "fifo (snd (tm_fetch tm)) = q" "stop (snd (tm_fetch tm)) = stop tm"
    "(i, g) \<noteq> (j, h) \<Longrightarrow> live i g (snd (tm_fetch tm)) = live i g tm"
  using assms
  by (auto simp: fetch_eq put_timer_fifo_update live_put [of j h tm] split: option.split)

lemma round_fields:
  "running w = None \<Longrightarrow> \<not> stop (shared w) \<Longrightarrow>
     shared (worker_round now w) = snd (tm_fetch (tm_scan now (shared w)))"
  by (simp add: worker_round_def split: prod.split option.split)

lemma queued_round:
  assumes q: "queued i g n w" and idle: "running w = None"
  shows "n = 0 \<Longrightarrow> calls (worker_round now w) = calls w @ [timer_ident g i]"
    "n = Suc m \<Longrightarrow> queued i g m (worker_round now w)"
proof -
  let ?tm = "tm_scan now (shared w)"
  obtain t q1 q2 where w: "world_ok w" "\<not> stop (shared w)" "live i g (shared w) = Some t" "enabled t"
    "fifo (shared w) = q1 @ (i, g) # q2" "length q1 = n"
    using q by (auto simp: queued_def)
  have a: "arena_ok (shared w)" using w(1) by (simp add: world_ok_def)
  obtain ext where f: "fifo ?tm = q1 @ (i, g) # q2 @ ext" "stop ?tm = stop (shared w)"
    using scan_scanned [OF a, of now] w(5) by (auto simp: scanned_def)
  have l: "live i g ?tm = Some (mark_due now t)" by (simp add: live_scan [OF a] w(3))
  have en: "enabled (mark_due now t)" using w(4) by (simp add: mark_due_def)
  have scan: "world_ok (w\<lparr>shared := ?tm\<rparr>)" by (rule scan_world_ok [OF w(1) idle])
  {
    assume "n = 0"
    then obtain tm where r: "tm_fetch ?tm = (Some (i, g, callback (mark_due now t)), tm)"
      using w(6) f(1) l en by (auto simp: fetch_eq)
    moreover obtain cb where "callback (mark_due now t) = Some cb"
      using fetch_world_ok(2) [OF scan _ _ _ refl] r idle w(2) f(2) by fastforce
    ultimately show "calls (worker_round now w) = calls w @ [timer_ident g i]"
      using idle w(2) by (simp add: worker_round_def)
  next
    assume "n = Suc m"
    then obtain j h q where h: "q1 = (j, h) # q" "length q = m" using w(6) by (cases q1) auto
    have ne: "(i, g) \<noteq> (j, h)"
      using scan f(1) h(1) by (auto simp: world_ok_def arena_ok_def fifo_ok_def)
    have "fifo ?tm = (j, h) # (q @ (i, g) # q2 @ ext)" using f(1) h(1) by simp
    note p = fetch_tail [OF this]
    show "queued i g m (worker_round now w)"
      unfolding queued_def round_fields [OF idle w(2)]
      using round_world_ok [OF w(1)] p(1,2) p(3) [OF ne] l en f(2) w(2) h(2) by auto
  }
qed

lemma live_unique: "live i g tm = Some t \<Longrightarrow> live i h tm = Some u \<Longrightarrow> h = g"
  by (simp add: live_Some)

lemma live_allocate_old:
  assumes f: "free_ok tm" and l: "live i g tm = Some t"
  shows "live i g (snd (tm_allocate e tm)) = Some t"
proof -
  have "i \<noteq> next_slot tm" using f by (cases rule: next_slot_cases) (use l in \<open>auto simp: live_Some\<close>)
  then show ?thesis using l by (simp add: live_allocate [OF f])
qed

lemma queued_other:
  assumes q: "queued i g n w" and ev: "admissible ev w" "spares (timer_ident g i) ev"
    and r: "\<And>now. ev \<noteq> Round now"
  shows "queued i g n (tm_exec ev w)"
proof (rule queued_touch [OF q])
  have ok: "world_ok w" using q by (simp add: queued_def)
  then show "world_ok (tm_exec ev w)" by (rule exec_world_ok [OF _ ev(1)])
  have i: "i < 2 ^ 32" "\<not> runs (running w) i g" using queued_bounds [OF q] by simp_all
  have ne: "\<not> (id_index tid = i \<and> id_generation tid = g)" if "tid \<noteq> timer_ident g i" for tid
    using ident_eqD [OF i(1), of tid g] that by auto
  have free: "free_ok (shared w)" using ok by (simp add: world_ok_def arena_ok_def)
  have ret: "j < 2 ^ 32" if "running w = Some (j, h, cb, k)" for j h cb k
    using ok that by (auto simp: world_ok_def run_ok_def known_def arena_ok_def free_ok_def)
  note simps = tm_remove_def tm_enable_def tm_disable_def deallocate_live set_enabled_live world_add_def add_one_shot_def
    add_recurring_def worker_return_def
  show "stop (shared (tm_exec ev w)) = stop (shared w)" "fifo (shared (tm_exec ev w)) = fifo (shared w)"
    using r ev(2) ret by (cases ev; force simp: simps finish_eq split: option.split prod.split)+
  fix t
  assume t: "live i g (shared w) = Some t" "enabled t"
  show "\<exists>u. live i g (shared (tm_exec ev w)) = Some u \<and> enabled u"
  proof (cases ev)
    case (Return now res)
    show ?thesis
    proof (cases "running w")
      case (Some x)
      then obtain j h cb k where x: "running w = Some (j, h, cb, k)" by (cases x) auto
      then have jh: "\<not> (j = i \<and> h = g)" using i(2) by simp
      show ?thesis
      proof (cases "live j h (shared w)")
        case (Some u)
        then have "j \<noteq> i" using jh live_unique [OF t(1)] by blast
        then show ?thesis
          using t x Some Return by (auto simp: simps finish_eq [OF ret [OF x]] live_put [of j h] live_clear [of j h]
              split: option.split prod.split)
      qed (use t x Return in \<open>simp add: simps finish_eq [OF ret [OF x]]\<close>)
    qed (use t Return in \<open>simp add: simps\<close>)
  next
    case (Remove tid)
    show ?thesis
    proof (cases "live (id_index tid) (id_generation tid) (shared w)")
      case (Some u)
      then have "id_index tid \<noteq> i" using ne [of tid] ev(2) Remove live_unique [OF t(1)] by auto
      then show ?thesis using t Remove Some by (simp add: simps live_clear [of _ "id_generation tid"])
    qed (use t Remove in \<open>simp add: simps\<close>)
  next
    case (Enable tid)
    then show ?thesis using t by (auto simp: simps live_put [of _ "id_generation tid"] split: option.split)
  next
    case (Disable tid)
    then have "\<not> (id_index tid = i \<and> id_generation tid = g)" using ne [of tid] ev(2) by auto
    then show ?thesis
      using t Disable by (auto simp: simps live_put [of _ "id_generation tid"] split: option.split)
  qed (use t ev r in \<open>simp_all add: simps live_allocate_old [OF free]\<close>)
qed

lemma exec_calls_grow: "world_ok w \<Longrightarrow> \<exists>cs. calls (tm_exec ev w) = calls w @ cs"
  by (rule exec_calls [of w ev]) auto

lemma runs_calls_grow:
  "world_ok w \<Longrightarrow> run_admissible evs w \<Longrightarrow> \<exists>cs. calls (tm_runs evs w) = calls w @ cs"
proof (induction evs arbitrary: w)
  case (Cons ev evs)
  then have "world_ok (tm_exec ev w)" by (simp add: exec_world_ok)
  then show ?case
    using Cons.IH [of "tm_exec ev w"] Cons.prems exec_calls_grow [of w ev] by fastforce
qed simp

lemma queued_called:
  assumes "queued i g n w" "run_admissible evs w" "\<forall>ev \<in> set evs. spares (timer_ident g i) ev" "n < rounds evs w"
  shows "\<exists>cs. calls (tm_runs evs w) = calls w @ cs \<and> timer_ident g i \<in> set cs"
  using assms
proof (induction evs arbitrary: n w)
  case (Cons ev evs)
  have ok: "world_ok w" "world_ok (tm_exec ev w)" using Cons.prems exec_world_ok by (auto simp: queued_def)
  have grow: "\<exists>cs. calls (tm_exec ev w) = calls w @ cs" by (rule exec_calls_grow [OF ok(1)])
  have step: ?case if q: "queued i g m (tm_exec ev w)" and m: "m < rounds evs (tm_exec ev w)" for m
    using Cons.IH [OF q _ _ m] Cons.prems grow by fastforce
  show ?case
  proof (cases "\<exists>now. ev = Round now \<and> running w = None")
    case True
    then obtain now where e: "ev = Round now" "running w = None" by blast
    show ?thesis
    proof (cases n)
      case 0
      then have "calls (tm_exec ev w) = calls w @ [timer_ident g i]" using queued_round(1) [OF Cons.prems(1) e(2)] e by simp
      then show ?thesis using runs_calls_grow [OF ok(2), of evs] Cons.prems by auto
    next
      case (Suc m)
      show ?thesis
        by (rule step [of m]) (use queued_round(2) [OF Cons.prems(1) e(2) Suc] Cons.prems(4) Suc e in simp_all)
    qed
  next
    case False
    have "queued i g n (tm_exec ev w)"
    proof (cases "\<exists>now. ev = Round now")
      case True
      then show ?thesis using False Cons.prems(1) by (auto simp: worker_round_def)
    qed (use queued_other [OF Cons.prems(1)] Cons.prems in auto)
    moreover have "n < rounds evs (tm_exec ev w)" using Cons.prems(4) False by (auto split: tm_event.splits)
    ultimately show ?thesis by (rule step)
  qed
qed simp

lemma scan_fifo_length: "length (fifo (tm_scan now tm)) \<le> length (fifo tm) + length (slots tm)"
proof -
  have "length (fifo (tm_scan_slot now i u)) \<le> length (fifo u) + 1" for i and u :: "'a tm_inner"
    by (simp add: tm_scan_slot_def split: option.split)
  then have "length (fifo (fold (tm_scan_slot now) xs u)) \<le> length (fifo u) + length xs" for xs and u :: "'a tm_inner"
    by (induction xs arbitrary: u) (simp, fastforce intro: order.trans)
  from this [of "[0..<length (slots tm)]" tm] show ?thesis by (simp add: tm_scan_def)
qed

text \<open>A scan leaves every enabled timer that has expired in the queue.\<close>

lemma scan_queues:
  assumes ok: "world_ok w" and idle: "running w = None" "\<not> stop (shared w)"
    and t: "live i g (shared w) = Some t" "enabled t" "next_expiration t \<le> now"
  obtains n where "queued i g n (w\<lparr>shared := tm_scan now (shared w)\<rparr>)"
    "n < length (fifo (shared w)) + length (slots (shared w))"
proof -
  let ?w = "w\<lparr>shared := tm_scan now (shared w)\<rparr>"
  have a: "arena_ok (shared w)" using ok by (simp add: world_ok_def)
  have w: "world_ok ?w" by (rule scan_world_ok [OF ok idle(1)])
  have l: "live i g (shared ?w) = Some (mark_due now t)" by (simp add: live_scan [OF a] t(1))
  have m: "in_fifo (mark_due now t)" "enabled (mark_due now t)" using t by (simp_all add: mark_due_def due_def)
  have "fifo_ok (shared ?w)" using w by (simp add: world_ok_def arena_ok_def)
  then have "(i, g) \<in> set (fifo (shared ?w))"
    using fifo_flag [of "shared ?w" i "mark_due now t"] l m(1) by (auto simp: live_Some)
  then obtain q1 q2 where q: "fifo (shared ?w) = q1 @ (i, g) # q2" by (meson split_list)
  moreover have "\<not> stop (shared ?w)" using scan_scanned [OF a, of now] idle by (simp add: scanned_def)
  ultimately have "queued i g (length q1) ?w" using w l m(2) unfolding queued_def by blast
  moreover from this have "length q1 < length (fifo (shared w)) + length (slots (shared w))"
    using queued_bounds(2) scan_fifo_length [of now "shared w"] by fastforce
  ultimately show thesis by (rule that)
qed

text \<open>Scanning twice at one time is scanning once.\<close>

lemma scan_again:
  assumes "arena_ok tm"
  shows "tm_scan now (tm_scan now tm) = tm_scan now tm"
proof -
  let ?tm = "tm_scan now tm"
  note s = scan_scanned [OF assms, of now]
  have "tm_scan_slot now j ?tm = ?tm" if "j < length (slots ?tm)" for j
    using that s by (auto simp: scan_slot_eq scanned_def mark_due_def due_def split: option.split)
  then have "set xs \<subseteq> {..<length (slots ?tm)} \<Longrightarrow> fold (tm_scan_slot now) xs ?tm = ?tm" for xs
    by (induction xs) auto
  then show ?thesis unfolding tm_scan_def [of now ?tm] by (auto simp: atLeast_upt)
qed

text \<open>
  \<^bold>\<open>C31\<close>.  An enabled timer that has expired is called.  Let the worker, idle, run an iteration at a
  time at which the timer is due, and let any events follow that neither remove nor disable the
  timer nor stop the manager: timers added, removed, enabled and disabled, callbacks returning
  whatever they return.  The timer has been called by the time the worker has done as many
  further iterations as there were queue entries and slots.
\<close>

theorem due_timer_called:
  assumes "tm_reach w" "running w = None" "\<not> stop (shared w)"
    "live i g (shared w) = Some t" "enabled t" "next_expiration t \<le> now"
    "run_admissible evs (tm_exec (Round now) w)" "list_all (spares (timer_ident g i)) evs"
    "length (fifo (shared w)) + length (slots (shared w)) \<le> rounds evs (tm_exec (Round now) w)"
  shows "\<exists>cs. calls (tm_runs (Round now # evs) w) = calls w @ cs \<and> timer_ident g i \<in> set cs"
proof -
  have ok: "world_ok w" by (rule reach_ok [OF assms(1)])
  have a: "arena_ok (shared w)" using ok by (simp add: world_ok_def)
  let ?w = "w\<lparr>shared := tm_scan now (shared w)\<rparr>"
  obtain n where n: "queued i g n ?w" "n < length (fifo (shared w)) + length (slots (shared w))"
    by (rule scan_queues [OF ok assms(2-6)])
  have e: "tm_exec (Round now) ?w = tm_exec (Round now) w"
    using assms(2,3) scan_again [OF a, of now] scan_scanned [OF a, of now]
    by (simp add: worker_round_def scanned_def split: prod.split option.split)
  have "\<exists>cs. calls (tm_runs (Round now # evs) ?w) = calls ?w @ cs \<and> timer_ident g i \<in> set cs"
    by (rule queued_called [OF n(1)])
      (use assms(2,7-9) n(2) e in \<open>simp_all add: list_all_iff\<close>)
  then show ?thesis using e by simp
qed

theorem due_timer_called_witness:
  "\<exists>cs. calls (tm_runs [Round 5, Return 5 TContinue, Round 6, Return 6 TDisable, Round 7, Round 8] demo_timers) =
     calls demo_timers @ cs \<and> timer_ident 1 1 \<in> set cs"
proof (rule due_timer_called [OF demo_timers_reach])
  let ?evs = "[Return 5 TContinue, Round 6, Return 6 TDisable, Round 7, Round 8] :: nat tm_event list"
  let ?t = "\<lparr>next_expiration = 2, period = Some 3, enabled = True, in_fifo = False, callback = Some 20\<rparr> :: nat timer_entry"
  show "running demo_timers = None" "\<not> stop (shared demo_timers)" "live 1 1 (shared demo_timers) = Some ?t"
    unfolding demo_timers_def by (simp_all add: demo_simps)
  show "enabled ?t" "next_expiration ?t \<le> 5" by simp_all
  show "run_admissible ?evs (tm_exec (Round 5) demo_timers)" "list_all (spares (timer_ident 1 1)) ?evs" by simp_all
  show "length (fifo (shared demo_timers)) + length (slots (shared demo_timers)) \<le>
      rounds ?evs (tm_exec (Round 5) demo_timers)"
    unfolding demo_timers_def by (simp add: demo_simps)
qed

definition waits :: "'c timer_slot \<Rightarrow> nat \<Rightarrow> bool" where
  "waits s d \<longleftrightarrow> (\<exists>t. timer s = Some t \<and> enabled t \<and> \<not> in_fifo t \<and> next_expiration t = d)"

lemma earlier_wakeup_spec:
  "earlier_wakeup s v = u \<Longrightarrow> (case u of None \<Rightarrow> v = None \<and> (\<forall>d. \<not> waits s d)
     | Some k \<Rightarrow> (v = Some k \<or> waits s k) \<and> (\<forall>d. v = Some d \<or> waits s d \<longrightarrow> k \<le> d))"
  by (auto simp: earlier_wakeup_def waits_def split: option.splits if_splits)

lemma next_wakeup_spec:
  fixes tm :: "'a tm_inner"
  shows "case tm_next_wakeup tm of None \<Rightarrow> \<forall>s \<in> set (slots tm). \<forall>d. \<not> waits s d
   | Some k \<Rightarrow> (\<exists>s \<in> set (slots tm). waits s k) \<and> (\<forall>s \<in> set (slots tm). \<forall>d. waits s d \<longrightarrow> k \<le> d)"
proof -
  have w: "case fold earlier_wakeup ss v of None \<Rightarrow> v = None \<and> (\<forall>s \<in> set ss. \<forall>d. \<not> waits s d)
    | Some k \<Rightarrow> (v = Some k \<or> (\<exists>s \<in> set ss. waits s k)) \<and> (\<forall>d. v = Some d \<or> (\<exists>s \<in> set ss. waits s d) \<longrightarrow> k \<le> d)"
    for ss :: "'a timer_slot list" and v
  proof (induction ss arbitrary: v)
    case Nil
    then show ?case by (simp split: option.split)
  next
    case (Cons s ss)
    from Cons.IH [of "earlier_wakeup s v"] earlier_wakeup_spec [where s = s and v = v, OF refl] show ?case
      by (fastforce split: option.splits)
  qed
  from w [of None "slots tm"] show ?thesis unfolding tm_next_wakeup_def by (simp split: option.splits) blast
qed

lemma live_waits:
  assumes "live i g tm = Some t" "enabled t" "\<not> in_fifo t"
  shows "\<exists>s \<in> set (slots tm). waits s (next_expiration t)"
  using assms by (auto simp: live_Some waits_def intro!: bexI [of _ "slots tm ! i"])

lemma fetch_none_live:
  assumes r: "tm_fetch tm = (None, tm')" and t: "live i g tm' = Some t" "enabled t"
  shows "live i g tm = Some t"
proof (cases "fifo tm")
  case (Cons x q)
  obtain j h where x: "fifo tm = (j, h) # q" using Cons by (cases x) auto
  show ?thesis
  proof (cases "live j h tm")
    case (Some u)
    then have tm': "tm' = (put_timer j (u\<lparr>in_fifo := False\<rparr>) tm)\<lparr>fifo := q\<rparr>" "\<not> enabled u"
      using r x by (auto simp: fetch_eq put_timer_fifo_update split: if_splits)
    then show ?thesis using t Some by (auto simp: live_put [of j h] split: if_splits)
  qed (use r x t in \<open>auto simp: fetch_eq\<close>)
qed (use r t in \<open>simp add: fetch_eq\<close>)

text \<open>
  \<^bold>\<open>C32\<close>.  The worker does not oversleep when its queue is empty: if an iteration at time \<open>now\<close> found
  nothing to call and the queue is empty afterwards, then no enabled timer is due, and the time the
  worker sleeps until is the expiration of one of them and not later than any.
\<close>

theorem worker_wakes_in_time:
  assumes "tm_reach w" "running w = None" "\<not> stop (shared w)"
    "tm_fetch (tm_scan now (shared w)) = (None, tm)" "fifo tm = []"
  shows "(\<forall>i g t. live i g tm = Some t \<and> enabled t \<longrightarrow>
      now < next_expiration t \<and> (\<exists>u. tm_next_wakeup tm = Some u \<and> u \<le> next_expiration t)) \<and>
    (\<forall>u. tm_next_wakeup tm = Some u \<longrightarrow> (\<exists>s \<in> set (slots tm). waits s u))"
proof (intro conjI allI impI)
  let ?w = "w\<lparr>shared := tm_scan now (shared w)\<rparr>" and ?tm = "tm_scan now (shared w)"
  have ok: "world_ok w" by (rule reach_ok [OF assms(1)])
  have a: "arena_ok (shared w)" using ok by (simp add: world_ok_def)
  have scan: "world_ok ?w" "running ?w = None" "\<not> stop (shared ?w)"
    using scan_world_ok [OF ok assms(2)] assms(2,3) scan_scanned [OF a, of now] by (simp_all add: scanned_def)
  have "world_ok (w\<lparr>shared := tm\<rparr>)"
    using fetch_world_ok(1) [OF scan, of None tm] assms(4) by simp
  then have f: "fifo_ok tm" by (simp add: world_ok_def arena_ok_def)
  {
    fix i g t
    assume t: "live i g tm = Some t \<and> enabled t"
    have nf: "\<not> in_fifo t" using t fifo_flag [OF f, of i t] assms(5) by (auto simp: live_Some)
    have l: "live i g ?tm = Some t"
      using fetch_none_live [OF assms(4)] t by blast
    obtain t0 where t0: "t = mark_due now t0" using l by (auto simp: live_scan [OF a])
    have "\<not> due now t0" using nf by (auto simp: t0 mark_due_def)
    moreover from this have "t = t0" by (simp add: t0 mark_due_def)
    ultimately show "now < next_expiration t" using nf t by (auto simp: due_def)
    show "\<exists>u. tm_next_wakeup tm = Some u \<and> u \<le> next_expiration t"
      using next_wakeup_spec [of tm] live_waits [of i g tm t] t nf by (fastforce split: option.splits)
  next
    fix u
    assume "tm_next_wakeup tm = Some u"
    then show "\<exists>s \<in> set (slots tm). waits s u" using next_wakeup_spec [of tm] by simp
  }
qed

theorem worker_wakes_in_time_witness:
  "\<exists>tm u. tm_fetch (tm_scan 0 (shared demo_timers)) = (None, tm) \<and> tm_next_wakeup tm = Some u \<and> u \<le> 2"
proof -
  obtain tm where tm: "tm_fetch (tm_scan 0 (shared demo_timers)) = (None, tm)" "fifo tm = []"
    and l: "live 1 1 tm = Some \<lparr>next_expiration = 2, period = Some 3, enabled = True, in_fifo = False, callback = Some 20\<rparr>"
    unfolding demo_timers_def by (simp add: demo_simps)
  have "running demo_timers = None" "\<not> stop (shared demo_timers)"
    unfolding demo_timers_def by (simp_all add: demo_simps)
  from worker_wakes_in_time [OF demo_timers_reach this tm] l show ?thesis
    by (auto simp: tm(1)) (metis timer_entry.select_convs(1,3))
qed


end
