(* ===== verification/Mips_Core.thy ===== *)
theory Mips_Core
  imports Hp_Timer
begin

text \<open>
  The architectural state of the processor, \<^verbatim>\<open>src/src/cpu/mips_core.rs\<close>: general and
  floating point registers, coprocessor 0, the virtual Count/Compare timer, the nano-TLB and
  the micro-TLB arrays, and exception delivery.

  The record \<open>mips_core\<close> has the fields of the struct in the default build (the fields that
  exist only under the \<^verbatim>\<open>jitv2\<close>, \<^verbatim>\<open>ci_clock\<close> and \<^verbatim>\<open>developer\<close> features are absent).
  Atomics shared with other threads are plain fields; the events of other threads are
  steps of their own in theory \<open>Machine_Reach\<close>.  The host clock is an argument \<open>now\<close> (nanoseconds), the host
  rounding mode set by \<^verbatim>\<open>platform::set_fpu_mode\<close> is the field \<open>host_fpu_mode\<close>, and floating
  point values are their bit patterns.  The Status callback is run by the executor (theory
  \<open>Mips_Exec\<close>).  A division by a zero \<open>count_hz\<close> is a panic in the source and
  \<^const>\<open>None\<close> here.
\<close>

section \<open>Constants\<close>

definition STATUS_IE :: u32 where "STATUS_IE = shl 1 0"
definition STATUS_EXL :: u32 where "STATUS_EXL = shl 1 1"
definition STATUS_ERL :: u32 where "STATUS_ERL = shl 1 2"
definition STATUS_KSU_SHIFT :: nat where "STATUS_KSU_SHIFT = 3"
definition STATUS_UX :: u32 where "STATUS_UX = shl 1 5"
definition STATUS_SX :: u32 where "STATUS_SX = shl 1 6"
definition STATUS_KX :: u32 where "STATUS_KX = shl 1 7"
definition STATUS_IM_MASK :: u32 where "STATUS_IM_MASK = shl 0xFF 8"
definition STATUS_SR :: u32 where "STATUS_SR = shl 1 20"
definition STATUS_BEV :: u32 where "STATUS_BEV = shl 1 22"
definition STATUS_FR :: u32 where "STATUS_FR = shl 1 26"
definition STATUS_CU0 :: u32 where "STATUS_CU0 = shl 1 28"
definition STATUS_CU1 :: u32 where "STATUS_CU1 = shl 1 29"

lemmas status_bits [core_simps] =
  STATUS_IE_def STATUS_EXL_def STATUS_ERL_def STATUS_UX_def STATUS_SX_def STATUS_KX_def
  STATUS_SR_def STATUS_BEV_def STATUS_FR_def STATUS_CU0_def STATUS_CU1_def

definition CAUSE_EXCCODE_MASK :: u32 where "CAUSE_EXCCODE_MASK = shl 0x1F 2"
definition CAUSE_EXCCODE_SHIFT :: nat where "CAUSE_EXCCODE_SHIFT = 2"
definition CAUSE_IP_MASK :: u32 where "CAUSE_IP_MASK = shl 0xFF 8"
definition CAUSE_IP0 :: u32 where "CAUSE_IP0 = shl 1 8"
definition CAUSE_IP1 :: u32 where "CAUSE_IP1 = shl 1 9"
definition CAUSE_IP2 :: u32 where "CAUSE_IP2 = shl 1 10"
definition CAUSE_IP3 :: u32 where "CAUSE_IP3 = shl 1 11"
definition CAUSE_IP4 :: u32 where "CAUSE_IP4 = shl 1 12"
definition CAUSE_IP5 :: u32 where "CAUSE_IP5 = shl 1 13"
definition CAUSE_IP6 :: u32 where "CAUSE_IP6 = shl 1 14"
definition CAUSE_IP7 :: u32 where "CAUSE_IP7 = shl 1 15"
definition CAUSE_CE_MASK :: u32 where "CAUSE_CE_MASK = shl 3 28"
definition CAUSE_CE_SHIFT :: nat where "CAUSE_CE_SHIFT = 28"
definition CAUSE_BD :: u32 where "CAUSE_BD = shl 1 31"

lemmas cause_bits [core_simps] =
  CAUSE_EXCCODE_MASK_def CAUSE_IP_MASK_def CAUSE_IP0_def CAUSE_IP1_def CAUSE_IP2_def
  CAUSE_IP3_def CAUSE_IP4_def CAUSE_IP5_def CAUSE_IP6_def CAUSE_IP7_def CAUSE_CE_MASK_def
  CAUSE_BD_def

definition KSU_KERNEL :: u32 where "KSU_KERNEL = 0"
definition KSU_SUPERVISOR :: u32 where "KSU_SUPERVISOR = 1"
definition KSU_USER :: u32 where "KSU_USER = 2"

definition DEFAULT_COUNT_HZ :: u64 where "DEFAULT_COUNT_HZ = 33000000"
definition IP7_SEQ_CONSUMED :: u64 where "IP7_SEQ_CONSUMED = 0"
definition HOST_PARK_BIT :: u64 where "HOST_PARK_BIT = shl 1 62"

definition CP0_INDEX_SLOT_MASK :: u32 where "CP0_INDEX_SLOT_MASK = 0x3F"
definition CP0_INDEX_P :: u32 where "CP0_INDEX_P = 0x80000000"

datatype privilege_mode = Kernel | Supervisor | User

section \<open>Micro-TLB entries\<close>

definition NUTLB_BITS :: nat where "NUTLB_BITS = 8"
definition NUM_NUTLB_ENTRIES :: nat where "NUM_NUTLB_ENTRIES = 256"
definition NUTLB_INDEX_MASK :: u64 where "NUTLB_INDEX_MASK = 0xFF"
definition NUM_NUTLB_WORDS :: nat where "NUM_NUTLB_WORDS = 4"
definition NUTLB_READ :: nat where "NUTLB_READ = 0"
definition NUTLB_WRITE :: nat where "NUTLB_WRITE = 1"

record nutlb_entry =
  nu_virttag :: u64
  nu_phys :: u64

definition nu_default :: nutlb_entry where
  "nu_default = \<lparr>nu_virttag = 0, nu_phys = 0\<rparr>"

definition nu_phys_addr :: "nutlb_entry \<Rightarrow> u64 \<Rightarrow> u64" where
  "nu_phys_addr e va = (nu_phys e AND NOT 0xFFF) OR (va AND 0xFFF)"

definition nu_cache_attr_raw :: "nutlb_entry \<Rightarrow> u32" where
  "nu_cache_attr_raw e = lo32 (nu_phys e AND 7)"

definition nutlb_index :: "u64 \<Rightarrow> nat" where
  "nutlb_index va = unat (shr va 12 AND NUTLB_INDEX_MASK)"

record nano_entry =
  va_tag :: u64
  pa_encoded :: u64

definition nano_default :: nano_entry where
  "nano_default = \<lparr>va_tag = 0, pa_encoded = 0\<rparr>"

definition nano_is_valid :: "nano_entry \<Rightarrow> bool" where
  "nano_is_valid e = (va_tag e \<noteq> 0)"

definition nano_matches :: "nano_entry \<Rightarrow> u64 \<Rightarrow> bool" where
  "nano_matches e va_page = (va_tag e = va_page OR 1)"

definition nano_phys_addr :: "nano_entry \<Rightarrow> u64 \<Rightarrow> u64" where
  "nano_phys_addr e va = (pa_encoded e AND NOT 0xFFF) OR (va AND 0xFFF)"

definition nano_cache_attr_raw :: "nano_entry \<Rightarrow> u32" where
  "nano_cache_attr_raw e = lo32 (pa_encoded e AND 7)"

definition nano_fill_raw :: "u64 \<Rightarrow> u64 \<Rightarrow> u32 \<Rightarrow> nano_entry \<Rightarrow> nano_entry" where
  "nano_fill_raw va_page phys c e =
     e\<lparr>va_tag := va_page OR 1, pa_encoded := (phys AND NOT 0xFFF) OR zext c\<rparr>"

definition nano_invalidate :: "nano_entry \<Rightarrow> nano_entry" where
  "nano_invalidate e = e\<lparr>va_tag := 0\<rparr>"

section \<open>The core\<close>

text \<open>What the compare-timer callback captures: the wrap duration and its ticket.\<close>

record ip7_ctx =
  ip7_wrap :: nat
  ip7_ticket :: u64

record mips_core =
  hot_interrupts :: u64
  hot_cycles :: u64
  cp0_count :: u64
  cp0_compare :: u64
  pc :: u64
  in_delay_slot :: bool
  delay_slot_target :: u64
  gpr :: "u64 list"
  hi :: u64
  lo :: u64
  fpr :: "u64 list"
  fpu_fir :: u32
  fpu_fccr :: u32
  fpu_fexr :: u32
  fpu_fenr :: u32
  fpu_fcsr :: u32
  nanotlb :: "nano_entry list"
  nutlb_valid :: "u64 list list"
  cp0_index :: u32
  cp0_random :: u32
  cp0_entrylo0 :: u64
  cp0_entrylo1 :: u64
  cp0_context :: u64
  cp0_pagemask :: u64
  cp0_wired :: u32
  cp0_badvaddr :: u64
  cp0_entryhi :: u64
  cp0_status :: u32
  cp0_cause :: u32
  cp0_epc :: u64
  cp0_prid :: u32
  cp0_config :: u32
  cp0_lladdr :: u64
  cp0_watchlo :: u32
  cp0_watchhi :: u32
  cp0_xcontext :: u64
  cp0_ecc :: u32
  cp0_cacheerr :: u32
  cp0_taglo :: u64
  cp0_taghi :: u32
  cp0_errorepc :: u64
  tlb_entries :: u32
  reset_prid :: u32
  reset_fir :: u32
  cp0_random_cycle :: u64
  fasttick_count :: u64
  smp :: bool
  ll_value :: u64
  ll_phys :: u64
  running :: bool
  halted :: bool
  count_anchor_instant :: nat
  count_read_cycle :: u64
  count_hz :: u64
  count_paused :: bool
  timer_mgr :: "ip7_ctx tm_inner option"
  timer_id :: "u64 option"
  count_last_guest_read :: u32
  count_write_samples :: bool
  ip7_seq :: u64
  ip7_seq_shared :: u64
  nutlb :: "nutlb_entry list list"
  host_fpu_mode :: u8

section \<open>General registers\<close>

definition read_gpr :: "u32 \<Rightarrow> mips_core \<Rightarrow> u64" where
  "read_gpr reg c = gpr c ! unat reg"

definition write_gpr :: "u32 \<Rightarrow> u64 \<Rightarrow> mips_core \<Rightarrow> mips_core" where
  "write_gpr reg v c = c\<lparr>gpr := ((gpr c)[unat reg := v])[0 := 0]\<rparr>"

section \<open>The Random register\<close>

definition update_random :: "mips_core \<Rightarrow> mips_core" where
  "update_random c =
     (let cyc = hot_cycles c; wired = cp0_wired c; max_entry = tlb_entries c - 1
      in if wired > max_entry then c\<lparr>cp0_random := max_entry, cp0_random_cycle := cyc\<rparr>
         else let range = tlb_entries c - wired
         in if range = 0 then c\<lparr>cp0_random := max_entry, cp0_random_cycle := cyc\<rparr>
         else let delta = cyc - cp0_random_cycle c
         in if delta > 0
            then let current_val = (if cp0_random c \<ge> wired then cp0_random c else max_entry);
                     current_offset = current_val - wired;
                     step = lo32 (delta mod zext range);
                     new_offset = (current_offset + range - step) mod range
                 in c\<lparr>cp0_random := new_offset + wired, cp0_random_cycle := cyc\<rparr>
            else c)"

section \<open>The Count/Compare timer\<close>

text \<open>\<^verbatim>\<open>claim_ip7\<close> on the words it shares: the sequence word, the interrupt word and the tick
  counter.  The compare-exchange is atomic.\<close>

definition claim_ip7 :: "u64 \<Rightarrow> u64 \<Rightarrow> u64 \<Rightarrow> u64 \<Rightarrow> bool \<times> u64 \<times> u64 \<times> u64" where
  "claim_ip7 seq ticket irq fasttick =
     (if ticket = IP7_SEQ_CONSUMED then (False, seq, irq, fasttick)
      else if seq = ticket
      then (True, IP7_SEQ_CONSUMED, irq OR zext CAUSE_IP7, fasttick + 1)
      else (False, seq, irq, fasttick))"

definition core_claim_ip7 :: "u64 \<Rightarrow> mips_core \<Rightarrow> bool \<times> mips_core" where
  "core_claim_ip7 ticket c =
     (case claim_ip7 (ip7_seq_shared c) ticket (hot_interrupts c) (fasttick_count c) of
        (won, s, i, f) \<Rightarrow>
          (won, c\<lparr>ip7_seq_shared := s, hot_interrupts := i, fasttick_count := f\<rparr>))"

definition elapsed_ticks :: "nat \<Rightarrow> mips_core \<Rightarrow> u64" where
  "elapsed_ticks now c =
     (let elapsed_ns = word_of_nat (now - count_anchor_instant c) :: u64
      in word_of_nat (unat elapsed_ns * unat (count_hz c) div 1000000000))"

definition materialize_count :: "nat \<Rightarrow> bool \<Rightarrow> mips_core \<Rightarrow> u32 \<times> mips_core" where
  "materialize_count now deliver_crossing c =
     (if count_paused c then (lo32 (cp0_count c), c)
      else let cycles = hot_cycles c
      in if cycles = count_read_cycle c then (lo32 (cp0_count c), c)
      else let ticks = elapsed_ticks now c;
               c = (if ticks \<noteq> 0
                    then let consumed_ns = (word_of_nat
                               (unat ticks * 1000000000 div unat (count_hz c)) :: u64);
                             before = lo32 (cp0_count c);
                             after = before + lo32 ticks;
                             c = c\<lparr>count_anchor_instant :=
                                      count_anchor_instant c + unat consumed_ns,
                                   cp0_count := zext after\<rparr>;
                             dist = lo32 (cp0_compare c) - before
                         in if deliver_crossing \<and> dist \<noteq> 0 \<and> zext dist \<le> ticks
                            then snd (core_claim_ip7 (ip7_seq c) c)
                            else c
                    else c);
               c = c\<lparr>count_read_cycle := cycles\<rparr>
      in (lo32 (cp0_count c), c))"

definition count_now :: "nat \<Rightarrow> mips_core \<Rightarrow> u32 \<times> mips_core" where
  "count_now now c = materialize_count now True c"

definition count_peek :: "nat \<Rightarrow> mips_core \<Rightarrow> u32" where
  "count_peek now c =
     (if count_paused c then lo32 (cp0_count c)
      else lo32 (cp0_count c) + lo32 (elapsed_ticks now c))"

definition set_count_hz :: "u64 \<Rightarrow> mips_core \<Rightarrow> mips_core" where
  "set_count_hz hz c = c\<lparr>count_hz := hz\<rparr>"

definition arm_ip7_sequence :: "mips_core \<Rightarrow> u64 \<times> mips_core" where
  "arm_ip7_sequence c =
     (let s = ip7_seq c + 1; s = (if s = IP7_SEQ_CONSUMED then 1 else s)
      in (s, c\<lparr>ip7_seq := s, ip7_seq_shared := s\<rparr>))"

definition compare_delay_ns :: "u32 \<Rightarrow> u32 \<Rightarrow> u64 \<Rightarrow> u64 option" where
  "compare_delay_ns cmp cnt hz =
     (if hz = 0 then None
      else let delta = (if cmp - cnt = 0 then 2 ^ 32 else unat (cmp - cnt))
           in Some (word_of_nat (delta * 1000000000 div unat hz)))"

definition wrap_delay_ns :: "u64 \<Rightarrow> nat" where
  "wrap_delay_ns hz = unat (word_of_nat (2 ^ 32 * 1000000000 div unat hz) :: u64)"

definition schedule_compare_timer :: "nat \<Rightarrow> mips_core \<Rightarrow> mips_core option" where
  "schedule_compare_timer now c =
     (case compare_delay_ns (lo32 (cp0_compare c)) (lo32 (cp0_count c)) (count_hz c) of
        None \<Rightarrow> None
      | Some ns \<Rightarrow>
          if count_paused c then Some c
          else case timer_mgr c of
            None \<Rightarrow> Some c
          | Some tm \<Rightarrow>
              let tm = (case timer_id c of
                          Some tid \<Rightarrow> snd (tm_remove tid tm)
                        | None \<Rightarrow> tm);
                  ctx = \<lparr>ip7_wrap = wrap_delay_ns (count_hz c), ip7_ticket = ip7_seq c\<rparr>;
                  (tid, tm) = add_one_shot now (unat ns) ctx tm
              in Some (c\<lparr>timer_id := Some tid, timer_mgr := Some tm\<rparr>))"

text \<open>The callback of the one-shot, run by the timer thread on the shared words of the core.\<close>

definition ip7_callback :: "ip7_ctx \<Rightarrow> mips_core \<Rightarrow> timer_return \<times> mips_core" where
  "ip7_callback ctx c =
     (let (won, c) = core_claim_ip7 (ip7_ticket ctx) c
      in if won then (RescheduleOneShot (ip7_wrap ctx), c) else (TDelete, c))"

definition disarm_compare_timer :: "mips_core \<Rightarrow> mips_core" where
  "disarm_compare_timer c =
     (let c' = c\<lparr>timer_id := None\<rparr>
      in case (timer_mgr c, timer_id c) of
           (Some tm, Some tid) \<Rightarrow> c'\<lparr>timer_mgr := Some (snd (tm_remove tid tm))\<rparr>
         | _ \<Rightarrow> c')"

definition reanchor_count_and_reschedule :: "nat \<Rightarrow> mips_core \<Rightarrow> mips_core option" where
  "reanchor_count_and_reschedule now c =
     schedule_compare_timer now
       (c\<lparr>count_read_cycle := hot_cycles c, count_anchor_instant := now\<rparr>)"

definition restore_compare_deadline :: "nat \<Rightarrow> mips_core \<Rightarrow> mips_core option" where
  "restore_compare_deadline now c = reanchor_count_and_reschedule now (snd (arm_ip7_sequence c))"

definition on_cpu_stop :: "nat \<Rightarrow> mips_core \<Rightarrow> mips_core" where
  "on_cpu_stop now c =
     (if count_paused c then c
      else let c = c\<lparr>cp0_count := zext (lo32 (cp0_count c) + lo32 (elapsed_ticks now c))\<rparr>;
               c = c\<lparr>count_read_cycle := hot_cycles c, count_paused := True\<rparr>
           in case (timer_mgr c, timer_id c) of
                (Some tm, Some tid) \<Rightarrow> c\<lparr>timer_mgr := Some (snd (tm_disable tid tm))\<rparr>
              | _ \<Rightarrow> c)"

definition on_cpu_start :: "nat \<Rightarrow> mips_core \<Rightarrow> mips_core option" where
  "on_cpu_start now c = reanchor_count_and_reschedule now (c\<lparr>count_paused := False\<rparr>)"

text \<open>A write to Compare: ticket, acknowledgement, classification, re-arming.\<close>

definition write_compare :: "nat \<Rightarrow> u64 \<Rightarrow> mips_core \<Rightarrow> mips_core option" where
  "write_compare now value c =
     (let (ticket, c) = arm_ip7_sequence c;
          (count_before, c) = materialize_count now False c;
          c = c\<lparr>cp0_compare := zext (lo32 value)\<rparr>;
          c = c\<lparr>cp0_cause := cp0_cause c AND NOT CAUSE_IP7,
                hot_interrupts := hot_interrupts c AND NOT (zext CAUSE_IP7)\<rparr>;
          compare_u32 = lo32 (cp0_compare c);
          in_future = (compare_u32 - count_before \<noteq> 0 \<and> 0 <s compare_u32 - count_before);
          last_read = count_last_guest_read c;
          since_last_read = compare_u32 - last_read;
          missed = (since_last_read \<noteq> 0 \<and> since_last_read \<le> count_before - last_read);
          c = (if in_future then c
               else if compare_u32 = last_read \<or> \<not> missed then c
               else snd (core_claim_ip7 ticket c))
      in schedule_compare_timer now c)"

section \<open>Reset\<close>

definition reset_registers :: "nat \<Rightarrow> bool \<Rightarrow> mips_core \<Rightarrow> mips_core" where
  "reset_registers now soft c =
     (let c = (if soft then c
               else let c = c\<lparr>gpr := replicate (length (gpr c)) 0, hi := 0, lo := 0,
                              fpr := replicate (length (fpr c)) 0,
                              cp0_index := 0, cp0_random := 0, cp0_entrylo0 := 0,
                              cp0_entrylo1 := 0, cp0_context := 0, cp0_pagemask := 0,
                              cp0_badvaddr := 0, cp0_count := 0, cp0_entryhi := 0,
                              cp0_compare := 0, hot_cycles := 0, count_read_cycle := 0,
                              count_anchor_instant := now\<rparr>;
                        c = disarm_compare_timer c
                    in c\<lparr>cp0_random := tlb_entries c - 1, cp0_random_cycle := 0,
                         cp0_prid := reset_prid c, cp0_watchlo := 0, cp0_watchhi := 0,
                         cp0_xcontext := 0, cp0_ecc := 0, cp0_cacheerr := 0,
                         cp0_taglo := 0, cp0_taghi := 0,
                         fpu_fir := reset_fir c, fpu_fccr := 0, fpu_fexr := 0,
                         fpu_fenr := 0, fpu_fcsr := 0, host_fpu_mode := 0\<rparr>);
          c = c\<lparr>pc := 0xFFFFFFFFBFC00000, cp0_wired := 0,
                cp0_status := STATUS_BEV OR STATUS_ERL\<rparr>;
          c = (if soft then c\<lparr>cp0_status := cp0_status c OR STATUS_SR\<rparr> else c)
      in c\<lparr>cp0_cause := 0, cp0_epc := 0, cp0_errorepc := 0, running := False,
           halted := False\<rparr>)"

definition core_reset :: "nat \<Rightarrow> bool \<Rightarrow> mips_core \<Rightarrow> mips_core" where
  "core_reset now soft c =
     (let c = reset_registers now soft c
      in c\<lparr>hot_interrupts := hot_interrupts c AND HOST_PARK_BIT\<rparr>)"

definition mips_core_zero :: "nat \<Rightarrow> mips_core" where
  "mips_core_zero now =
     \<lparr>hot_interrupts = 0, hot_cycles = 0, cp0_count = 0, cp0_compare = 0, pc = 0,
      in_delay_slot = False, delay_slot_target = 0, gpr = replicate 32 0, hi = 0, lo = 0,
      fpr = replicate 32 0, fpu_fir = 0, fpu_fccr = 0, fpu_fexr = 0, fpu_fenr = 0,
      fpu_fcsr = 0, nanotlb = replicate 3 nano_default,
      nutlb_valid = replicate 2 (replicate NUM_NUTLB_WORDS 0),
      cp0_index = 0, cp0_random = 0, cp0_entrylo0 = 0, cp0_entrylo1 = 0, cp0_context = 0,
      cp0_pagemask = 0, cp0_wired = 0, cp0_badvaddr = 0, cp0_entryhi = 0, cp0_status = 0,
      cp0_cause = 0, cp0_epc = 0, cp0_prid = 0, cp0_config = 0x8000, cp0_lladdr = 0,
      cp0_watchlo = 0, cp0_watchhi = 0, cp0_xcontext = 0, cp0_ecc = 0, cp0_cacheerr = 0,
      cp0_taglo = 0, cp0_taghi = 0, cp0_errorepc = 0, tlb_entries = 48,
      reset_prid = 0x440, reset_fir = 0x500, cp0_random_cycle = 0, fasttick_count = 0,
      smp = False, ll_value = 0, ll_phys = 0, running = False, halted = False,
      count_anchor_instant = now, count_read_cycle = 0, count_hz = DEFAULT_COUNT_HZ,
      count_paused = False, timer_mgr = None, timer_id = None, count_last_guest_read = 0,
      count_write_samples = False, ip7_seq = 0, ip7_seq_shared = 0,
      nutlb = replicate 2 (replicate NUM_NUTLB_ENTRIES nu_default), host_fpu_mode = 0\<rparr>"

definition mips_core_new :: "nat \<Rightarrow> mips_core" where
  "mips_core_new now = reset_registers now False (mips_core_zero now)"

end
