(* ===== verification/Mips_Cp0.thy ===== *)
theory Mips_Cp0
  imports Mips_Core
begin

text \<open>
  Coprocessor 0 access, privilege, the flushes of the nano- and micro-TLB, the floating point
  register file in both FR modes, the FPU control registers, and exception delivery:
  the rest of \<^verbatim>\<open>src/src/cpu/mips_core.rs\<close>.
\<close>

section \<open>Reading and writing coprocessor 0\<close>

definition read_cp0 :: "nat \<Rightarrow> u32 \<Rightarrow> mips_core \<Rightarrow> u64 \<times> mips_core" where
  "read_cp0 now reg c =
     (if reg = 0 then (zext (cp0_index c), c)
      else if reg = 1 then (let c = update_random c in (zext (cp0_random c), c))
      else if reg = 2 then (cp0_entrylo0 c AND 0x3FFFFFFF, c)
      else if reg = 3 then (cp0_entrylo1 c AND 0x3FFFFFFF, c)
      else if reg = 4 then (cp0_context c, c)
      else if reg = 5 then (cp0_pagemask c AND 0x01FFE000, c)
      else if reg = 6 then (zext (cp0_wired c) AND 0x3F, c)
      else if reg = 8 then (cp0_badvaddr c, c)
      else if reg = 9 then (let (n, c) = count_now now c
                            in (zext n, c\<lparr>count_last_guest_read := n\<rparr>))
      else if reg = 10 then (cp0_entryhi c, c)
      else if reg = 11 then (cp0_compare c, c)
      else if reg = 12 then (zext (cp0_status c), c)
      else if reg = 13 then (zext (cp0_cause c), c)
      else if reg = 14 then (cp0_epc c, c)
      else if reg = 15 then (zext (cp0_prid c), c)
      else if reg = 16 then (zext (cp0_config c), c)
      else if reg = 17 then (cp0_lladdr c, c)
      else if reg = 18 then (zext (cp0_watchlo c), c)
      else if reg = 19 then (zext (cp0_watchhi c), c)
      else if reg = 20 then (cp0_xcontext c, c)
      else if reg = 25 then (0, c)
      else if reg = 26 then (zext (cp0_ecc c), c)
      else if reg = 27 then (zext (cp0_cacheerr c), c)
      else if reg = 28 then (cp0_taglo c, c)
      else if reg = 29 then (zext (cp0_taghi c), c)
      else if reg = 30 then (cp0_errorepc c, c)
      else (0, c))"

definition read_cp0_debug :: "nat \<Rightarrow> u32 \<Rightarrow> mips_core \<Rightarrow> u64" where
  "read_cp0_debug now reg c =
     (if reg = 0 then zext (cp0_index c)
      else if reg = 1 then zext (cp0_random c)
      else if reg = 2 then cp0_entrylo0 c AND 0x3FFFFFFF
      else if reg = 3 then cp0_entrylo1 c AND 0x3FFFFFFF
      else if reg = 4 then cp0_context c
      else if reg = 5 then cp0_pagemask c AND 0x01FFE000
      else if reg = 6 then zext (cp0_wired c) AND 0x3F
      else if reg = 8 then cp0_badvaddr c
      else if reg = 9 then zext (count_peek now c)
      else if reg = 10 then cp0_entryhi c
      else if reg = 11 then cp0_compare c
      else if reg = 12 then zext (cp0_status c)
      else if reg = 13 then zext (cp0_cause c)
      else if reg = 14 then cp0_epc c
      else if reg = 15 then zext (cp0_prid c)
      else if reg = 16 then zext (cp0_config c)
      else if reg = 17 then cp0_lladdr c
      else if reg = 18 then zext (cp0_watchlo c)
      else if reg = 19 then zext (cp0_watchhi c)
      else if reg = 20 then cp0_xcontext c
      else if reg = 26 then zext (cp0_ecc c)
      else if reg = 27 then zext (cp0_cacheerr c)
      else if reg = 28 then cp0_taglo c
      else if reg = 29 then zext (cp0_taghi c)
      else if reg = 30 then cp0_errorepc c
      else 0)"

text \<open>A write to Status also runs the installed callback, which belongs to the executor.\<close>

definition write_cp0 :: "nat \<Rightarrow> u32 \<Rightarrow> u64 \<Rightarrow> mips_core \<Rightarrow> mips_core option" where
  "write_cp0 now reg value c =
     (if reg = 0 then Some (c\<lparr>cp0_index := lo32 value AND (CP0_INDEX_P OR CP0_INDEX_SLOT_MASK)\<rparr>)
      else if reg = 1 then Some c
      else if reg = 2 then Some (c\<lparr>cp0_entrylo0 := value AND 0x3FFFFFFF\<rparr>)
      else if reg = 3 then Some (c\<lparr>cp0_entrylo1 := value AND 0x3FFFFFFF\<rparr>)
      else if reg = 4 then Some (c\<lparr>cp0_context := value\<rparr>)
      else if reg = 5 then Some (c\<lparr>cp0_pagemask := value AND 0x01FFE000\<rparr>)
      else if reg = 6 then Some (c\<lparr>cp0_wired := lo32 value, cp0_random := tlb_entries c - 1,
                                   cp0_random_cycle := hot_cycles c\<rparr>)
      else if reg = 8 then Some c
      else if reg = 9 then
        (let c = c\<lparr>cp0_count := zext (lo32 value)\<rparr>;
             c = (if count_write_samples c then c\<lparr>count_last_guest_read := lo32 value\<rparr> else c)
         in reanchor_count_and_reschedule now c)
      else if reg = 10 then Some (c\<lparr>cp0_entryhi := value AND 0xC00000FFFFFFE0FF\<rparr>)
      else if reg = 11 then write_compare now value c
      else if reg = 12 then Some (c\<lparr>cp0_status := lo32 value\<rparr>)
      else if reg = 13 then
        (let m = CAUSE_IP0 OR CAUSE_IP1
         in Some (c\<lparr>cp0_cause := (cp0_cause c AND NOT m) OR (lo32 value AND m)\<rparr>))
      else if reg = 14 then Some (c\<lparr>cp0_epc := value\<rparr>)
      else if reg = 15 then Some c
      else if reg = 16 then
        (let m = 0x3F in Some (c\<lparr>cp0_config := (cp0_config c AND NOT m) OR (lo32 value AND m)\<rparr>))
      else if reg = 17 then Some (c\<lparr>cp0_lladdr := value\<rparr>)
      else if reg = 18 then Some (c\<lparr>cp0_watchlo := lo32 value\<rparr>)
      else if reg = 19 then Some (c\<lparr>cp0_watchhi := lo32 value\<rparr>)
      else if reg = 20 then Some (c\<lparr>cp0_xcontext := value\<rparr>)
      else if reg = 25 then Some c
      else if reg = 26 then Some (c\<lparr>cp0_ecc := lo32 value\<rparr>)
      else if reg = 27 then Some (c\<lparr>cp0_cacheerr := lo32 value\<rparr>)
      else if reg = 28 then Some (c\<lparr>cp0_taglo := value\<rparr>)
      else if reg = 29 then Some (c\<lparr>cp0_taghi := lo32 value\<rparr>)
      else if reg = 30 then Some (c\<lparr>cp0_errorepc := value\<rparr>)
      else Some c)"

section \<open>Nano- and micro-TLB\<close>

definition core_nanotlb_invalidate :: "mips_core \<Rightarrow> mips_core" where
  "core_nanotlb_invalidate c =
     (let n = nanotlb c
      in c\<lparr>nanotlb := n[0 := nano_invalidate (n ! 0), 1 := nano_invalidate (n ! 1),
                        2 := nano_invalidate (n ! 2)]\<rparr>)"

definition nutlb_clear :: "mips_core \<Rightarrow> mips_core" where
  "nutlb_clear c = c\<lparr>nutlb_valid := replicate 2 (replicate NUM_NUTLB_WORDS 0)\<rparr>"

definition nutlb_is_valid :: "nat \<Rightarrow> nat \<Rightarrow> mips_core \<Rightarrow> bool" where
  "nutlb_is_valid arr i c = (shr (nutlb_valid c ! arr ! (i div 64)) (i mod 64) AND 1 \<noteq> 0)"

definition nutlb_set_valid :: "nat \<Rightarrow> nat \<Rightarrow> mips_core \<Rightarrow> mips_core" where
  "nutlb_set_valid arr i c =
     (let ws = nutlb_valid c ! arr; w = ws ! (i div 64) OR shl 1 (i mod 64)
      in c\<lparr>nutlb_valid := (nutlb_valid c)[arr := ws[i div 64 := w]]\<rparr>)"

section \<open>Interrupt lines and privilege\<close>

definition set_interrupt :: "u8 \<Rightarrow> mips_core \<Rightarrow> mips_core" where
  "set_interrupt b c = c\<lparr>hot_interrupts := hot_interrupts c OR shl 1 (unat (b + 8))\<rparr>"

definition clear_interrupt :: "u8 \<Rightarrow> mips_core \<Rightarrow> mips_core" where
  "clear_interrupt b c = c\<lparr>hot_interrupts := hot_interrupts c AND NOT (shl 1 (unat (b + 8)))\<rparr>"

definition status_privilege :: "u32 \<Rightarrow> privilege_mode" where
  "status_privilege s =
     (if s AND (STATUS_EXL OR STATUS_ERL) \<noteq> 0 then Kernel
      else let ksu = shr s STATUS_KSU_SHIFT AND 3
      in if ksu = KSU_KERNEL then Kernel
         else if ksu = KSU_SUPERVISOR then Supervisor
         else if ksu = KSU_USER then User
         else Kernel)"

definition get_privilege_mode :: "mips_core \<Rightarrow> privilege_mode" where
  "get_privilege_mode c = status_privilege (cp0_status c)"

definition is_64bit_mode :: "mips_core \<Rightarrow> bool" where
  "is_64bit_mode c =
     (case get_privilege_mode c of
        Kernel \<Rightarrow> cp0_status c AND STATUS_KX \<noteq> 0
      | Supervisor \<Rightarrow> cp0_status c AND STATUS_SX \<noteq> 0
      | User \<Rightarrow> cp0_status c AND STATUS_UX \<noteq> 0)"

definition is_kernel_mode :: "mips_core \<Rightarrow> bool" where
  "is_kernel_mode c = (get_privilege_mode c = Kernel)"

definition interrupts_enabled :: "mips_core \<Rightarrow> bool" where
  "interrupts_enabled c =
     (cp0_status c AND STATUS_IE \<noteq> 0 \<and> \<not> (cp0_status c AND STATUS_EXL \<noteq> 0)
      \<and> \<not> (cp0_status c AND STATUS_ERL \<noteq> 0))"

section \<open>Floating point registers\<close>

definition read_fpr_s :: "u32 \<Rightarrow> mips_core \<Rightarrow> u32" where
  "read_fpr_s reg c = lo32 (fpr c ! unat reg)"

definition write_fpr_s :: "u32 \<Rightarrow> u32 \<Rightarrow> mips_core \<Rightarrow> mips_core" where
  "write_fpr_s reg v c =
     c\<lparr>fpr := (fpr c)[unat reg := (fpr c ! unat reg AND 0xFFFFFFFF00000000) OR zext v]\<rparr>"

definition read_fpr_d :: "u32 \<Rightarrow> mips_core \<Rightarrow> u64" where
  "read_fpr_d reg c = fpr c ! unat reg"

definition write_fpr_d :: "u32 \<Rightarrow> u64 \<Rightarrow> mips_core \<Rightarrow> mips_core" where
  "write_fpr_d reg v c = c\<lparr>fpr := (fpr c)[unat reg := v]\<rparr>"

definition read_fpr_w :: "u32 \<Rightarrow> mips_core \<Rightarrow> u32" where
  "read_fpr_w reg c = lo32 (fpr c ! unat reg)"

definition write_fpr_w :: "u32 \<Rightarrow> u32 \<Rightarrow> mips_core \<Rightarrow> mips_core" where
  "write_fpr_w reg v c =
     c\<lparr>fpr := (fpr c)[unat reg := (fpr c ! unat reg AND 0xFFFFFFFF00000000) OR zext v]\<rparr>"

definition read_fpr_l :: "u32 \<Rightarrow> mips_core \<Rightarrow> u64" where
  "read_fpr_l reg c = fpr c ! unat reg"

definition write_fpr_l :: "u32 \<Rightarrow> u64 \<Rightarrow> mips_core \<Rightarrow> mips_core" where
  "write_fpr_l reg v c = c\<lparr>fpr := (fpr c)[unat reg := v]\<rparr>"

definition read_fpr_l_fr0 :: "u32 \<Rightarrow> mips_core \<Rightarrow> u64" where
  "read_fpr_l_fr0 reg c = fpr c ! unat (reg AND NOT 1)"

definition write_fpr_l_fr0 :: "u32 \<Rightarrow> u64 \<Rightarrow> mips_core \<Rightarrow> mips_core" where
  "write_fpr_l_fr0 reg v c = c\<lparr>fpr := (fpr c)[unat (reg AND NOT 1) := v]\<rparr>"

definition read_fpr_d_fr0 :: "u32 \<Rightarrow> mips_core \<Rightarrow> u64" where
  "read_fpr_d_fr0 reg c = fpr c ! unat (reg AND NOT 1)"

definition write_fpr_d_fr0 :: "u32 \<Rightarrow> u64 \<Rightarrow> mips_core \<Rightarrow> mips_core" where
  "write_fpr_d_fr0 reg v c = c\<lparr>fpr := (fpr c)[unat (reg AND NOT 1) := v]\<rparr>"

definition read_fpr_w_fr0 :: "u32 \<Rightarrow> mips_core \<Rightarrow> u32" where
  "read_fpr_w_fr0 reg c =
     (let shift = unat (shl (reg AND 1) 5) in lo32 (shr (fpr c ! unat (reg AND NOT 1)) shift))"

definition write_fpr_w_fr0 :: "u32 \<Rightarrow> u32 \<Rightarrow> mips_core \<Rightarrow> mips_core" where
  "write_fpr_w_fr0 reg v c =
     (let shift = unat (shl (reg AND 1) 5); i = unat (reg AND NOT 1)
      in c\<lparr>fpr := (fpr c)[i := (fpr c ! i AND NOT (shl 0xFFFFFFFF shift)) OR shl (zext v) shift]\<rparr>)"

section \<open>FPU control registers\<close>

definition fccr_from_fcsr :: "u32 \<Rightarrow> u32" where
  "fccr_from_fcsr fcsr =
     (let cc0 = shr fcsr 23 AND 1; cc1_7 = shr fcsr 25 AND 0x7F in cc0 OR shl cc1_7 1)"

definition fcsr_with_fccr :: "u32 \<Rightarrow> u32 \<Rightarrow> u32" where
  "fcsr_with_fccr fcsr fccr =
     (let cc0 = fccr AND 1; cc1_7 = shr fccr 1 AND 0x7F
      in (fcsr AND NOT (shl 1 23 OR shl 0x7F 25)) OR shl cc0 23 OR shl cc1_7 25)"

definition read_fpu_control :: "u32 \<Rightarrow> mips_core \<Rightarrow> u32" where
  "read_fpu_control reg c =
     (if reg = 0 then fpu_fir c
      else if reg = 25 then fccr_from_fcsr (fpu_fcsr c)
      else if reg = 26 then fpu_fexr c
      else if reg = 28 then fpu_fenr c
      else if reg = 31 then fpu_fcsr c AND NOT 0x007C0000
      else 0)"

definition write_fpu_control :: "u32 \<Rightarrow> u32 \<Rightarrow> mips_core \<Rightarrow> mips_core" where
  "write_fpu_control reg value c =
     (if reg = 0 then c
      else if reg = 25 then
        (let c = c\<lparr>fpu_fccr := value AND 0xFF\<rparr>
         in c\<lparr>fpu_fcsr := fcsr_with_fccr (fpu_fcsr c) (fpu_fccr c)\<rparr>)
      else if reg = 26 then c\<lparr>fpu_fexr := value\<rparr>
      else if reg = 28 then c\<lparr>fpu_fenr := value\<rparr>
      else if reg = 31 then
        c\<lparr>fpu_fcsr := value, fpu_fccr := fccr_from_fcsr value,
          host_fpu_mode := ucast (value AND 3)\<rparr>
      else c)"

definition fpu_cc_bit :: "u32 \<Rightarrow> nat" where
  "fpu_cc_bit cc = (if cc = 0 then 23 else 24 + unat cc)"

definition get_fpu_cc :: "u32 \<Rightarrow> mips_core \<Rightarrow> bool" where
  "get_fpu_cc cc c =
     (if cc = 0 then shr (fpu_fcsr c) 23 AND 1 \<noteq> 0
      else if cc < 8 then shr (fpu_fcsr c) (24 + unat cc) AND 1 \<noteq> 0
      else False)"

definition set_fpu_cc :: "u32 \<Rightarrow> bool \<Rightarrow> mips_core \<Rightarrow> mips_core" where
  "set_fpu_cc cc v c =
     (if cc \<ge> 8 then c
      else let b = fpu_cc_bit cc;
               c = (if v then c\<lparr>fpu_fcsr := fpu_fcsr c OR shl 1 b\<rparr>
                    else c\<lparr>fpu_fcsr := fpu_fcsr c AND NOT (shl 1 b)\<rparr>)
           in c\<lparr>fpu_fccr := fccr_from_fcsr (fpu_fcsr c)\<rparr>)"

section \<open>Exception delivery\<close>

definition EXEC_IS_EXCEPTION :: u32 where "EXEC_IS_EXCEPTION = shl 1 27"
definition EXEC_IS_TLB_REFILL :: u32 where "EXEC_IS_TLB_REFILL = shl 1 28"
definition EXEC_IS_XTLB_REFILL :: u32 where "EXEC_IS_XTLB_REFILL = shl 1 29"
definition EXEC_IS_CACHE_ERR :: u32 where "EXEC_IS_CACHE_ERR = shl 1 30"

lemmas exec_flag_bits [core_simps] =
  EXEC_IS_EXCEPTION_def EXEC_IS_TLB_REFILL_def EXEC_IS_XTLB_REFILL_def EXEC_IS_CACHE_ERR_def

definition deliver_cache_error :: "u64 \<Rightarrow> bool \<Rightarrow> mips_core \<Rightarrow> mips_core" where
  "deliver_cache_error fault_pc bd c =
     (let c = c\<lparr>cp0_errorepc := (if bd then fault_pc - 4 else fault_pc),
                cp0_status := cp0_status c OR STATUS_ERL\<rparr>;
          base = (if cp0_status c AND STATUS_BEV \<noteq> 0 then 0xFFFFFFFFBFC00200
                  else 0xFFFFFFFFA0000000)
      in c\<lparr>pc := base + 0x100, in_delay_slot := False\<rparr>)"

definition deliver_exception_at :: "u32 \<Rightarrow> u64 \<Rightarrow> bool \<Rightarrow> mips_core \<Rightarrow> mips_core" where
  "deliver_exception_at status fault_pc bd c =
     (if status AND EXEC_IS_CACHE_ERR \<noteq> 0 then deliver_cache_error fault_pc bd c
      else let is_tlb_refill = (status AND EXEC_IS_TLB_REFILL \<noteq> 0);
               is_xtlb_refill = (status AND EXEC_IS_XTLB_REFILL \<noteq> 0);
               was_exl = (cp0_status c AND STATUS_EXL \<noteq> 0);
               cause = (cp0_cause c AND NOT CAUSE_EXCCODE_MASK)
                       OR (status AND CAUSE_EXCCODE_MASK);
               (cause, c) = (if was_exl then (cause, c)
                             else if bd then (cause OR CAUSE_BD, c\<lparr>cp0_epc := fault_pc - 4\<rparr>)
                             else (cause AND NOT CAUSE_BD, c\<lparr>cp0_epc := fault_pc\<rparr>));
               c = c\<lparr>cp0_cause := cause, cp0_status := cp0_status c OR STATUS_EXL\<rparr>;
               vector_base = (if cp0_status c AND STATUS_BEV \<noteq> 0 then 0xFFFFFFFFBFC00200
                              else 0xFFFFFFFF80000000);
               offset = (if \<not> was_exl \<and> is_tlb_refill
                         then (if is_xtlb_refill then 0x080 else 0x000)
                         else 0x180)
           in c\<lparr>pc := vector_base + offset, in_delay_slot := False\<rparr>)"

definition deliver_exception :: "u32 \<Rightarrow> mips_core \<Rightarrow> mips_core" where
  "deliver_exception status c = deliver_exception_at status (pc c) (in_delay_slot c) c"

end
