(* ===== verification/Mips_Tlb.thy ===== *)
theory Mips_Tlb
  imports Iris_Prelude
begin

text \<open>
  The joint TLB of \<^verbatim>\<open>src/src/cpu/mips_tlb.rs\<close> (default build, feature \<^verbatim>\<open>tlbvmap\<close> on; the
  statistics counters of \<^verbatim>\<open>tlbstats\<close> and the self check of \<^verbatim>\<open>tlbcheck\<close> are not part of that build).

  State: the architectural entries, the pre-decoded shadow entries, the \<open>vmap\<close> index from VA[31:13]
  to an entry and the four most-recently-used lists threaded through \<open>mru_next\<close>.  The \<open>vmap\<close> array
  of \<open>2 ^ 19\<close> bytes is a function on slot numbers; every access of the code is below \<open>VMAP_SIZE\<close>.
  \<open>None\<close> is a panic (index out of bounds, a violated \<^verbatim>\<open>assert!\<close>) or a walk of a cyclic list.
\<close>

section \<open>Entries and results\<close>

datatype access_type = Fetch | Read | Write | Debug

datatype cache_attr = Uncached | Cacheable | CacheableCoherent

record tlb_entry =
  te_page_mask :: u64
  te_entry_hi :: u64
  te_entry_lo :: "u64 \<times> u64"
  te_selector_bit_shift :: nat
  te_vcmp32 :: u64
  te_vpn_hi32 :: u64
  te_vcmp64 :: u64
  te_vpn_hi64 :: u64
  te_offset_mask :: u64
  te_pfn_base :: "u64 \<times> u64"

definition tlb_entry_new :: tlb_entry where
  "tlb_entry_new = \<lparr>
     te_page_mask = 0, te_entry_hi = 0, te_entry_lo = (0, 0),
     te_selector_bit_shift = 12,
     te_vcmp32 = NOT 0x1FFF AND 0x00000000FFFFE000, te_vpn_hi32 = 0,
     te_vcmp64 = NOT 0x1FFF AND 0xC00000FFFFFFE000, te_vpn_hi64 = 0,
     te_offset_mask = 0xFFF, te_pfn_base = (0, 0)\<rparr>"

definition is_valid_even :: "tlb_entry \<Rightarrow> bool" where
  "is_valid_even e \<longleftrightarrow> fst (te_entry_lo e) AND 2 \<noteq> 0"

definition is_valid_odd :: "tlb_entry \<Rightarrow> bool" where
  "is_valid_odd e \<longleftrightarrow> snd (te_entry_lo e) AND 2 \<noteq> 0"

definition is_global :: "tlb_entry \<Rightarrow> bool" where
  "is_global e \<longleftrightarrow> te_entry_hi e AND 0x1000 \<noteq> 0"

definition entry_asid :: "tlb_entry \<Rightarrow> u8" where
  "entry_asid e = ucast (te_entry_hi e AND 0xFF)"

definition entry_vpn2 :: "tlb_entry \<Rightarrow> u64" where
  "entry_vpn2 e = shr (te_entry_hi e) 13 AND 0x7FFFFFF"

definition entry_region :: "tlb_entry \<Rightarrow> u8" where
  "entry_region e = ucast (shr (te_entry_hi e) 62 AND 3)"

datatype tlb_result =
    TlbHit (phys_addr: u64) (hit_attr: cache_attr) (hit_dirty: bool) (hit_global: bool)
  | TlbMiss u64
  | TlbInvalid u64
  | TlbModified u64

section \<open>Constants\<close>

definition TLB_MAX_ENTRIES :: nat where "TLB_MAX_ENTRIES = 64"
definition VMAP_SIZE :: nat where "VMAP_SIZE = 524288"
definition VMAP_MISS :: u8 where "VMAP_MISS = 0xFF"
definition VMAP_MULTI :: u8 where "VMAP_MULTI = 0x80"
definition VMAP_IDX_MASK :: u8 where "VMAP_IDX_MASK = 0x7F"
definition MRU_NONE :: u8 where "MRU_NONE = 0xFF"
definition MRU_LISTS :: nat where "MRU_LISTS = 4"

definition DEFAULT_C_ATTR :: "cache_attr list" where
  "DEFAULT_C_ATTR = [Uncached, Uncached, Uncached, Cacheable,
                     Uncached, CacheableCoherent, Uncached, Uncached]"

text \<open>The discriminant of the access type, used as the number of its MRU list.\<close>

fun access_index :: "access_type \<Rightarrow> nat" where
  "access_index Fetch = 0"
| "access_index Read = 1"
| "access_index Write = 2"
| "access_index Debug = 3"

section \<open>Shadow entries\<close>

record shadow_entry =
  se_vcmp32 :: u64
  se_vpn_hi32 :: u64
  se_vcmp64 :: u64
  se_vpn_hi64 :: u64
  se_pfn_base :: "u64 \<times> u64"
  se_offset_mask :: u64
  se_valid_dirty :: "u8 \<times> u8"
  se_cache_attr :: "cache_attr \<times> cache_attr"
  se_asid :: u8
  se_global :: bool
  se_selector_bit_shift :: nat

definition shadow_invalid :: shadow_entry where
  "shadow_invalid = \<lparr>
     se_vcmp32 = 0, se_vpn_hi32 = NOT 0, se_vcmp64 = 0, se_vpn_hi64 = NOT 0,
     se_pfn_base = (0, 0), se_offset_mask = 0xFFF, se_valid_dirty = (0, 0),
     se_cache_attr = (Uncached, Uncached), se_asid = 0, se_global = False,
     se_selector_bit_shift = 12\<rparr>"

definition valid_dirty_of :: "u64 \<Rightarrow> u8" where
  "valid_dirty_of lo = (if lo AND 2 \<noteq> 0 then 1 else 0) OR shl (if lo AND 4 \<noteq> 0 then 1 else 0) 1"

definition c_field_attr :: "cache_attr list \<Rightarrow> u64 \<Rightarrow> cache_attr" where
  "c_field_attr table lo = table ! unat (shr lo 3 AND 7)"

definition shadow_from_entry :: "tlb_entry \<Rightarrow> cache_attr list \<Rightarrow> shadow_entry" where
  "shadow_from_entry e table = \<lparr>
     se_vcmp32 = te_vcmp32 e, se_vpn_hi32 = te_vpn_hi32 e,
     se_vcmp64 = te_vcmp64 e, se_vpn_hi64 = te_vpn_hi64 e,
     se_pfn_base = te_pfn_base e, se_offset_mask = te_offset_mask e,
     se_valid_dirty = (valid_dirty_of (fst (te_entry_lo e)), valid_dirty_of (snd (te_entry_lo e))),
     se_cache_attr = (c_field_attr table (fst (te_entry_lo e)), c_field_attr table (snd (te_entry_lo e))),
     se_asid = entry_asid e, se_global = is_global e,
     se_selector_bit_shift = te_selector_bit_shift e\<rparr>"

section \<open>The TLB\<close>

record mips_tlb =
  entries :: "tlb_entry list"
  shadow :: "shadow_entry list"
  mru_head :: "u8 list"
  mru_next :: "u8 list list"
  num_entries :: nat
  c_attr :: "cache_attr list"
  vmap :: "nat \<Rightarrow> u8"

text \<open>The canonical order \<open>0, 1, \<dots>, n - 1\<close> written into one list; the last slot is set separately.\<close>

definition mru_canonical :: "nat \<Rightarrow> u8 list \<Rightarrow> u8 list" where
  "mru_canonical n nx = fold (\<lambda>i nx. nx[i := of_nat (i + 1)]) [0..<n - 1] nx"

definition mips_tlb_new :: "nat \<Rightarrow> mips_tlb option" where
  "mips_tlb_new n =
     (if 1 < n \<and> n \<le> TLB_MAX_ENTRIES then
        Some \<lparr>entries = replicate TLB_MAX_ENTRIES tlb_entry_new,
              shadow = replicate TLB_MAX_ENTRIES shadow_invalid,
              mru_head = replicate MRU_LISTS 0,
              mru_next = map (mru_canonical n) (replicate MRU_LISTS (replicate TLB_MAX_ENTRIES MRU_NONE)),
              num_entries = n,
              c_attr = DEFAULT_C_ATTR,
              vmap = (\<lambda>_. VMAP_MISS)\<rparr>
      else None)"

definition mru_promote :: "nat \<Rightarrow> u8 \<Rightarrow> u8 \<Rightarrow> mips_tlb \<Rightarrow> mips_tlb" where
  "mru_promote list target prev t =
     (if prev = MRU_NONE then t
      else let nx = mru_next t ! list;
               after = nx ! unat target;
               nx1 = nx[unat prev := after];
               nx2 = nx1[unat target := mru_head t ! list]
           in t\<lparr>mru_next := (mru_next t)[list := nx2], mru_head := (mru_head t)[list := target]\<rparr>)"

subsection \<open>The vmap index\<close>

definition vmap_range :: "tlb_entry \<Rightarrow> nat \<times> nat" where
  "vmap_range e =
     (let mask = te_page_mask e OR 0x1FFF;
          count = max (shr (mask + 1) 13) 1;
          start = zext (shr (lo32 (te_entry_hi e)) 13) AND NOT (count - 1)
      in (unat start, unat count))"

definition vmap_clear :: "nat \<Rightarrow> nat \<Rightarrow> (nat \<Rightarrow> u8) \<Rightarrow> (nat \<Rightarrow> u8)" where
  "vmap_clear start count vm =
     fold (\<lambda>i vm. let slot = start + i in
                  if slot < VMAP_SIZE then vm(slot := VMAP_MISS) else vm) [0..<count] vm"

definition vmap_fill_range :: "nat \<Rightarrow> nat \<Rightarrow> nat \<Rightarrow> (nat \<Rightarrow> u8) \<Rightarrow> (nat \<Rightarrow> u8)" where
  "vmap_fill_range entry_idx start count vm =
     (let tag = of_nat entry_idx :: u8 in
      fold (\<lambda>i vm. let slot = start + i in
                   if slot < VMAP_SIZE
                   then vm(slot := if vm slot = VMAP_MISS then tag else tag OR VMAP_MULTI)
                   else vm) [0..<count] vm)"

definition vmap_refill_step :: "tlb_entry list \<Rightarrow> nat \<Rightarrow> nat \<times> nat \<Rightarrow> nat \<Rightarrow> (nat \<Rightarrow> u8) \<Rightarrow> (nat \<Rightarrow> u8)" where
  "vmap_refill_step es index old_range i vm =
     (if i = index then vm
      else let (start, count) = vmap_range (es ! i);
               lo = max start (fst old_range);
               hi = min (start + count) (fst old_range + snd old_range)
           in if lo < hi then vmap_fill_range i lo (hi - lo) vm else vm)"

definition vmap_replace :: "nat \<Rightarrow> nat \<times> nat \<Rightarrow> mips_tlb \<Rightarrow> mips_tlb" where
  "vmap_replace index old_range t =
     (let vm1 = vmap_clear (fst old_range) (snd old_range) (vmap t);
          vm2 = fold (vmap_refill_step (entries t) index old_range) [0..<num_entries t] vm1;
          (new_start, new_count) = vmap_range (entries t ! index)
      in t\<lparr>vmap := vmap_fill_range index new_start new_count vm2\<rparr>)"

subsection \<open>Lookup\<close>

definition shadow_match :: "bool \<Rightarrow> u64 \<Rightarrow> u8 \<Rightarrow> shadow_entry \<Rightarrow> bool" where
  "shadow_match is64 va asid s \<longleftrightarrow>
     (let vcmp = (if is64 then se_vcmp64 s else se_vcmp32 s);
          vpn_hi = (if is64 then se_vpn_hi64 s else se_vpn_hi32 s)
      in va AND vcmp = vpn_hi \<and> (se_global s \<or> se_asid s = asid))"

definition shadow_outcome :: "u64 \<Rightarrow> access_type \<Rightarrow> shadow_entry \<Rightarrow> tlb_result" where
  "shadow_outcome va at s =
     (let i = unat (shr va (se_selector_bit_shift s) AND 1);
          vd = at2 (se_valid_dirty s) i;
          dirty = (vd AND 2 \<noteq> 0)
      in if vd AND 1 = 0 then TlbInvalid (shr va 13)
         else if at = Write \<and> \<not> dirty then TlbModified (shr va 13)
         else TlbHit (at2 (se_pfn_base s) i OR (va AND se_offset_mask s))
                     (at2 (se_cache_attr s) i) dirty (se_global s))"

text \<open>The walk of one MRU list: \<open>Some None\<close> at its end, else the matching slot and its predecessor.\<close>

partial_function (option) mru_scan ::
    "(shadow_entry \<Rightarrow> bool) \<Rightarrow> shadow_entry list \<Rightarrow> u8 list \<Rightarrow> u8 \<Rightarrow> u8 \<Rightarrow> (u8 \<times> u8) option option" where
  "mru_scan P sh nx prev cur =
     (if cur = MRU_NONE then Some None
      else if \<not> (unat cur < length nx \<and> unat cur < length sh) then None
      else if P (sh ! unat cur) then Some (Some (cur, prev))
      else mru_scan P sh nx cur (nx ! unat cur))"

definition mru_lookup :: "bool \<Rightarrow> mips_tlb \<Rightarrow> u64 \<Rightarrow> u8 \<Rightarrow> access_type \<Rightarrow> (tlb_result \<times> mips_tlb) option" where
  "mru_lookup is64 t va asid at =
     (let list = access_index at in
      case mru_scan (shadow_match is64 va asid) (shadow t) (mru_next t ! list) MRU_NONE (mru_head t ! list) of
        None \<Rightarrow> None
      | Some None \<Rightarrow> Some (TlbMiss (shr va 13), t)
      | Some (Some (cur, prev)) \<Rightarrow>
          Some (shadow_outcome va at (shadow t ! unat cur), mru_promote list cur prev t))"

definition tlb_translate :: "bool \<Rightarrow> mips_tlb \<Rightarrow> u64 \<Rightarrow> u8 \<Rightarrow> access_type \<Rightarrow> (tlb_result \<times> mips_tlb) option" where
  "tlb_translate is64 t va asid at =
     (let slot = vmap t (unat (shr (lo32 va) 13)) in
      if slot \<noteq> VMAP_MISS then
        (case idx (shadow t) (unat (slot AND VMAP_IDX_MASK)) of
           None \<Rightarrow> None
         | Some s \<Rightarrow>
             if shadow_match is64 va asid s then Some (shadow_outcome va at s, t)
             else if slot AND VMAP_MULTI = 0 then Some (TlbMiss (shr va 13), t)
             else mru_lookup is64 t va asid at)
      else Some (TlbMiss (shr va 13), t))"

subsection \<open>Entry access\<close>

definition tlb_entry_derive :: "tlb_entry \<Rightarrow> tlb_entry" where
  "tlb_entry_derive e =
     (let mask = te_page_mask e OR 0x1FFF;
          shift = trailing_ones mask - 1;
          vcmp32 = NOT mask AND 0x00000000FFFFE000;
          vcmp64 = NOT mask AND 0xC00000FFFFFFE000;
          offset_mask = shl 1 shift - 1;
          pfn_mask = 0xFFFFFFFFFF000 AND NOT offset_mask
      in e\<lparr>te_selector_bit_shift := shift,
           te_vcmp32 := vcmp32, te_vpn_hi32 := te_entry_hi e AND vcmp32,
           te_vcmp64 := vcmp64, te_vpn_hi64 := te_entry_hi e AND vcmp64,
           te_offset_mask := offset_mask,
           te_pfn_base := (shl (fst (te_entry_lo e)) 6 AND pfn_mask,
                           shl (snd (te_entry_lo e)) 6 AND pfn_mask)\<rparr>)"

definition tlb_write :: "nat \<Rightarrow> tlb_entry \<Rightarrow> mips_tlb \<Rightarrow> mips_tlb" where
  "tlb_write index entry t =
     (if index < num_entries t then
        let e = tlb_entry_derive entry;
            old_range = vmap_range (entries t ! index)
        in vmap_replace index old_range
             (t\<lparr>entries := (entries t)[index := e],
                shadow := (shadow t)[index := shadow_from_entry e (c_attr t)]\<rparr>)
      else t)"

definition tlb_read :: "mips_tlb \<Rightarrow> nat \<Rightarrow> tlb_entry" where
  "tlb_read t index = (if index < num_entries t then entries t ! index else tlb_entry_new)"

definition tlb_probe :: "mips_tlb \<Rightarrow> u64 \<Rightarrow> u8 \<Rightarrow> bool \<Rightarrow> u32" where
  "tlb_probe t va asid is64 =
     (case find (\<lambda>i. shadow_match is64 va asid (shadow t ! i)) [0..<length (shadow t)] of
        Some i \<Rightarrow> of_nat i
      | None \<Rightarrow> 0x80000000)"

definition tlb_set_cache_attrs :: "cache_attr list \<Rightarrow> mips_tlb \<Rightarrow> mips_tlb" where
  "tlb_set_cache_attrs table t =
     t\<lparr>c_attr := table,
       shadow := fold (\<lambda>i sh. sh[i := shadow_from_entry (entries t ! i) table]) [0..<num_entries t] (shadow t)\<rparr>"

definition mru_reset :: "mips_tlb \<Rightarrow> mips_tlb" where
  "mru_reset t =
     t\<lparr>mru_head := map (\<lambda>_. 0) (mru_head t),
       mru_next := map (\<lambda>nx. (mru_canonical (num_entries t) nx)[num_entries t - 1 := MRU_NONE]) (mru_next t)\<rparr>"

definition tlb_power_on :: "mips_tlb \<Rightarrow> mips_tlb" where
  "tlb_power_on t =
     (mru_reset (t\<lparr>entries := replicate TLB_MAX_ENTRIES tlb_entry_new,
                   shadow := replicate TLB_MAX_ENTRIES shadow_invalid\<rparr>))
     \<lparr>vmap := (\<lambda>_. VMAP_MISS)\<rparr>"

end
