(* ===== verification/Bus_Memory.thy ===== *)
theory Bus_Memory
  imports Iris_Prelude
begin

text \<open>
  The bus and the RAM banks: \<^verbatim>\<open>src/src/traits.rs\<close> (the \<^verbatim>\<open>BusDevice\<close> trait and its default methods) and
  \<^verbatim>\<open>src/src/dev/mem.rs\<close> (\<open>Memory\<close>, \<open>BlackHoleRegion\<close>, \<open>UnmappedRam\<close>).

  \<open>Memory\<close> keeps 32-bit words in the byte order of the host, which is little endian on every host the
  emulator runs on: the byte at host offset \<open>k\<close> is bits \<open>8 * (k mod 4)\<close> upwards of word \<open>k div 4\<close>.  The
  word array is a function on word indices; the accesses with an index computed from a masked address
  are in bounds by the invariant \<open>mem_ok\<close>, and the block transfers, whose index runs on past the masked
  start, are \<open>None\<close> when it leaves the array (undefined behaviour of the raw pointer).
\<close>

section \<open>Bus status\<close>

definition BUS_OK :: u32 where "BUS_OK = 0x00000000"
definition BUS_BUSY :: u32 where "BUS_BUSY = 0x00000100"
definition BUS_ERR :: u32 where "BUS_ERR = 0x0800001C"
definition BUS_VCE :: u32 where "BUS_VCE = 0x0800007C"

lemmas bus_consts = BUS_OK_def BUS_BUSY_def BUS_ERR_def BUS_VCE_def

text \<open>A read returns a status and the data, a write a status and the new state of the device.\<close>

type_synonym 'a bus_read = "u32 \<times> 'a"

definition bus_read_ok :: "'a \<Rightarrow> 'a bus_read" where
  "bus_read_ok d = (BUS_OK, d)"

section \<open>Default methods of the trait\<close>

fun default_read_block :: "(u64 \<Rightarrow> u32 bus_read) \<Rightarrow> u64 \<Rightarrow> nat \<Rightarrow> u32 \<times> u64 list" where
  "default_read_block rd32 a 0 = (BUS_OK, [])"
| "default_read_block rd32 a (Suc n) =
     (let (hs, hi) = rd32 a in
      if hs \<noteq> BUS_OK then (hs, [])
      else let (ls, lo) = rd32 (a + 4) in
        if ls \<noteq> BUS_OK then (ls, [])
        else let (s, rest) = default_read_block rd32 (a + 8) n
             in (s, (shl (zext hi) 32 OR zext lo) # rest))"

fun default_write_block :: "(u64 \<Rightarrow> u32 \<Rightarrow> 's \<Rightarrow> u32 \<times> 's) \<Rightarrow> u64 \<Rightarrow> u64 list \<Rightarrow> 's \<Rightarrow> u32 \<times> 's" where
  "default_write_block wr32 a [] d = (BUS_OK, d)"
| "default_write_block wr32 a (val # vals) d =
     (let (s1, d1) = wr32 a (ucast (shr val 32)) d in
      if s1 \<noteq> BUS_OK then (s1, d1)
      else let (s2, d2) = wr32 (a + 4) (ucast val) d1 in
        if s2 \<noteq> BUS_OK then (s2, d2)
        else default_write_block wr32 (a + 8) vals d2)"

text \<open>The loop \<^verbatim>\<open>for i in 0..8\<close>, from lane \<open>i\<close> on.\<close>

fun default_write64_lanes ::
    "(u64 \<Rightarrow> u8 \<Rightarrow> 's \<Rightarrow> u32 \<times> 's) \<Rightarrow> u64 \<Rightarrow> u64 \<Rightarrow> u64 \<Rightarrow> nat list \<Rightarrow> 's \<Rightarrow> u32 \<times> 's" where
  "default_write64_lanes wr8 addr val m [] d = (BUS_OK, d)"
| "default_write64_lanes wr8 addr val m (i # is) d =
     (let lane = 7 - i;
          byte_mask = shr m (lane * 8) AND 0xFF
      in if byte_mask \<noteq> 0 then
           let (ws, d1) = wr8 (addr + of_nat i) (ucast (shr val (lane * 8))) d in
           if ws \<noteq> BUS_OK then (ws, d1) else default_write64_lanes wr8 addr val m is d1
         else default_write64_lanes wr8 addr val m is d)"

definition default_write64_masked ::
    "(u64 \<Rightarrow> u8 \<Rightarrow> 's \<Rightarrow> u32 \<times> 's) \<Rightarrow> u64 \<Rightarrow> u64 \<Rightarrow> u64 \<Rightarrow> 's \<Rightarrow> u32 \<times> 's" where
  "default_write64_masked wr8 addr val m d = default_write64_lanes wr8 addr val m [0..<8] d"

section \<open>Memory\<close>

record memory =
  mem_data :: "nat \<Rightarrow> u32"
  mem_size_words :: nat
  mem_addr_mask :: u64

definition mem_new :: "nat \<Rightarrow> memory" where
  "mem_new size_mb =
     (let size_bytes = size_mb * 1024 * 1024 in
      \<lparr>mem_data = (\<lambda>_. 0), mem_size_words = size_bytes div 4, mem_addr_mask = of_nat size_bytes - 1\<rparr>)"

definition mem_set_addr_mask :: "u32 \<Rightarrow> memory \<Rightarrow> memory" where
  "mem_set_addr_mask m mem = mem\<lparr>mem_addr_mask := zext m AND (of_nat (mem_size_words mem * 4) - 1)\<rparr>"

definition mem_power_on :: "memory \<Rightarrow> memory" where
  "mem_power_on mem = mem\<lparr>mem_data := (\<lambda>i. if i < mem_size_words mem then 0 else mem_data mem i)\<rparr>"

subsection \<open>Host layout\<close>

definition host_byte :: "memory \<Rightarrow> u64 \<Rightarrow> u8" where
  "host_byte mem k = ucast (shr (mem_data mem (unat (shr k 2))) (8 * unat (k AND 3)))"

definition host_set_byte :: "u64 \<Rightarrow> u8 \<Rightarrow> memory \<Rightarrow> memory" where
  "host_set_byte k v mem =
     (let i = unat (shr k 2); s = 8 * unat (k AND 3) in
      mem\<lparr>mem_data := (mem_data mem)(i := (mem_data mem i AND NOT (shl 0xFF s)) OR shl (ucast v) s)\<rparr>)"

definition host_half :: "memory \<Rightarrow> u64 \<Rightarrow> u16" where
  "host_half mem h = ucast (shr (mem_data mem (unat (shr h 1))) (16 * unat (h AND 1)))"

definition host_set_half :: "u64 \<Rightarrow> u16 \<Rightarrow> memory \<Rightarrow> memory" where
  "host_set_half h v mem =
     (let i = unat (shr h 1); s = 16 * unat (h AND 1) in
      mem\<lparr>mem_data := (mem_data mem)(i := (mem_data mem i AND NOT (shl 0xFFFF s)) OR shl (ucast v) s)\<rparr>)"

definition host_qword :: "memory \<Rightarrow> nat \<Rightarrow> u64" where
  "host_qword mem q = zext (mem_data mem (2 * q)) OR shl (zext (mem_data mem (2 * q + 1))) 32"

definition host_set_qword :: "nat \<Rightarrow> u64 \<Rightarrow> memory \<Rightarrow> memory" where
  "host_set_qword q v mem =
     mem\<lparr>mem_data := (mem_data mem)(2 * q := ucast v, 2 * q + 1 := ucast (shr v 32))\<rparr>"

subsection \<open>Bus accesses\<close>

definition mem_read8 :: "memory \<Rightarrow> u64 \<Rightarrow> u8" where
  "mem_read8 mem addr = host_byte mem ((addr AND mem_addr_mask mem) XOR 3)"

definition mem_write8 :: "u64 \<Rightarrow> u8 \<Rightarrow> memory \<Rightarrow> memory" where
  "mem_write8 addr v mem = host_set_byte ((addr AND mem_addr_mask mem) XOR 3) v mem"

definition mem_read16 :: "memory \<Rightarrow> u64 \<Rightarrow> u16" where
  "mem_read16 mem addr = host_half mem (shr (addr AND mem_addr_mask mem) 1 XOR 1)"

definition mem_write16 :: "u64 \<Rightarrow> u16 \<Rightarrow> memory \<Rightarrow> memory" where
  "mem_write16 addr v mem = host_set_half (shr (addr AND mem_addr_mask mem) 1 XOR 1) v mem"

definition mem_read32 :: "memory \<Rightarrow> u64 \<Rightarrow> u32" where
  "mem_read32 mem addr = mem_data mem (unat (shr (addr AND mem_addr_mask mem) 2))"

definition mem_write32 :: "u64 \<Rightarrow> u32 \<Rightarrow> memory \<Rightarrow> memory" where
  "mem_write32 addr v mem =
     mem\<lparr>mem_data := (mem_data mem)(unat (shr (addr AND mem_addr_mask mem) 2) := v)\<rparr>"

definition mem_read64 :: "memory \<Rightarrow> u64 \<Rightarrow> u64" where
  "mem_read64 mem addr = word_rotl 32 (host_qword mem (unat (shr (addr AND mem_addr_mask mem) 3)))"

definition mem_write64 :: "u64 \<Rightarrow> u64 \<Rightarrow> memory \<Rightarrow> memory" where
  "mem_write64 addr v mem =
     host_set_qword (unat (shr (addr AND mem_addr_mask mem) 3)) (word_rotl 32 v) mem"

definition mem_write64_masked :: "u64 \<Rightarrow> u64 \<Rightarrow> u64 \<Rightarrow> memory \<Rightarrow> memory" where
  "mem_write64_masked addr v m mem =
     (let q = unat (shr (addr AND mem_addr_mask mem) 3);
          old = host_qword mem q;
          new_val = word_rotl 32 v;
          new_mask = word_rotl 32 m
      in host_set_qword q ((old AND NOT new_mask) OR (new_val AND new_mask)) mem)"

definition mem_read_block :: "memory \<Rightarrow> u64 \<Rightarrow> nat \<Rightarrow> u64 list option" where
  "mem_read_block mem addr n =
     (let q = unat (shr (addr AND mem_addr_mask mem) 3) in
      if 2 * (q + n) \<le> mem_size_words mem
      then Some (map (\<lambda>i. word_rotl 32 (host_qword mem (q + i))) [0..<n]) else None)"

definition mem_write_block :: "u64 \<Rightarrow> u64 list \<Rightarrow> memory \<Rightarrow> memory option" where
  "mem_write_block addr vals mem =
     (let q = unat (shr (addr AND mem_addr_mask mem) 3) in
      if 2 * (q + length vals) \<le> mem_size_words mem
      then Some (fold (\<lambda>i mem. host_set_qword (q + i) (word_rotl 32 (vals ! i)) mem) [0..<length vals] mem)
      else None)"

subsection \<open>Snapshots\<close>

definition mem_snapshot_words :: "memory \<Rightarrow> u32 list" where
  "mem_snapshot_words mem = map (mem_data mem) [0..<mem_size_words mem]"

definition mem_restore_words :: "u32 list \<Rightarrow> memory \<Rightarrow> memory" where
  "mem_restore_words src mem =
     (let n = min (length src) (mem_size_words mem) in
      mem\<lparr>mem_data := (\<lambda>i. if i < n then src ! i else mem_data mem i)\<rparr>)"

definition to_be_bytes32 :: "u32 \<Rightarrow> u8 list" where
  "to_be_bytes32 w = [ucast (shr w 24), ucast (shr w 16), ucast (shr w 8), ucast w]"

definition from_be_bytes32 :: "u8 list \<Rightarrow> u32" where
  "from_be_bytes32 b = shl (ucast (b ! 0)) 24 OR shl (ucast (b ! 1)) 16 OR shl (ucast (b ! 2)) 8 OR ucast (b ! 3)"

text \<open>The file contents written by \<open>save_bin\<close> and read by \<open>load_bin\<close> (the file access is not modelled).\<close>

definition mem_save_bin :: "memory \<Rightarrow> u8 list" where
  "mem_save_bin mem = concat (map (\<lambda>i. to_be_bytes32 (mem_data mem i)) [0..<mem_size_words mem])"

definition mem_load_bin :: "u8 list \<Rightarrow> memory \<Rightarrow> memory" where
  "mem_load_bin bytes mem =
     (let count = min (length bytes div 4) (mem_size_words mem) in
      mem\<lparr>mem_data := (\<lambda>i. if i < count then from_be_bytes32 (take 4 (drop (i * 4) bytes)) else mem_data mem i)\<rparr>)"

section \<open>Devices without storage\<close>

definition black_hole_read :: "u64 \<Rightarrow> ('a::len) word bus_read" where
  "black_hole_read addr = bus_read_ok (NOT 0)"

definition unmapped_ram_read :: "u64 \<Rightarrow> ('a::len) word bus_read" where
  "unmapped_ram_read addr = bus_read_ok 0"

section \<open>Invariant\<close>

text \<open>The masked address stays inside the array, and the array holds whole doublewords.\<close>

definition mem_ok :: "memory \<Rightarrow> bool" where
  "mem_ok mem \<longleftrightarrow> unat (mem_addr_mask mem) < 4 * mem_size_words mem \<and> even (mem_size_words mem) \<and>
     4 * mem_size_words mem \<le> 2 ^ 64"

text \<open>The mask passes the offset inside a doubleword (true of every size in megabytes).\<close>

definition mem_lanes :: "memory \<Rightarrow> bool" where
  "mem_lanes mem \<longleftrightarrow> mem_addr_mask mem AND 7 = 7"

end
