(* ===== verification/Mips_Exec.thy ===== *)
theory Mips_Exec
  imports Mips_Cp0 Mips_Tlb Bus_Memory
begin

text \<open>
  The state of the interpreter, \<^verbatim>\<open>src/src/cpu/mips_exec.rs\<close>, and the terminal actions every
  instruction handler ends with: exception delivery with its privilege resynchronisation,
  delay slots and the alignment check of a new program counter.

  \<^verbatim>\<open>MipsExecutor<T, C>\<close> is generic in the TLB and in the cache.  Here \<open>T\<close> is \<open>MipsTlb\<close>
  and \<open>C\<close> is \<open>PassthroughCacheOf\<close> of \<^verbatim>\<open>src/src/cpu/mips_cache_v2.rs\<close>, whose whole state is the
  load-linked bit and address and whose downstream device is the system bus itself.  The
  constants of the \<^verbatim>\<open>CpuModel\<close> trait are a record, so that every model is covered.  The bus
  (\<^verbatim>\<open>Arc<dyn BusDevice>\<close>) is a state of any type together with its table of methods.

  The function pointers \<open>translate_fn\<close> and \<open>fpr_*\<close> that the executor caches off Status are
  kept as the data that selects them.  Log lines, counters for display and the text of a
  breakpoint report have no counterpart.
\<close>

section \<open>Status words\<close>

definition EXEC_COMPLETE :: u32 where "EXEC_COMPLETE = 0"
definition EXEC_RETRY :: u32 where "EXEC_RETRY = 0x100"
definition EXEC_BREAKPOINT :: u32 where "EXEC_BREAKPOINT = 0x800"

definition EXC_INT :: u32 where "EXC_INT = 0"
definition EXC_MOD :: u32 where "EXC_MOD = 1"
definition EXC_TLBL :: u32 where "EXC_TLBL = 2"
definition EXC_TLBS :: u32 where "EXC_TLBS = 3"
definition EXC_ADEL :: u32 where "EXC_ADEL = 4"
definition EXC_ADES :: u32 where "EXC_ADES = 5"
definition EXC_SYS :: u32 where "EXC_SYS = 8"
definition EXC_BP :: u32 where "EXC_BP = 9"
definition EXC_RI :: u32 where "EXC_RI = 10"
definition EXC_CPU :: u32 where "EXC_CPU = 11"
definition EXC_OV :: u32 where "EXC_OV = 12"
definition EXC_TR :: u32 where "EXC_TR = 13"
definition EXC_VCEI :: u32 where "EXC_VCEI = 14"

lemmas exc_codes [core_simps] =
  EXC_INT_def EXC_MOD_def EXC_TLBL_def EXC_TLBS_def EXC_ADEL_def EXC_ADES_def EXC_SYS_def
  EXC_BP_def EXC_RI_def EXC_CPU_def EXC_OV_def EXC_TR_def EXC_VCEI_def

definition exec_exception :: "u32 \<Rightarrow> u32" where
  "exec_exception code = EXEC_IS_EXCEPTION OR shl code CAUSE_EXCCODE_SHIFT"

definition exec_tlb_miss :: "u32 \<Rightarrow> u32" where
  "exec_tlb_miss code =
     EXEC_IS_EXCEPTION OR EXEC_IS_TLB_REFILL OR shl code CAUSE_EXCCODE_SHIFT"

definition exec_xtlb_miss :: "u32 \<Rightarrow> u32" where
  "exec_xtlb_miss code =
     EXEC_IS_EXCEPTION OR EXEC_IS_TLB_REFILL OR EXEC_IS_XTLB_REFILL
       OR shl code CAUSE_EXCCODE_SHIFT"

definition is_exc :: "u32 \<Rightarrow> bool" where
  "is_exc s = (s AND EXEC_IS_EXCEPTION \<noteq> 0)"

definition EXT_INT_MASK :: u32 where
  "EXT_INT_MASK = CAUSE_IP7 OR CAUSE_IP6 OR CAUSE_IP5 OR CAUSE_IP4 OR CAUSE_IP3 OR CAUSE_IP2"

definition SOFT_RESET_BIT :: u64 where "SOFT_RESET_BIT = shl 1 63"

section \<open>The bus and the processor model\<close>

record 'b bus_device =
  bd_read8 :: "'b \<Rightarrow> u64 \<Rightarrow> u8 bus_read \<times> 'b"
  bd_read16 :: "'b \<Rightarrow> u64 \<Rightarrow> u16 bus_read \<times> 'b"
  bd_read32 :: "'b \<Rightarrow> u64 \<Rightarrow> u32 bus_read \<times> 'b"
  bd_read64 :: "'b \<Rightarrow> u64 \<Rightarrow> u64 bus_read \<times> 'b"
  bd_write8 :: "u64 \<Rightarrow> u8 \<Rightarrow> 'b \<Rightarrow> u32 \<times> 'b"
  bd_write16 :: "u64 \<Rightarrow> u16 \<Rightarrow> 'b \<Rightarrow> u32 \<times> 'b"
  bd_write32 :: "u64 \<Rightarrow> u32 \<Rightarrow> 'b \<Rightarrow> u32 \<times> 'b"
  bd_write64 :: "u64 \<Rightarrow> u64 \<Rightarrow> 'b \<Rightarrow> u32 \<times> 'b"
  bd_write64_masked :: "u64 \<Rightarrow> u64 \<Rightarrow> u64 \<Rightarrow> 'b \<Rightarrow> u32 \<times> 'b"

text \<open>The methods of \<open>Memory\<close>, all of which succeed.\<close>

definition memory_bus :: "memory bus_device" where
  "memory_bus =
     \<lparr>bd_read8 = \<lambda>m a. ((BUS_OK, mem_read8 m a), m),
      bd_read16 = \<lambda>m a. ((BUS_OK, mem_read16 m a), m),
      bd_read32 = \<lambda>m a. ((BUS_OK, mem_read32 m a), m),
      bd_read64 = \<lambda>m a. ((BUS_OK, mem_read64 m a), m),
      bd_write8 = \<lambda>a v m. (BUS_OK, mem_write8 a v m),
      bd_write16 = \<lambda>a v m. (BUS_OK, mem_write16 a v m),
      bd_write32 = \<lambda>a v m. (BUS_OK, mem_write32 a v m),
      bd_write64 = \<lambda>a v m. (BUS_OK, mem_write64 a v m),
      bd_write64_masked = \<lambda>a v k m. (BUS_OK, mem_write64_masked a v k m)\<rparr>"

record cpu_model =
  model_mips4 :: bool
  model_prid :: u32
  model_fir :: u32
  model_tlb_entries :: nat
  model_va_bits :: nat
  model_pa_bits :: nat
  model_r10k_cache_ops :: bool

definition lladdr_mask :: "cpu_model \<Rightarrow> u64" where
  "lladdr_mask m = shl 1 (model_pa_bits m - 4) - 1"

definition passthrough_model :: "bool \<Rightarrow> cpu_model" where
  "passthrough_model m4 =
     \<lparr>model_mips4 = m4, model_prid = (if m4 then 0x2321 else 0x440),
      model_fir = (if m4 then 0x2300 else 0x500), model_tlb_entries = 48,
      model_va_bits = 40, model_pa_bits = 36, model_r10k_cache_ops = False\<rparr>"

section \<open>Breakpoints\<close>

datatype bp_type =
  BpPc | BpVirtRead | BpVirtWrite | BpVirtFetch | BpPhysRead | BpPhysWrite | BpPhysFetch
  | BpWriteValue | BpRegValue

text \<open>A condition is its evaluation on the core, \<^const>\<open>None\<close> when that fails.\<close>

record breakpoint =
  bp_id :: nat
  bp_addr :: u64
  bp_kind :: bp_type
  bp_on :: bool
  bp_condition :: "(mips_core \<Rightarrow> u64 option) option"
  bp_hits :: u64
  bp_ignore :: u64

section \<open>The executor\<close>

record 'b mips_executor =
  core :: mips_core
  sysad :: 'b
  bus :: "'b bus_device"
  model :: cpu_model
  cheritest_dump_hook :: bool
  tlb :: mips_tlb
  llbit :: bool
  lladdr :: u64
  breakpoints :: "breakpoint list"
  last_bp_hit :: "nat option"
  pc_bp_count :: nat
  mem_bp_count :: nat
  skip_breakpoints :: bool
  status_cb_installed :: bool
  translate_fn :: "bool \<times> privilege_mode"
  fpr_fr1 :: bool
  phys_alias :: "(u64 \<times> u64 \<times> u64) option"
  phys_mask :: u64

abbreviation upd_core :: "(mips_core \<Rightarrow> mips_core) \<Rightarrow> 'b mips_executor \<Rightarrow> 'b mips_executor" where
  "upd_core f e \<equiv> e\<lparr>core := f (core e)\<rparr>"

definition bp_match_key :: "u64 \<Rightarrow> u64" where
  "bp_match_key addr =
     (let hi = shr addr 32; lo = addr AND 0xFFFFFFFF
      in if (hi = 0 \<or> hi = 0xFFFFFFFF) \<and> 0x80000000 \<le> lo \<and> lo < 0xC0000000
         then (lo AND 0x1FFFFFFF) AND NOT 3
         else addr AND NOT 3)"

text \<open>One breakpoint of the loop: the updated breakpoint and whether it stops.\<close>

definition bp_try :: "bp_type \<Rightarrow> u64 \<Rightarrow> mips_core \<Rightarrow> breakpoint \<Rightarrow> breakpoint \<times> bool" where
  "bp_try k addr c b =
     (if bp_on b \<and> bp_kind b = k \<and> bp_match_key (bp_addr b) = bp_match_key addr then
        (if (case bp_condition b of None \<Rightarrow> False | Some f \<Rightarrow> f c = Some 0) then (b, False)
         else let b = b\<lparr>bp_hits := bp_hits b + 1\<rparr>
              in if bp_ignore b > 0 then (b\<lparr>bp_ignore := bp_ignore b - 1\<rparr>, False)
                 else (b, True))
      else (b, False))"

fun bp_loop ::
  "bp_type \<Rightarrow> u64 \<Rightarrow> mips_core \<Rightarrow> breakpoint list \<Rightarrow> nat option \<Rightarrow> bool
    \<Rightarrow> breakpoint list \<times> nat option \<times> bool" where
  "bp_loop k addr c [] lst hit = ([], lst, hit)"
| "bp_loop k addr c (b # bs) lst hit =
     (case bp_try k addr c b of
        (b, stops) \<Rightarrow>
          if stops \<and> bp_id b = 0 then (b # bs, Some 0, True)
          else case bp_loop k addr c bs (if stops then Some (bp_id b) else lst) (hit \<or> stops) of
                 (bs, lst, hit) \<Rightarrow> (b # bs, lst, hit))"

definition check_breakpoint ::
  "bp_type \<Rightarrow> u64 \<Rightarrow> 'b mips_executor \<Rightarrow> bool \<times> 'b mips_executor" where
  "check_breakpoint k addr e =
     (if (if k = BpPc then pc_bp_count e else mem_bp_count e) = 0 then (False, e)
      else case bp_loop k addr (core e) (breakpoints e) (last_bp_hit e) False of
             (bs, lst, hit) \<Rightarrow> (hit, e\<lparr>breakpoints := bs, last_bp_hit := lst\<rparr>))"

definition bp_enabled :: "'b mips_executor \<Rightarrow> bool" where
  "bp_enabled e = (\<not> skip_breakpoints e)"

text \<open>The guard \<^verbatim>\<open>self.bp_enabled() && self.check_breakpoint(..)\<close>.\<close>

definition bp_hit :: "bp_type \<Rightarrow> u64 \<Rightarrow> 'b mips_executor \<Rightarrow> bool \<times> 'b mips_executor" where
  "bp_hit k addr e = (if bp_enabled e then check_breakpoint k addr e else (False, e))"

section \<open>State cached off Status\<close>

definition update_translate_fn :: "'b mips_executor \<Rightarrow> 'b mips_executor" where
  "update_translate_fn e =
     e\<lparr>translate_fn := (is_64bit_mode (core e), get_privilege_mode (core e))\<rparr>"

definition update_fpr_mode :: "'b mips_executor \<Rightarrow> 'b mips_executor" where
  "update_fpr_mode e = e\<lparr>fpr_fr1 := (cp0_status (core e) AND STATUS_FR \<noteq> 0)\<rparr>"

definition nanotlb_invalidate :: "'b mips_executor \<Rightarrow> 'b mips_executor" where
  "nanotlb_invalidate e = upd_core nutlb_clear (upd_core core_nanotlb_invalidate e)"

definition resync_privilege_state :: "'b mips_executor \<Rightarrow> 'b mips_executor" where
  "resync_privilege_state e = nanotlb_invalidate (update_fpr_mode (update_translate_fn e))"

definition set_cp0_status :: "u32 \<Rightarrow> 'b mips_executor \<Rightarrow> 'b mips_executor" where
  "set_cp0_status new e = resync_privilege_state (upd_core (\<lambda>c. c\<lparr>cp0_status := new\<rparr>) e)"

definition install_status_cb :: "'b mips_executor \<Rightarrow> 'b mips_executor" where
  "install_status_cb e = e\<lparr>status_cb_installed := True\<rparr>"

section \<open>Exceptions\<close>

text \<open>The pass-through cache never reports a cache error, so the load of CacheErr that the
  source guards with \<open>EXEC_IS_CACHE_ERR\<close> reads the trait's default value 0.\<close>

definition handle_exception :: "u32 \<Rightarrow> 'b mips_executor \<Rightarrow> u32 \<times> 'b mips_executor" where
  "handle_exception status e =
     (let e = e\<lparr>llbit := False\<rparr>;
          e = (if status AND EXEC_IS_CACHE_ERR \<noteq> 0
               then upd_core (\<lambda>c. c\<lparr>cp0_cacheerr := 0\<rparr>) e else e);
          e = upd_core (deliver_exception status) e
      in (status, resync_privilege_state e))"

definition cpu_unusable :: "u32 \<Rightarrow> 'b mips_executor \<Rightarrow> u32 \<times> 'b mips_executor" where
  "cpu_unusable ce e =
     handle_exception (exec_exception EXC_CPU)
       (upd_core (\<lambda>c. c\<lparr>cp0_cause := (cp0_cause c AND NOT CAUSE_CE_MASK)
                                       OR shl (ce AND 3) CAUSE_CE_SHIFT\<rparr>) e)"

definition exec_reserved :: "'b mips_executor \<Rightarrow> u32 \<times> 'b mips_executor" where
  "exec_reserved e = handle_exception (exec_exception EXC_RI) e"

section \<open>Terminal actions\<close>

definition branch_delay :: "u64 \<Rightarrow> 'b mips_executor \<Rightarrow> u32 \<times> 'b mips_executor" where
  "branch_delay target e =
     (EXEC_COMPLETE,
      upd_core (\<lambda>c. c\<lparr>delay_slot_target := target, in_delay_slot := True, pc := pc c + 4\<rparr>) e)"

definition misaligned_fetch_exception :: "'b mips_executor \<Rightarrow> u32 \<times> 'b mips_executor" where
  "misaligned_fetch_exception e =
     handle_exception (exec_exception EXC_ADEL) (upd_core (\<lambda>c. c\<lparr>cp0_badvaddr := pc c\<rparr>) e)"

definition handle_exec_complete :: "'b mips_executor \<Rightarrow> u32 \<times> 'b mips_executor" where
  "handle_exec_complete e =
     (if in_delay_slot (core e)
      then let e = upd_core (\<lambda>c. c\<lparr>pc := delay_slot_target c, in_delay_slot := False\<rparr>) e
           in if pc (core e) AND 3 \<noteq> 0 then misaligned_fetch_exception e
              else (EXEC_COMPLETE, e)
      else (EXEC_COMPLETE, upd_core (\<lambda>c. c\<lparr>pc := pc c + 4\<rparr>) e))"

definition check_pc_alignment :: "'b mips_executor \<Rightarrow> u32 \<times> 'b mips_executor" where
  "check_pc_alignment e =
     (if pc (core e) AND 3 \<noteq> 0 then misaligned_fetch_exception e else (EXEC_COMPLETE, e))"

definition handle_branch_likely_skip :: "'b mips_executor \<Rightarrow> u32 \<times> 'b mips_executor" where
  "handle_branch_likely_skip e = (EXEC_COMPLETE, upd_core (\<lambda>c. c\<lparr>pc := pc c + 8\<rparr>) e)"

definition handle_branch_not_taken :: "'b mips_executor \<Rightarrow> u32 \<times> 'b mips_executor" where
  "handle_branch_not_taken e = branch_delay (pc (core e) + 8) e"

definition exec_complete_pc_set :: "'b mips_executor \<Rightarrow> u32 \<times> 'b mips_executor" where
  "exec_complete_pc_set e = check_pc_alignment e"

definition finish_status :: "u32 \<Rightarrow> 'b mips_executor \<Rightarrow> u32 \<times> 'b mips_executor" where
  "finish_status status e =
     (if status AND EXEC_IS_EXCEPTION \<noteq> 0 then handle_exception status e
      else if status = EXEC_COMPLETE then handle_exec_complete e
      else (status, e))"

definition exec_nop :: "'b mips_executor \<Rightarrow> u32 \<times> 'b mips_executor" where
  "exec_nop e = handle_exec_complete e"

end
