(* ===== verification/Mips_Translate.thy ===== *)
theory Mips_Translate
  imports Mips_Exec
begin

text \<open>
  Address translation in \<^verbatim>\<open>src/src/cpu/mips_exec.rs\<close>: the segment decoders for 32- and
  64-bit addressing, the TLB path with its exception registers, and the two caches of
  translations in front of them, the nano-TLB slot for fetches and the micro-TLB arrays for
  loads and stores.  A translation is \<^const>\<open>None\<close> only where the TLB's linked list does not
  terminate.
\<close>

section \<open>Results\<close>

definition TR_UNCACHED :: u32 where "TR_UNCACHED = 2"
definition TR_CACHEABLE :: u32 where "TR_CACHEABLE = 3"
definition TR_CACHEABLE_COH :: u32 where "TR_CACHEABLE_COH = 5"
definition TR_MAPPED :: u32 where "TR_MAPPED = shl 1 3"
definition TR_GLOBAL :: u32 where "TR_GLOBAL = shl 1 4"

record translate_result =
  tr_phys :: u64
  tr_status :: u32

definition tr_ok :: "u64 \<Rightarrow> u32 \<Rightarrow> translate_result" where
  "tr_ok phys c = \<lparr>tr_phys = phys, tr_status = c\<rparr>"

definition tr_ok_mapped :: "u64 \<Rightarrow> u32 \<Rightarrow> bool \<Rightarrow> translate_result" where
  "tr_ok_mapped phys c g =
     \<lparr>tr_phys = phys, tr_status = c OR TR_MAPPED OR (if g then TR_GLOBAL else 0)\<rparr>"

definition tr_exc :: "u32 \<Rightarrow> translate_result" where
  "tr_exc s = \<lparr>tr_phys = 0, tr_status = s\<rparr>"

definition tr_is_exception :: "translate_result \<Rightarrow> bool" where
  "tr_is_exception r = (tr_status r AND EXEC_IS_EXCEPTION \<noteq> 0)"

definition tr_is_cached :: "translate_result \<Rightarrow> bool" where
  "tr_is_cached r = (tr_status r AND 7 \<noteq> TR_UNCACHED)"

section \<open>Cache attributes\<close>

definition decode_cache_attr :: "cpu_model \<Rightarrow> u32 \<Rightarrow> u32" where
  "decode_cache_attr m c =
     (let k = c AND 7
      in if model_r10k_cache_ops m then
           (if k = 3 then TR_CACHEABLE
            else if k = 4 \<or> k = 5 then TR_CACHEABLE_COH
            else TR_UNCACHED)
         else if model_mips4 m then
           (if k = 0 \<or> k = 1 then TR_CACHEABLE
            else if k = 3 then TR_CACHEABLE
            else TR_UNCACHED)
         else
           (if k = 3 then TR_CACHEABLE
            else if k = 4 \<or> k = 5 \<or> k = 6 then TR_CACHEABLE_COH
            else TR_UNCACHED))"

definition cache_attr_table :: "cpu_model \<Rightarrow> cache_attr list" where
  "cache_attr_table m =
     map (\<lambda>c. let a = decode_cache_attr m (word_of_nat c)
              in if a = TR_UNCACHED then Uncached
                 else if a = TR_CACHEABLE then Cacheable
                 else CacheableCoherent) [0..<8]"

definition kseg0_cache_attr :: "'b mips_executor \<Rightarrow> u32" where
  "kseg0_cache_attr e = decode_cache_attr (model e) (cp0_config (core e))"

text \<open>The discriminants of \<^verbatim>\<open>CacheAttr\<close>, for \<^verbatim>\<open>cache_attr as u32\<close>.\<close>

fun cache_attr_code :: "cache_attr \<Rightarrow> u32" where
  "cache_attr_code Uncached = 2"
| "cache_attr_code Cacheable = 3"
| "cache_attr_code CacheableCoherent = 5"

section \<open>The TLB path\<close>

definition xcontext_on_miss :: "nat \<Rightarrow> u64 \<Rightarrow> u64 \<Rightarrow> u64" where
  "xcontext_on_miss va_bits old_xcontext virt_addr =
     (let vpn2_mask = shl (shl 1 (va_bits - 13) - 1) 13 AND NOT 0xFFF;
          ptebase = old_xcontext AND shl (NOT 0) (va_bits - 7);
          badvpn2 = shl (shr (virt_addr AND vpn2_mask) 13) 4;
          region = shr virt_addr 62 AND 3
      in ptebase OR shl region (va_bits - 9) OR badvpn2)"

definition update_tlb_exception_registers ::
  "u64 \<Rightarrow> 'b mips_executor \<Rightarrow> 'b mips_executor" where
  "update_tlb_exception_registers virt_addr e =
     upd_core (\<lambda>c.
       let eh_vpn_mask = 0xC000000000000000 OR 0x000000FFFFFFE000;
           asid = cp0_entryhi c AND 0xFF;
           ptebase = cp0_context c AND 0xFFFFFFFFFF800000;
           badvpn2 = shl (shr (virt_addr AND 0xFFFFE000) 13) 4
       in c\<lparr>cp0_badvaddr := virt_addr,
            cp0_entryhi := (virt_addr AND eh_vpn_mask) OR asid,
            cp0_context := ptebase OR badvpn2,
            cp0_xcontext := xcontext_on_miss (model_va_bits (model e)) (cp0_xcontext c)
                              virt_addr\<rparr>) e"

definition fold_phys :: "'b mips_executor \<Rightarrow> u64 \<Rightarrow> u64" where
  "fold_phys e pa =
     (let pa = (case phys_alias e of
                  Some (base, sz, target) \<Rightarrow>
                    if pa - base < sz then pa - base + target else pa
                | None \<Rightarrow> pa)
      in pa AND phys_mask e)"

definition tlb_translate_impl ::
  "bool \<Rightarrow> bool \<Rightarrow> u64 \<Rightarrow> access_type \<Rightarrow> 'b mips_executor
     \<Rightarrow> (translate_result \<times> 'b mips_executor) option" where
  "tlb_translate_impl debug xtlb virt_addr at e =
     (let asid = ucast (cp0_entryhi (core e) AND 0xFF) :: u8
      in case tlb_translate xtlb (tlb e) virt_addr asid at of
           None \<Rightarrow> None
         | Some (result, tlb') \<Rightarrow>
             let e = e\<lparr>tlb := tlb'\<rparr>;
                 code = (if at = Write then EXC_TLBS else EXC_TLBL);
                 exc_e = (if debug then e else update_tlb_exception_registers virt_addr e)
             in Some (case result of
                  TlbHit pa attr dirty global \<Rightarrow>
                    if at = Write \<and> \<not> dirty then (tr_exc (exec_exception EXC_MOD), exc_e)
                    else (tr_ok_mapped (fold_phys e pa) (cache_attr_code attr) global, e)
                | TlbMiss _ \<Rightarrow>
                    (tr_exc (if xtlb then exec_xtlb_miss code else exec_tlb_miss code), exc_e)
                | TlbInvalid _ \<Rightarrow> (tr_exc (exec_exception code), exc_e)
                | TlbModified _ \<Rightarrow> (tr_exc (exec_exception EXC_MOD), exc_e)))"

section \<open>Segments\<close>

text \<open>The address error both decoders raise.\<close>

definition tr_addr_error ::
  "bool \<Rightarrow> u64 \<Rightarrow> access_type \<Rightarrow> 'b mips_executor \<Rightarrow> translate_result \<times> 'b mips_executor" where
  "tr_addr_error debug virt_addr at e =
     (tr_exc (exec_exception (if at = Write then EXC_ADES else EXC_ADEL)),
      if debug then e else upd_core (\<lambda>c. c\<lparr>cp0_badvaddr := virt_addr\<rparr>) e)"

definition translate_32bit_impl ::
  "bool \<Rightarrow> privilege_mode \<Rightarrow> u64 \<Rightarrow> access_type \<Rightarrow> 'b mips_executor
     \<Rightarrow> (translate_result \<times> 'b mips_executor) option" where
  "translate_32bit_impl debug priv virt_addr at e =
     (let virt_addr32 = lo32 virt_addr; segment = unat (shr virt_addr32 29)
      in if segment \<le> 3 then
           (if cp0_status (core e) AND STATUS_ERL \<noteq> 0
            then Some (tr_ok (zext virt_addr32) TR_UNCACHED, e)
            else tlb_translate_impl debug False virt_addr at e)
         else if segment = 4 then
           (if priv = Kernel
            then Some (tr_ok (zext (virt_addr32 AND 0x1FFFFFFF)) (kseg0_cache_attr e), e)
            else Some (tr_addr_error debug virt_addr at e))
         else if segment = 5 then
           (if priv = Kernel
            then Some (tr_ok (zext (virt_addr32 AND 0x1FFFFFFF)) TR_UNCACHED, e)
            else Some (tr_addr_error debug virt_addr at e))
         else if segment = 6 then
           (if priv = Kernel \<or> priv = Supervisor
            then tlb_translate_impl debug False virt_addr at e
            else Some (tr_addr_error debug virt_addr at e))
         else
           (if priv = Kernel then tlb_translate_impl debug False virt_addr at e
            else Some (tr_addr_error debug virt_addr at e)))"

definition translate_64bit_impl ::
  "bool \<Rightarrow> privilege_mode \<Rightarrow> u64 \<Rightarrow> access_type \<Rightarrow> 'b mips_executor
     \<Rightarrow> (translate_result \<times> 'b mips_executor) option" where
  "translate_64bit_impl debug priv virt_addr at e =
     (let top_bits = unat (shr virt_addr 62)
      in if top_bits = 0 then
           (if shr virt_addr 40 \<noteq> 0 then Some (tr_addr_error debug virt_addr at e)
            else if cp0_status (core e) AND STATUS_ERL \<noteq> 0
            then Some (tr_ok (fold_phys e virt_addr) TR_UNCACHED, e)
            else tlb_translate_impl debug True virt_addr at e)
         else if top_bits = 1 then
           (if priv = Kernel \<or> priv = Supervisor
            then tlb_translate_impl debug True virt_addr at e
            else Some (tr_addr_error debug virt_addr at e))
         else if top_bits = 2 then
           (let bits_61_59 = shr virt_addr 59 AND 7
            in if bits_61_59 \<ge> 2 \<and> bits_61_59 \<le> 7 then
                 (if priv = Kernel
                  then Some (tr_ok (fold_phys e (virt_addr AND 0x07FFFFFFFFFFFFFF))
                               (decode_cache_attr (model e) (lo32 bits_61_59)), e)
                  else Some (tr_addr_error debug virt_addr at e))
               else Some (tr_addr_error debug virt_addr at e))
         else
           (if priv = Kernel then
              (let addr_32 = lo32 virt_addr; seg = shr addr_32 29 AND 7
               in if shr virt_addr 32 = 0xFFFFFFFF \<and> seg = 4
                  then Some (tr_ok (zext (addr_32 AND 0x1FFFFFFF)) (kseg0_cache_attr e), e)
                  else if shr virt_addr 32 = 0xFFFFFFFF \<and> seg = 5
                  then Some (tr_ok (zext (addr_32 AND 0x1FFFFFFF)) TR_UNCACHED, e)
                  else tlb_translate_impl debug True virt_addr at e)
            else Some (tr_addr_error debug virt_addr at e)))"

text \<open>The six wrappers \<open>translate_32_kernel\<close> to \<open>translate_64_user\<close>, selected by the cached
  pair, and the monitor's entry, which always decodes as kernel and has no side effects.\<close>

definition call_translate_fn ::
  "u64 \<Rightarrow> access_type \<Rightarrow> 'b mips_executor \<Rightarrow> (translate_result \<times> 'b mips_executor) option" where
  "call_translate_fn va at e =
     (case translate_fn e of
        (is64, priv) \<Rightarrow>
          if is64 then translate_64bit_impl False priv va at e
          else translate_32bit_impl False priv va at e)"

definition translate_impl ::
  "bool \<Rightarrow> u64 \<Rightarrow> access_type \<Rightarrow> 'b mips_executor
     \<Rightarrow> (translate_result \<times> 'b mips_executor) option" where
  "translate_impl debug va at e =
     (let priv = (if debug then Kernel else get_privilege_mode (core e))
      in if is_64bit_mode (core e) then translate_64bit_impl debug priv va at e
         else translate_32bit_impl debug priv va at e)"

definition debug_translate ::
  "u64 \<Rightarrow> 'b mips_executor \<Rightarrow> (translate_result \<times> 'b mips_executor) option" where
  "debug_translate va e = translate_impl True va Debug e"

section \<open>Nano- and micro-TLB\<close>

definition nutlb_cacheable_segment :: "u64 \<Rightarrow> bool \<Rightarrow> bool" where
  "nutlb_cacheable_segment va is64 =
     (if \<not> is64 then True else shr va 62 \<noteq> 0 \<or> shr va 40 = 0)"

definition nutlb_fill :: "bool \<Rightarrow> u64 \<Rightarrow> translate_result \<Rightarrow> 'b mips_executor \<Rightarrow> 'b mips_executor" where
  "nutlb_fill w va r e =
     (if cp0_status (core e) AND STATUS_ERL \<noteq> 0 then e
      else if \<not> nutlb_cacheable_segment va (is_64bit_mode (core e)) then e
      else let i = nutlb_index va; arr = (if w then NUTLB_WRITE else NUTLB_READ)
           in upd_core (\<lambda>c. nutlb_set_valid arr i
                (c\<lparr>nutlb := (nutlb c)[arr := (nutlb c ! arr)[i :=
                     \<lparr>nu_virttag = va AND NOT 0xFFF,
                      nu_phys = (tr_phys r AND NOT 0xFFF) OR zext (tr_status r AND 7)\<rparr>]]\<rparr>)) e)"

definition nutlb_translate ::
  "bool \<Rightarrow> u64 \<Rightarrow> 'b mips_executor \<Rightarrow> (translate_result \<times> 'b mips_executor) option" where
  "nutlb_translate w va e =
     (let i = nutlb_index va; arr = (if w then NUTLB_WRITE else NUTLB_READ);
          t = nutlb (core e) ! arr ! i
      in if nu_virttag t = va AND NOT 0xFFF \<and> nutlb_is_valid arr i (core e)
         then Some (tr_ok (nu_phys_addr t va) (nu_cache_attr_raw t), e)
         else case call_translate_fn va (if w then Write else Read) e of
                None \<Rightarrow> None
              | Some (r, e) \<Rightarrow>
                  Some (r, if tr_is_exception r then e else nutlb_fill w va r e))"

text \<open>Slots of the nano-TLB are numbered by access type; Debug accesses do not come here.\<close>

definition nanotlb_translate ::
  "access_type \<Rightarrow> u64 \<Rightarrow> 'b mips_executor \<Rightarrow> (translate_result \<times> 'b mips_executor) option" where
  "nanotlb_translate at va e =
     (if at = Read then nutlb_translate False va e
      else if at = Write then nutlb_translate True va e
      else let va_page = va AND NOT 0xFFF; slot = nanotlb (core e) ! access_index at
           in if nano_matches slot va_page
              then Some (tr_ok (nano_phys_addr slot va) (nano_cache_attr_raw slot), e)
              else case call_translate_fn va at e of
                     None \<Rightarrow> None
                   | Some (r, e) \<Rightarrow>
                       Some (r, if tr_is_exception r then e
                                else upd_core (\<lambda>c. c\<lparr>nanotlb := (nanotlb c)[access_index at :=
                                       nano_fill_raw va_page (tr_phys r) (tr_status r AND 7)
                                         (nanotlb c ! access_index at)]\<rparr>) e))"

end
