(* ===== verification/Mips_Alu.thy ===== *)
theory Mips_Alu
  imports Mips_Exec "HOL-Library.Signed_Division"
begin

text \<open>
  The integer instructions of \<^verbatim>\<open>src/src/cpu/mips_exec.rs\<close>: shifts, arithmetic, comparisons,
  traps, multiplication and division, jumps and branches, and the immediate forms, one
  definition per handler.  A handler takes the pre-decoded instruction and the executor and
  returns the status word and the executor.

  A Rust cast \<^verbatim>\<open>x as i32 as i64 as u64\<close> is a sign extension, signed comparison is that of the
  signed value of the word, \<^verbatim>\<open>wrapping_add\<close> is addition of words, \<^verbatim>\<open>checked_add\<close> is the option
  below, and \<^verbatim>\<open>wrapping_div\<close> truncates towards zero.
\<close>

section \<open>Pre-decoded instructions\<close>

definition FLAG_NOT_DECODED :: u8 where "FLAG_NOT_DECODED = 1"
definition FLAG_IMM_IS_NEXT :: u8 where "FLAG_IMM_IS_NEXT = 2"

record decoded_fields =
  d_imm :: u32
  d_raw :: u32
  d_flags :: u8
  d_op :: u8
  d_rs :: u8
  d_rt :: u8
  d_rd :: u8
  d_sa :: u8
  d_funct :: u8

definition immi64 :: "'a decoded_fields_scheme \<Rightarrow> u64" where
  "immi64 d = zext (d_imm d)"

definition immu64 :: "'a decoded_fields_scheme \<Rightarrow> u64" where
  "immu64 d = sext32 (d_imm d)"

text \<open>The low half of an instruction word, read as \<^verbatim>\<open>i16\<close>.\<close>

definition sext16 :: "u32 \<Rightarrow> u32" where
  "sext16 raw = scast (ucast (raw AND 0xFFFF) :: u16)"

definition set_imm_se :: "u32 \<Rightarrow> 'a decoded_fields_scheme \<Rightarrow> 'a decoded_fields_scheme" where
  "set_imm_se raw d = d\<lparr>d_imm := sext16 raw\<rparr>"

definition set_imm_se4 :: "u32 \<Rightarrow> 'a decoded_fields_scheme \<Rightarrow> 'a decoded_fields_scheme" where
  "set_imm_se4 raw d = d\<lparr>d_imm := sext16 raw * 4\<rparr>"

definition set_imm_ze :: "u32 \<Rightarrow> 'a decoded_fields_scheme \<Rightarrow> 'a decoded_fields_scheme" where
  "set_imm_ze raw d = d\<lparr>d_imm := raw AND 0xFFFF\<rparr>"

definition set_imm_lui :: "u32 \<Rightarrow> 'a decoded_fields_scheme \<Rightarrow> 'a decoded_fields_scheme" where
  "set_imm_lui raw d = d\<lparr>d_imm := shl (raw AND 0xFFFF) 16\<rparr>"

definition set_imm_j :: "u32 \<Rightarrow> 'a decoded_fields_scheme \<Rightarrow> 'a decoded_fields_scheme" where
  "set_imm_j raw d = d\<lparr>d_imm := shl (raw AND 0x3FFFFFF) 2\<rparr>"

section \<open>Helpers\<close>

definition gr :: "u8 \<Rightarrow> 'b mips_executor \<Rightarrow> u64" where
  "gr r e = read_gpr (ucast r) (core e)"

definition put_gr :: "u8 \<Rightarrow> u64 \<Rightarrow> 'b mips_executor \<Rightarrow> 'b mips_executor" where
  "put_gr r v e = upd_core (write_gpr (ucast r) v) e"

definition put_hilo :: "u64 \<Rightarrow> u64 \<Rightarrow> 'b mips_executor \<Rightarrow> 'b mips_executor" where
  "put_hilo h l e = upd_core (\<lambda>c. c\<lparr>lo := l, hi := h\<rparr>) e"

definition checked_add :: "'a::len word \<Rightarrow> 'a word \<Rightarrow> 'a word option" where
  "checked_add a b = (if sint (a + b) = sint a + sint b then Some (a + b) else None)"

definition checked_sub :: "'a::len word \<Rightarrow> 'a word \<Rightarrow> 'a word option" where
  "checked_sub a b = (if sint (a - b) = sint a - sint b then Some (a - b) else None)"

definition wrapping_div :: "'a::len word \<Rightarrow> 'a word \<Rightarrow> 'a word" where
  "wrapping_div a b = word_of_int (sint a sdiv sint b)"

definition wrapping_rem :: "'a::len word \<Rightarrow> 'a word \<Rightarrow> 'a word" where
  "wrapping_rem a b = word_of_int (sint a smod sint b)"

type_synonym 'b handler = "decoded_fields \<Rightarrow> 'b mips_executor \<Rightarrow> u32 \<times> 'b mips_executor"

text \<open>Overflow and trap exceptions.\<close>

definition raise_ov :: "'b mips_executor \<Rightarrow> u32 \<times> 'b mips_executor" where
  "raise_ov e = handle_exception (exec_exception EXC_OV) e"

definition trap_if :: "bool \<Rightarrow> 'b mips_executor \<Rightarrow> u32 \<times> 'b mips_executor" where
  "trap_if b e = (if b then handle_exception (exec_exception EXC_TR) e
                  else handle_exec_complete e)"

section \<open>Shifts\<close>

definition exec_sll :: "'b handler" where
  "exec_sll d e =
     (let rt_val = gr (d_rt d) e
      in handle_exec_complete (put_gr (d_rd d) (sext32 (lo32 (shl rt_val (unat (d_sa d))))) e))"

definition exec_srl :: "'b handler" where
  "exec_srl d e =
     (let rt_val = lo32 (gr (d_rt d) e)
      in handle_exec_complete (put_gr (d_rd d) (sext32 (shr rt_val (unat (d_sa d)))) e))"

definition exec_sra :: "'b handler" where
  "exec_sra d e =
     (let rt_val = lo32 (gr (d_rt d) e)
      in handle_exec_complete
           (put_gr (d_rd d) (sext32 (signed_drop_bit (unat (d_sa d)) rt_val)) e))"

definition exec_sllv :: "'b handler" where
  "exec_sllv d e =
     (let sa_val = unat (gr (d_rs d) e AND 0x1F); rt_val = gr (d_rt d) e
      in handle_exec_complete (put_gr (d_rd d) (sext32 (lo32 (shl rt_val sa_val))) e))"

definition exec_srlv :: "'b handler" where
  "exec_srlv d e =
     (let sa_val = unat (gr (d_rs d) e AND 0x1F); rt_val = lo32 (gr (d_rt d) e)
      in handle_exec_complete (put_gr (d_rd d) (sext32 (shr rt_val sa_val)) e))"

definition exec_srav :: "'b handler" where
  "exec_srav d e =
     (let sa_val = unat (gr (d_rs d) e AND 0x1F); rt_val = lo32 (gr (d_rt d) e)
      in handle_exec_complete (put_gr (d_rd d) (sext32 (signed_drop_bit sa_val rt_val)) e))"

definition exec_dsll :: "'b handler" where
  "exec_dsll d e =
     handle_exec_complete (put_gr (d_rd d) (shl (gr (d_rt d) e) (unat (d_sa d))) e)"

definition exec_dsrl :: "'b handler" where
  "exec_dsrl d e =
     handle_exec_complete (put_gr (d_rd d) (shr (gr (d_rt d) e) (unat (d_sa d))) e)"

definition exec_dsra :: "'b handler" where
  "exec_dsra d e =
     handle_exec_complete (put_gr (d_rd d) (signed_drop_bit (unat (d_sa d)) (gr (d_rt d) e)) e)"

definition exec_dsll32 :: "'b handler" where
  "exec_dsll32 d e =
     handle_exec_complete (put_gr (d_rd d) (shl (gr (d_rt d) e) (unat (d_sa d) + 32)) e)"

definition exec_dsrl32 :: "'b handler" where
  "exec_dsrl32 d e =
     handle_exec_complete (put_gr (d_rd d) (shr (gr (d_rt d) e) (unat (d_sa d) + 32)) e)"

definition exec_dsra32 :: "'b handler" where
  "exec_dsra32 d e =
     handle_exec_complete
       (put_gr (d_rd d) (signed_drop_bit (unat (d_sa d) + 32) (gr (d_rt d) e)) e)"

definition exec_dsllv :: "'b handler" where
  "exec_dsllv d e =
     handle_exec_complete
       (put_gr (d_rd d) (shl (gr (d_rt d) e) (unat (gr (d_rs d) e AND 0x3F))) e)"

definition exec_dsrlv :: "'b handler" where
  "exec_dsrlv d e =
     handle_exec_complete
       (put_gr (d_rd d) (shr (gr (d_rt d) e) (unat (gr (d_rs d) e AND 0x3F))) e)"

definition exec_dsrav :: "'b handler" where
  "exec_dsrav d e =
     handle_exec_complete
       (put_gr (d_rd d) (signed_drop_bit (unat (gr (d_rs d) e AND 0x3F)) (gr (d_rt d) e)) e)"

section \<open>Moves, HI and LO\<close>

definition exec_movci :: "'b handler" where
  "exec_movci d e =
     (if cp0_status (core e) AND STATUS_CU1 = 0 then cpu_unusable 1 e
      else let cc = shr (d_raw d) 18 AND 7; tf = (shr (d_raw d) 16 AND 1 \<noteq> 0);
               cc_value = get_fpu_cc cc (core e);
               e = (if cc_value = tf then put_gr (d_rd d) (gr (d_rs d) e) e else e)
           in handle_exec_complete e)"

definition exec_movz :: "'b handler" where
  "exec_movz d e =
     handle_exec_complete (if gr (d_rt d) e = 0 then put_gr (d_rd d) (gr (d_rs d) e) e else e)"

definition exec_movn :: "'b handler" where
  "exec_movn d e =
     handle_exec_complete (if gr (d_rt d) e \<noteq> 0 then put_gr (d_rd d) (gr (d_rs d) e) e else e)"

definition exec_mfhi :: "'b handler" where
  "exec_mfhi d e = handle_exec_complete (put_gr (d_rd d) (hi (core e)) e)"

definition exec_mthi :: "'b handler" where
  "exec_mthi d e = handle_exec_complete (upd_core (\<lambda>c. c\<lparr>hi := gr (d_rs d) e\<rparr>) e)"

definition exec_mflo :: "'b handler" where
  "exec_mflo d e = handle_exec_complete (put_gr (d_rd d) (lo (core e)) e)"

definition exec_mtlo :: "'b handler" where
  "exec_mtlo d e = handle_exec_complete (upd_core (\<lambda>c. c\<lparr>lo := gr (d_rs d) e\<rparr>) e)"

section \<open>Multiplication and division\<close>

definition exec_mult :: "'b handler" where
  "exec_mult d e =
     (let rs_val = sext32 (lo32 (gr (d_rs d) e)); rt_val = sext32 (lo32 (gr (d_rt d) e));
          result = rs_val * rt_val
      in handle_exec_complete
           (put_hilo (sext32 (lo32 (signed_drop_bit 32 result))) (sext32 (lo32 result)) e))"

definition exec_multu :: "'b handler" where
  "exec_multu d e =
     (let rs_val = zext (lo32 (gr (d_rs d) e)); rt_val = zext (lo32 (gr (d_rt d) e));
          result = rs_val * rt_val
      in handle_exec_complete
           (put_hilo (sext32 (lo32 (shr result 32))) (sext32 (lo32 result)) e))"

definition exec_div :: "'b handler" where
  "exec_div d e =
     (let rs_val = lo32 (gr (d_rs d) e); rt_val = lo32 (gr (d_rt d) e)
      in if rt_val = 0 then handle_exec_complete e
         else handle_exec_complete
                (put_hilo (sext32 (wrapping_rem rs_val rt_val))
                          (sext32 (wrapping_div rs_val rt_val)) e))"

definition exec_divu :: "'b handler" where
  "exec_divu d e =
     (let rs_val = lo32 (gr (d_rs d) e); rt_val = lo32 (gr (d_rt d) e)
      in if rt_val = 0 then handle_exec_complete e
         else handle_exec_complete
                (put_hilo (sext32 (rs_val mod rt_val)) (sext32 (rs_val div rt_val)) e))"

definition exec_dmult :: "'b handler" where
  "exec_dmult d e =
     (let rs_val = scast (gr (d_rs d) e) :: 128 word; rt_val = scast (gr (d_rt d) e);
          result = rs_val * rt_val
      in handle_exec_complete (put_hilo (ucast (signed_drop_bit 64 result)) (ucast result) e))"

definition exec_dmultu :: "'b handler" where
  "exec_dmultu d e =
     (let rs_val = ucast (gr (d_rs d) e) :: 128 word; rt_val = ucast (gr (d_rt d) e);
          result = rs_val * rt_val
      in handle_exec_complete (put_hilo (ucast (shr result 64)) (ucast result) e))"

definition exec_ddiv :: "'b handler" where
  "exec_ddiv d e =
     (let rs_val = gr (d_rs d) e; rt_val = gr (d_rt d) e
      in if rt_val = 0 then handle_exec_complete e
         else if sint rs_val = - (2 ^ 63) \<and> sint rt_val = - 1 then handle_exec_complete e
         else handle_exec_complete
                (put_hilo (wrapping_rem rs_val rt_val) (wrapping_div rs_val rt_val) e))"

definition exec_ddivu :: "'b handler" where
  "exec_ddivu d e =
     (let rs_val = gr (d_rs d) e; rt_val = gr (d_rt d) e
      in if rt_val = 0 then handle_exec_complete e
         else handle_exec_complete (put_hilo (rs_val mod rt_val) (rs_val div rt_val) e))"

section \<open>Arithmetic and logic\<close>

definition exec_add :: "'b handler" where
  "exec_add d e =
     (case checked_add (lo32 (gr (d_rs d) e)) (lo32 (gr (d_rt d) e)) of
        Some r \<Rightarrow> handle_exec_complete (put_gr (d_rd d) (sext32 r) e)
      | None \<Rightarrow> raise_ov e)"

definition exec_addu :: "'b handler" where
  "exec_addu d e =
     handle_exec_complete
       (put_gr (d_rd d) (sext32 (lo32 (gr (d_rs d) e) + lo32 (gr (d_rt d) e))) e)"

definition exec_sub :: "'b handler" where
  "exec_sub d e =
     (case checked_sub (lo32 (gr (d_rs d) e)) (lo32 (gr (d_rt d) e)) of
        Some r \<Rightarrow> handle_exec_complete (put_gr (d_rd d) (sext32 r) e)
      | None \<Rightarrow> raise_ov e)"

definition exec_subu :: "'b handler" where
  "exec_subu d e =
     handle_exec_complete
       (put_gr (d_rd d) (sext32 (lo32 (gr (d_rs d) e) - lo32 (gr (d_rt d) e))) e)"

definition exec_and :: "'b handler" where
  "exec_and d e = handle_exec_complete (put_gr (d_rd d) (gr (d_rs d) e AND gr (d_rt d) e) e)"

definition exec_or :: "'b handler" where
  "exec_or d e = handle_exec_complete (put_gr (d_rd d) (gr (d_rs d) e OR gr (d_rt d) e) e)"

definition exec_xor :: "'b handler" where
  "exec_xor d e = handle_exec_complete (put_gr (d_rd d) (gr (d_rs d) e XOR gr (d_rt d) e) e)"

definition exec_nor :: "'b handler" where
  "exec_nor d e =
     handle_exec_complete (put_gr (d_rd d) (NOT (gr (d_rs d) e OR gr (d_rt d) e)) e)"

definition exec_slt :: "'b handler" where
  "exec_slt d e =
     handle_exec_complete
       (put_gr (d_rd d) (if gr (d_rs d) e <s gr (d_rt d) e then 1 else 0) e)"

definition exec_sltu :: "'b handler" where
  "exec_sltu d e =
     handle_exec_complete (put_gr (d_rd d) (if gr (d_rs d) e < gr (d_rt d) e then 1 else 0) e)"

definition exec_dadd :: "'b handler" where
  "exec_dadd d e =
     (case checked_add (gr (d_rs d) e) (gr (d_rt d) e) of
        Some r \<Rightarrow> handle_exec_complete (put_gr (d_rd d) r e)
      | None \<Rightarrow> raise_ov e)"

definition exec_daddu :: "'b handler" where
  "exec_daddu d e = handle_exec_complete (put_gr (d_rd d) (gr (d_rs d) e + gr (d_rt d) e) e)"

definition exec_dsub :: "'b handler" where
  "exec_dsub d e =
     (case checked_sub (gr (d_rs d) e) (gr (d_rt d) e) of
        Some r \<Rightarrow> handle_exec_complete (put_gr (d_rd d) r e)
      | None \<Rightarrow> raise_ov e)"

definition exec_dsubu :: "'b handler" where
  "exec_dsubu d e = handle_exec_complete (put_gr (d_rd d) (gr (d_rs d) e - gr (d_rt d) e) e)"

section \<open>Traps\<close>

definition exec_tge :: "'b handler" where
  "exec_tge d e = trap_if (gr (d_rt d) e \<le>s gr (d_rs d) e) e"

definition exec_tgeu :: "'b handler" where
  "exec_tgeu d e = trap_if (gr (d_rs d) e \<ge> gr (d_rt d) e) e"

definition exec_tlt :: "'b handler" where
  "exec_tlt d e = trap_if (gr (d_rs d) e <s gr (d_rt d) e) e"

definition exec_tltu :: "'b handler" where
  "exec_tltu d e = trap_if (gr (d_rs d) e < gr (d_rt d) e) e"

definition exec_teq :: "'b handler" where
  "exec_teq d e = trap_if (gr (d_rs d) e = gr (d_rt d) e) e"

definition exec_tne :: "'b handler" where
  "exec_tne d e = trap_if (gr (d_rs d) e \<noteq> gr (d_rt d) e) e"

definition exec_tgei :: "'b handler" where
  "exec_tgei d e = trap_if (immu64 d \<le>s gr (d_rs d) e) e"

definition exec_tgeiu :: "'b handler" where
  "exec_tgeiu d e = trap_if (gr (d_rs d) e \<ge> immu64 d) e"

definition exec_tlti :: "'b handler" where
  "exec_tlti d e = trap_if (gr (d_rs d) e <s immu64 d) e"

definition exec_tltiu :: "'b handler" where
  "exec_tltiu d e = trap_if (gr (d_rs d) e < immu64 d) e"

definition exec_teqi :: "'b handler" where
  "exec_teqi d e = trap_if (gr (d_rs d) e = immu64 d) e"

definition exec_tnei :: "'b handler" where
  "exec_tnei d e = trap_if (gr (d_rs d) e \<noteq> immu64 d) e"

definition exec_syscall :: "'b handler" where
  "exec_syscall d e = handle_exception (exec_exception EXC_SYS) e"

definition exec_break :: "'b handler" where
  "exec_break d e = handle_exception (exec_exception EXC_BP) e"

definition exec_sync :: "'b handler" where
  "exec_sync d e = handle_exec_complete e"

section \<open>Jumps\<close>

definition jump_target :: "decoded_fields \<Rightarrow> 'b mips_executor \<Rightarrow> u64" where
  "jump_target d e = ((pc (core e) + 4) AND 0xFFFFFFFFF0000000) OR immi64 d"

definition branch_target :: "decoded_fields \<Rightarrow> 'b mips_executor \<Rightarrow> u64" where
  "branch_target d e = pc (core e) + 4 + immu64 d"

definition exec_jr :: "'b handler" where
  "exec_jr d e = branch_delay (gr (d_rs d) e) e"

definition exec_jalr :: "'b handler" where
  "exec_jalr d e =
     (let target = gr (d_rs d) e
      in branch_delay target (put_gr (d_rd d) (pc (core e) + 8) e))"

definition exec_j :: "'b handler" where
  "exec_j d e = branch_delay (jump_target d e) e"

definition exec_jal :: "'b handler" where
  "exec_jal d e =
     (let target = jump_target d e in branch_delay target (put_gr 31 (pc (core e) + 8) e))"

section \<open>Branches\<close>

definition branch_if :: "bool \<Rightarrow> decoded_fields \<Rightarrow> 'b mips_executor \<Rightarrow> u32 \<times> 'b mips_executor" where
  "branch_if b d e =
     (if b then branch_delay (branch_target d e) e else handle_branch_not_taken e)"

definition branch_likely_if ::
  "bool \<Rightarrow> decoded_fields \<Rightarrow> 'b mips_executor \<Rightarrow> u32 \<times> 'b mips_executor" where
  "branch_likely_if b d e =
     (if b then branch_delay (branch_target d e) e else handle_branch_likely_skip e)"

definition exec_beq :: "'b handler" where
  "exec_beq d e = branch_if (gr (d_rs d) e = gr (d_rt d) e) d e"

definition exec_bne :: "'b handler" where
  "exec_bne d e = branch_if (gr (d_rs d) e \<noteq> gr (d_rt d) e) d e"

definition exec_blez :: "'b handler" where
  "exec_blez d e = branch_if (gr (d_rs d) e \<le>s 0) d e"

definition exec_bgtz :: "'b handler" where
  "exec_bgtz d e = branch_if (0 <s gr (d_rs d) e) d e"

definition exec_beql :: "'b handler" where
  "exec_beql d e = branch_likely_if (gr (d_rs d) e = gr (d_rt d) e) d e"

definition exec_bnel :: "'b handler" where
  "exec_bnel d e = branch_likely_if (gr (d_rs d) e \<noteq> gr (d_rt d) e) d e"

definition exec_blezl :: "'b handler" where
  "exec_blezl d e = branch_likely_if (gr (d_rs d) e \<le>s 0) d e"

definition exec_bgtzl :: "'b handler" where
  "exec_bgtzl d e = branch_likely_if (0 <s gr (d_rs d) e) d e"

definition exec_bltz :: "'b handler" where
  "exec_bltz d e = branch_if (gr (d_rs d) e <s 0) d e"

definition exec_bgez :: "'b handler" where
  "exec_bgez d e = branch_if (0 \<le>s gr (d_rs d) e) d e"

definition exec_bltzl_ri :: "'b handler" where
  "exec_bltzl_ri d e = branch_likely_if (gr (d_rs d) e <s 0) d e"

definition exec_bgezl_ri :: "'b handler" where
  "exec_bgezl_ri d e = branch_likely_if (0 \<le>s gr (d_rs d) e) d e"

text \<open>The linking forms read the source register before they write the link register.\<close>

definition exec_bltzal :: "'b handler" where
  "exec_bltzal d e =
     (let rs_val = gr (d_rs d) e in branch_if (rs_val <s 0) d (put_gr 31 (pc (core e) + 8) e))"

definition exec_bgezal :: "'b handler" where
  "exec_bgezal d e =
     (let rs_val = gr (d_rs d) e in branch_if (0 \<le>s rs_val) d (put_gr 31 (pc (core e) + 8) e))"

definition exec_bltzall :: "'b handler" where
  "exec_bltzall d e =
     (let rs_val = gr (d_rs d) e
      in branch_likely_if (rs_val <s 0) d (put_gr 31 (pc (core e) + 8) e))"

definition exec_bgezall :: "'b handler" where
  "exec_bgezall d e =
     (let rs_val = gr (d_rs d) e
      in branch_likely_if (0 \<le>s rs_val) d (put_gr 31 (pc (core e) + 8) e))"

section \<open>Immediate arithmetic\<close>

definition exec_addi :: "'b handler" where
  "exec_addi d e =
     (case checked_add (lo32 (gr (d_rs d) e)) (lo32 (immu64 d)) of
        Some r \<Rightarrow> handle_exec_complete (put_gr (d_rt d) (sext32 r) e)
      | None \<Rightarrow> raise_ov e)"

definition exec_addiu :: "'b handler" where
  "exec_addiu d e =
     handle_exec_complete
       (put_gr (d_rt d) (sext32 (lo32 (gr (d_rs d) e) + lo32 (immi64 d))) e)"

definition exec_daddi :: "'b handler" where
  "exec_daddi d e =
     (case checked_add (gr (d_rs d) e) (immu64 d) of
        Some r \<Rightarrow> handle_exec_complete (put_gr (d_rt d) r e)
      | None \<Rightarrow> raise_ov e)"

definition exec_daddiu :: "'b handler" where
  "exec_daddiu d e = handle_exec_complete (put_gr (d_rt d) (gr (d_rs d) e + immu64 d) e)"

definition exec_slti :: "'b handler" where
  "exec_slti d e =
     handle_exec_complete (put_gr (d_rt d) (if gr (d_rs d) e <s immu64 d then 1 else 0) e)"

definition exec_sltiu :: "'b handler" where
  "exec_sltiu d e =
     handle_exec_complete (put_gr (d_rt d) (if gr (d_rs d) e < immu64 d then 1 else 0) e)"

definition exec_andi :: "'b handler" where
  "exec_andi d e = handle_exec_complete (put_gr (d_rt d) (gr (d_rs d) e AND immi64 d) e)"

definition exec_ori :: "'b handler" where
  "exec_ori d e = handle_exec_complete (put_gr (d_rt d) (gr (d_rs d) e OR immi64 d) e)"

definition exec_xori :: "'b handler" where
  "exec_xori d e = handle_exec_complete (put_gr (d_rt d) (gr (d_rs d) e XOR immi64 d) e)"

definition exec_lui :: "'b handler" where
  "exec_lui d e = handle_exec_complete (put_gr (d_rt d) (immu64 d) e)"

section \<open>Fused pairs\<close>

text \<open>The handlers \<open>decode_into\<close> selects under the \<^verbatim>\<open>opcodefusion\<close> feature.\<close>

definition exec_jr_nop :: "'b handler" where
  "exec_jr_nop d e =
     (let target = gr (d_rs d) e
      in if in_delay_slot (core e) then branch_delay target e
         else exec_complete_pc_set (upd_core (\<lambda>c. c\<lparr>pc := target\<rparr>) e))"

definition exec_j_nop :: "'b handler" where
  "exec_j_nop d e =
     (let target = jump_target d e
      in if in_delay_slot (core e) then branch_delay target e
         else exec_complete_pc_set (upd_core (\<lambda>c. c\<lparr>pc := target\<rparr>) e))"

definition exec_jal_nop :: "'b handler" where
  "exec_jal_nop d e =
     (let target = jump_target d e; e = put_gr 31 (pc (core e) + 8) e
      in if in_delay_slot (core e) then branch_delay target e
         else exec_complete_pc_set (upd_core (\<lambda>c. c\<lparr>pc := target\<rparr>) e))"

definition fused_branch :: "bool \<Rightarrow> decoded_fields \<Rightarrow> 'b mips_executor \<Rightarrow> u32 \<times> 'b mips_executor" where
  "fused_branch b d e =
     (if b then
        (let target = branch_target d e
         in if in_delay_slot (core e) then branch_delay target e
            else exec_complete_pc_set (upd_core (\<lambda>c. c\<lparr>pc := target\<rparr>) e))
      else if in_delay_slot (core e) then handle_exec_complete e
      else handle_branch_likely_skip e)"

definition exec_beq_nop :: "'b handler" where
  "exec_beq_nop d e = fused_branch (gr (d_rs d) e = gr (d_rt d) e) d e"

definition exec_bne_nop :: "'b handler" where
  "exec_bne_nop d e = fused_branch (gr (d_rs d) e \<noteq> gr (d_rt d) e) d e"

definition exec_lui_imm32 :: "'b handler" where
  "exec_lui_imm32 d e =
     (if in_delay_slot (core e)
      then handle_exec_complete (put_gr (d_rt d) (sext32 (shl (d_raw d AND 0xFFFF) 16)) e)
      else handle_branch_likely_skip (put_gr (d_rt d) (immu64 d) e))"

definition exec_lui_simm32 :: "'b handler" where
  "exec_lui_simm32 d e =
     (if in_delay_slot (core e)
      then handle_exec_complete (put_gr (d_rt d) (sext32 (shl (d_raw d AND 0xFFFF) 16)) e)
      else handle_branch_likely_skip (put_gr (d_rt d) (immu64 d) e))"

end
