(* ===== verification/Mips_Mem.thy ===== *)
theory Mips_Mem
  imports Mips_Translate Mips_Alu
begin

text \<open>
  Loads and stores of \<^verbatim>\<open>src/src/cpu/mips_exec.rs\<close>: the data path from a virtual address through
  breakpoints, alignment, translation and the cache or the bus, the load and store handlers,
  the unaligned forms, load-linked and store-conditional, CACHE and the fused
  address-and-access pairs.  The cache is the pass-through cache of
  \<^verbatim>\<open>src/src/cpu/mips_cache_v2.rs\<close>.

  A Rust \<^verbatim>\<open>Result<u64, ExecStatus>\<close> is \<open>Inr\<close> of the value or \<open>Inl\<close> of the status.  The
  outer option is that of the translation.
\<close>

section \<open>The pass-through cache\<close>

definition bus_read :: "nat \<Rightarrow> u64 \<Rightarrow> 'b mips_executor \<Rightarrow> u64 bus_read \<times> 'b mips_executor" where
  "bus_read sz pa e =
     (if sz = 1 then (case bd_read8 (bus e) (sysad e) pa of
                        ((s, v), b) \<Rightarrow> ((s, ucast v), e\<lparr>sysad := b\<rparr>))
      else if sz = 2 then (case bd_read16 (bus e) (sysad e) pa of
                             ((s, v), b) \<Rightarrow> ((s, ucast v), e\<lparr>sysad := b\<rparr>))
      else if sz = 4 then (case bd_read32 (bus e) (sysad e) pa of
                             ((s, v), b) \<Rightarrow> ((s, ucast v), e\<lparr>sysad := b\<rparr>))
      else (case bd_read64 (bus e) (sysad e) pa of
              (r, b) \<Rightarrow> (r, e\<lparr>sysad := b\<rparr>)))"

definition bus_write :: "nat \<Rightarrow> u64 \<Rightarrow> u64 \<Rightarrow> 'b mips_executor \<Rightarrow> u32 \<times> 'b mips_executor" where
  "bus_write sz pa v e =
     (case (if sz = 1 then bd_write8 (bus e) pa (ucast v) (sysad e)
            else if sz = 2 then bd_write16 (bus e) pa (ucast v) (sysad e)
            else if sz = 4 then bd_write32 (bus e) pa (ucast v) (sysad e)
            else bd_write64 (bus e) pa v (sysad e)) of
        (s, b) \<Rightarrow> (s, e\<lparr>sysad := b\<rparr>))"

definition cache_read :: "nat \<Rightarrow> u64 \<Rightarrow> 'b mips_executor \<Rightarrow> u64 bus_read \<times> 'b mips_executor" where
  "cache_read sz pa e = bus_read sz pa e"

definition cache_write :: "nat \<Rightarrow> u64 \<Rightarrow> u64 \<Rightarrow> 'b mips_executor \<Rightarrow> u32 \<times> 'b mips_executor" where
  "cache_write sz pa v e = bus_write sz pa v e"

definition cache_write64_masked ::
  "u64 \<Rightarrow> u64 \<Rightarrow> u64 \<Rightarrow> 'b mips_executor \<Rightarrow> u32 \<times> 'b mips_executor" where
  "cache_write64_masked pa v m e =
     (let aligned = pa AND NOT 7
      in case bus_read 8 aligned e of
           ((s, data), e) \<Rightarrow>
             if s \<noteq> BUS_OK then (s, e)
             else bus_write 8 aligned ((data AND NOT m) OR (v AND m)) e)"

definition cache_fetch :: "u64 \<Rightarrow> 'b mips_executor \<Rightarrow> (u32 + u32) \<times> 'b mips_executor" where
  "cache_fetch pa e =
     (case bd_read32 (bus e) (sysad e) pa of
        ((s, w), b) \<Rightarrow> (if s = BUS_OK then Inr w else Inl s, e\<lparr>sysad := b\<rparr>))"

section \<open>The data path\<close>

definition align_mask_for :: "nat \<Rightarrow> u64" where
  "align_mask_for sz = word_of_nat sz - 1"

type_synonym 'b load_result = "((u32 + u64) \<times> 'b mips_executor) option"
type_synonym 'b store_result = "(u32 \<times> 'b mips_executor) option"

definition set_badvaddr :: "bool \<Rightarrow> u64 \<Rightarrow> 'b mips_executor \<Rightarrow> 'b mips_executor" where
  "set_badvaddr debug va e = (if debug then e else upd_core (\<lambda>c. c\<lparr>cp0_badvaddr := va\<rparr>) e)"

text \<open>A breakpoint is looked for in production accesses only.\<close>

definition bp_check :: "bool \<Rightarrow> bp_type \<Rightarrow> u64 \<Rightarrow> 'b mips_executor \<Rightarrow> bool \<times> 'b mips_executor" where
  "bp_check debug k a e = (if debug then (False, e) else bp_hit k a e)"

definition data_translate ::
  "bool \<Rightarrow> access_type \<Rightarrow> u64 \<Rightarrow> 'b mips_executor
     \<Rightarrow> (translate_result \<times> 'b mips_executor) option" where
  "data_translate debug at va e =
     (if debug then translate_impl True va Debug e else nanotlb_translate at va e)"

definition read_data_impl :: "bool \<Rightarrow> nat \<Rightarrow> u64 \<Rightarrow> 'b mips_executor \<Rightarrow> 'b load_result" where
  "read_data_impl debug sz va e =
     (case bp_check debug BpVirtRead va e of
        (hit, e) \<Rightarrow>
      if hit then Some (Inl EXEC_BREAKPOINT, e)
      else if va AND align_mask_for sz \<noteq> 0
      then Some (Inl (exec_exception EXC_ADEL), set_badvaddr debug va e)
      else case data_translate debug Read va e of
        None \<Rightarrow> None
      | Some (tr, e) \<Rightarrow>
          if tr_is_exception tr then Some (Inl (tr_status tr), e)
          else case bp_check debug BpPhysRead (tr_phys tr) e of
            (hit, e) \<Rightarrow>
          if hit then Some (Inl EXEC_BREAKPOINT, e)
          else if tr_is_cached tr then
            (case cache_read sz (tr_phys tr) e of
               ((s, v), e) \<Rightarrow>
                 if s = BUS_OK then Some (Inr v, e)
                 else Some (Inl s, if s AND EXEC_IS_CACHE_ERR = 0 then set_badvaddr debug va e
                                   else e))
          else
            (case bus_read sz (tr_phys tr) e of
               ((s, v), e) \<Rightarrow>
                 if s = BUS_OK then Some (Inr v, e)
                 else Some (Inl s, if s \<noteq> BUS_BUSY then set_badvaddr debug va e else e)))"

definition write_data_impl ::
  "bool \<Rightarrow> nat \<Rightarrow> u64 \<Rightarrow> u64 \<Rightarrow> 'b mips_executor \<Rightarrow> 'b store_result" where
  "write_data_impl debug sz va val e =
     (case bp_check debug BpVirtWrite va e of
        (hit, e) \<Rightarrow>
      if hit then Some (EXEC_BREAKPOINT, e)
      else if va AND align_mask_for sz \<noteq> 0
      then Some (exec_exception EXC_ADES, set_badvaddr debug va e)
      else case data_translate debug Write va e of
        None \<Rightarrow> None
      | Some (tr, e) \<Rightarrow>
          if tr_is_exception tr then Some (tr_status tr, e)
          else case bp_check debug BpPhysWrite (tr_phys tr) e of
            (hit, e) \<Rightarrow>
          if hit then Some (EXEC_BREAKPOINT, e)
          else if tr_is_cached tr then
            (case cache_write sz (tr_phys tr) val e of
               (s, e) \<Rightarrow>
                 Some (s, if s \<noteq> BUS_OK \<and> s \<noteq> BUS_BUSY then set_badvaddr debug va e else e))
          else Some (bus_write sz (tr_phys tr) val e))"

definition write_data64_masked_impl ::
  "bool \<Rightarrow> u64 \<Rightarrow> u64 \<Rightarrow> u64 \<Rightarrow> 'b mips_executor \<Rightarrow> 'b store_result" where
  "write_data64_masked_impl debug va val m e =
     (case bp_check debug BpVirtWrite va e of
        (hit, e) \<Rightarrow>
      if hit then Some (EXEC_BREAKPOINT, e)
      else case data_translate debug Write va e of
        None \<Rightarrow> None
      | Some (tr, e) \<Rightarrow>
          if tr_is_exception tr then Some (tr_status tr, e)
          else case bp_check debug BpPhysWrite (tr_phys tr) e of
            (hit, e) \<Rightarrow>
          if hit then Some (EXEC_BREAKPOINT, e)
          else if tr_is_cached tr then
            (case cache_write64_masked (tr_phys tr) val m e of
               (s, e) \<Rightarrow>
                 Some (s, if s \<noteq> BUS_OK \<and> s \<noteq> BUS_BUSY then set_badvaddr debug va e else e))
          else (case bd_write64_masked (bus e) (tr_phys tr) val m (sysad e) of
                  (s, b) \<Rightarrow> Some (s, e\<lparr>sysad := b\<rparr>)))"

definition read_data :: "nat \<Rightarrow> u64 \<Rightarrow> 'b mips_executor \<Rightarrow> 'b load_result" where
  "read_data sz va e = read_data_impl False sz va e"

definition write_data :: "nat \<Rightarrow> u64 \<Rightarrow> u64 \<Rightarrow> 'b mips_executor \<Rightarrow> 'b store_result" where
  "write_data sz va val e = write_data_impl False sz va val e"

definition write_data64_masked :: "u64 \<Rightarrow> u64 \<Rightarrow> u64 \<Rightarrow> 'b mips_executor \<Rightarrow> 'b store_result" where
  "write_data64_masked va val m e = write_data64_masked_impl False va val m e"

definition debug_read :: "nat \<Rightarrow> u64 \<Rightarrow> 'b mips_executor \<Rightarrow> 'b load_result" where
  "debug_read sz va e =
     (if sz \<in> {1, 2, 4, 8} then read_data_impl True sz va e
      else Some (Inl (exec_exception EXC_ADEL), e))"

definition debug_write :: "nat \<Rightarrow> u64 \<Rightarrow> u64 \<Rightarrow> 'b mips_executor \<Rightarrow> 'b store_result" where
  "debug_write sz va val e =
     (if sz \<in> {1, 2, 4, 8} then write_data_impl True sz va val e
      else Some (exec_exception EXC_ADES, e))"

text \<open>An instruction fetch gives the instruction word or a status.\<close>

definition fetch_instr_impl ::
  "bool \<Rightarrow> u64 \<Rightarrow> 'b mips_executor \<Rightarrow> ((u32 + u32) \<times> 'b mips_executor) option" where
  "fetch_instr_impl debug va e =
     (case bp_check debug BpVirtFetch va e of
        (hit, e) \<Rightarrow>
      if hit then Some (Inl EXEC_BREAKPOINT, e)
      else case (if debug then translate_impl True va Fetch e else nanotlb_translate Fetch va e) of
        None \<Rightarrow> None
      | Some (tr, e) \<Rightarrow>
          if tr_is_exception tr then Some (Inl (tr_status tr), e)
          else case bp_check debug BpPhysFetch (tr_phys tr) e of
            (hit, e) \<Rightarrow>
          if hit then Some (Inl EXEC_BREAKPOINT, e)
          else if tr_is_cached tr then
            (case cache_fetch (tr_phys tr) e of
               (r, e) \<Rightarrow>
                 Some (r, if r = Inl (exec_exception EXC_VCEI) then set_badvaddr debug va e else e))
          else
            (case bd_read32 (bus e) (sysad e) (tr_phys tr) of
               ((s, w), b) \<Rightarrow> Some (if s = BUS_OK then Inr w else Inl s, e\<lparr>sysad := b\<rparr>)))"

section \<open>Loads and stores\<close>

type_synonym 'b mhandler = "decoded_fields \<Rightarrow> 'b mips_executor \<Rightarrow> 'b store_result"

definition effective_address :: "decoded_fields \<Rightarrow> 'b mips_executor \<Rightarrow> u64" where
  "effective_address d e = gr (d_rs d) e + immu64 d"

text \<open>The common shape of the loads: read, extend, write the register, retire.\<close>

definition load_with :: "nat \<Rightarrow> (u64 \<Rightarrow> u64) \<Rightarrow> 'b mhandler" where
  "load_with sz ext d e =
     (case read_data sz (effective_address d e) e of
        None \<Rightarrow> None
      | Some (Inr v, e) \<Rightarrow> Some (handle_exec_complete (put_gr (d_rt d) (ext v) e))
      | Some (Inl s, e) \<Rightarrow> Some (finish_status s e))"

definition store_with :: "nat \<Rightarrow> 'b mhandler" where
  "store_with sz d e =
     (case write_data sz (effective_address d e) (gr (d_rt d) e) e of
        None \<Rightarrow> None
      | Some (s, e) \<Rightarrow> Some (finish_status s e))"

definition sext8_64 :: "u64 \<Rightarrow> u64" where "sext8_64 v = scast (ucast v :: u8)"
definition sext16_64 :: "u64 \<Rightarrow> u64" where "sext16_64 v = scast (ucast v :: u16)"
definition sext32_64 :: "u64 \<Rightarrow> u64" where "sext32_64 v = sext32 (lo32 v)"

definition exec_lb :: "'b mhandler" where "exec_lb d e = load_with 1 sext8_64 d e"
definition exec_lbu :: "'b mhandler" where "exec_lbu d e = load_with 1 (\<lambda>v. v) d e"
definition exec_lh :: "'b mhandler" where "exec_lh d e = load_with 2 sext16_64 d e"
definition exec_lhu :: "'b mhandler" where "exec_lhu d e = load_with 2 (\<lambda>v. v) d e"
definition exec_lw :: "'b mhandler" where "exec_lw d e = load_with 4 sext32_64 d e"
definition exec_lwu :: "'b mhandler" where "exec_lwu d e = load_with 4 (\<lambda>v. v) d e"
definition exec_ld :: "'b mhandler" where "exec_ld d e = load_with 8 (\<lambda>v. v) d e"
definition exec_sb :: "'b mhandler" where "exec_sb d e = store_with 1 d e"
definition exec_sh :: "'b mhandler" where "exec_sh d e = store_with 2 d e"
definition exec_sw :: "'b mhandler" where "exec_sw d e = store_with 4 d e"
definition exec_sd :: "'b mhandler" where "exec_sd d e = store_with 8 d e"

section \<open>Unaligned loads and stores\<close>

text \<open>The merge a left or right load performs, on the byte offset within the word or the
  doubleword.\<close>

definition lwl_merge :: "nat \<Rightarrow> u32 \<Rightarrow> u32 \<Rightarrow> u32" where
  "lwl_merge off w rt =
     (let shift = off * 8; m = shl 0xFFFFFFFF shift in shl w shift OR (rt AND NOT m))"

definition lwr_merge :: "nat \<Rightarrow> u32 \<Rightarrow> u32 \<Rightarrow> u32" where
  "lwr_merge off w rt =
     (let shift = (3 - off) * 8; m = shr 0xFFFFFFFF shift in shr w shift OR (rt AND NOT m))"

definition ldl_merge :: "nat \<Rightarrow> u64 \<Rightarrow> u64 \<Rightarrow> u64" where
  "ldl_merge off w rt =
     (let shift = off * 8; m = shl 0xFFFFFFFFFFFFFFFF shift in shl w shift OR (rt AND NOT m))"

definition ldr_merge :: "nat \<Rightarrow> u64 \<Rightarrow> u64 \<Rightarrow> u64" where
  "ldr_merge off w rt =
     (let shift = (7 - off) * 8; m = shr 0xFFFFFFFFFFFFFFFF shift
      in shr w shift OR (rt AND NOT m))"

definition exec_lwl :: "'b mhandler" where
  "exec_lwl d e =
     (let va = effective_address d e; aligned = va AND NOT 3; off = unat (va AND 3)
      in case read_data 4 aligned e of
           None \<Rightarrow> None
         | Some (Inr w, e) \<Rightarrow>
             let rt_val = lo32 (gr (d_rt d) e)
             in Some (handle_exec_complete
                        (put_gr (d_rt d) (sext32 (lwl_merge off (lo32 w) rt_val)) e))
         | Some (Inl s, e) \<Rightarrow> Some (finish_status s e))"

definition exec_lwr :: "'b mhandler" where
  "exec_lwr d e =
     (let va = effective_address d e; aligned = va AND NOT 3; off = unat (va AND 3)
      in case read_data 4 aligned e of
           None \<Rightarrow> None
         | Some (Inr w, e) \<Rightarrow>
             let rt_val = lo32 (gr (d_rt d) e)
             in Some (handle_exec_complete
                        (put_gr (d_rt d) (sext32 (lwr_merge off (lo32 w) rt_val)) e))
         | Some (Inl s, e) \<Rightarrow> Some (finish_status s e))"

definition exec_ldl :: "'b mhandler" where
  "exec_ldl d e =
     (let va = effective_address d e; aligned = va AND NOT 7; off = unat (va AND 7)
      in case read_data 8 aligned e of
           None \<Rightarrow> None
         | Some (Inr w, e) \<Rightarrow>
             Some (handle_exec_complete
                     (put_gr (d_rt d) (ldl_merge off w (gr (d_rt d) e)) e))
         | Some (Inl s, e) \<Rightarrow> Some (finish_status s e))"

definition exec_ldr :: "'b mhandler" where
  "exec_ldr d e =
     (let va = effective_address d e; aligned = va AND NOT 7; off = unat (va AND 7)
      in case read_data 8 aligned e of
           None \<Rightarrow> None
         | Some (Inr w, e) \<Rightarrow>
             Some (handle_exec_complete
                     (put_gr (d_rt d) (ldr_merge off w (gr (d_rt d) e)) e))
         | Some (Inl s, e) \<Rightarrow> Some (finish_status s e))"

definition masked_store :: "u64 \<Rightarrow> u64 \<Rightarrow> u64 \<Rightarrow> 'b mips_executor \<Rightarrow> 'b store_result" where
  "masked_store va val m e =
     (case write_data64_masked va val m e of
        None \<Rightarrow> None
      | Some (s, e) \<Rightarrow> Some (finish_status s e))"

text \<open>Value and mask in the doubleword at the address.\<close>

definition swl_lanes :: "u64 \<Rightarrow> u32 \<Rightarrow> u64 \<times> u64" where
  "swl_lanes va rt =
     (let word_shift = unat (va AND 3) * 8;
          word_mask = shr 0xFFFFFFFF word_shift; word_val = shr rt word_shift;
          dw_shift = (4 - unat (va AND 4)) * 8
      in (shl (zext word_val) dw_shift, shl (zext word_mask) dw_shift))"

definition swr_lanes :: "u64 \<Rightarrow> u32 \<Rightarrow> u64 \<times> u64" where
  "swr_lanes va rt =
     (let word_shift = (3 - unat (va AND 3)) * 8;
          word_mask = shl 0xFFFFFFFF word_shift; word_val = shl rt word_shift;
          dw_shift = (4 - unat (va AND 4)) * 8
      in (shl (zext word_val) dw_shift, shl (zext word_mask) dw_shift))"

definition sdl_lanes :: "u64 \<Rightarrow> u64 \<Rightarrow> u64 \<times> u64" where
  "sdl_lanes va rt =
     (let shift = unat (va AND 7) * 8 in (shr rt shift, shr 0xFFFFFFFFFFFFFFFF shift))"

definition sdr_lanes :: "u64 \<Rightarrow> u64 \<Rightarrow> u64 \<times> u64" where
  "sdr_lanes va rt =
     (let shift = (7 - unat (va AND 7)) * 8 in (shl rt shift, shl 0xFFFFFFFFFFFFFFFF shift))"

definition exec_swl :: "'b mhandler" where
  "exec_swl d e =
     (let va = effective_address d e; rt_val = lo32 (gr (d_rt d) e)
      in case swl_lanes va rt_val of (v, m) \<Rightarrow> masked_store (va AND NOT 7) v m e)"

definition exec_swr :: "'b mhandler" where
  "exec_swr d e =
     (let va = effective_address d e; rt_val = lo32 (gr (d_rt d) e)
      in case swr_lanes va rt_val of (v, m) \<Rightarrow> masked_store (va AND NOT 7) v m e)"

definition exec_sdl :: "'b mhandler" where
  "exec_sdl d e =
     (let va = effective_address d e
      in case sdl_lanes va (gr (d_rt d) e) of (v, m) \<Rightarrow> masked_store (va AND NOT 7) v m e)"

definition exec_sdr :: "'b mhandler" where
  "exec_sdr d e =
     (let va = effective_address d e
      in case sdr_lanes va (gr (d_rt d) e) of (v, m) \<Rightarrow> masked_store (va AND NOT 7) v m e)"

section \<open>Load-linked and store-conditional\<close>

text \<open>The reservation an LL takes after its load.\<close>

definition take_reservation ::
  "u64 \<Rightarrow> u64 \<Rightarrow> 'b mips_executor \<Rightarrow> 'b mips_executor option" where
  "take_reservation va value e =
     (case nanotlb_translate Read va e of
        None \<Rightarrow> None
      | Some (tr, e) \<Rightarrow>
          Some (if tr_is_exception tr then e
                else let la = shr (tr_phys tr) 4 AND lladdr_mask (model e)
                     in upd_core (\<lambda>c. c\<lparr>cp0_lladdr := la, ll_value := value,
                                       ll_phys := tr_phys tr\<rparr>)
                          (e\<lparr>lladdr := la, llbit := True\<rparr>)))"

definition load_linked :: "nat \<Rightarrow> (u64 \<Rightarrow> u64) \<Rightarrow> 'b mhandler" where
  "load_linked sz ext d e =
     (let va = effective_address d e
      in case read_data sz va e of
           None \<Rightarrow> None
         | Some (Inl s, e) \<Rightarrow> Some (finish_status s e)
         | Some (Inr v, e) \<Rightarrow>
             (case take_reservation va v (put_gr (d_rt d) (ext v) e) of
                None \<Rightarrow> None
              | Some e \<Rightarrow> Some (handle_exec_complete e)))"

definition exec_ll :: "'b mhandler" where "exec_ll d e = load_linked 4 sext32_64 d e"
definition exec_lld :: "'b mhandler" where "exec_lld d e = load_linked 8 (\<lambda>v. v) d e"

text \<open>\<^verbatim>\<open>cas_ram32\<close> and \<^verbatim>\<open>cas_ram64\<close> of the pass-through cache are the trait's default, which
  declines, so the store is an ordinary one.\<close>

definition store_conditional :: "nat \<Rightarrow> 'b mhandler" where
  "store_conditional sz d e =
     (let va = effective_address d e
      in if \<not> llbit e then Some (handle_exec_complete (put_gr (d_rt d) 0 e))
         else case nanotlb_translate Write va e of
           None \<Rightarrow> None
         | Some (tr, e) \<Rightarrow>
             if tr_is_exception tr then Some (finish_status (tr_status tr) (e\<lparr>llbit := False\<rparr>))
             else case write_data sz va (gr (d_rt d) e) e of
               None \<Rightarrow> None
             | Some (s, e) \<Rightarrow>
                 Some (finish_status s
                         (if s = EXEC_COMPLETE then (put_gr (d_rt d) 1 e)\<lparr>llbit := False\<rparr>
                          else e)))"

definition exec_sc :: "'b mhandler" where "exec_sc d e = store_conditional 4 d e"
definition exec_scd :: "'b mhandler" where "exec_scd d e = store_conditional 8 d e"

definition exec_pref :: "'b handler" where "exec_pref d e = handle_exec_complete e"

section \<open>CACHE\<close>

text \<open>Operations of the pass-through cache do nothing and return 0.\<close>

definition C_ILT :: u32 where "C_ILT = 0x04"
definition C_IST :: u32 where "C_IST = 0x08"
definition C_CDX :: u32 where "C_CDX = 0x0C"
definition C_HINV :: u32 where "C_HINV = 0x10"
definition C_HWBINV :: u32 where "C_HWBINV = 0x14"
definition C_HWB :: u32 where "C_HWB = 0x18"
definition C_HSV :: u32 where "C_HSV = 0x1C"
definition C_R10K_CBARRIER :: u32 where "C_R10K_CBARRIER = 0x14"
definition C_R10K_ILD :: u32 where "C_R10K_ILD = 0x18"
definition C_R10K_ISD :: u32 where "C_R10K_ISD = 0x1C"

definition r10k_index_op :: "cpu_model \<Rightarrow> u32 \<Rightarrow> bool" where
  "r10k_index_op m cache_op =
     (let op = cache_op AND 0x1C; sel = cache_op AND 3
      in model_r10k_cache_ops m \<and>
         (if op = C_R10K_CBARRIER then sel = 0
          else if op = C_R10K_ILD then sel = 0 \<or> sel = 1 \<or> sel = 3
          else if op = C_R10K_ISD then sel = 2 \<or> sel = 3
          else False))"

definition cp0_usable :: "'b mips_executor \<Rightarrow> bool" where
  "cp0_usable e =
     (case get_privilege_mode (core e) of
        Kernel \<Rightarrow> True
      | _ \<Rightarrow> cp0_status (core e) AND STATUS_CU0 \<noteq> 0)"

definition exec_cache :: "'b mhandler" where
  "exec_cache d e =
     (if \<not> cp0_usable e then Some (cpu_unusable 0 e)
      else let va = effective_address d e; cache_op = ucast (d_rt d); op = cache_op AND 0x1C;
               idx_op = r10k_index_op (model e) cache_op;
               needs_translation = (\<not> idx_op \<and> (op = C_CDX \<or> op = C_HINV \<or> op = C_HWBINV
                                                 \<or> op = C_HWB \<or> op = C_HSV));
               finish = (\<lambda>e.
                 let e = (if model_r10k_cache_ops (model e) \<and> op = C_R10K_ILD
                          then upd_core (\<lambda>c. c\<lparr>cp0_ecc := 0\<rparr>) e else e);
                     e = (if op = C_ILT \<or> (idx_op \<and> op = C_R10K_ILD)
                          then upd_core (\<lambda>c. c\<lparr>cp0_taglo := 0, cp0_taghi := 0\<rparr>) e else e)
                 in handle_exec_complete e)
           in if needs_translation
              then (case nanotlb_translate Read va e of
                      None \<Rightarrow> None
                    | Some (tr, e) \<Rightarrow>
                        if tr_is_exception tr then Some (handle_exception (tr_status tr) e)
                        else Some (finish e))
              else Some (finish e))"

section \<open>Fused address calculation and access\<close>

definition OP_LB :: u32 where "OP_LB = 0x20"
definition OP_LH :: u32 where "OP_LH = 0x21"
definition OP_LW :: u32 where "OP_LW = 0x23"
definition OP_LBU :: u32 where "OP_LBU = 0x24"
definition OP_LHU :: u32 where "OP_LHU = 0x25"
definition OP_SB :: u32 where "OP_SB = 0x28"
definition OP_SH :: u32 where "OP_SH = 0x29"
definition OP_SW :: u32 where "OP_SW = 0x2B"
definition OP_LD :: u32 where "OP_LD = 0x37"
definition OP_SD :: u32 where "OP_SD = 0x3F"

definition is_fusable_load_store :: "u32 \<Rightarrow> u8 \<Rightarrow> bool" where
  "is_fusable_load_store next_raw addr_reg =
     (let next_op = shr next_raw 26 AND 0x3F; next_rs = shr next_raw 21 AND 0x1F
      in next_rs = ucast addr_reg \<and>
         next_op \<in> {OP_LB, OP_LBU, OP_LH, OP_LHU, OP_LW, OP_LD, OP_SB, OP_SH, OP_SW, OP_SD})"

definition fused_load ::
  "nat \<Rightarrow> (u64 \<Rightarrow> u64) \<Rightarrow> u32 \<Rightarrow> u64 \<Rightarrow> 'b mips_executor \<Rightarrow> 'b store_result" where
  "fused_load sz ext rt va e =
     (case read_data sz va e of
        None \<Rightarrow> None
      | Some (Inr v, e) \<Rightarrow> Some (EXEC_COMPLETE, upd_core (write_gpr rt (ext v)) e)
      | Some (Inl s, e) \<Rightarrow> Some (s, e))"

text \<open>The match ends in \<^verbatim>\<open>unreachable!\<close>, a panic, for any other opcode.\<close>

definition fused_tail :: "u64 \<Rightarrow> u32 \<Rightarrow> 'b mips_executor \<Rightarrow> 'b store_result" where
  "fused_tail addr next_raw e =
     (if in_delay_slot (core e) then Some (handle_exec_complete e)
      else let e = upd_core (\<lambda>c. c\<lparr>pc := pc c + 4\<rparr>) e;
               next_op = shr next_raw 26 AND 0x3F; rt = shr next_raw 16 AND 0x1F;
               va = addr + sext32 (sext16 next_raw);
               rt_val = read_gpr rt (core e)
           in case (if next_op = OP_LB then fused_load 1 sext8_64 rt va e
                    else if next_op = OP_LBU then fused_load 1 (\<lambda>v. v) rt va e
                    else if next_op = OP_LH then fused_load 2 sext16_64 rt va e
                    else if next_op = OP_LHU then fused_load 2 (\<lambda>v. v) rt va e
                    else if next_op = OP_LW then fused_load 4 sext32_64 rt va e
                    else if next_op = OP_LD then fused_load 8 (\<lambda>v. v) rt va e
                    else if next_op = OP_SB then write_data 1 va rt_val e
                    else if next_op = OP_SH then write_data 2 va rt_val e
                    else if next_op = OP_SW then write_data 4 va rt_val e
                    else if next_op = OP_SD then write_data 8 va rt_val e
                    else None) of
                None \<Rightarrow> None
              | Some (s, e) \<Rightarrow>
                  Some (if s = EXEC_COMPLETE then handle_exec_complete e
                        else handle_exception s e))"

definition exec_addu_ls :: "'b mhandler" where
  "exec_addu_ls d e =
     (let addr = sext32 (lo32 (gr (d_rs d) e) + lo32 (gr (d_rt d) e))
      in fused_tail addr (d_imm d) (put_gr (d_rd d) addr e))"

definition exec_subu_ls :: "'b mhandler" where
  "exec_subu_ls d e =
     (let addr = sext32 (lo32 (gr (d_rs d) e) - lo32 (gr (d_rt d) e))
      in fused_tail addr (d_imm d) (put_gr (d_rd d) addr e))"

definition exec_addiu_ls :: "'b mhandler" where
  "exec_addiu_ls d e =
     (let addr = sext32 (lo32 (gr (d_rs d) e) + sext16 (d_raw d))
      in fused_tail addr (d_imm d) (put_gr (d_rt d) addr e))"

end
