(* ===== verification/Mips_Cop0.thy ===== *)
theory Mips_Cop0
  imports Mips_Mem
begin

text \<open>
  Coprocessor 0 instructions of \<^verbatim>\<open>src/src/cpu/mips_exec.rs\<close>: moves with their side effects on the
  cached translations, the TLB instructions, ERET and WAIT.

  What the handlers read of the host is a record: the clock, and for WAIT the sequence of
  observations its loop makes of the interrupt word and of the time since the stall began.
  Other threads write the interrupt word, so each observation is also its new value.  WAIT is
  \<^const>\<open>None\<close> when the sequence ends before a release.
\<close>

record host_env =
  env_now :: nat
  env_wait :: "(u64 \<times> nat) list"

section \<open>Moves\<close>

text \<open>\<^const>\<open>write_cp0\<close> followed by the Status callback it ends with for register 12.\<close>

definition exec_write_cp0 ::
  "nat \<Rightarrow> u32 \<Rightarrow> u64 \<Rightarrow> 'b mips_executor \<Rightarrow> 'b mips_executor option" where
  "exec_write_cp0 now reg value e =
     (case write_cp0 now reg value (core e) of
        None \<Rightarrow> None
      | Some c \<Rightarrow>
          let e = e\<lparr>core := c\<rparr>
          in Some (if reg = 12 \<and> status_cb_installed e then resync_privilege_state e else e))"

definition TEST_DEV_DUMP :: u64 where "TEST_DEV_DUMP = 0x1F400000 + 0x08"

definition handle_cp0_side_effects :: "u32 \<Rightarrow> 'b mips_executor \<Rightarrow> 'b mips_executor" where
  "handle_cp0_side_effects reg e =
     (let e = (if reg = 17
               then upd_core (\<lambda>c. c\<lparr>cp0_lladdr := cp0_lladdr c AND lladdr_mask (model e)\<rparr>) e
               else e);
          e = (if reg = 10 then nanotlb_invalidate e else e);
          e = (if reg = 16 then nanotlb_invalidate e else e)
      in if reg = 26 \<and> cheritest_dump_hook e
         then e\<lparr>sysad := snd (bd_write32 (bus e) TEST_DEV_DUMP (cp0_ecc (core e)) (sysad e))\<rparr>
         else e)"

definition cp0_is_64bit :: "cpu_model \<Rightarrow> u32 \<Rightarrow> bool" where
  "cp0_is_64bit m reg =
     (reg \<in> {2, 3, 4, 8, 10, 14, 20, 30} \<or> (model_r10k_cache_ops m \<and> reg = 28))"

definition exec_mfc0 :: "host_env \<Rightarrow> 'b handler" where
  "exec_mfc0 env d e =
     (case read_cp0 (env_now env) (ucast (d_rd d)) (core e) of
        (value, c) \<Rightarrow>
          handle_exec_complete (put_gr (d_rt d) (sext32 (lo32 value)) (e\<lparr>core := c\<rparr>)))"

definition exec_dmfc0 :: "host_env \<Rightarrow> 'b handler" where
  "exec_dmfc0 env d e =
     (case read_cp0 (env_now env) (ucast (d_rd d)) (core e) of
        (value, c) \<Rightarrow> handle_exec_complete (put_gr (d_rt d) value (e\<lparr>core := c\<rparr>)))"

definition exec_mtc0 :: "host_env \<Rightarrow> 'b mhandler" where
  "exec_mtc0 env d e =
     (let rt_val = gr (d_rt d) e; rd_val = ucast (d_rd d);
          value = (if cp0_is_64bit (model e) rd_val then rt_val else sext32 (lo32 rt_val))
      in case exec_write_cp0 (env_now env) rd_val value e of
           None \<Rightarrow> None
         | Some e \<Rightarrow> Some (handle_exec_complete (handle_cp0_side_effects rd_val e)))"

definition exec_dmtc0 :: "host_env \<Rightarrow> 'b mhandler" where
  "exec_dmtc0 env d e =
     (let rt_val = gr (d_rt d) e; rd_val = ucast (d_rd d)
      in case exec_write_cp0 (env_now env) rd_val rt_val e of
           None \<Rightarrow> None
         | Some e \<Rightarrow> Some (handle_exec_complete (handle_cp0_side_effects rd_val e)))"

section \<open>TLB instructions\<close>

definition exec_tlbr :: "'b mips_executor \<Rightarrow> 'b mips_executor" where
  "exec_tlbr e =
     (let index = unat (cp0_index (core e) AND CP0_INDEX_SLOT_MASK)
      in if index \<ge> num_entries (tlb e) then e
         else let entry = tlb_read (tlb e) index;
                  g_bit = shr (te_entry_hi entry) 12 AND 1
              in nanotlb_invalidate
                   (upd_core (\<lambda>c. c\<lparr>cp0_entryhi := te_entry_hi entry AND NOT 0x1000,
                                    cp0_entrylo0 := (fst (te_entry_lo entry) AND NOT 1) OR g_bit,
                                    cp0_entrylo1 := (snd (te_entry_lo entry) AND NOT 1) OR g_bit,
                                    cp0_pagemask := te_page_mask entry\<rparr>) e))"

definition create_tlb_entry_from_cp0 :: "mips_core \<Rightarrow> tlb_entry" where
  "create_tlb_entry_from_cp0 c =
     (let g0 = (cp0_entrylo0 c AND 1 \<noteq> 0); g1 = (cp0_entrylo1 c AND 1 \<noteq> 0);
          g_combined = (if g0 \<and> g1 then shl 1 12 else 0)
      in \<lparr>te_page_mask = cp0_pagemask c,
          te_entry_hi = (cp0_entryhi c AND 0xC00000FFFFFFE0FF AND NOT 0x1000) OR g_combined,
          te_entry_lo = (cp0_entrylo0 c, cp0_entrylo1 c),
          te_selector_bit_shift = 0, te_vcmp32 = 0, te_vpn_hi32 = 0, te_vcmp64 = 0,
          te_vpn_hi64 = 0, te_offset_mask = 0, te_pfn_base = (0, 0)\<rparr>)"

definition exec_tlbwi :: "'b mips_executor \<Rightarrow> u32 \<times> 'b mips_executor" where
  "exec_tlbwi e =
     (let index = unat (cp0_index (core e) AND CP0_INDEX_SLOT_MASK)
      in if index \<ge> num_entries (tlb e) then handle_exec_complete e
         else let entry = create_tlb_entry_from_cp0 (core e);
                  e = e\<lparr>tlb := tlb_write index entry (tlb e)\<rparr>
              in handle_exec_complete (nanotlb_invalidate e))"

text \<open>\<^verbatim>\<open>% self.tlb.num_entries()\<close> panics for an empty TLB, which no machine has.\<close>

definition exec_tlbwr :: "'b mips_executor \<Rightarrow> u32 \<times> 'b mips_executor" where
  "exec_tlbwr e =
     (let e = upd_core update_random e;
          index = unat (cp0_random (core e)) mod num_entries (tlb e);
          entry = create_tlb_entry_from_cp0 (core e);
          e = e\<lparr>tlb := tlb_write index entry (tlb e)\<rparr>
      in handle_exec_complete (nanotlb_invalidate e))"

definition is_xtlb_address :: "u64 \<Rightarrow> 'b mips_executor \<Rightarrow> bool" where
  "is_xtlb_address va e = (is_64bit_mode (core e) \<and> shr va 62 \<noteq> 2)"

definition exec_tlbp :: "'b mips_executor \<Rightarrow> 'b mips_executor" where
  "exec_tlbp e =
     (let va = cp0_entryhi (core e) AND NOT 0xFF;
          asid = ucast (cp0_entryhi (core e) AND 0xFF) :: u8;
          result = tlb_probe (tlb e) va asid (is_xtlb_address va e)
      in upd_core (\<lambda>c. c\<lparr>cp0_index := result\<rparr>) e)"

section \<open>ERET\<close>

definition exec_eret :: "'b mips_executor \<Rightarrow> u32 \<times> 'b mips_executor" where
  "exec_eret e =
     (let (target, e) =
            (if cp0_status (core e) AND STATUS_ERL \<noteq> 0
             then (cp0_errorepc (core e),
                   upd_core (\<lambda>c. c\<lparr>cp0_status := cp0_status c AND NOT STATUS_ERL\<rparr>) e)
             else (cp0_epc (core e),
                   upd_core (\<lambda>c. c\<lparr>cp0_status := cp0_status c AND NOT STATUS_EXL\<rparr>) e));
          e = resync_privilege_state (e\<lparr>llbit := False\<rparr>)
      in check_pc_alignment (upd_core (\<lambda>c. c\<lparr>pc := target, in_delay_slot := False\<rparr>) e))"

section \<open>WAIT\<close>

definition STALL_NS_PER_CYCLE :: u64 where "STALL_NS_PER_CYCLE = 10"

text \<open>Whether an observation of the interrupt word releases the stall.\<close>

definition wait_released :: "u64 \<Rightarrow> mips_core \<Rightarrow> bool" where
  "wait_released pending c =
     (pending AND (SOFT_RESET_BIT OR HOST_PARK_BIT) \<noteq> 0 \<or>
      (cp0_cause c OR lo32 pending) AND CAUSE_IP_MASK AND (cp0_status c AND STATUS_IM_MASK) \<noteq> 0)"

fun wait_loop :: "(u64 \<times> nat) list \<Rightarrow> u64 \<Rightarrow> mips_core \<Rightarrow> mips_core option" where
  "wait_loop [] issued c = None"
| "wait_loop ((pending, elapsed) # obs) issued c =
     (let c = c\<lparr>hot_interrupts := pending\<rparr>
      in if wait_released pending c then Some c
         else let want = word_of_nat elapsed div STALL_NS_PER_CYCLE
              in if want > issued
                 then wait_loop obs want (c\<lparr>hot_cycles := hot_cycles c + (want - issued)\<rparr>)
                 else wait_loop obs issued c)"

definition exec_wait :: "host_env \<Rightarrow> 'b mips_executor \<Rightarrow> 'b store_result" where
  "exec_wait env e =
     (if \<not> interrupts_enabled (core e) then Some (EXEC_RETRY, e)
      else case handle_exec_complete e of
             (status, e) \<Rightarrow>
               (case wait_loop (env_wait env) 0 (core e) of
                  None \<Rightarrow> None
                | Some c \<Rightarrow> Some (status, e\<lparr>core := c\<rparr>)))"

section \<open>Dispatch\<close>

definition exec_tlb :: "host_env \<Rightarrow> 'b mhandler" where
  "exec_tlb env d e =
     (let f = d_funct d
      in if f = 0x01 then Some (handle_exec_complete (exec_tlbr e))
         else if f = 0x02 then Some (exec_tlbwi e)
         else if f = 0x06 then Some (exec_tlbwr e)
         else if f = 0x08 then Some (handle_exec_complete (exec_tlbp e))
         else if f = 0x18 then Some (exec_eret e)
         else if f = 0x20 then exec_wait env e
         else Some (exec_reserved e))"

definition exec_cop0 :: "host_env \<Rightarrow> 'b mhandler" where
  "exec_cop0 env d e =
     (if \<not> cp0_usable e then Some (cpu_unusable 0 e)
      else let r = d_rs d
           in if r = 0x00 then Some (exec_mfc0 env d e)
              else if r = 0x01 then Some (exec_dmfc0 env d e)
              else if r = 0x04 then exec_mtc0 env d e
              else if r = 0x05 then exec_dmtc0 env d e
              else if r = 0x10 then exec_tlb env d e
              else Some (exec_reserved e))"

end
