(* ===== verification/Fp_Bits.thy ===== *)
theory Fp_Bits
  imports Iris_Prelude "HOL-Library.Log_Nat"
begin

text \<open>
  Floating point values as bit patterns, for \<^verbatim>\<open>src/src/cpu/mips_exec.rs\<close>: the operations of
  \<open>f32\<close> and \<open>f64\<close> that the Rust language defines on the encoding (classification, comparison,
  sign manipulation, conversion to and from integers), the classifiers of NaNs and zeros, and
  the interpreter's own rounding to an integral value, which is done on the encoding alone.

  Conversion from an integer rounds to nearest, ties to even, and conversion to an integer
  truncates and saturates, as the Rust reference defines \<^verbatim>\<open>as\<close>.  The arithmetic of the host and
  the conversions between the two formats are the fields of \<open>host_fpu\<close>; the byte is the
  rounding mode installed by \<^verbatim>\<open>platform::set_fpu_mode\<close>.
\<close>

record host_fpu =
  hf_add_s :: "u8 \<Rightarrow> u32 \<Rightarrow> u32 \<Rightarrow> u32"
  hf_sub_s :: "u8 \<Rightarrow> u32 \<Rightarrow> u32 \<Rightarrow> u32"
  hf_mul_s :: "u8 \<Rightarrow> u32 \<Rightarrow> u32 \<Rightarrow> u32"
  hf_div_s :: "u8 \<Rightarrow> u32 \<Rightarrow> u32 \<Rightarrow> u32"
  hf_sqrt_s :: "u8 \<Rightarrow> u32 \<Rightarrow> u32"
  hf_add_d :: "u8 \<Rightarrow> u64 \<Rightarrow> u64 \<Rightarrow> u64"
  hf_sub_d :: "u8 \<Rightarrow> u64 \<Rightarrow> u64 \<Rightarrow> u64"
  hf_mul_d :: "u8 \<Rightarrow> u64 \<Rightarrow> u64 \<Rightarrow> u64"
  hf_div_d :: "u8 \<Rightarrow> u64 \<Rightarrow> u64 \<Rightarrow> u64"
  hf_sqrt_d :: "u8 \<Rightarrow> u64 \<Rightarrow> u64"
  hf_widen :: "u32 \<Rightarrow> u64"
  hf_narrow :: "u8 \<Rightarrow> u64 \<Rightarrow> u32"

section \<open>Classification\<close>

definition f32_mag :: "u32 \<Rightarrow> u32" where "f32_mag b = b AND 0x7FFFFFFF"
definition f64_mag :: "u64 \<Rightarrow> u64" where "f64_mag b = b AND 0x7FFFFFFFFFFFFFFF"

definition f32_is_nan :: "u32 \<Rightarrow> bool" where "f32_is_nan b = (f32_mag b > 0x7F800000)"
definition f64_is_nan :: "u64 \<Rightarrow> bool" where "f64_is_nan b = (f64_mag b > 0x7FF0000000000000)"

definition f32_is_infinite :: "u32 \<Rightarrow> bool" where "f32_is_infinite b = (f32_mag b = 0x7F800000)"
definition f64_is_infinite :: "u64 \<Rightarrow> bool" where
  "f64_is_infinite b = (f64_mag b = 0x7FF0000000000000)"

definition f32_is_finite :: "u32 \<Rightarrow> bool" where "f32_is_finite b = (f32_mag b < 0x7F800000)"
definition f64_is_finite :: "u64 \<Rightarrow> bool" where
  "f64_is_finite b = (f64_mag b < 0x7FF0000000000000)"

definition f32_is_subnormal :: "u32 \<Rightarrow> bool" where
  "f32_is_subnormal b = (0 < f32_mag b \<and> f32_mag b < 0x00800000)"
definition f64_is_subnormal :: "u64 \<Rightarrow> bool" where
  "f64_is_subnormal b = (0 < f64_mag b \<and> f64_mag b < 0x0010000000000000)"

definition f32_is_sign_negative :: "u32 \<Rightarrow> bool" where "f32_is_sign_negative b = bit b 31"
definition f64_is_sign_negative :: "u64 \<Rightarrow> bool" where "f64_is_sign_negative b = bit b 63"

definition is_snan_s :: "u32 \<Rightarrow> bool" where
  "is_snan_s b = (b AND 0x7F800000 = 0x7F800000 \<and> b AND 0x007FFFFF \<noteq> 0 \<and> b AND 0x00400000 = 0)"

definition is_snan_d :: "u64 \<Rightarrow> bool" where
  "is_snan_d b =
     (b AND 0x7FF0000000000000 = 0x7FF0000000000000 \<and> b AND 0x000FFFFFFFFFFFFF \<noteq> 0 \<and>
      b AND 0x0008000000000000 = 0)"

definition is_qnan_s :: "u32 \<Rightarrow> bool" where "is_qnan_s b = (f32_is_nan b \<and> \<not> is_snan_s b)"
definition is_qnan_d :: "u64 \<Rightarrow> bool" where "is_qnan_d b = (f64_is_nan b \<and> \<not> is_snan_d b)"

definition is_neg_nonzero_s :: "u32 \<Rightarrow> bool" where
  "is_neg_nonzero_s b =
     (b AND 0x80000000 \<noteq> 0 \<and> b AND 0x7FFFFFFF \<noteq> 0 \<and> \<not> is_snan_s b \<and> \<not> is_qnan_s b)"

definition is_neg_nonzero_d :: "u64 \<Rightarrow> bool" where
  "is_neg_nonzero_d b =
     (b AND 0x8000000000000000 \<noteq> 0 \<and> b AND 0x7FFFFFFFFFFFFFFF \<noteq> 0 \<and> \<not> is_snan_d b \<and>
      \<not> is_qnan_d b)"

definition is_pos_zero_or_neg_zero_s :: "u32 \<Rightarrow> bool" where
  "is_pos_zero_or_neg_zero_s b = (b AND 0x7FFFFFFF = 0)"

definition is_pos_zero_or_neg_zero_d :: "u64 \<Rightarrow> bool" where
  "is_pos_zero_or_neg_zero_d b = (b AND 0x7FFFFFFFFFFFFFFF = 0)"

section \<open>Sign and comparison\<close>

definition f32_abs :: "u32 \<Rightarrow> u32" where "f32_abs b = b AND 0x7FFFFFFF"
definition f64_abs :: "u64 \<Rightarrow> u64" where "f64_abs b = b AND 0x7FFFFFFFFFFFFFFF"

definition fneg_bits_s :: "u32 \<Rightarrow> u32" where "fneg_bits_s b = b XOR 0x80000000"
definition fneg_d_exact :: "u64 \<Rightarrow> u64" where "fneg_d_exact b = b XOR 0x8000000000000000"

text \<open>Patterns that are not NaN are ordered by sign and magnitude.\<close>

definition f32_key :: "u32 \<Rightarrow> int" where
  "f32_key b = (if f32_is_sign_negative b then - uint (f32_mag b) else uint (f32_mag b))"

definition f64_key :: "u64 \<Rightarrow> int" where
  "f64_key b = (if f64_is_sign_negative b then - uint (f64_mag b) else uint (f64_mag b))"

definition f32_lt :: "u32 \<Rightarrow> u32 \<Rightarrow> bool" where
  "f32_lt a b = (\<not> f32_is_nan a \<and> \<not> f32_is_nan b \<and> f32_key a < f32_key b)"
definition f32_le :: "u32 \<Rightarrow> u32 \<Rightarrow> bool" where
  "f32_le a b = (\<not> f32_is_nan a \<and> \<not> f32_is_nan b \<and> f32_key a \<le> f32_key b)"
definition f32_eq :: "u32 \<Rightarrow> u32 \<Rightarrow> bool" where
  "f32_eq a b = (\<not> f32_is_nan a \<and> \<not> f32_is_nan b \<and> f32_key a = f32_key b)"

definition f64_lt :: "u64 \<Rightarrow> u64 \<Rightarrow> bool" where
  "f64_lt a b = (\<not> f64_is_nan a \<and> \<not> f64_is_nan b \<and> f64_key a < f64_key b)"
definition f64_le :: "u64 \<Rightarrow> u64 \<Rightarrow> bool" where
  "f64_le a b = (\<not> f64_is_nan a \<and> \<not> f64_is_nan b \<and> f64_key a \<le> f64_key b)"
definition f64_eq :: "u64 \<Rightarrow> u64 \<Rightarrow> bool" where
  "f64_eq a b = (\<not> f64_is_nan a \<and> \<not> f64_is_nan b \<and> f64_key a = f64_key b)"

section \<open>Conversion to and from integers\<close>

text \<open>The truncated value of the magnitude whose exponent field is \<open>e\<close> and whose fraction field
  is \<open>f\<close>, for a format with \<open>p\<close> fraction bits and the given bias.\<close>

definition mag_trunc :: "nat \<Rightarrow> nat \<Rightarrow> nat \<Rightarrow> nat \<Rightarrow> nat" where
  "mag_trunc p bias e f =
     (let m = (if e = 0 then f else 2 ^ p + f); e' = (if e = 0 then 1 else e)
      in if e' \<ge> bias + p then m * 2 ^ (e' - (bias + p)) else m div 2 ^ (bias + p - e'))"

definition f32_trunc :: "u32 \<Rightarrow> int" where
  "f32_trunc b =
     (let n = unat (f32_mag b); v = int (mag_trunc 23 127 (n div 2 ^ 23) (n mod 2 ^ 23))
      in if f32_is_sign_negative b then - v else v)"

definition f64_trunc :: "u64 \<Rightarrow> int" where
  "f64_trunc b =
     (let n = unat (f64_mag b); v = int (mag_trunc 52 1023 (n div 2 ^ 52) (n mod 2 ^ 52))
      in if f64_is_sign_negative b then - v else v)"

definition saturate :: "nat \<Rightarrow> int \<Rightarrow> int" where
  "saturate w v = max (- (2 ^ (w - 1))) (min (2 ^ (w - 1) - 1) v)"

text \<open>\<^verbatim>\<open>x as i32\<close> and \<^verbatim>\<open>x as i64\<close>, by the width of the target.\<close>

definition f32_to_int :: "nat \<Rightarrow> u32 \<Rightarrow> int" where
  "f32_to_int w b =
     (if f32_is_nan b then 0
      else if f32_is_infinite b
      then (if f32_is_sign_negative b then - (2 ^ (w - 1)) else 2 ^ (w - 1) - 1)
      else saturate w (f32_trunc b))"

definition f64_to_int :: "nat \<Rightarrow> u64 \<Rightarrow> int" where
  "f64_to_int w b =
     (if f64_is_nan b then 0
      else if f64_is_infinite b
      then (if f64_is_sign_negative b then - (2 ^ (w - 1)) else 2 ^ (w - 1) - 1)
      else saturate w (f64_trunc b))"

text \<open>The pattern of a magnitude: the exponent and the significand, rounded to nearest even; a
  carry out of the significand runs into the exponent.\<close>

definition mag_of_nat :: "nat \<Rightarrow> nat \<Rightarrow> nat \<Rightarrow> nat" where
  "mag_of_nat p bias n =
     (if n = 0 then 0
      else let l = floorlog 2 n
           in if l \<le> p + 1 then (l - 1 + bias) * 2 ^ p + (n * 2 ^ (p + 1 - l) - 2 ^ p)
              else let q = l - (p + 1); m = n div 2 ^ q; r = n mod 2 ^ q; half = 2 ^ (q - 1);
                       m' = (if r > half \<or> (r = half \<and> odd m) then m + 1 else m)
                   in (l - 1 + bias) * 2 ^ p + (m' - 2 ^ p))"

definition f32_of_int :: "int \<Rightarrow> u32" where
  "f32_of_int i =
     (let m = word_of_nat (mag_of_nat 23 127 (nat \<bar>i\<bar>)) in if i < 0 then m OR 0x80000000 else m)"

definition f64_of_int :: "int \<Rightarrow> u64" where
  "f64_of_int i =
     (let m = word_of_nat (mag_of_nat 52 1023 (nat \<bar>i\<bar>))
      in if i < 0 then m OR 0x8000000000000000 else m)"

section \<open>Rounding to an integral value\<close>

definition RM_NEAREST_EVEN :: u8 where "RM_NEAREST_EVEN = 0"
definition RM_TOWARD_ZERO :: u8 where "RM_TOWARD_ZERO = 1"
definition RM_TOWARD_POS_INF :: u8 where "RM_TOWARD_POS_INF = 2"
definition RM_TOWARD_NEG_INF :: u8 where "RM_TOWARD_NEG_INF = 3"

text \<open>Any other mode is \<^verbatim>\<open>unreachable!\<close> in the source; the callers pass two bits.\<close>

definition round_f64_to_int_mode :: "u64 \<Rightarrow> u8 \<Rightarrow> u64" where
  "round_f64_to_int_mode x rm =
     (if \<not> f64_is_finite x then x
      else let sign = shr x 63;
               biased_exp = unat (shr x 52 AND 0x7FF);
               mantissa = x AND (shl 1 52 - 1);
               zero = (if sign = 1 then 0x8000000000000000 else 0);
               one = (if sign = 1 then 0xBFF0000000000000 else 0x3FF0000000000000)
      in if biased_exp \<ge> 1023 + 52 then x
      else if biased_exp < 1023 then
        (if f64_mag x = 0 \<or> biased_exp < 1022 then
           (let is_zero_mantissa = (mantissa = 0 \<and> biased_exp = 0)
            in if rm = RM_TOWARD_POS_INF \<and> sign = 0 \<and> \<not> is_zero_mantissa then one
               else if rm = RM_TOWARD_NEG_INF \<and> sign = 1 \<and> \<not> is_zero_mantissa then one
               else zero)
         else
           (let is_exactly_half = (mantissa = 0);
                round_away = (if rm = RM_NEAREST_EVEN then \<not> is_exactly_half
                              else if rm = RM_TOWARD_ZERO then False
                              else if rm = RM_TOWARD_POS_INF then sign = 0
                              else sign = 1)
            in if round_away then one else zero))
      else
        let frac_bits = 52 + 1023 - biased_exp;
            frac_mask = shl 1 frac_bits - 1;
            full_mantissa = mantissa OR shl 1 52;
            frac = full_mantissa AND frac_mask
        in if frac = 0 then x
        else let truncated_bits = x AND NOT frac_mask; half = shl 1 (frac_bits - 1);
                 round_up_magnitude =
                   (if rm = RM_TOWARD_ZERO then False
                    else if rm = RM_TOWARD_POS_INF then sign = 0
                    else if rm = RM_TOWARD_NEG_INF then sign = 1
                    else if frac > half then True
                    else if frac < half then False
                    else shr full_mantissa frac_bits AND 1 \<noteq> 0)
             in if round_up_magnitude then truncated_bits + shl 1 frac_bits else truncated_bits)"

definition round_f32_to_int_mode :: "u32 \<Rightarrow> u8 \<Rightarrow> u32" where
  "round_f32_to_int_mode x rm =
     (if \<not> f32_is_finite x then x
      else let sign = shr x 31;
               biased_exp = unat (shr x 23 AND 0xFF);
               mantissa = x AND (shl 1 23 - 1);
               zero = (if sign = 1 then 0x80000000 else 0);
               one = (if sign = 1 then 0xBF800000 else 0x3F800000)
      in if biased_exp \<ge> 127 + 23 then x
      else if biased_exp < 127 then
        (if f32_mag x = 0 \<or> biased_exp < 126 then
           (let is_zero_mantissa = (mantissa = 0 \<and> biased_exp = 0)
            in if rm = RM_TOWARD_POS_INF \<and> sign = 0 \<and> \<not> is_zero_mantissa then one
               else if rm = RM_TOWARD_NEG_INF \<and> sign = 1 \<and> \<not> is_zero_mantissa then one
               else zero)
         else
           (let is_exactly_half = (mantissa = 0);
                round_away = (if rm = RM_NEAREST_EVEN then \<not> is_exactly_half
                              else if rm = RM_TOWARD_ZERO then False
                              else if rm = RM_TOWARD_POS_INF then sign = 0
                              else sign = 1)
            in if round_away then one else zero))
      else
        let frac_bits = 23 + 127 - biased_exp;
            frac_mask = shl 1 frac_bits - 1;
            full_mantissa = mantissa OR shl 1 23;
            frac = full_mantissa AND frac_mask
        in if frac = 0 then x
        else let truncated_bits = x AND NOT frac_mask; half = shl 1 (frac_bits - 1);
                 round_up_magnitude =
                   (if rm = RM_TOWARD_ZERO then False
                    else if rm = RM_TOWARD_POS_INF then sign = 0
                    else if rm = RM_TOWARD_NEG_INF then sign = 1
                    else if frac > half then True
                    else if frac < half then False
                    else shr full_mantissa frac_bits AND 1 \<noteq> 0)
             in if round_up_magnitude then truncated_bits + shl 1 frac_bits else truncated_bits)"

section \<open>Conversion of a rounded value\<close>

text \<open>Result, Invalid and Inexact.  The bounds are the patterns of \<^verbatim>\<open>i32::MIN as f32\<close>,
  \<^verbatim>\<open>i32::MAX as f32\<close> (which is \<open>2 ^ 31\<close>) and \<open>\<plusminus>2 ^ 63\<close>, and likewise in the other format.\<close>

definition cvt_f32_to_int_by_value :: "u32 \<Rightarrow> nat \<Rightarrow> u64 \<times> bool \<times> bool" where
  "cvt_f32_to_int_by_value x dst_bits =
     (let max_pos = word_of_int (if dst_bits = 32 then 2 ^ 31 - 1 else 2 ^ 63 - 1);
          max_neg = word_of_int (if dst_bits = 32 then - (2 ^ 31) else - (2 ^ 63))
      in if f32_is_nan x then (max_pos, True, False)
      else let in_range = (if dst_bits = 32 then f32_le 0xCF000000 x \<and> f32_le x 0x4F000000
                           else f32_le 0xDF000000 x \<and> f32_lt x 0x5F000000)
      in if \<not> in_range then (if f32_is_sign_negative x then max_neg else max_pos, True, False)
      else let result = (if dst_bits = 32 then f32_to_int 32 x else f32_to_int 64 x)
      in (word_of_int result, False, \<not> f32_eq (f32_of_int result) x))"

definition cvt_f64_to_int_by_value :: "u64 \<Rightarrow> nat \<Rightarrow> u64 \<times> bool \<times> bool" where
  "cvt_f64_to_int_by_value x dst_bits =
     (let max_pos = word_of_int (if dst_bits = 32 then 2 ^ 31 - 1 else 2 ^ 63 - 1);
          max_neg = word_of_int (if dst_bits = 32 then - (2 ^ 31) else - (2 ^ 63))
      in if f64_is_nan x then (max_pos, True, False)
      else let in_range = (if dst_bits = 32
                           then f64_le 0xC1E0000000000000 x \<and> f64_le x 0x41DFFFFFFFC00000
                           else f64_le 0xC3E0000000000000 x \<and> f64_lt x 0x43E0000000000000)
      in if \<not> in_range then (if f64_is_sign_negative x then max_neg else max_pos, True, False)
      else let result = (if dst_bits = 32 then f64_to_int 32 x else f64_to_int 64 x)
      in (word_of_int result, False, \<not> f64_eq (f64_of_int result) x))"

end
