(* ===== verification/Mips_Fpu.thy ===== *)
theory Mips_Fpu
  imports Mips_Mem Fp_Bits
begin

text \<open>
  The floating point instructions of \<^verbatim>\<open>src/src/cpu/mips_exec.rs\<close>: moves, control registers,
  branches, arithmetic with the FCSR exception model, conversions, comparisons, the MIPS IV
  multiply-add family and the coprocessor 1 loads and stores.  The arithmetic of the host is
  the argument \<open>hf\<close>; everything the interpreter itself decides (operand checks, flags, causes,
  traps, flushing) is defined here.
\<close>

section \<open>FCSR\<close>

definition EXC_FPE :: u32 where "EXC_FPE = 15"
definition FCSR_CI :: u32 where "FCSR_CI = 0x00001000"
definition FCSR_CU :: u32 where "FCSR_CU = 0x00002000"
definition FCSR_CO :: u32 where "FCSR_CO = 0x00004000"
definition FCSR_CV :: u32 where "FCSR_CV = 0x00010000"
definition FCSR_CE :: u32 where "FCSR_CE = 0x00020000"
definition FCSR_CM :: u32 where "FCSR_CM = 0x0001F000"
definition FCSR_EM :: u32 where "FCSR_EM = 0x00000F80"
definition FCSR_FM :: u32 where "FCSR_FM = 0x0000007C"
definition FCSR_FV :: u32 where "FCSR_FV = 0x00000040"
definition FCSR_FZ :: u32 where "FCSR_FZ = 0x00000020"
definition FCSR_FO :: u32 where "FCSR_FO = 0x00000010"
definition FCSR_FU :: u32 where "FCSR_FU = 0x00000008"
definition FCSR_FI :: u32 where "FCSR_FI = 0x00000004"
definition FCSR_UM :: u32 where "FCSR_UM = 0x00000100"
definition FCSR_IM :: u32 where "FCSR_IM = 0x00000080"
definition FCSR_FS :: u32 where "FCSR_FS = 0x01000000"

lemmas fcsr_consts =
  FCSR_CI_def FCSR_CU_def FCSR_CO_def FCSR_CV_def FCSR_CE_def FCSR_CM_def FCSR_EM_def FCSR_FM_def
  FCSR_FV_def FCSR_FZ_def FCSR_FO_def FCSR_FU_def FCSR_FI_def FCSR_UM_def FCSR_IM_def FCSR_FS_def

definition upd_fcsr :: "(u32 \<Rightarrow> u32) \<Rightarrow> 'b mips_executor \<Rightarrow> 'b mips_executor" where
  "upd_fcsr f e = upd_core (\<lambda>c. c\<lparr>fpu_fcsr := f (fpu_fcsr c)\<rparr>) e"

definition raise_fpe :: "'b mips_executor \<Rightarrow> u32 \<times> 'b mips_executor" where
  "raise_fpe e = handle_exception (exec_exception EXC_FPE) e"

section \<open>The register file as selected by Status\<close>

text \<open>The six function pointers of the executor, by the cached selector.\<close>

definition fpr_read_w :: "u8 \<Rightarrow> 'b mips_executor \<Rightarrow> u32" where
  "fpr_read_w r e = (if fpr_fr1 e then read_fpr_w (ucast r) (core e)
                     else read_fpr_w_fr0 (ucast r) (core e))"

definition fpr_write_w :: "u8 \<Rightarrow> u32 \<Rightarrow> 'b mips_executor \<Rightarrow> 'b mips_executor" where
  "fpr_write_w r v e = upd_core (if fpr_fr1 e then write_fpr_w (ucast r) v
                                 else write_fpr_w_fr0 (ucast r) v) e"

definition fpr_read_l :: "u8 \<Rightarrow> 'b mips_executor \<Rightarrow> u64" where
  "fpr_read_l r e = (if fpr_fr1 e then read_fpr_l (ucast r) (core e)
                     else read_fpr_l_fr0 (ucast r) (core e))"

definition fpr_write_l :: "u8 \<Rightarrow> u64 \<Rightarrow> 'b mips_executor \<Rightarrow> 'b mips_executor" where
  "fpr_write_l r v e = upd_core (if fpr_fr1 e then write_fpr_l (ucast r) v
                                 else write_fpr_l_fr0 (ucast r) v) e"

definition fpr_read_d :: "u8 \<Rightarrow> 'b mips_executor \<Rightarrow> u64" where
  "fpr_read_d r e = (if fpr_fr1 e then read_fpr_d (ucast r) (core e)
                     else read_fpr_d_fr0 (ucast r) (core e))"

definition fpr_write_d :: "u8 \<Rightarrow> u64 \<Rightarrow> 'b mips_executor \<Rightarrow> 'b mips_executor" where
  "fpr_write_d r v e = upd_core (if fpr_fr1 e then write_fpr_d (ucast r) v
                                 else write_fpr_d_fr0 (ucast r) v) e"

section \<open>The exception model\<close>

definition fpu_unimplemented :: "'b mips_executor \<Rightarrow> u32 \<times> 'b mips_executor" where
  "fpu_unimplemented e = raise_fpe (upd_fcsr (\<lambda>f. (f AND NOT FCSR_CM) OR FCSR_CE) e)"

text \<open>\<open>result_is_denorm\<close> and the second argument of \<open>write_result\<close> are those of the source.\<close>

definition fpu_update_fcsr_full ::
  "u32 \<Rightarrow> bool option \<Rightarrow> (bool \<Rightarrow> 'b mips_executor \<Rightarrow> 'b mips_executor) \<Rightarrow> 'b mips_executor
     \<Rightarrow> u32 \<times> 'b mips_executor" where
  "fpu_update_fcsr_full flags result_is_denorm write_result e =
     (let e = upd_fcsr (\<lambda>f. f AND NOT FCSR_CM) e
      in if result_is_denorm \<noteq> None
      then let fs_set = (fpu_fcsr (core e) AND FCSR_FS \<noteq> 0);
               ui_enabled = (fpu_fcsr (core e) AND (FCSR_UM OR FCSR_IM) \<noteq> 0)
           in if \<not> fs_set \<or> ui_enabled then fpu_unimplemented e
              else let e = upd_fcsr (\<lambda>f. f OR FCSR_CU OR FCSR_CI) e;
                       e = write_result True e;
                       e = upd_fcsr (\<lambda>f. f OR FCSR_FU OR FCSR_FI) e
                   in handle_exec_complete e
      else if flags = 0 then handle_exec_complete (write_result False e)
      else let causes = shl (flags AND FCSR_FM) 10;
               e = upd_fcsr (\<lambda>f. f OR causes) e;
               traps = (shr causes 5 AND (fpu_fcsr (core e) AND FCSR_EM) \<noteq> 0)
           in if traps then raise_fpe e
              else handle_exec_complete
                     (upd_fcsr (\<lambda>f. f OR (flags AND FCSR_FM)) (write_result False e)))"

definition fpu_update_fcsr ::
  "u32 \<Rightarrow> ('b mips_executor \<Rightarrow> 'b mips_executor) \<Rightarrow> 'b mips_executor
     \<Rightarrow> u32 \<times> 'b mips_executor" where
  "fpu_update_fcsr flags write_result e =
     fpu_update_fcsr_full flags None (\<lambda>_. write_result) e"

text \<open>The operand checks, as the condition under which they end the instruction.\<close>

definition fpu_check_denorm_operand_s :: "u32 \<Rightarrow> bool" where
  "fpu_check_denorm_operand_s b = (f32_is_subnormal b \<or> is_qnan_s b)"

definition fpu_check_denorm_operand_d :: "u64 \<Rightarrow> bool" where
  "fpu_check_denorm_operand_d b = (f64_is_subnormal b \<or> is_qnan_d b)"

definition fpu_arith_flags_snan_only_s :: "u32 \<Rightarrow> u32 \<Rightarrow> u32" where
  "fpu_arith_flags_snan_only_s a b = (if is_snan_s a \<or> is_snan_s b then FCSR_FV else 0)"

definition fpu_arith_flags_snan_only_d :: "u64 \<Rightarrow> u64 \<Rightarrow> u32" where
  "fpu_arith_flags_snan_only_d a b = (if is_snan_d a \<or> is_snan_d b then FCSR_FV else 0)"

definition fpu_arith_flags_snan_only3_s :: "u32 \<Rightarrow> u32 \<Rightarrow> u32 \<Rightarrow> u32" where
  "fpu_arith_flags_snan_only3_s a b c =
     (if is_snan_s a \<or> is_snan_s b \<or> is_snan_s c then FCSR_FV else 0)"

definition fpu_arith_flags_snan_only3_d :: "u64 \<Rightarrow> u64 \<Rightarrow> u64 \<Rightarrow> u32" where
  "fpu_arith_flags_snan_only3_d a b c =
     (if is_snan_d a \<or> is_snan_d b \<or> is_snan_d c then FCSR_FV else 0)"

definition fpu_arith_flags_div_s :: "u32 \<Rightarrow> u32 \<Rightarrow> u32" where
  "fpu_arith_flags_div_s a b =
     (let snan = fpu_arith_flags_snan_only_s a b
      in if snan \<noteq> 0 then snan else if is_pos_zero_or_neg_zero_s b then FCSR_FZ else 0)"

definition fpu_arith_flags_div_d :: "u64 \<Rightarrow> u64 \<Rightarrow> u32" where
  "fpu_arith_flags_div_d a b =
     (let snan = fpu_arith_flags_snan_only_d a b
      in if snan \<noteq> 0 then snan else if is_pos_zero_or_neg_zero_d b then FCSR_FZ else 0)"

definition fpu_arith_flags_sqrt_s :: "u32 \<Rightarrow> u32" where
  "fpu_arith_flags_sqrt_s a = (if is_snan_s a \<or> is_neg_nonzero_s a then FCSR_FV else 0)"

definition fpu_arith_flags_sqrt_d :: "u64 \<Rightarrow> u32" where
  "fpu_arith_flags_sqrt_d a = (if is_snan_d a \<or> is_neg_nonzero_d a then FCSR_FV else 0)"

definition fpu_check_snan_operand ::
  "bool \<Rightarrow> ('b mips_executor \<Rightarrow> 'b mips_executor) \<Rightarrow> 'b mips_executor
     \<Rightarrow> u32 \<times> 'b mips_executor" where
  "fpu_check_snan_operand is_snan write_result e =
     (let e = upd_fcsr (\<lambda>f. (f AND NOT FCSR_CM) OR (if is_snan then FCSR_CV else 0)) e
      in if is_snan \<and> fpu_fcsr (core e) AND 0x800 \<noteq> 0 then raise_fpe e
         else let e = (if is_snan then upd_fcsr (\<lambda>f. f OR FCSR_FV) e else e)
              in handle_exec_complete (write_result e))"

text \<open>The guard every handler opens with.\<close>

definition cu1 :: "('b mips_executor \<Rightarrow> u32 \<times> 'b mips_executor) \<Rightarrow> 'b mips_executor
    \<Rightarrow> u32 \<times> 'b mips_executor" where
  "cu1 k e = (if cp0_status (core e) AND STATUS_CU1 = 0 then cpu_unusable 1 e else k e)"

definition cu1m :: "('b mips_executor \<Rightarrow> 'b store_result) \<Rightarrow> 'b mips_executor \<Rightarrow> 'b store_result"
  where
  "cu1m k e = (if cp0_status (core e) AND STATUS_CU1 = 0 then Some (cpu_unusable 1 e) else k e)"

section \<open>Moves, control registers and branches\<close>

definition exec_mfc1 :: "'b handler" where
  "exec_mfc1 d = cu1 (\<lambda>e. handle_exec_complete (put_gr (d_rt d) (sext32 (fpr_read_w (d_rd d) e)) e))"

definition exec_dmfc1 :: "'b handler" where
  "exec_dmfc1 d = cu1 (\<lambda>e. handle_exec_complete (put_gr (d_rt d) (fpr_read_l (d_rd d) e) e))"

definition exec_cfc1 :: "'b handler" where
  "exec_cfc1 d = cu1 (\<lambda>e. handle_exec_complete
     (put_gr (d_rt d) (sext32 (read_fpu_control (ucast (d_rd d)) (core e))) e))"

definition exec_mtc1 :: "'b handler" where
  "exec_mtc1 d = cu1 (\<lambda>e. handle_exec_complete (fpr_write_w (d_rd d) (lo32 (gr (d_rt d) e)) e))"

definition exec_dmtc1 :: "'b handler" where
  "exec_dmtc1 d = cu1 (\<lambda>e. handle_exec_complete (fpr_write_l (d_rd d) (gr (d_rt d) e) e))"

definition exec_ctc1 :: "'b handler" where
  "exec_ctc1 d = cu1 (\<lambda>e.
     let e = upd_core (write_fpu_control (ucast (d_rd d)) (lo32 (gr (d_rt d) e))) e;
         fcsr = fpu_fcsr (core e)
     in if d_rd d = 31 \<and>
           (fcsr AND FCSR_CE \<noteq> 0 \<or> shr (fcsr AND FCSR_CM) 5 AND (fcsr AND FCSR_EM) \<noteq> 0)
        then raise_fpe e else handle_exec_complete e)"

definition exec_bc1 :: "'b handler" where
  "exec_bc1 d = cu1 (\<lambda>e.
     let target = pc (core e) + 4 + immu64 d;
         branch_if_true = (d_rt d AND 1 \<noteq> 0); likely = (d_rt d AND 2 \<noteq> 0);
         cc = get_fpu_cc (shr (d_raw d) 18 AND 7) (core e);
         condition = (if branch_if_true then cc else \<not> cc)
     in if condition then branch_delay target e
        else if likely then handle_branch_likely_skip e
        else handle_branch_not_taken e)"

section \<open>Arithmetic\<close>

text \<open>The bodies the handlers of one shape share: two operands, one operand, no operand check.
  \<open>m\<close> is the installed rounding mode.\<close>

definition fpu_arith2_s ::
  "(u8 \<Rightarrow> u32 \<Rightarrow> u32 \<Rightarrow> u32) \<Rightarrow> (u32 \<Rightarrow> u32 \<Rightarrow> u32) \<Rightarrow> 'b handler" where
  "fpu_arith2_s f flags d = cu1 (\<lambda>e.
     let fs = fpr_read_w (d_rd d) e; ft = fpr_read_w (d_rt d) e
     in if fpu_check_denorm_operand_s fs \<or> fpu_check_denorm_operand_s ft then fpu_unimplemented e
        else let r = f (host_fpu_mode (core e)) fs ft;
                 neg = f32_is_sign_negative r;
                 denorm = (if f32_is_subnormal r then Some neg else None)
             in fpu_update_fcsr_full (flags fs ft) denorm
                  (\<lambda>flush. fpr_write_w (d_sa d)
                     (if flush then (if neg then 0x80000000 else 0) else r)) e)"

definition fpu_arith2_d ::
  "(u8 \<Rightarrow> u64 \<Rightarrow> u64 \<Rightarrow> u64) \<Rightarrow> (u64 \<Rightarrow> u64 \<Rightarrow> u32) \<Rightarrow> 'b handler" where
  "fpu_arith2_d f flags d = cu1 (\<lambda>e.
     let fs = fpr_read_d (d_rd d) e; ft = fpr_read_d (d_rt d) e
     in if fpu_check_denorm_operand_d fs \<or> fpu_check_denorm_operand_d ft then fpu_unimplemented e
        else let r = f (host_fpu_mode (core e)) fs ft;
                 neg = f64_is_sign_negative r;
                 denorm = (if f64_is_subnormal r then Some neg else None)
             in fpu_update_fcsr_full (flags fs ft) denorm
                  (\<lambda>flush. fpr_write_d (d_sa d)
                     (if flush then (if neg then 0x8000000000000000 else 0) else r)) e)"

definition exec_fadd_s :: "host_fpu \<Rightarrow> 'b handler" where
  "exec_fadd_s hf = fpu_arith2_s (hf_add_s hf) fpu_arith_flags_snan_only_s"

definition exec_fsub_s :: "host_fpu \<Rightarrow> 'b handler" where
  "exec_fsub_s hf = fpu_arith2_s (hf_sub_s hf) fpu_arith_flags_snan_only_s"

definition exec_fmul_s :: "host_fpu \<Rightarrow> 'b handler" where
  "exec_fmul_s hf = fpu_arith2_s (hf_mul_s hf) fpu_arith_flags_snan_only_s"

definition exec_fdiv_s :: "host_fpu \<Rightarrow> 'b handler" where
  "exec_fdiv_s hf = fpu_arith2_s (hf_div_s hf) fpu_arith_flags_div_s"

definition exec_fadd_d :: "host_fpu \<Rightarrow> 'b handler" where
  "exec_fadd_d hf = fpu_arith2_d (hf_add_d hf) fpu_arith_flags_snan_only_d"

definition exec_fsub_d :: "host_fpu \<Rightarrow> 'b handler" where
  "exec_fsub_d hf = fpu_arith2_d (hf_sub_d hf) fpu_arith_flags_snan_only_d"

definition exec_fmul_d :: "host_fpu \<Rightarrow> 'b handler" where
  "exec_fmul_d hf = fpu_arith2_d (hf_mul_d hf) fpu_arith_flags_snan_only_d"

definition exec_fdiv_d :: "host_fpu \<Rightarrow> 'b handler" where
  "exec_fdiv_d hf = fpu_arith2_d (hf_div_d hf) fpu_arith_flags_div_d"

definition exec_fsqrt_s :: "host_fpu \<Rightarrow> 'b handler" where
  "exec_fsqrt_s hf d = cu1 (\<lambda>e.
     let fs = fpr_read_w (d_rd d) e
     in if fpu_check_denorm_operand_s fs then fpu_unimplemented e
        else let r = hf_sqrt_s hf (host_fpu_mode (core e)) fs;
                 neg = f32_is_sign_negative r;
                 denorm = (if f32_is_subnormal r then Some neg else None)
             in fpu_update_fcsr_full (fpu_arith_flags_sqrt_s fs) denorm
                  (\<lambda>flush. fpr_write_w (d_sa d)
                     (if flush then (if neg then 0x80000000 else 0) else r)) e)"

definition exec_fsqrt_d :: "host_fpu \<Rightarrow> 'b handler" where
  "exec_fsqrt_d hf d = cu1 (\<lambda>e.
     let fs = fpr_read_d (d_rd d) e
     in if fpu_check_denorm_operand_d fs then fpu_unimplemented e
        else let r = hf_sqrt_d hf (host_fpu_mode (core e)) fs;
                 neg = f64_is_sign_negative r;
                 denorm = (if f64_is_subnormal r then Some neg else None)
             in fpu_update_fcsr_full (fpu_arith_flags_sqrt_d fs) denorm
                  (\<lambda>flush. fpr_write_d (d_sa d)
                     (if flush then (if neg then 0x8000000000000000 else 0) else r)) e)"

definition exec_fabs_s :: "'b handler" where
  "exec_fabs_s d = cu1 (\<lambda>e.
     let fs = fpr_read_w (d_rd d) e
     in fpu_check_snan_operand (is_snan_s fs) (fpr_write_w (d_sa d) (f32_abs fs)) e)"

definition exec_fabs_d :: "'b handler" where
  "exec_fabs_d d = cu1 (\<lambda>e.
     let fs = fpr_read_d (d_rd d) e
     in fpu_check_snan_operand (is_snan_d fs) (fpr_write_d (d_sa d) (f64_abs fs)) e)"

definition exec_fneg_s :: "'b handler" where
  "exec_fneg_s d = cu1 (\<lambda>e.
     let fs = fpr_read_w (d_rd d) e
     in fpu_check_snan_operand (is_snan_s fs) (fpr_write_w (d_sa d) (fneg_bits_s fs)) e)"

definition exec_fneg_d :: "'b handler" where
  "exec_fneg_d d = cu1 (\<lambda>e.
     let fs = fpr_read_d (d_rd d) e
     in fpu_check_snan_operand (is_snan_d fs) (fpr_write_d (d_sa d) (fneg_d_exact fs)) e)"

definition exec_fmov_s :: "'b handler" where
  "exec_fmov_s d = cu1 (\<lambda>e.
     handle_exec_complete (fpr_write_l (d_sa d) (fpr_read_l (d_rd d) e) e))"

definition exec_fmov_d :: "'b handler" where
  "exec_fmov_d d = cu1 (\<lambda>e.
     handle_exec_complete (fpr_write_l (d_sa d) (fpr_read_l (d_rd d) e) e))"

text \<open>Conditional moves.\<close>

definition fmovc_taken :: "decoded_fields \<Rightarrow> 'b mips_executor \<Rightarrow> bool" where
  "fmovc_taken d e =
     (let cc = shr (d_raw d) 18 AND 7; tf = (shr (d_raw d) 16 AND 1 \<noteq> 0)
      in get_fpu_cc cc (core e) = tf)"

definition fmove_w :: "decoded_fields \<Rightarrow> 'b mips_executor \<Rightarrow> 'b mips_executor" where
  "fmove_w d e = fpr_write_w (d_sa d) (fpr_read_w (d_rd d) e) e"

definition fmove_d :: "decoded_fields \<Rightarrow> 'b mips_executor \<Rightarrow> 'b mips_executor" where
  "fmove_d d e = fpr_write_d (d_sa d) (fpr_read_d (d_rd d) e) e"

definition exec_fmovcf_s :: "'b handler" where
  "exec_fmovcf_s d = cu1 (\<lambda>e. handle_exec_complete (if fmovc_taken d e then fmove_w d e else e))"

definition exec_fmovz_s :: "'b handler" where
  "exec_fmovz_s d = cu1 (\<lambda>e. handle_exec_complete (if gr (d_rt d) e = 0 then fmove_w d e else e))"

definition exec_fmovn_s :: "'b handler" where
  "exec_fmovn_s d = cu1 (\<lambda>e. handle_exec_complete (if gr (d_rt d) e \<noteq> 0 then fmove_w d e else e))"

definition exec_fmovcf_d :: "'b handler" where
  "exec_fmovcf_d d = cu1 (\<lambda>e. handle_exec_complete (if fmovc_taken d e then fmove_d d e else e))"

definition exec_fmovz_d :: "'b handler" where
  "exec_fmovz_d d = cu1 (\<lambda>e. handle_exec_complete (if gr (d_rt d) e = 0 then fmove_d d e else e))"

definition exec_fmovn_d :: "'b handler" where
  "exec_fmovn_d d = cu1 (\<lambda>e. handle_exec_complete (if gr (d_rt d) e \<noteq> 0 then fmove_d d e else e))"

text \<open>Reciprocals; the patterns of \<open>1.0\<close> are \<open>0x3F800000\<close> and \<open>0x3FF0000000000000\<close>.\<close>

definition exec_frecip_s :: "host_fpu \<Rightarrow> 'b handler" where
  "exec_frecip_s hf d = cu1 (\<lambda>e.
     let fs = fpr_read_w (d_rd d) e; r = hf_div_s hf (host_fpu_mode (core e)) 0x3F800000 fs
     in fpu_update_fcsr (fpu_arith_flags_div_s 0x3F800000 fs) (fpr_write_w (d_sa d) r) e)"

definition exec_frecip_d :: "host_fpu \<Rightarrow> 'b handler" where
  "exec_frecip_d hf d = cu1 (\<lambda>e.
     let fs = fpr_read_d (d_rd d) e; r = hf_div_d hf (host_fpu_mode (core e)) 0x3FF0000000000000 fs
     in fpu_update_fcsr (fpu_arith_flags_div_d 0x3FF0000000000000 fs) (fpr_write_d (d_sa d) r) e)"

definition exec_frsqrt_s :: "host_fpu \<Rightarrow> 'b handler" where
  "exec_frsqrt_s hf d = cu1 (\<lambda>e.
     let fs = fpr_read_w (d_rd d) e; sqrt_flags = fpu_arith_flags_sqrt_s fs;
         flags = (if sqrt_flags \<noteq> 0 then sqrt_flags
                  else if is_pos_zero_or_neg_zero_s fs then FCSR_FZ else 0);
         m = host_fpu_mode (core e); r = hf_div_s hf m 0x3F800000 (hf_sqrt_s hf m fs)
     in fpu_update_fcsr flags (fpr_write_w (d_sa d) r) e)"

definition exec_frsqrt_d :: "host_fpu \<Rightarrow> 'b handler" where
  "exec_frsqrt_d hf d = cu1 (\<lambda>e.
     let fs = fpr_read_d (d_rd d) e; sqrt_flags = fpu_arith_flags_sqrt_d fs;
         flags = (if sqrt_flags \<noteq> 0 then sqrt_flags
                  else if is_pos_zero_or_neg_zero_d fs then FCSR_FZ else 0);
         m = host_fpu_mode (core e); r = hf_div_d hf m 0x3FF0000000000000 (hf_sqrt_d hf m fs)
     in fpu_update_fcsr flags (fpr_write_d (d_sa d) r) e)"

section \<open>Conversions\<close>

definition cvt_read_w :: "u8 \<Rightarrow> bool \<Rightarrow> mips_core \<Rightarrow> u32" where
  "cvt_read_w r fr1 c = (if fr1 then read_fpr_w (ucast r) c else read_fpr_w_fr0 (ucast r) c)"

definition cvt_read_l :: "u8 \<Rightarrow> bool \<Rightarrow> mips_core \<Rightarrow> u64" where
  "cvt_read_l r fr1 c = (if fr1 then read_fpr_l (ucast r) c else read_fpr_l_fr0 (ucast r) c)"

definition cvt_write_w :: "u8 \<Rightarrow> bool \<Rightarrow> u32 \<Rightarrow> mips_core \<Rightarrow> mips_core" where
  "cvt_write_w r fr1 v c = (if fr1 then write_fpr_w (ucast r) v c else write_fpr_w_fr0 (ucast r) v c)"

definition cvt_write_l :: "u8 \<Rightarrow> bool \<Rightarrow> u64 \<Rightarrow> mips_core \<Rightarrow> mips_core" where
  "cvt_write_l r fr1 v c = (if fr1 then write_fpr_l (ucast r) v c else write_fpr_l_fr0 (ucast r) v c)"

definition cvt_to_int_and_commit ::
  "u8 \<Rightarrow> u8 \<Rightarrow> bool \<Rightarrow> bool \<Rightarrow> bool \<Rightarrow> u8 \<Rightarrow> mips_core \<Rightarrow> bool \<times> mips_core" where
  "cvt_to_int_and_commit fs fd fr1 src_f64 dst_i64 rm c =
     (let dst_bits = (if dst_i64 then 64 else 32);
          (result, invalid, inexact) =
            (if src_f64
             then cvt_f64_to_int_by_value (round_f64_to_int_mode (cvt_read_l fs fr1 c) rm) dst_bits
             else cvt_f32_to_int_by_value (round_f32_to_int_mode (cvt_read_w fs fr1 c) rm) dst_bits);
          c = c\<lparr>fpu_fcsr := fpu_fcsr c AND NOT FCSR_CM\<rparr>;
          write_result = (\<lambda>c. if dst_i64 then cvt_write_l fd fr1 result c
                              else cvt_write_w fd fr1 (lo32 result) c)
      in if \<not> invalid \<and> \<not> inexact then (False, write_result c)
      else let c = c\<lparr>fpu_fcsr := fpu_fcsr c OR (if invalid then FCSR_CV else FCSR_CI)\<rparr>;
               enable_bit = (if invalid then 0x800 else FCSR_IM)
           in if fpu_fcsr c AND enable_bit \<noteq> 0 then (True, c)
              else let c = write_result c
                   in (False, c\<lparr>fpu_fcsr := fpu_fcsr c OR (if invalid then 0x40 else FCSR_FI)\<rparr>))"

definition cvt_int_to_float_and_commit ::
  "u8 \<Rightarrow> u8 \<Rightarrow> bool \<Rightarrow> bool \<Rightarrow> bool \<Rightarrow> mips_core \<Rightarrow> bool \<times> mips_core" where
  "cvt_int_to_float_and_commit fs fd fr1 src_i64 dst_f64 c =
     (let src = (if src_i64 then sint (cvt_read_l fs fr1 c) else sint (cvt_read_w fs fr1 c));
          (inexact, c) =
            (if dst_f64 then let r = f64_of_int src
                             in (f64_to_int 64 r \<noteq> src, cvt_write_l fd fr1 r c)
             else let r = f32_of_int src
                  in (f32_to_int 64 r \<noteq> src, cvt_write_w fd fr1 r c));
          c = c\<lparr>fpu_fcsr := fpu_fcsr c AND NOT FCSR_CM\<rparr>
      in if \<not> inexact then (False, c)
      else let c = c\<lparr>fpu_fcsr := fpu_fcsr c OR FCSR_CI\<rparr>
           in if fpu_fcsr c AND FCSR_IM \<noteq> 0 then (True, c)
              else (False, c\<lparr>fpu_fcsr := fpu_fcsr c OR FCSR_FI\<rparr>))"

definition cvt_d_to_s_and_commit ::
  "host_fpu \<Rightarrow> u8 \<Rightarrow> u8 \<Rightarrow> bool \<Rightarrow> mips_core \<Rightarrow> bool \<times> mips_core" where
  "cvt_d_to_s_and_commit hf fs fd fr1 c =
     (let src = (if fr1 then read_fpr_d (ucast fs) c else read_fpr_d_fr0 (ucast fs) c);
          result = hf_narrow hf (host_fpu_mode c) src;
          overflow = (f32_is_infinite result \<and> \<not> f64_is_infinite src);
          inexact = (\<not> overflow \<and> \<not> f64_eq (hf_widen hf result) src);
          c = c\<lparr>fpu_fcsr := fpu_fcsr c AND NOT FCSR_CM\<rparr>
      in if \<not> overflow \<and> \<not> inexact then (False, cvt_write_w fd fr1 result c)
      else let c = c\<lparr>fpu_fcsr := fpu_fcsr c OR (if overflow then FCSR_CO else FCSR_CI)\<rparr>;
               enable_bit = (if overflow then 0x200 else FCSR_IM)
           in if fpu_fcsr c AND enable_bit \<noteq> 0 then (True, c)
              else let c = cvt_write_w fd fr1 result c
                   in (False, c\<lparr>fpu_fcsr := fpu_fcsr c OR (if overflow then FCSR_FO else FCSR_FI)\<rparr>))"

text \<open>The shared tail: a trap or completion.\<close>

definition fpu_finish_cvt :: "bool \<times> mips_core \<Rightarrow> 'b mips_executor \<Rightarrow> u32 \<times> 'b mips_executor" where
  "fpu_finish_cvt r e =
     (let e = e\<lparr>core := snd r\<rparr> in if fst r then raise_fpe e else handle_exec_complete e)"

definition fpu_cvt_to_int ::
  "u8 \<Rightarrow> u8 \<Rightarrow> bool \<Rightarrow> bool \<Rightarrow> u8 \<Rightarrow> 'b mips_executor \<Rightarrow> u32 \<times> 'b mips_executor" where
  "fpu_cvt_to_int fs fd src_f64 dst_i64 rm e =
     (let fr1 = (cp0_status (core e) AND STATUS_FR \<noteq> 0)
      in fpu_finish_cvt (cvt_to_int_and_commit fs fd fr1 src_f64 dst_i64 rm (core e)) e)"

definition fpu_cvt_int_to_float ::
  "u8 \<Rightarrow> u8 \<Rightarrow> bool \<Rightarrow> bool \<Rightarrow> 'b mips_executor \<Rightarrow> u32 \<times> 'b mips_executor" where
  "fpu_cvt_int_to_float fs fd src_i64 dst_f64 e =
     (let fr1 = (cp0_status (core e) AND STATUS_FR \<noteq> 0)
      in fpu_finish_cvt (cvt_int_to_float_and_commit fs fd fr1 src_i64 dst_f64 (core e)) e)"

definition fpu_cvt_d_to_s :: "host_fpu \<Rightarrow> u8 \<Rightarrow> u8 \<Rightarrow> 'b mips_executor \<Rightarrow> u32 \<times> 'b mips_executor"
  where
  "fpu_cvt_d_to_s hf fs fd e =
     (let fr1 = (cp0_status (core e) AND STATUS_FR \<noteq> 0)
      in fpu_finish_cvt (cvt_d_to_s_and_commit hf fs fd fr1 (core e)) e)"

definition exec_fround_l_s :: "'b handler" where
  "exec_fround_l_s d = cu1 (fpu_cvt_to_int (d_rd d) (d_sa d) False True RM_NEAREST_EVEN)"

definition exec_fround_l_d :: "'b handler" where
  "exec_fround_l_d d = cu1 (fpu_cvt_to_int (d_rd d) (d_sa d) True True RM_NEAREST_EVEN)"

definition exec_fround_w_s :: "'b handler" where
  "exec_fround_w_s d = cu1 (fpu_cvt_to_int (d_rd d) (d_sa d) False False RM_NEAREST_EVEN)"

definition exec_fround_w_d :: "'b handler" where
  "exec_fround_w_d d = cu1 (fpu_cvt_to_int (d_rd d) (d_sa d) True False RM_NEAREST_EVEN)"

definition exec_ftrunc_l_s :: "'b handler" where
  "exec_ftrunc_l_s d = cu1 (fpu_cvt_to_int (d_rd d) (d_sa d) False True RM_TOWARD_ZERO)"

definition exec_ftrunc_l_d :: "'b handler" where
  "exec_ftrunc_l_d d = cu1 (fpu_cvt_to_int (d_rd d) (d_sa d) True True RM_TOWARD_ZERO)"

definition exec_ftrunc_w_s :: "'b handler" where
  "exec_ftrunc_w_s d = cu1 (fpu_cvt_to_int (d_rd d) (d_sa d) False False RM_TOWARD_ZERO)"

definition exec_ftrunc_w_d :: "'b handler" where
  "exec_ftrunc_w_d d = cu1 (fpu_cvt_to_int (d_rd d) (d_sa d) True False RM_TOWARD_ZERO)"

definition exec_fceil_l_s :: "'b handler" where
  "exec_fceil_l_s d = cu1 (fpu_cvt_to_int (d_rd d) (d_sa d) False True RM_TOWARD_POS_INF)"

definition exec_fceil_l_d :: "'b handler" where
  "exec_fceil_l_d d = cu1 (fpu_cvt_to_int (d_rd d) (d_sa d) True True RM_TOWARD_POS_INF)"

definition exec_fceil_w_s :: "'b handler" where
  "exec_fceil_w_s d = cu1 (fpu_cvt_to_int (d_rd d) (d_sa d) False False RM_TOWARD_POS_INF)"

definition exec_fceil_w_d :: "'b handler" where
  "exec_fceil_w_d d = cu1 (fpu_cvt_to_int (d_rd d) (d_sa d) True False RM_TOWARD_POS_INF)"

definition exec_ffloor_l_s :: "'b handler" where
  "exec_ffloor_l_s d = cu1 (fpu_cvt_to_int (d_rd d) (d_sa d) False True RM_TOWARD_NEG_INF)"

definition exec_ffloor_l_d :: "'b handler" where
  "exec_ffloor_l_d d = cu1 (fpu_cvt_to_int (d_rd d) (d_sa d) True True RM_TOWARD_NEG_INF)"

definition exec_ffloor_w_s :: "'b handler" where
  "exec_ffloor_w_s d = cu1 (fpu_cvt_to_int (d_rd d) (d_sa d) False False RM_TOWARD_NEG_INF)"

definition exec_ffloor_w_d :: "'b handler" where
  "exec_ffloor_w_d d = cu1 (fpu_cvt_to_int (d_rd d) (d_sa d) True False RM_TOWARD_NEG_INF)"

definition exec_fcvt_w_s :: "'b handler" where
  "exec_fcvt_w_s d = cu1 (\<lambda>e.
     fpu_cvt_to_int (d_rd d) (d_sa d) False False (ucast (fpu_fcsr (core e) AND 3)) e)"

definition exec_fcvt_w_d :: "'b handler" where
  "exec_fcvt_w_d d = cu1 (\<lambda>e.
     fpu_cvt_to_int (d_rd d) (d_sa d) True False (ucast (fpu_fcsr (core e) AND 3)) e)"

definition exec_fcvt_l_s :: "'b handler" where
  "exec_fcvt_l_s d = cu1 (\<lambda>e.
     fpu_cvt_to_int (d_rd d) (d_sa d) False True (ucast (fpu_fcsr (core e) AND 3)) e)"

definition exec_fcvt_l_d :: "'b handler" where
  "exec_fcvt_l_d d = cu1 (\<lambda>e.
     fpu_cvt_to_int (d_rd d) (d_sa d) True True (ucast (fpu_fcsr (core e) AND 3)) e)"

definition exec_fcvt_s_w :: "'b handler" where
  "exec_fcvt_s_w d = cu1 (fpu_cvt_int_to_float (d_rd d) (d_sa d) False False)"

definition exec_fcvt_s_l :: "'b handler" where
  "exec_fcvt_s_l d = cu1 (fpu_cvt_int_to_float (d_rd d) (d_sa d) True False)"

definition exec_fcvt_d_w :: "'b handler" where
  "exec_fcvt_d_w d = cu1 (fpu_cvt_int_to_float (d_rd d) (d_sa d) False True)"

definition exec_fcvt_d_l :: "'b handler" where
  "exec_fcvt_d_l d = cu1 (fpu_cvt_int_to_float (d_rd d) (d_sa d) True True)"

definition exec_fcvt_d_s :: "host_fpu \<Rightarrow> 'b handler" where
  "exec_fcvt_d_s hf d = cu1 (\<lambda>e.
     fpu_update_fcsr 0 (fpr_write_d (d_sa d) (hf_widen hf (fpr_read_w (d_rd d) e))) e)"

definition exec_fcvt_s_d :: "host_fpu \<Rightarrow> 'b handler" where
  "exec_fcvt_s_d hf d = cu1 (fpu_cvt_d_to_s hf (d_rd d) (d_sa d))"

section \<open>Comparisons\<close>

text \<open>The sixteen predicates, from less, equal and unordered.\<close>

definition fpu_cond :: "bool \<Rightarrow> bool \<Rightarrow> bool \<Rightarrow> u32 \<Rightarrow> bool" where
  "fpu_cond lt eq unordered funct =
     (let cond = funct AND 0xF
      in if cond = 0x0 then False
         else if cond = 0x1 then unordered
         else if cond = 0x2 then eq
         else if cond = 0x3 then unordered \<or> eq
         else if cond = 0x4 then lt
         else if cond = 0x5 then unordered \<or> lt
         else if cond = 0x6 then lt \<or> eq
         else if cond = 0x7 then unordered \<or> lt \<or> eq
         else if cond = 0x8 then False
         else if cond = 0x9 then unordered
         else if cond = 0xA then eq
         else if cond = 0xB then unordered \<or> eq
         else if cond = 0xC then lt
         else if cond = 0xD then unordered \<or> lt
         else if cond = 0xE then lt \<or> eq
         else unordered \<or> lt \<or> eq)"

definition fpu_compare_s :: "u32 \<Rightarrow> u32 \<Rightarrow> u32 \<Rightarrow> bool" where
  "fpu_compare_s a b funct = fpu_cond (f32_lt a b) (f32_eq a b) (f32_is_nan a \<or> f32_is_nan b) funct"

definition fpu_compare_d :: "u64 \<Rightarrow> u64 \<Rightarrow> u32 \<Rightarrow> bool" where
  "fpu_compare_d a b funct = fpu_cond (f64_lt a b) (f64_eq a b) (f64_is_nan a \<or> f64_is_nan b) funct"

text \<open>Cause, trap and condition code of a comparison.\<close>

definition fpu_commit_compare ::
  "bool \<Rightarrow> bool \<Rightarrow> decoded_fields \<Rightarrow> 'b mips_executor \<Rightarrow> u32 \<times> 'b mips_executor" where
  "fpu_commit_compare invalid cond d e =
     (let e = upd_fcsr (\<lambda>f. (f AND NOT FCSR_CM) OR (if invalid then FCSR_CV else 0)) e
      in if invalid \<and> fpu_fcsr (core e) AND 0x800 \<noteq> 0 then raise_fpe e
         else let e = (if invalid then upd_fcsr (\<lambda>f. f OR FCSR_FV) e else e)
              in handle_exec_complete (upd_core (set_fpu_cc (shr (d_raw d) 8 AND 7) cond) e))"

definition exec_fcc_s :: "'b handler" where
  "exec_fcc_s d = cu1 (\<lambda>e.
     let funct_val = ucast (d_funct d); fs = fpr_read_w (d_rd d) e; ft = fpr_read_w (d_rt d) e;
         has_nan = (f32_is_nan fs \<or> f32_is_nan ft); has_snan = (is_snan_s fs \<or> is_snan_s ft);
         invalid = (has_snan \<or> (funct_val AND 8 \<noteq> 0 \<and> has_nan))
     in fpu_commit_compare invalid (fpu_compare_s fs ft funct_val) d e)"

definition exec_fcc_d :: "'b handler" where
  "exec_fcc_d d = cu1 (\<lambda>e.
     let funct_val = ucast (d_funct d); fs = fpr_read_d (d_rd d) e; ft = fpr_read_d (d_rt d) e;
         has_nan = (f64_is_nan fs \<or> f64_is_nan ft); has_snan = (is_snan_d fs \<or> is_snan_d ft);
         invalid = (has_snan \<or> (funct_val AND 8 \<noteq> 0 \<and> has_nan))
     in fpu_commit_compare invalid (fpu_compare_d fs ft funct_val) d e)"

section \<open>Loads and stores\<close>

definition fpu_load :: "nat \<Rightarrow> (u64 \<Rightarrow> 'b mips_executor \<Rightarrow> 'b mips_executor) \<Rightarrow> u64
    \<Rightarrow> 'b mips_executor \<Rightarrow> 'b store_result" where
  "fpu_load sz wr addr e =
     (case read_data sz addr e of
        None \<Rightarrow> None
      | Some (Inr v, e) \<Rightarrow> Some (handle_exec_complete (wr v e))
      | Some (Inl s, e) \<Rightarrow> Some (finish_status s e))"

definition fpu_store :: "nat \<Rightarrow> u64 \<Rightarrow> u64 \<Rightarrow> 'b mips_executor \<Rightarrow> 'b store_result" where
  "fpu_store sz addr v e =
     (case write_data sz addr v e of
        None \<Rightarrow> None
      | Some (s, e) \<Rightarrow> Some (finish_status s e))"

definition indexed_address :: "decoded_fields \<Rightarrow> 'b mips_executor \<Rightarrow> u64" where
  "indexed_address d e = gr (d_rs d) e + gr (d_rt d) e"

definition exec_lwc1 :: "'b mhandler" where
  "exec_lwc1 d = cu1m (\<lambda>e.
     fpu_load 4 (\<lambda>v. fpr_write_w (d_rt d) (lo32 v)) (effective_address d e) e)"

definition exec_ldc1 :: "'b mhandler" where
  "exec_ldc1 d = cu1m (\<lambda>e. fpu_load 8 (fpr_write_l (d_rt d)) (effective_address d e) e)"

definition exec_swc1 :: "'b mhandler" where
  "exec_swc1 d = cu1m (\<lambda>e. fpu_store 4 (effective_address d e) (zext (fpr_read_w (d_rt d) e)) e)"

definition exec_sdc1 :: "'b mhandler" where
  "exec_sdc1 d = cu1m (\<lambda>e. fpu_store 8 (effective_address d e) (fpr_read_l (d_rt d) e) e)"

definition exec_lwxc1 :: "'b mhandler" where
  "exec_lwxc1 d = cu1m (\<lambda>e.
     fpu_load 4 (\<lambda>v. fpr_write_w (d_sa d) (lo32 v)) (indexed_address d e) e)"

definition exec_ldxc1 :: "'b mhandler" where
  "exec_ldxc1 d = cu1m (\<lambda>e. fpu_load 8 (fpr_write_l (d_sa d)) (indexed_address d e) e)"

definition exec_swxc1 :: "'b mhandler" where
  "exec_swxc1 d = cu1m (\<lambda>e. fpu_store 4 (indexed_address d e) (zext (fpr_read_w (d_rd d) e)) e)"

definition exec_sdxc1 :: "'b mhandler" where
  "exec_sdxc1 d = cu1m (\<lambda>e. fpu_store 8 (indexed_address d e) (fpr_read_l (d_rd d) e) e)"

definition exec_prefx :: "'b handler" where
  "exec_prefx d = cu1 handle_exec_complete"

section \<open>Multiply-add\<close>

definition fpu_madd_s ::
  "(u8 \<Rightarrow> u32 \<Rightarrow> u32 \<Rightarrow> u32 \<Rightarrow> u32) \<Rightarrow> 'b handler" where
  "fpu_madd_s f d = cu1 (\<lambda>e.
     let fr = fpr_read_w (d_rs d) e; ft = fpr_read_w (d_rt d) e; fs = fpr_read_w (d_rd d) e
     in fpu_update_fcsr (fpu_arith_flags_snan_only3_s fr ft fs)
          (fpr_write_w (d_sa d) (f (host_fpu_mode (core e)) fs ft fr)) e)"

definition fpu_madd_d ::
  "(u8 \<Rightarrow> u64 \<Rightarrow> u64 \<Rightarrow> u64 \<Rightarrow> u64) \<Rightarrow> 'b handler" where
  "fpu_madd_d f d = cu1 (\<lambda>e.
     let fr = fpr_read_d (d_rs d) e; ft = fpr_read_d (d_rt d) e; fs = fpr_read_d (d_rd d) e
     in fpu_update_fcsr (fpu_arith_flags_snan_only3_d fr ft fs)
          (fpr_write_d (d_sa d) (f (host_fpu_mode (core e)) fs ft fr)) e)"

definition exec_madd_s :: "host_fpu \<Rightarrow> 'b handler" where
  "exec_madd_s hf = fpu_madd_s (\<lambda>m fs ft fr. hf_add_s hf m (hf_mul_s hf m fs ft) fr)"

definition exec_madd_d :: "host_fpu \<Rightarrow> 'b handler" where
  "exec_madd_d hf = fpu_madd_d (\<lambda>m fs ft fr. hf_add_d hf m (hf_mul_d hf m fs ft) fr)"

definition exec_msub_s :: "host_fpu \<Rightarrow> 'b handler" where
  "exec_msub_s hf = fpu_madd_s (\<lambda>m fs ft fr. hf_sub_s hf m (hf_mul_s hf m fs ft) fr)"

definition exec_msub_d :: "host_fpu \<Rightarrow> 'b handler" where
  "exec_msub_d hf = fpu_madd_d (\<lambda>m fs ft fr. hf_sub_d hf m (hf_mul_d hf m fs ft) fr)"

definition exec_nmadd_s :: "host_fpu \<Rightarrow> 'b handler" where
  "exec_nmadd_s hf = fpu_madd_s (\<lambda>m fs ft fr. fneg_bits_s (hf_add_s hf m (hf_mul_s hf m fs ft) fr))"

definition exec_nmadd_d :: "host_fpu \<Rightarrow> 'b handler" where
  "exec_nmadd_d hf = fpu_madd_d (\<lambda>m fs ft fr. fneg_d_exact (hf_add_d hf m (hf_mul_d hf m fs ft) fr))"

definition exec_nmsub_s :: "host_fpu \<Rightarrow> 'b handler" where
  "exec_nmsub_s hf = fpu_madd_s (\<lambda>m fs ft fr. fneg_bits_s (hf_sub_s hf m (hf_mul_s hf m fs ft) fr))"

definition exec_nmsub_d :: "host_fpu \<Rightarrow> 'b handler" where
  "exec_nmsub_d hf = fpu_madd_d (\<lambda>m fs ft fr. fneg_d_exact (hf_sub_d hf m (hf_mul_d hf m fs ft) fr))"

end
