(* ===== verification/Mips_Step.thy ===== *)
theory Mips_Step
  imports Mips_Cop0 Mips_Fpu
begin

text \<open>
  Decoding and the interpreter's step, \<^verbatim>\<open>decode_into\<close>, \<^verbatim>\<open>exec_decoded_int\<close>,
  \<^verbatim>\<open>step_preamble!\<close> and \<^verbatim>\<open>step_int\<close> of \<^verbatim>\<open>src/src/cpu/mips_exec.rs\<close>, with the opcodes of
  \<^verbatim>\<open>src/src/cpu/mips_isa.rs\<close>.

  A decoded instruction is its fields with its handler, a function as in the source.  The
  flag \<open>fusion\<close> is the \<^verbatim>\<open>opcodefusion\<close> feature and \<open>hf\<close> is the floating point arithmetic of the
  host.
\<close>

section \<open>Decoding\<close>

definition lift_handler :: "'b handler \<Rightarrow> 'b mhandler" where
  "lift_handler h d e = Some (h d e)"

definition h_reserved :: "'b mhandler" where
  "h_reserved d e = Some (exec_reserved e)"

definition decode_special :: "bool \<Rightarrow> u32 \<Rightarrow> 'b mhandler" where
  "decode_special mips4 funct =
     (if funct = 0x00 then lift_handler exec_sll
      else if funct = 0x01 then (if mips4 then lift_handler exec_movci else h_reserved)
      else if funct = 0x02 then lift_handler exec_srl
      else if funct = 0x03 then lift_handler exec_sra
      else if funct = 0x04 then lift_handler exec_sllv
      else if funct = 0x06 then lift_handler exec_srlv
      else if funct = 0x07 then lift_handler exec_srav
      else if funct = 0x08 then lift_handler exec_jr
      else if funct = 0x09 then lift_handler exec_jalr
      else if funct = 0x0A then (if mips4 then lift_handler exec_movz else h_reserved)
      else if funct = 0x0B then (if mips4 then lift_handler exec_movn else h_reserved)
      else if funct = 0x0C then lift_handler exec_syscall
      else if funct = 0x0D then lift_handler exec_break
      else if funct = 0x0F then lift_handler exec_sync
      else if funct = 0x10 then lift_handler exec_mfhi
      else if funct = 0x11 then lift_handler exec_mthi
      else if funct = 0x12 then lift_handler exec_mflo
      else if funct = 0x13 then lift_handler exec_mtlo
      else if funct = 0x14 then lift_handler exec_dsllv
      else if funct = 0x16 then lift_handler exec_dsrlv
      else if funct = 0x17 then lift_handler exec_dsrav
      else if funct = 0x18 then lift_handler exec_mult
      else if funct = 0x19 then lift_handler exec_multu
      else if funct = 0x1A then lift_handler exec_div
      else if funct = 0x1B then lift_handler exec_divu
      else if funct = 0x1C then lift_handler exec_dmult
      else if funct = 0x1D then lift_handler exec_dmultu
      else if funct = 0x1E then lift_handler exec_ddiv
      else if funct = 0x1F then lift_handler exec_ddivu
      else if funct = 0x20 then lift_handler exec_add
      else if funct = 0x21 then lift_handler exec_addu
      else if funct = 0x22 then lift_handler exec_sub
      else if funct = 0x23 then lift_handler exec_subu
      else if funct = 0x24 then lift_handler exec_and
      else if funct = 0x25 then lift_handler exec_or
      else if funct = 0x26 then lift_handler exec_xor
      else if funct = 0x27 then lift_handler exec_nor
      else if funct = 0x2A then lift_handler exec_slt
      else if funct = 0x2B then lift_handler exec_sltu
      else if funct = 0x2C then lift_handler exec_dadd
      else if funct = 0x2D then lift_handler exec_daddu
      else if funct = 0x2E then lift_handler exec_dsub
      else if funct = 0x2F then lift_handler exec_dsubu
      else if funct = 0x30 then lift_handler exec_tge
      else if funct = 0x31 then lift_handler exec_tgeu
      else if funct = 0x32 then lift_handler exec_tlt
      else if funct = 0x33 then lift_handler exec_tltu
      else if funct = 0x34 then lift_handler exec_teq
      else if funct = 0x36 then lift_handler exec_tne
      else if funct = 0x38 then lift_handler exec_dsll
      else if funct = 0x3A then lift_handler exec_dsrl
      else if funct = 0x3B then lift_handler exec_dsra
      else if funct = 0x3C then lift_handler exec_dsll32
      else if funct = 0x3E then lift_handler exec_dsrl32
      else if funct = 0x3F then lift_handler exec_dsra32
      else h_reserved)"

text \<open>The immediate forms set the immediate as they select the handler.\<close>

type_synonym 'b decoded = "decoded_fields \<times> 'b mhandler"

definition decode_regimm :: "u32 \<Rightarrow> u32 \<Rightarrow> decoded_fields \<Rightarrow> 'b decoded" where
  "decode_regimm rt raw d =
     (if rt = 0x00 then (set_imm_se4 raw d, lift_handler exec_bltz)
      else if rt = 0x01 then (set_imm_se4 raw d, lift_handler exec_bgez)
      else if rt = 0x02 then (set_imm_se4 raw d, lift_handler exec_bltzl_ri)
      else if rt = 0x03 then (set_imm_se4 raw d, lift_handler exec_bgezl_ri)
      else if rt = 0x08 then (set_imm_se raw d, lift_handler exec_tgei)
      else if rt = 0x09 then (set_imm_se raw d, lift_handler exec_tgeiu)
      else if rt = 0x0A then (set_imm_se raw d, lift_handler exec_tlti)
      else if rt = 0x0B then (set_imm_se raw d, lift_handler exec_tltiu)
      else if rt = 0x0C then (set_imm_se raw d, lift_handler exec_teqi)
      else if rt = 0x0E then (set_imm_se raw d, lift_handler exec_tnei)
      else if rt = 0x10 then (set_imm_se4 raw d, lift_handler exec_bltzal)
      else if rt = 0x11 then (set_imm_se4 raw d, lift_handler exec_bgezal)
      else if rt = 0x12 then (set_imm_se4 raw d, lift_handler exec_bltzall)
      else if rt = 0x13 then (set_imm_se4 raw d, lift_handler exec_bgezall)
      else (d, h_reserved))"

text \<open>Fusion with the following word, which \<open>FLAG_IMM_IS_NEXT\<close> says is in \<open>d_imm\<close>.\<close>

definition next_is_nop :: "bool \<Rightarrow> decoded_fields \<Rightarrow> bool" where
  "next_is_nop fusion d = (fusion \<and> d_flags d AND FLAG_IMM_IS_NEXT \<noteq> 0 \<and> d_imm d = 0)"

definition next_is_access :: "bool \<Rightarrow> u8 \<Rightarrow> decoded_fields \<Rightarrow> bool" where
  "next_is_access fusion r d =
     (fusion \<and> d_flags d AND FLAG_IMM_IS_NEXT \<noteq> 0 \<and> is_fusable_load_store (d_imm d) r)"

definition lui_fused :: "bool \<Rightarrow> u8 \<Rightarrow> u32 \<Rightarrow> decoded_fields \<Rightarrow> (u32 \<times> bool) option" where
  "lui_fused fusion rt raw d =
     (if fusion \<and> d_flags d AND FLAG_IMM_IS_NEXT \<noteq> 0
      then let nxt = d_imm d; next_op = shr nxt 26 AND 0x3F;
               next_rs = shr nxt 21 AND 0x1F; next_rt = shr nxt 16 AND 0x1F;
               same_reg = (next_rs = ucast rt \<and> next_rt = ucast rt)
           in if same_reg \<and> next_op = 0x0D
              then Some (shl (raw AND 0xFFFF) 16 OR (nxt AND 0xFFFF), False)
              else if same_reg \<and> next_op = 0x09
              then Some (shl (raw AND 0xFFFF) 16 + sext16 nxt, True)
              else None
      else None)"

definition decode_lui :: "bool \<Rightarrow> u8 \<Rightarrow> u32 \<Rightarrow> decoded_fields \<Rightarrow> 'b decoded" where
  "decode_lui fusion rt raw d =
     (case lui_fused fusion rt raw d of
        Some (combined, is_addiu) \<Rightarrow>
          (d\<lparr>d_imm := combined\<rparr>,
           if is_addiu then lift_handler exec_lui_simm32 else lift_handler exec_lui_imm32)
      | None \<Rightarrow> (set_imm_lui raw d, lift_handler exec_lui))"

definition decode_special_fused ::
  "bool \<Rightarrow> bool \<Rightarrow> u32 \<Rightarrow> u8 \<Rightarrow> decoded_fields \<Rightarrow> 'b decoded" where
  "decode_special_fused fusion mips4 funct rd d =
     (d, if funct = 0x08 \<and> next_is_nop fusion d then lift_handler exec_jr_nop
         else if funct = 0x21 \<and> next_is_access fusion rd d then exec_addu_ls
         else if funct = 0x23 \<and> next_is_access fusion rd d then exec_subu_ls
         else decode_special mips4 funct)"

definition decode_branch ::
  "bool \<Rightarrow> u32 \<Rightarrow> u32 \<Rightarrow> decoded_fields \<Rightarrow> 'b decoded" where
  "decode_branch fusion op raw d =
     (if op = 0x02 then (set_imm_j raw d, lift_handler (if next_is_nop fusion d then exec_j_nop else exec_j))
      else if op = 0x03 then
        (set_imm_j raw d, lift_handler (if next_is_nop fusion d then exec_jal_nop else exec_jal))
      else if op = 0x04 then
        (set_imm_se4 raw d, lift_handler (if next_is_nop fusion d then exec_beq_nop else exec_beq))
      else if op = 0x05 then
        (set_imm_se4 raw d, lift_handler (if next_is_nop fusion d then exec_bne_nop else exec_bne))
      else if op = 0x06 then (set_imm_se4 raw d, lift_handler exec_blez)
      else if op = 0x07 then (set_imm_se4 raw d, lift_handler exec_bgtz)
      else if op = 0x14 then (set_imm_se4 raw d, lift_handler exec_beql)
      else if op = 0x15 then (set_imm_se4 raw d, lift_handler exec_bnel)
      else if op = 0x16 then (set_imm_se4 raw d, lift_handler exec_blezl)
      else (set_imm_se4 raw d, lift_handler exec_bgtzl))"

definition decode_imm :: "bool \<Rightarrow> u32 \<Rightarrow> u8 \<Rightarrow> u32 \<Rightarrow> decoded_fields \<Rightarrow> 'b decoded" where
  "decode_imm fusion op rt raw d =
     (if op = 0x08 then (set_imm_se raw d, lift_handler exec_addi)
      else if op = 0x09 then
        (if next_is_access fusion rt d then (d, exec_addiu_ls)
         else (set_imm_se raw d, lift_handler exec_addiu))
      else if op = 0x18 then (set_imm_se raw d, lift_handler exec_daddi)
      else if op = 0x19 then (set_imm_se raw d, lift_handler exec_daddiu)
      else if op = 0x0A then (set_imm_se raw d, lift_handler exec_slti)
      else if op = 0x0B then (set_imm_se raw d, lift_handler exec_sltiu)
      else if op = 0x0C then (set_imm_ze raw d, lift_handler exec_andi)
      else if op = 0x0D then (set_imm_ze raw d, lift_handler exec_ori)
      else (set_imm_ze raw d, lift_handler exec_xori))"

definition decode_fmt_s :: "host_fpu \<Rightarrow> bool \<Rightarrow> u32 \<Rightarrow> 'b mhandler" where
  "decode_fmt_s hf mips4 funct =
     (if funct = 0x00 then lift_handler (exec_fadd_s hf)
      else if funct = 0x01 then lift_handler (exec_fsub_s hf)
      else if funct = 0x02 then lift_handler (exec_fmul_s hf)
      else if funct = 0x03 then lift_handler (exec_fdiv_s hf)
      else if funct = 0x04 then lift_handler (exec_fsqrt_s hf)
      else if funct = 0x05 then lift_handler exec_fabs_s
      else if funct = 0x06 then lift_handler exec_fmov_s
      else if funct = 0x07 then lift_handler exec_fneg_s
      else if funct = 0x08 then lift_handler exec_fround_l_s
      else if funct = 0x09 then lift_handler exec_ftrunc_l_s
      else if funct = 0x0A then lift_handler exec_fceil_l_s
      else if funct = 0x0B then lift_handler exec_ffloor_l_s
      else if funct = 0x0C then lift_handler exec_fround_w_s
      else if funct = 0x0D then lift_handler exec_ftrunc_w_s
      else if funct = 0x0E then lift_handler exec_fceil_w_s
      else if funct = 0x0F then lift_handler exec_ffloor_w_s
      else if funct = 0x11 then (if mips4 then lift_handler exec_fmovcf_s else h_reserved)
      else if funct = 0x12 then (if mips4 then lift_handler exec_fmovz_s else h_reserved)
      else if funct = 0x13 then (if mips4 then lift_handler exec_fmovn_s else h_reserved)
      else if funct = 0x15 then (if mips4 then lift_handler (exec_frecip_s hf) else h_reserved)
      else if funct = 0x16 then (if mips4 then lift_handler (exec_frsqrt_s hf) else h_reserved)
      else if funct = 0x21 then lift_handler (exec_fcvt_d_s hf)
      else if funct = 0x24 then lift_handler exec_fcvt_w_s
      else if funct = 0x25 then lift_handler exec_fcvt_l_s
      else if 0x30 \<le> funct \<and> funct \<le> 0x3F then lift_handler exec_fcc_s
      else h_reserved)"

definition decode_fmt_d :: "host_fpu \<Rightarrow> bool \<Rightarrow> u32 \<Rightarrow> 'b mhandler" where
  "decode_fmt_d hf mips4 funct =
     (if funct = 0x00 then lift_handler (exec_fadd_d hf)
      else if funct = 0x01 then lift_handler (exec_fsub_d hf)
      else if funct = 0x02 then lift_handler (exec_fmul_d hf)
      else if funct = 0x03 then lift_handler (exec_fdiv_d hf)
      else if funct = 0x04 then lift_handler (exec_fsqrt_d hf)
      else if funct = 0x05 then lift_handler exec_fabs_d
      else if funct = 0x06 then lift_handler exec_fmov_d
      else if funct = 0x07 then lift_handler exec_fneg_d
      else if funct = 0x08 then lift_handler exec_fround_l_d
      else if funct = 0x09 then lift_handler exec_ftrunc_l_d
      else if funct = 0x0A then lift_handler exec_fceil_l_d
      else if funct = 0x0B then lift_handler exec_ffloor_l_d
      else if funct = 0x0C then lift_handler exec_fround_w_d
      else if funct = 0x0D then lift_handler exec_ftrunc_w_d
      else if funct = 0x0E then lift_handler exec_fceil_w_d
      else if funct = 0x0F then lift_handler exec_ffloor_w_d
      else if funct = 0x11 then (if mips4 then lift_handler exec_fmovcf_d else h_reserved)
      else if funct = 0x12 then (if mips4 then lift_handler exec_fmovz_d else h_reserved)
      else if funct = 0x13 then (if mips4 then lift_handler exec_fmovn_d else h_reserved)
      else if funct = 0x15 then (if mips4 then lift_handler (exec_frecip_d hf) else h_reserved)
      else if funct = 0x16 then (if mips4 then lift_handler (exec_frsqrt_d hf) else h_reserved)
      else if funct = 0x20 then lift_handler (exec_fcvt_s_d hf)
      else if funct = 0x24 then lift_handler exec_fcvt_w_d
      else if funct = 0x25 then lift_handler exec_fcvt_l_d
      else if 0x30 \<le> funct \<and> funct \<le> 0x3F then lift_handler exec_fcc_d
      else h_reserved)"

definition decode_cop1 ::
  "host_fpu \<Rightarrow> bool \<Rightarrow> u32 \<Rightarrow> u32 \<Rightarrow> u32 \<Rightarrow> decoded_fields \<Rightarrow> 'b decoded" where
  "decode_cop1 hf mips4 rs funct raw d =
     (if rs = 0x00 then (d, lift_handler exec_mfc1)
      else if rs = 0x01 then (d, lift_handler exec_dmfc1)
      else if rs = 0x02 then (d, lift_handler exec_cfc1)
      else if rs = 0x04 then (d, lift_handler exec_mtc1)
      else if rs = 0x05 then (d, lift_handler exec_dmtc1)
      else if rs = 0x06 then (d, lift_handler exec_ctc1)
      else if rs = 0x08 then (set_imm_se4 raw d, lift_handler exec_bc1)
      else if rs = 0x10 then (d, decode_fmt_s hf mips4 funct)
      else if rs = 0x11 then (d, decode_fmt_d hf mips4 funct)
      else if rs = 0x14 then
        (d, if funct = 0x20 then lift_handler exec_fcvt_s_w
            else if funct = 0x21 then lift_handler exec_fcvt_d_w else h_reserved)
      else if rs = 0x15 then
        (d, if funct = 0x20 then lift_handler exec_fcvt_s_l
            else if funct = 0x21 then lift_handler exec_fcvt_d_l else h_reserved)
      else (d, h_reserved))"

definition decode_cop1x :: "host_fpu \<Rightarrow> bool \<Rightarrow> u32 \<Rightarrow> 'b mhandler" where
  "decode_cop1x hf mips4 funct =
     (if \<not> mips4 then h_reserved
      else if funct = 0x00 then exec_lwxc1
      else if funct = 0x01 then exec_ldxc1
      else if funct = 0x08 then exec_swxc1
      else if funct = 0x09 then exec_sdxc1
      else if funct = 0x0F then lift_handler exec_prefx
      else if funct = 0x20 then lift_handler (exec_madd_s hf)
      else if funct = 0x21 then lift_handler (exec_madd_d hf)
      else if funct = 0x28 then lift_handler (exec_msub_s hf)
      else if funct = 0x29 then lift_handler (exec_msub_d hf)
      else if funct = 0x30 then lift_handler (exec_nmadd_s hf)
      else if funct = 0x31 then lift_handler (exec_nmadd_d hf)
      else if funct = 0x38 then lift_handler (exec_nmsub_s hf)
      else if funct = 0x39 then lift_handler (exec_nmsub_d hf)
      else h_reserved)"

definition decode_mem :: "bool \<Rightarrow> u32 \<Rightarrow> u32 \<Rightarrow> decoded_fields \<Rightarrow> 'b decoded" where
  "decode_mem mips4 op raw d =
     (if op = 0x20 then (set_imm_se raw d, exec_lb)
      else if op = 0x21 then (set_imm_se raw d, exec_lh)
      else if op = 0x22 then (set_imm_se raw d, exec_lwl)
      else if op = 0x23 then (set_imm_se raw d, exec_lw)
      else if op = 0x24 then (set_imm_se raw d, exec_lbu)
      else if op = 0x25 then (set_imm_se raw d, exec_lhu)
      else if op = 0x26 then (set_imm_se raw d, exec_lwr)
      else if op = 0x27 then (set_imm_se raw d, exec_lwu)
      else if op = 0x28 then (set_imm_se raw d, exec_sb)
      else if op = 0x29 then (set_imm_se raw d, exec_sh)
      else if op = 0x2A then (set_imm_se raw d, exec_swl)
      else if op = 0x2B then (set_imm_se raw d, exec_sw)
      else if op = 0x2C then (set_imm_se raw d, exec_sdl)
      else if op = 0x2D then (set_imm_se raw d, exec_sdr)
      else if op = 0x2E then (set_imm_se raw d, exec_swr)
      else if op = 0x2F then (set_imm_se raw d, exec_cache)
      else if op = 0x30 then (set_imm_se raw d, exec_ll)
      else if op = 0x31 then (set_imm_se raw d, exec_lwc1)
      else if op = 0x35 then (set_imm_se raw d, exec_ldc1)
      else if op = 0x1A then (set_imm_se raw d, exec_ldl)
      else if op = 0x1B then (set_imm_se raw d, exec_ldr)
      else if op = 0x37 then (set_imm_se raw d, exec_ld)
      else if op = 0x38 then (set_imm_se raw d, exec_sc)
      else if op = 0x39 then (set_imm_se raw d, exec_swc1)
      else if op = 0x3D then (set_imm_se raw d, exec_sdc1)
      else if op = 0x3F then (set_imm_se raw d, exec_sd)
      else if op = 0x33 then (d, if mips4 then lift_handler exec_pref else h_reserved)
      else if op = 0x34 then (set_imm_se raw d, exec_lld)
      else if op = 0x3C then (set_imm_se raw d, exec_scd)
      else (d, h_reserved))"

definition decode_into ::
  "bool \<Rightarrow> cpu_model \<Rightarrow> host_env \<Rightarrow> host_fpu \<Rightarrow> decoded_fields \<Rightarrow> 'b decoded" where
  "decode_into fusion m env hf ins =
     (let raw = d_raw ins;
          op = ucast (shr raw 26 AND 0x3F) :: u8; rs = ucast (shr raw 21 AND 0x1F) :: u8;
          rt = ucast (shr raw 16 AND 0x1F) :: u8; rd = ucast (shr raw 11 AND 0x1F) :: u8;
          sa = ucast (shr raw 6 AND 0x1F) :: u8; funct = ucast (raw AND 0x3F) :: u8;
          op32 = ucast op :: u32;
          (ins, h) =
            (if op32 = 0x00 then decode_special_fused fusion (model_mips4 m) (ucast funct) rd ins
             else if op32 = 0x01 then decode_regimm (ucast rt) raw ins
             else if op32 \<le> 0x07 \<or> (0x14 \<le> op32 \<and> op32 \<le> 0x17)
             then decode_branch fusion op32 raw ins
             else if op32 \<le> 0x0E \<or> op32 = 0x18 \<or> op32 = 0x19
             then decode_imm fusion op32 rt raw ins
             else if op32 = 0x0F then decode_lui fusion rt raw ins
             else if op32 = 0x10 then (ins, exec_cop0 env)
             else if op32 = 0x11
             then decode_cop1 hf (model_mips4 m) (ucast rs) (ucast funct) raw ins
             else if op32 = 0x13 then (ins, decode_cop1x hf (model_mips4 m) (ucast funct))
             else decode_mem (model_mips4 m) op32 raw ins)
      in (ins\<lparr>d_op := op, d_rs := rs, d_rt := rt, d_rd := rd, d_sa := sa, d_funct := funct,
              d_flags := 0\<rparr>, h))"

definition exec_decoded_int :: "'b decoded \<Rightarrow> 'b mips_executor \<Rightarrow> 'b store_result" where
  "exec_decoded_int dh e = snd dh (fst dh) e"

section \<open>The step\<close>

definition step_cycles :: "'b mips_executor \<Rightarrow> 'b mips_executor" where
  "step_cycles e = upd_core (\<lambda>c. c\<lparr>hot_cycles := hot_cycles c + 1\<rparr>) e"

text \<open>A breakpoint on the program counter counts only if the instruction can be fetched.
  The first component is the early return.\<close>

definition preamble_breakpoint ::
  "'b mips_executor \<Rightarrow> (u32 option \<times> 'b mips_executor) option" where
  "preamble_breakpoint e =
     (case bp_hit BpPc (pc (core e)) e of
        (False, e) \<Rightarrow> Some (None, e)
      | (True, e) \<Rightarrow>
          (case debug_translate (pc (core e)) e of
             None \<Rightarrow> None
           | Some (tr, e) \<Rightarrow>
               Some (if tr_is_exception tr then (None, e\<lparr>last_bp_hit := None\<rparr>)
                     else (Some EXEC_BREAKPOINT, e))))"

definition preamble_interrupts ::
  "nat \<Rightarrow> u64 \<Rightarrow> 'b mips_executor \<Rightarrow> u32 option \<times> 'b mips_executor" where
  "preamble_interrupts now pending e =
     (if pending OR zext (cp0_cause (core e)) = 0 then (None, e)
      else if pending AND SOFT_RESET_BIT \<noteq> 0
      then (Some EXEC_RETRY,
            upd_core (\<lambda>c. c\<lparr>in_delay_slot := False, delay_slot_target := 0\<rparr>)
              (resync_privilege_state (upd_core (core_reset now True) e)))
      else let e = upd_core (\<lambda>c. c\<lparr>cp0_cause := (cp0_cause c AND NOT EXT_INT_MASK)
                                       OR (lo32 pending AND EXT_INT_MASK)\<rparr>) e
           in if interrupts_enabled (core e)
                 \<and> cp0_cause (core e) AND CAUSE_IP_MASK
                     AND (cp0_status (core e) AND STATUS_IM_MASK) \<noteq> 0
              then (case handle_exception (exec_exception EXC_INT) e of
                      (s, e) \<Rightarrow> (Some s, e))
              else (None, e))"

definition step_preamble ::
  "nat \<Rightarrow> 'b mips_executor \<Rightarrow> (u32 option \<times> 'b mips_executor) option" where
  "step_preamble now e =
     (let e = step_cycles e; pending = hot_interrupts (core e)
      in case preamble_breakpoint e of
           None \<Rightarrow> None
         | Some (Some s, e) \<Rightarrow> Some (Some s, e)
         | Some (None, e) \<Rightarrow> Some (preamble_interrupts now pending e))"

text \<open>A scratch slot of the pass-through cache (or of the executor) holds the fetched word,
  always to be decoded.\<close>

definition scratch_instr :: "u32 \<Rightarrow> decoded_fields" where
  "scratch_instr raw =
     \<lparr>d_imm = 0, d_raw = raw, d_flags = FLAG_NOT_DECODED, d_op = 0, d_rs = 0, d_rt = 0,
      d_rd = 0, d_sa = 0, d_funct = 0\<rparr>"

definition step_int ::
  "bool \<Rightarrow> host_env \<Rightarrow> host_fpu \<Rightarrow> 'b mips_executor \<Rightarrow> 'b store_result" where
  "step_int fusion env hf e =
     (case step_preamble (env_now env) e of
        None \<Rightarrow> None
      | Some (Some s, e) \<Rightarrow> Some (s, e)
      | Some (None, e) \<Rightarrow>
          (case fetch_instr_impl False (pc (core e)) e of
             None \<Rightarrow> None
           | Some (r, e) \<Rightarrow>
               map_option (\<lambda>(s, e). (s, e\<lparr>skip_breakpoints := False\<rparr>))
                 (case r of
                    Inr w \<Rightarrow>
                      exec_decoded_int
                        (decode_into fusion (model e) env hf (scratch_instr w)) e
                  | Inl s \<Rightarrow>
                      if s AND EXEC_IS_EXCEPTION \<noteq> 0 then Some (handle_exception s e)
                      else Some (s, e))))"

end
