(* ===== verification/Mips_Boot.thy ===== *)
theory Mips_Boot
  imports Mips_Step
begin

text \<open>
  Construction of the executor and the breakpoint commands of
  \<^verbatim>\<open>src/src/cpu/mips_exec.rs\<close>: \<open>MipsExecutor::new\<close> for the pass-through cache,
  \<open>MipsCpu::new\<close> as far as it concerns the executor (it installs the Status callback), the
  monitor's breakpoint operations and the single-instruction entry \<open>exec\<close>.

  \<^verbatim>\<open>pc_bp_count\<close> and \<^verbatim>\<open>mem_bp_count\<close> are unsigned; their decrements are those of natural
  numbers here, where the source would wrap around or panic at zero.
\<close>

section \<open>Construction\<close>

text \<open>The Config register of the pass-through cache: no caches, so the size of both primary
  caches is 0, whose \<^verbatim>\<open>trailing_zeros\<close> is 64.\<close>

definition passthrough_config :: u32 where
  "passthrough_config =
     shl 3 0 OR shl 0 4 OR shl 0 5 OR shl (64 - 12) 6 OR shl (64 - 12) 9 OR shl 1 15 OR shl 1 17
       OR shl 3 22"

definition executor_new ::
  "nat \<Rightarrow> 'b \<Rightarrow> 'b bus_device \<Rightarrow> bool \<Rightarrow> mips_tlb \<Rightarrow> 'b mips_executor" where
  "executor_new now b dev m4 t =
     (let m = passthrough_model m4;
          c = (mips_core_new now)\<lparr>cp0_config := passthrough_config,
                tlb_entries := word_of_nat (model_tlb_entries m),
                reset_prid := model_prid m, reset_fir := model_fir m,
                cp0_prid := model_prid m, fpu_fir := model_fir m\<rparr>;
          e = \<lparr>core = c, sysad = b, bus = dev, model = m, cheritest_dump_hook = False,
               tlb = tlb_set_cache_attrs (cache_attr_table m) t,
               llbit = False, lladdr = 0,
               breakpoints = [\<lparr>bp_id = 0, bp_addr = 0, bp_kind = BpPc, bp_on = False,
                               bp_condition = None, bp_hits = 0, bp_ignore = 0\<rparr>],
               last_bp_hit = None, pc_bp_count = 0, mem_bp_count = 0, skip_breakpoints = False,
               status_cb_installed = False, translate_fn = (False, Kernel), fpr_fr1 = False,
               phys_alias = None, phys_mask = - 1\<rparr>
      in update_fpr_mode (update_translate_fn e))"

definition cpu_new :: "'b mips_executor \<Rightarrow> 'b mips_executor" where
  "cpu_new e = install_status_cb e"

section \<open>Breakpoint commands\<close>

definition set_temp_breakpoint :: "u64 \<Rightarrow> 'b mips_executor \<Rightarrow> 'b mips_executor" where
  "set_temp_breakpoint addr e =
     (case breakpoints e of
        [] \<Rightarrow> e
      | b # bs \<Rightarrow>
          e\<lparr>pc_bp_count := (if bp_on b then pc_bp_count e else pc_bp_count e + 1),
            breakpoints := b\<lparr>bp_addr := addr, bp_kind := BpPc, bp_on := True,
                              bp_condition := None\<rparr> # bs\<rparr>)"

definition clear_temp_breakpoint :: "'b mips_executor \<Rightarrow> 'b mips_executor" where
  "clear_temp_breakpoint e =
     (case breakpoints e of
        [] \<Rightarrow> e
      | b # bs \<Rightarrow>
          if bp_on b
          then e\<lparr>pc_bp_count := pc_bp_count e - 1, breakpoints := b\<lparr>bp_on := False\<rparr> # bs\<rparr>
          else e)"

text \<open>\<^verbatim>\<open>self.breakpoints.remove(idx)\<close> at the first breakpoint with the identifier.\<close>

fun bp_take :: "nat \<Rightarrow> breakpoint list \<Rightarrow> (breakpoint \<times> breakpoint list) option" where
  "bp_take i [] = None"
| "bp_take i (b # bs) =
     (if bp_id b = i then Some (b, bs)
      else case bp_take i bs of None \<Rightarrow> None | Some (x, rest) \<Rightarrow> Some (x, b # rest))"

definition remove_breakpoint :: "nat \<Rightarrow> 'b mips_executor \<Rightarrow> bool \<times> 'b mips_executor" where
  "remove_breakpoint i e =
     (case bp_take i (breakpoints e) of
        None \<Rightarrow> (False, e)
      | Some (b, rest) \<Rightarrow>
          let e = e\<lparr>breakpoints := rest\<rparr>
          in (True, if bp_on b
                    then (if bp_kind b = BpPc then e\<lparr>pc_bp_count := pc_bp_count e - 1\<rparr>
                          else e\<lparr>mem_bp_count := mem_bp_count e - 1\<rparr>)
                    else e))"

definition add_breakpoint :: "nat \<Rightarrow> u64 \<Rightarrow> bp_type \<Rightarrow> 'b mips_executor \<Rightarrow> 'b mips_executor" where
  "add_breakpoint i addr k e =
     (let e = snd (remove_breakpoint i e);
          e = e\<lparr>breakpoints := breakpoints e @
                 [\<lparr>bp_id = i, bp_addr = addr, bp_kind = k, bp_on = True, bp_condition = None,
                   bp_hits = 0, bp_ignore = 0\<rparr>]\<rparr>
      in if k = BpPc then e\<lparr>pc_bp_count := pc_bp_count e + 1\<rparr>
         else e\<lparr>mem_bp_count := mem_bp_count e + 1\<rparr>)"

text \<open>The loop for \<^verbatim>\<open>iter_mut().find\<close>: the breakpoint found, as it was, and the list with its
  flag set.\<close>

fun bp_set_on :: "nat \<Rightarrow> bool \<Rightarrow> breakpoint list \<Rightarrow> (breakpoint \<times> breakpoint list) option" where
  "bp_set_on i v [] = None"
| "bp_set_on i v (b # bs) =
     (if bp_id b = i then Some (b, b\<lparr>bp_on := v\<rparr> # bs)
      else case bp_set_on i v bs of None \<Rightarrow> None | Some (x, rest) \<Rightarrow> Some (x, b # rest))"

definition set_breakpoint_enabled ::
  "nat \<Rightarrow> bool \<Rightarrow> 'b mips_executor \<Rightarrow> bool \<times> 'b mips_executor" where
  "set_breakpoint_enabled i v e =
     (case bp_set_on i v (breakpoints e) of
        None \<Rightarrow> (False, e)
      | Some (b, bs) \<Rightarrow>
          (True,
           if bp_on b \<noteq> v
           then let e = e\<lparr>breakpoints := bs\<rparr>
                in if bp_kind b = BpPc
                   then e\<lparr>pc_bp_count := (if v then pc_bp_count e + 1 else pc_bp_count e - 1)\<rparr>
                   else e\<lparr>mem_bp_count := (if v then mem_bp_count e + 1 else mem_bp_count e - 1)\<rparr>
           else e))"

section \<open>Single instructions\<close>

text \<open>The test and monitor entry, which executes a given word.\<close>

definition exec_raw ::
  "bool \<Rightarrow> host_env \<Rightarrow> host_fpu \<Rightarrow> u32 \<Rightarrow> 'b mips_executor \<Rightarrow> 'b store_result" where
  "exec_raw fusion env hf raw e =
     exec_decoded_int (decode_into fusion (model e) env hf (scratch_instr raw)) e"

end
