(* ===== verification/Step_Contract.thy ===== *)
theory Step_Contract
  imports Mips_Boot
begin

text \<open>
  What a property of the executor must satisfy to hold across every instruction.

  Most of what a handler does is \<open>mild\<close>: it moves data but leaves alone what steers
  translation and privilege.  The locale \<open>step_invariant\<close> asks of a predicate that it survives
  mild changes and the handful of operations that are not mild (exception entry, ERET,
  translation, coprocessor 0 moves, the TLB instructions, soft reset), and proves that it then
  survives every instruction the decoder can select and every step of the interpreter.
\<close>

section \<open>Mild changes\<close>

definition mild :: "'b mips_executor \<Rightarrow> 'b mips_executor \<Rightarrow> bool" where
  "mild e e' \<longleftrightarrow>
     cp0_status (core e') = cp0_status (core e) \<and> cp0_entryhi (core e') = cp0_entryhi (core e) \<and>
     cp0_config (core e') = cp0_config (core e) \<and> cp0_random (core e') = cp0_random (core e) \<and>
     cp0_wired (core e') = cp0_wired (core e) \<and> tlb_entries (core e') = tlb_entries (core e) \<and>
     count_hz (core e') = count_hz (core e) \<and>
     nutlb (core e') = nutlb (core e) \<and> nutlb_valid (core e') = nutlb_valid (core e) \<and>
     nanotlb (core e') = nanotlb (core e) \<and>
     length (gpr (core e')) = length (gpr (core e)) \<and>
     (gpr (core e) ! 0 = 0 \<longrightarrow> gpr (core e') ! 0 = 0) \<and>
     tlb e' = tlb e \<and> model e' = model e \<and> translate_fn e' = translate_fn e \<and>
     fpr_fr1 e' = fpr_fr1 e \<and> status_cb_installed e' = status_cb_installed e \<and>
     phys_alias e' = phys_alias e \<and> phys_mask e' = phys_mask e"

lemma mild_refl [simp]: "mild e e"
  by (simp add: mild_def)

lemma mild_trans: "mild e e' \<Longrightarrow> mild e' e'' \<Longrightarrow> mild e e''"
  by (auto simp: mild_def)

lemma gpr_write_zero: "xs ! 0 = 0 \<Longrightarrow> (xs[i := v])[0 := 0] ! 0 = (0 :: u64)"
  by (cases xs; cases i) auto

lemma mild_put_gr [simp]: "mild e (put_gr r v e)"
  by (simp add: mild_def put_gr_def write_gpr_def gpr_write_zero)

lemma mild_put_hilo [simp]: "mild e (put_hilo h l e)"
  by (simp add: mild_def put_hilo_def)

lemma mild_fpr_writes [simp]:
  "mild e (fpr_write_w r v e)" "mild e (fpr_write_l r w e)" "mild e (fpr_write_d r w e)"
  by (simp_all add: mild_def fpr_write_w_def fpr_write_l_def fpr_write_d_def write_fpr_w_def
      write_fpr_w_fr0_def write_fpr_l_def write_fpr_l_fr0_def write_fpr_d_def write_fpr_d_fr0_def
      Let_def)

lemma mild_upd_fcsr [simp]: "mild e (upd_fcsr f e)"
  by (simp add: mild_def upd_fcsr_def)

lemma mild_bp_check: "bp_check dbg k a e = (h, e') \<Longrightarrow> mild e e'"
  by (auto simp: mild_def bp_check_def bp_hit_def check_breakpoint_def split: if_splits prod.splits)

lemma mild_set_badvaddr [simp]: "mild e (set_badvaddr dbg va e)"
  by (simp add: mild_def set_badvaddr_def)

lemma mild_bus:
  "bus_read sz pa e = (r, e') \<Longrightarrow> mild e e'" "bus_write sz pa v e = (s, e') \<Longrightarrow> mild e e'"
  "cache_fetch pa e = (q, e') \<Longrightarrow> mild e e'"
  by (auto simp: mild_def bus_read_def bus_write_def cache_fetch_def split: if_splits prod.splits)

lemma mild_cache:
  "cache_read sz pa e = (r, e') \<Longrightarrow> mild e e'" "cache_write sz pa v e = (s, e') \<Longrightarrow> mild e e'"
  "cache_write64_masked pa v k e = (s, e') \<Longrightarrow> mild e e'"
  by (auto simp: cache_read_def cache_write_def cache_write64_masked_def Let_def
      dest: mild_bus intro: mild_trans mild_bus split: if_splits prod.splits)

lemma mild_sysad [simp]: "mild e (e\<lparr>sysad := b\<rparr>)"
  by (simp add: mild_def)

lemma mild_core:
  assumes "cp0_status c = cp0_status (core e)" "cp0_entryhi c = cp0_entryhi (core e)"
    "cp0_config c = cp0_config (core e)" "cp0_random c = cp0_random (core e)"
    "cp0_wired c = cp0_wired (core e)" "tlb_entries c = tlb_entries (core e)"
    "count_hz c = count_hz (core e)"
    "nutlb c = nutlb (core e)" "nutlb_valid c = nutlb_valid (core e)"
    "nanotlb c = nanotlb (core e)" "gpr c = gpr (core e)"
  shows "mild e (e\<lparr>core := c\<rparr>)"
  using assms by (simp add: mild_def)

section \<open>The contract\<close>

text \<open>A fallible result keeps \<open>P\<close> if the state it carries satisfies \<open>P\<close>.  In the strict reading a
  panic or a loop without end does not keep anything, so that one proof gives both that the
  predicate is preserved and that a result exists.\<close>

definition kept ::
  "bool \<Rightarrow> ('b mips_executor \<Rightarrow> bool) \<Rightarrow> ('r \<times> 'b mips_executor) option \<Rightarrow> bool" where
  "kept s P r = (case r of None \<Rightarrow> \<not> s | Some x \<Rightarrow> P (snd x))"

lemma kept_simps [simp]: "kept s P None \<longleftrightarrow> \<not> s" "kept s P (Some x) \<longleftrightarrow> P (snd x)"
  by (simp_all add: kept_def)

lemma keptD: "kept s P r \<Longrightarrow> r = Some (x, e) \<Longrightarrow> P e"
  by simp

lemma kept_bind:
  assumes "kept s P r" "\<And>x e. P e \<Longrightarrow> kept s P (k x e)"
  shows "kept s P (case r of None \<Rightarrow> None | Some (x, e) \<Rightarrow> k x e)"
  using assms by (cases r) auto

lemma kept_pair:
  assumes "P (snd r)" "\<And>x e. P e \<Longrightarrow> kept s P (k x e)"
  shows "kept s P (case r of (x, e) \<Rightarrow> k x e)"
  using assms by (cases r) simp

lemma kept_option:
  "(x = None \<Longrightarrow> kept s P r) \<Longrightarrow> (\<And>y. x = Some y \<Longrightarrow> kept s P (k y)) \<Longrightarrow>
   kept s P (case x of None \<Rightarrow> r | Some y \<Rightarrow> k y)"
  by (cases x) simp_all

lemma kept_split:
  "(b \<Longrightarrow> kept s P r) \<Longrightarrow> (\<not> b \<Longrightarrow> kept s P q) \<Longrightarrow> kept s P (if b then r else q)"
  by simp

text \<open>WAIT observes a request that ends every stall.\<close>

definition env_releases :: "host_env \<Rightarrow> bool" where
  "env_releases env \<longleftrightarrow>
     (\<exists>p \<in> fst ` set (env_wait env). p AND (SOFT_RESET_BIT OR HOST_PARK_BIT) \<noteq> 0)"

definition keeps :: "bool \<Rightarrow> ('b mips_executor \<Rightarrow> bool) \<Rightarrow> 'b mhandler \<Rightarrow> bool" where
  "keeps s P h \<longleftrightarrow> (\<forall>d e. P e \<longrightarrow> kept s P (h d e))"

lemma keeps_lift:
  "keeps s P (lift_handler h) \<longleftrightarrow> (\<forall>d e. P e \<longrightarrow> P (snd (h d e)))"
  by (simp add: keeps_def lift_handler_def)

lemma keeps_if: "keeps s P h \<Longrightarrow> keeps s P k \<Longrightarrow> keeps s P (if b then h else k)"
  by simp

locale step_invariant =
  fixes s :: bool and P :: "'b mips_executor \<Rightarrow> bool"
  assumes inv_mild: "P e \<Longrightarrow> mild e e' \<Longrightarrow> P e'"
    and inv_exception: "P e \<Longrightarrow> P (snd (handle_exception st e))"
    and inv_eret: "P e \<Longrightarrow> P (snd (exec_eret e))"
    and inv_translate: "P e \<Longrightarrow> kept s P (nanotlb_translate acc va e)"
    and inv_debug: "P e \<Longrightarrow> kept s P (debug_translate va e)"
    and inv_read_cp0: "P e \<Longrightarrow> P (e\<lparr>core := snd (read_cp0 now reg (core e))\<rparr>)"
    and inv_write_cp0: "P e \<Longrightarrow>
      (case exec_write_cp0 now reg v e of
         None \<Rightarrow> \<not> s | Some e' \<Rightarrow> P (handle_cp0_side_effects reg e'))"
    and inv_tlbr: "P e \<Longrightarrow> P (exec_tlbr e)"
    and inv_tlbwi: "P e \<Longrightarrow> P (snd (exec_tlbwi e))"
    and inv_tlbwr: "P e \<Longrightarrow> P (snd (exec_tlbwr e))"
    and inv_soft_reset:
      "P e \<Longrightarrow> P (resync_privilege_state (upd_core (core_reset now True) e))"
begin

subsection \<open>Terminal actions\<close>

lemma P_core [simp]:
  assumes "P e" "cp0_status c = cp0_status (core e)" "cp0_entryhi c = cp0_entryhi (core e)"
    "cp0_config c = cp0_config (core e)" "cp0_random c = cp0_random (core e)"
    "cp0_wired c = cp0_wired (core e)" "tlb_entries c = tlb_entries (core e)"
    "count_hz c = count_hz (core e)"
    "nutlb c = nutlb (core e)" "nutlb_valid c = nutlb_valid (core e)"
    "nanotlb c = nanotlb (core e)" "gpr c = gpr (core e)"
  shows "P (e\<lparr>core := c\<rparr>)"
  by (rule inv_mild [OF assms(1) mild_core [OF assms(2-)]])

lemma P_data [simp]:
  assumes "P e"
  shows "P (put_gr r v e)" "P (put_hilo h l e)" "P (fpr_write_w r w e)" "P (fpr_write_l r v e)"
    "P (fpr_write_d r v e)" "P (upd_fcsr f e)" "P (set_badvaddr dbg va e)" "P (e\<lparr>sysad := b\<rparr>)"
  by (rule inv_mild [OF assms], simp)+

lemma P_executor [simp]:
  assumes "P e"
  shows "P (e\<lparr>llbit := ll\<rparr>)" "P (e\<lparr>lladdr := la\<rparr>)" "P (e\<lparr>lladdr := la, llbit := ll\<rparr>)"
    "P (e\<lparr>skip_breakpoints := sk\<rparr>)" "P (e\<lparr>last_bp_hit := lb\<rparr>)"
  by (rule inv_mild [OF assms], simp add: mild_def)+

lemma P_exception [simp]: "P e \<Longrightarrow> P (snd (handle_exception st e))"
  by (rule inv_exception)

lemma P_misaligned [simp]: "P e \<Longrightarrow> P (snd (misaligned_fetch_exception e))"
  by (simp add: misaligned_fetch_exception_def)

lemma P_complete [simp]: "P e \<Longrightarrow> P (snd (handle_exec_complete e))"
  by (simp add: handle_exec_complete_def Let_def)

lemma P_branch_delay [simp]: "P e \<Longrightarrow> P (snd (branch_delay t e))"
  by (simp add: branch_delay_def)

lemma P_terminal [simp]:
  assumes "P e"
  shows "P (snd (check_pc_alignment e))" "P (snd (handle_branch_likely_skip e))"
    "P (snd (handle_branch_not_taken e))" "P (snd (exec_complete_pc_set e))"
    "P (snd (finish_status st e))" "P (snd (cpu_unusable ce e))" "P (snd (exec_reserved e))"
    "P (snd (raise_ov e))" "P (snd (trap_if b e))" "P (snd (raise_fpe e))"
  using assms
  by (simp_all add: check_pc_alignment_def handle_branch_likely_skip_def
      handle_branch_not_taken_def exec_complete_pc_set_def finish_status_def cpu_unusable_def
      exec_reserved_def raise_ov_def trap_if_def raise_fpe_def)

end

end
