(* ===== verification/Step_Handlers.thy ===== *)
theory Step_Handlers
  imports Step_Contract
begin

text \<open>
  Every handler and the step keep a predicate that satisfies the contract of theory
  \<open>Step_Contract\<close>, by the section of the interpreter they belong to.
\<close>

context step_invariant
begin

lemma integer_keeps0:
  shows
    "keeps s P (lift_handler exec_sll)" "keeps s P (lift_handler exec_srl)"
    "keeps s P (lift_handler exec_sra)" "keeps s P (lift_handler exec_sllv)"
    "keeps s P (lift_handler exec_srlv)" "keeps s P (lift_handler exec_srav)"
    "keeps s P (lift_handler exec_dsll)" "keeps s P (lift_handler exec_dsrl)"
    "keeps s P (lift_handler exec_dsra)" "keeps s P (lift_handler exec_dsll32)"
    "keeps s P (lift_handler exec_dsrl32)" "keeps s P (lift_handler exec_dsra32)"
    "keeps s P (lift_handler exec_dsllv)" "keeps s P (lift_handler exec_dsrlv)"
    "keeps s P (lift_handler exec_dsrav)" "keeps s P (lift_handler exec_movci)"
    "keeps s P (lift_handler exec_movz)" "keeps s P (lift_handler exec_movn)"
    "keeps s P (lift_handler exec_mfhi)" "keeps s P (lift_handler exec_mthi)"
    "keeps s P (lift_handler exec_mflo)" "keeps s P (lift_handler exec_mtlo)"
    "keeps s P (lift_handler exec_mult)" "keeps s P (lift_handler exec_multu)"
  by (simp_all add: keeps_lift Let_def branch_if_def branch_likely_if_def fused_branch_def
      exec_sll_def exec_srl_def exec_sra_def exec_sllv_def exec_srlv_def exec_srav_def
      exec_dsll_def exec_dsrl_def exec_dsra_def exec_dsll32_def exec_dsrl32_def exec_dsra32_def
      exec_dsllv_def exec_dsrlv_def exec_dsrav_def exec_movci_def exec_movz_def exec_movn_def
      exec_mfhi_def exec_mthi_def exec_mflo_def exec_mtlo_def exec_mult_def exec_multu_def
      split: option.split)

lemma integer_keeps1:
  shows
    "keeps s P (lift_handler exec_div)" "keeps s P (lift_handler exec_divu)"
    "keeps s P (lift_handler exec_dmult)" "keeps s P (lift_handler exec_dmultu)"
    "keeps s P (lift_handler exec_ddiv)" "keeps s P (lift_handler exec_ddivu)"
    "keeps s P (lift_handler exec_add)" "keeps s P (lift_handler exec_addu)"
    "keeps s P (lift_handler exec_sub)" "keeps s P (lift_handler exec_subu)"
    "keeps s P (lift_handler exec_and)" "keeps s P (lift_handler exec_or)"
    "keeps s P (lift_handler exec_xor)" "keeps s P (lift_handler exec_nor)"
    "keeps s P (lift_handler exec_slt)" "keeps s P (lift_handler exec_sltu)"
    "keeps s P (lift_handler exec_dadd)" "keeps s P (lift_handler exec_daddu)"
    "keeps s P (lift_handler exec_dsub)" "keeps s P (lift_handler exec_dsubu)"
    "keeps s P (lift_handler exec_tge)" "keeps s P (lift_handler exec_tgeu)"
    "keeps s P (lift_handler exec_tlt)" "keeps s P (lift_handler exec_tltu)"
  by (simp_all add: keeps_lift Let_def branch_if_def branch_likely_if_def fused_branch_def
      exec_div_def exec_divu_def exec_dmult_def exec_dmultu_def exec_ddiv_def exec_ddivu_def
      exec_add_def exec_addu_def exec_sub_def exec_subu_def exec_and_def exec_or_def exec_xor_def
      exec_nor_def exec_slt_def exec_sltu_def exec_dadd_def exec_daddu_def exec_dsub_def
      exec_dsubu_def exec_tge_def exec_tgeu_def exec_tlt_def exec_tltu_def
      split: option.split)

lemma integer_keeps2:
  shows
    "keeps s P (lift_handler exec_teq)" "keeps s P (lift_handler exec_tne)"
    "keeps s P (lift_handler exec_tgei)" "keeps s P (lift_handler exec_tgeiu)"
    "keeps s P (lift_handler exec_tlti)" "keeps s P (lift_handler exec_tltiu)"
    "keeps s P (lift_handler exec_teqi)" "keeps s P (lift_handler exec_tnei)"
    "keeps s P (lift_handler exec_syscall)" "keeps s P (lift_handler exec_break)"
    "keeps s P (lift_handler exec_sync)" "keeps s P (lift_handler exec_jr)"
    "keeps s P (lift_handler exec_jalr)" "keeps s P (lift_handler exec_j)"
    "keeps s P (lift_handler exec_jal)" "keeps s P (lift_handler exec_beq)"
    "keeps s P (lift_handler exec_bne)" "keeps s P (lift_handler exec_blez)"
    "keeps s P (lift_handler exec_bgtz)" "keeps s P (lift_handler exec_beql)"
    "keeps s P (lift_handler exec_bnel)" "keeps s P (lift_handler exec_blezl)"
    "keeps s P (lift_handler exec_bgtzl)" "keeps s P (lift_handler exec_bltz)"
  by (simp_all add: keeps_lift Let_def branch_if_def branch_likely_if_def fused_branch_def
      exec_teq_def exec_tne_def exec_tgei_def exec_tgeiu_def exec_tlti_def exec_tltiu_def
      exec_teqi_def exec_tnei_def exec_syscall_def exec_break_def exec_sync_def exec_jr_def
      exec_jalr_def exec_j_def exec_jal_def exec_beq_def exec_bne_def exec_blez_def exec_bgtz_def
      exec_beql_def exec_bnel_def exec_blezl_def exec_bgtzl_def exec_bltz_def
      split: option.split)

lemma integer_keeps3:
  shows
    "keeps s P (lift_handler exec_bgez)" "keeps s P (lift_handler exec_bltzl_ri)"
    "keeps s P (lift_handler exec_bgezl_ri)" "keeps s P (lift_handler exec_bltzal)"
    "keeps s P (lift_handler exec_bgezal)" "keeps s P (lift_handler exec_bltzall)"
    "keeps s P (lift_handler exec_bgezall)" "keeps s P (lift_handler exec_addi)"
    "keeps s P (lift_handler exec_addiu)" "keeps s P (lift_handler exec_daddi)"
    "keeps s P (lift_handler exec_daddiu)" "keeps s P (lift_handler exec_slti)"
    "keeps s P (lift_handler exec_sltiu)" "keeps s P (lift_handler exec_andi)"
    "keeps s P (lift_handler exec_ori)" "keeps s P (lift_handler exec_xori)"
    "keeps s P (lift_handler exec_lui)" "keeps s P (lift_handler exec_jr_nop)"
    "keeps s P (lift_handler exec_j_nop)" "keeps s P (lift_handler exec_jal_nop)"
    "keeps s P (lift_handler exec_beq_nop)" "keeps s P (lift_handler exec_bne_nop)"
    "keeps s P (lift_handler exec_lui_imm32)" "keeps s P (lift_handler exec_lui_simm32)"
  by (simp_all add: keeps_lift Let_def branch_if_def branch_likely_if_def fused_branch_def
      exec_bgez_def exec_bltzl_ri_def exec_bgezl_ri_def exec_bltzal_def exec_bgezal_def
      exec_bltzall_def exec_bgezall_def exec_addi_def exec_addiu_def exec_daddi_def exec_daddiu_def
      exec_slti_def exec_sltiu_def exec_andi_def exec_ori_def exec_xori_def exec_lui_def
      exec_jr_nop_def exec_j_nop_def exec_jal_nop_def exec_beq_nop_def exec_bne_nop_def
      exec_lui_imm32_def exec_lui_simm32_def
      split: option.split)

lemma P_set_fpu_cc [simp]: "P e \<Longrightarrow> P (e\<lparr>core := set_fpu_cc cc v (core e)\<rparr>)"
  by (simp add: set_fpu_cc_def Let_def)

lemma P_fpu_control [simp]: "P e \<Longrightarrow> P (e\<lparr>core := write_fpu_control r v (core e)\<rparr>)"
  by (simp add: write_fpu_control_def Let_def)

lemma P_fpu_unimplemented [simp]: "P e \<Longrightarrow> P (snd (fpu_unimplemented e))"
  by (simp add: fpu_unimplemented_def)

lemma P_fpu_full [simp]:
  assumes "P e" "\<And>b e. P e \<Longrightarrow> P (w b e)"
  shows "P (snd (fpu_update_fcsr_full flags den w e))"
  using assms by (simp add: fpu_update_fcsr_full_def Let_def)

lemma P_fpu_update [simp]:
  assumes "P e" "\<And>e. P e \<Longrightarrow> P (w e)"
  shows "P (snd (fpu_update_fcsr flags w e))" "P (snd (fpu_check_snan_operand b w e))"
  using assms by (simp_all add: fpu_update_fcsr_def fpu_check_snan_operand_def Let_def)

lemma P_cu1 [simp]: "P e \<Longrightarrow> (\<And>e. P e \<Longrightarrow> P (snd (k e))) \<Longrightarrow> P (snd (cu1 k e))"
  by (simp add: cu1_def)

lemma P_commit_compare [simp]: "P e \<Longrightarrow> P (snd (fpu_commit_compare b c d e))"
  by (simp add: fpu_commit_compare_def Let_def)

lemma P_cvt_writes [simp]:
  "cp0_status (cvt_write_w r f v c) = cp0_status c" "cp0_status (cvt_write_l r f w c) = cp0_status c"
  "cp0_entryhi (cvt_write_w r f v c) = cp0_entryhi c" "cp0_entryhi (cvt_write_l r f w c) = cp0_entryhi c"
  "cp0_config (cvt_write_w r f v c) = cp0_config c" "cp0_config (cvt_write_l r f w c) = cp0_config c"
  "cp0_random (cvt_write_w r f v c) = cp0_random c" "cp0_random (cvt_write_l r f w c) = cp0_random c"
  "cp0_wired (cvt_write_w r f v c) = cp0_wired c" "cp0_wired (cvt_write_l r f w c) = cp0_wired c"
  "count_hz (cvt_write_w r f v c) = count_hz c" "count_hz (cvt_write_l r f w c) = count_hz c"
  "tlb_entries (cvt_write_w r f v c) = tlb_entries c" "tlb_entries (cvt_write_l r f w c) = tlb_entries c"
  "nutlb (cvt_write_w r f v c) = nutlb c" "nutlb (cvt_write_l r f w c) = nutlb c"
  "nutlb_valid (cvt_write_w r f v c) = nutlb_valid c" "nutlb_valid (cvt_write_l r f w c) = nutlb_valid c"
  "nanotlb (cvt_write_w r f v c) = nanotlb c" "nanotlb (cvt_write_l r f w c) = nanotlb c"
  "gpr (cvt_write_w r f v c) = gpr c" "gpr (cvt_write_l r f w c) = gpr c"
  by (simp_all add: cvt_write_w_def cvt_write_l_def write_fpr_w_def write_fpr_w_fr0_def
      write_fpr_l_def write_fpr_l_fr0_def Let_def)

lemma P_finish_cvt: "P (e\<lparr>core := snd r\<rparr>) \<Longrightarrow> P (snd (fpu_finish_cvt r e))"
  by (simp add: fpu_finish_cvt_def Let_def)

lemma P_cvt [simp]:
  assumes "P e"
  shows "P (snd (fpu_cvt_to_int fs fd sd dl rm e))" "P (snd (fpu_cvt_int_to_float fs fd sl dd e))"
    "P (snd (fpu_cvt_d_to_s hf fs fd e))"
  using assms
  by (simp_all add: fpu_cvt_to_int_def fpu_cvt_int_to_float_def fpu_cvt_d_to_s_def Let_def
      P_finish_cvt cvt_to_int_and_commit_def cvt_int_to_float_and_commit_def
      cvt_d_to_s_and_commit_def split: prod.split)

lemma P_fpu_shapes [simp]:
  assumes "P e"
  shows "P (snd (fpu_arith2_s f2 g2 d e))" "P (snd (fpu_arith2_d f3 g3 d e))"
    "P (snd (fpu_madd_s f4 d e))" "P (snd (fpu_madd_d f5 d e))"
  using assms
  by (simp_all add: fpu_arith2_s_def fpu_arith2_d_def fpu_madd_s_def fpu_madd_d_def Let_def)

lemma fpu_keeps0:
  shows
    "keeps s P (lift_handler exec_mfc1)" "keeps s P (lift_handler exec_dmfc1)"
    "keeps s P (lift_handler exec_cfc1)" "keeps s P (lift_handler exec_mtc1)"
    "keeps s P (lift_handler exec_dmtc1)" "keeps s P (lift_handler exec_ctc1)"
    "keeps s P (lift_handler exec_bc1)" "keeps s P (lift_handler (exec_fadd_s hf))"
    "keeps s P (lift_handler (exec_fsub_s hf))" "keeps s P (lift_handler (exec_fmul_s hf))"
    "keeps s P (lift_handler (exec_fdiv_s hf))" "keeps s P (lift_handler (exec_fadd_d hf))"
    "keeps s P (lift_handler (exec_fsub_d hf))" "keeps s P (lift_handler (exec_fmul_d hf))"
    "keeps s P (lift_handler (exec_fdiv_d hf))" "keeps s P (lift_handler (exec_fsqrt_s hf))"
    "keeps s P (lift_handler (exec_fsqrt_d hf))" "keeps s P (lift_handler exec_fabs_s)"
    "keeps s P (lift_handler exec_fabs_d)" "keeps s P (lift_handler exec_fneg_s)"
    "keeps s P (lift_handler exec_fneg_d)" "keeps s P (lift_handler exec_fmov_s)"
    "keeps s P (lift_handler exec_fmov_d)" "keeps s P (lift_handler exec_fmovcf_s)"
  by (simp_all add: keeps_lift Let_def fmove_w_def fmove_d_def
      exec_mfc1_def exec_dmfc1_def exec_cfc1_def exec_mtc1_def exec_dmtc1_def exec_ctc1_def
      exec_bc1_def exec_fadd_s_def exec_fsub_s_def exec_fmul_s_def exec_fdiv_s_def exec_fadd_d_def
      exec_fsub_d_def exec_fmul_d_def exec_fdiv_d_def exec_fsqrt_s_def exec_fsqrt_d_def
      exec_fabs_s_def exec_fabs_d_def exec_fneg_s_def exec_fneg_d_def exec_fmov_s_def
      exec_fmov_d_def exec_fmovcf_s_def)

lemma fpu_keeps1:
  shows
    "keeps s P (lift_handler exec_fmovz_s)" "keeps s P (lift_handler exec_fmovn_s)"
    "keeps s P (lift_handler exec_fmovcf_d)" "keeps s P (lift_handler exec_fmovz_d)"
    "keeps s P (lift_handler exec_fmovn_d)" "keeps s P (lift_handler (exec_frecip_s hf))"
    "keeps s P (lift_handler (exec_frecip_d hf))" "keeps s P (lift_handler (exec_frsqrt_s hf))"
    "keeps s P (lift_handler (exec_frsqrt_d hf))" "keeps s P (lift_handler exec_fround_l_s)"
    "keeps s P (lift_handler exec_fround_l_d)" "keeps s P (lift_handler exec_fround_w_s)"
    "keeps s P (lift_handler exec_fround_w_d)" "keeps s P (lift_handler exec_ftrunc_l_s)"
    "keeps s P (lift_handler exec_ftrunc_l_d)" "keeps s P (lift_handler exec_ftrunc_w_s)"
    "keeps s P (lift_handler exec_ftrunc_w_d)" "keeps s P (lift_handler exec_fceil_l_s)"
    "keeps s P (lift_handler exec_fceil_l_d)" "keeps s P (lift_handler exec_fceil_w_s)"
    "keeps s P (lift_handler exec_fceil_w_d)" "keeps s P (lift_handler exec_ffloor_l_s)"
    "keeps s P (lift_handler exec_ffloor_l_d)" "keeps s P (lift_handler exec_ffloor_w_s)"
  by (simp_all add: keeps_lift Let_def fmove_w_def fmove_d_def
      exec_fmovz_s_def exec_fmovn_s_def exec_fmovcf_d_def exec_fmovz_d_def exec_fmovn_d_def
      exec_frecip_s_def exec_frecip_d_def exec_frsqrt_s_def exec_frsqrt_d_def exec_fround_l_s_def
      exec_fround_l_d_def exec_fround_w_s_def exec_fround_w_d_def exec_ftrunc_l_s_def
      exec_ftrunc_l_d_def exec_ftrunc_w_s_def exec_ftrunc_w_d_def exec_fceil_l_s_def
      exec_fceil_l_d_def exec_fceil_w_s_def exec_fceil_w_d_def exec_ffloor_l_s_def
      exec_ffloor_l_d_def exec_ffloor_w_s_def)

lemma fpu_keeps2:
  shows
    "keeps s P (lift_handler exec_ffloor_w_d)" "keeps s P (lift_handler exec_fcvt_w_s)"
    "keeps s P (lift_handler exec_fcvt_w_d)" "keeps s P (lift_handler exec_fcvt_l_s)"
    "keeps s P (lift_handler exec_fcvt_l_d)" "keeps s P (lift_handler exec_fcvt_s_w)"
    "keeps s P (lift_handler exec_fcvt_s_l)" "keeps s P (lift_handler exec_fcvt_d_w)"
    "keeps s P (lift_handler exec_fcvt_d_l)" "keeps s P (lift_handler (exec_fcvt_d_s hf))"
    "keeps s P (lift_handler (exec_fcvt_s_d hf))" "keeps s P (lift_handler exec_fcc_s)"
    "keeps s P (lift_handler exec_fcc_d)" "keeps s P (lift_handler exec_prefx)"
    "keeps s P (lift_handler (exec_madd_s hf))" "keeps s P (lift_handler (exec_madd_d hf))"
    "keeps s P (lift_handler (exec_msub_s hf))" "keeps s P (lift_handler (exec_msub_d hf))"
    "keeps s P (lift_handler (exec_nmadd_s hf))" "keeps s P (lift_handler (exec_nmadd_d hf))"
    "keeps s P (lift_handler (exec_nmsub_s hf))" "keeps s P (lift_handler (exec_nmsub_d hf))"
  by (simp_all add: keeps_lift Let_def fmove_w_def fmove_d_def
      exec_ffloor_w_d_def exec_fcvt_w_s_def exec_fcvt_w_d_def exec_fcvt_l_s_def exec_fcvt_l_d_def
      exec_fcvt_s_w_def exec_fcvt_s_l_def exec_fcvt_d_w_def exec_fcvt_d_l_def exec_fcvt_d_s_def
      exec_fcvt_s_d_def exec_fcc_s_def exec_fcc_d_def exec_prefx_def exec_madd_s_def
      exec_madd_d_def exec_msub_s_def exec_msub_d_def exec_nmadd_s_def exec_nmadd_d_def
      exec_nmsub_s_def exec_nmsub_d_def)

subsection \<open>The data path\<close>

lemma P_path [simp]:
  assumes "P e"
  shows "P (snd (bp_check dbg k a e))" "P (snd (bus_read sz pa e))" "P (snd (bus_write sz pa v e))"
    "P (snd (cache_fetch pa e))" "P (snd (cache_read sz pa e))" "P (snd (cache_write sz pa v e))"
    "P (snd (cache_write64_masked pa v m e))"
  by (rule inv_mild [OF assms], rule mild_bp_check mild_bus mild_cache, rule surjective_pairing)+

lemma kept_translate [simp]: "P e \<Longrightarrow> kept s P (nanotlb_translate acc va e)"
  by (rule inv_translate)

lemma kept_data [simp]:
  assumes "P e"
  shows "kept s P (read_data sz va e)" "kept s P (write_data sz va v e)"
    "kept s P (write_data64_masked va v m e)" "kept s P (fetch_instr_impl False va e)"
  using assms
  by (simp_all add: read_data_def read_data_impl_def write_data_def write_data_impl_def
      write_data64_masked_def write_data64_masked_impl_def fetch_instr_impl_def data_translate_def
      kept_bind kept_pair split_beta)

subsection \<open>Loads and stores\<close>

lemma P_reservation:
  "P e \<Longrightarrow> take_reservation va v e = Some e' \<Longrightarrow> P e'"
  by (auto simp: take_reservation_def Let_def dest: keptD [OF kept_translate]
      split: option.splits if_splits prod.splits)

lemma kept_reservation [simp]:
  assumes "P e" "\<And>e. P e \<Longrightarrow> kept s P (k e)"
  shows "kept s P (case take_reservation va v e of None \<Rightarrow> None | Some e \<Rightarrow> k e)"
  using assms(2) P_reservation [OF assms(1), of va v] kept_translate [OF assms(1), of Read va]
  by (auto simp: take_reservation_def split: option.split)

lemma kept_memory [simp]:
  assumes "P e"
  shows "kept s P (load_with sz ext d e)" "kept s P (store_with sz d e)"
    "kept s P (masked_store va v m e)" "kept s P (load_linked sz ext d e)"
    "kept s P (store_conditional sz d e)" "kept s P (fpu_store sz va v e)"
  using assms
  by (simp_all add: load_with_def store_with_def masked_store_def load_linked_def
      store_conditional_def fpu_store_def Let_def kept_bind split: sum.split)

lemma P_write_gpr [simp]: "P e \<Longrightarrow> P (upd_core (write_gpr r v) e)"
  by (erule inv_mild) (simp add: mild_def write_gpr_def gpr_write_zero)

lemma kept_fused_load [simp]: "P e \<Longrightarrow> kept s P (fused_load sz ext rt va e)"
  by (simp add: fused_load_def kept_bind split: sum.split)

lemma kept_fused_tail:
  assumes "P e" "s \<Longrightarrow> is_fusable_load_store raw r"
  shows "kept s P (fused_tail addr raw e)"
proof -
  let ?op = "shr raw 26 AND 0x3F"
  have op: "\<not> s" if "?op \<notin> {OP_LB, OP_LBU, OP_LH, OP_LHU, OP_LW, OP_LD, OP_SB, OP_SH, OP_SW, OP_SD}"
    using assms(2) that unfolding is_fusable_load_store_def Let_def by blast
  show ?thesis
    using assms(1) op unfolding fused_tail_def Let_def
    by (intro kept_split kept_bind; simp)
qed

lemma kept_fpu_load [simp]:
  "P e \<Longrightarrow> (\<And>v e. P e \<Longrightarrow> P (wr v e)) \<Longrightarrow> kept s P (fpu_load sz wr va e)"
  by (simp add: fpu_load_def kept_bind split: sum.split)

lemma kept_cu1m [simp]: "P e \<Longrightarrow> (\<And>e. P e \<Longrightarrow> kept s P (k e)) \<Longrightarrow> kept s P (cu1m k e)"
  by (simp add: cu1m_def)

lemma memory_keeps:
  shows
    "keeps s P exec_lb" "keeps s P exec_lbu" "keeps s P exec_lh" "keeps s P exec_lhu" "keeps s P exec_lw"
    "keeps s P exec_lwu" "keeps s P exec_ld" "keeps s P exec_sb" "keeps s P exec_sh" "keeps s P exec_sw"
    "keeps s P exec_sd" "keeps s P exec_lwl" "keeps s P exec_lwr" "keeps s P exec_ldl"
    "keeps s P exec_ldr" "keeps s P exec_swl" "keeps s P exec_swr" "keeps s P exec_sdl"
    "keeps s P exec_sdr" "keeps s P exec_ll" "keeps s P exec_lld" "keeps s P exec_sc"
    "keeps s P exec_scd" "keeps s P exec_cache"
    "keeps s P exec_lwc1" "keeps s P exec_ldc1" "keeps s P exec_swc1"
    "keeps s P exec_sdc1" "keeps s P exec_lwxc1" "keeps s P exec_ldxc1" "keeps s P exec_swxc1"
    "keeps s P exec_sdxc1"
  by (simp_all add: keeps_def Let_def kept_bind
      exec_lb_def exec_lbu_def exec_lh_def exec_lhu_def exec_lw_def exec_lwu_def exec_ld_def
      exec_sb_def exec_sh_def exec_sw_def exec_sd_def exec_lwl_def exec_lwr_def exec_ldl_def
      exec_ldr_def exec_swl_def exec_swr_def exec_sdl_def exec_sdr_def exec_ll_def exec_lld_def
      exec_sc_def exec_scd_def exec_cache_def
      exec_lwc1_def exec_ldc1_def exec_swc1_def exec_sdc1_def exec_lwxc1_def
      exec_ldxc1_def exec_swxc1_def exec_sdxc1_def
      split: sum.split prod.split)

lemma kept_fused:
  assumes "P e" "s \<Longrightarrow> is_fusable_load_store (d_imm d) r"
  shows "kept s P (exec_addu_ls d e)" "kept s P (exec_subu_ls d e)" "kept s P (exec_addiu_ls d e)"
  using assms kept_fused_tail [of _ "d_imm d" r]
  by (simp_all add: exec_addu_ls_def exec_subu_ls_def exec_addiu_ls_def Let_def)

subsection \<open>Coprocessor 0\<close>

text \<open>A stall ends on any observation with a reset or park request.\<close>

lemma wait_loop_returns:
  "\<exists>p \<in> fst ` set obs. p AND (SOFT_RESET_BIT OR HOST_PARK_BIT) \<noteq> 0 \<Longrightarrow> wait_loop obs n c \<noteq> None"
  by (induction obs n c rule: wait_loop.induct) (auto simp: Let_def wait_released_def)

lemma env_releases_wait: "env_releases env \<Longrightarrow> wait_loop (env_wait env) n c \<noteq> None"
  unfolding env_releases_def by (rule wait_loop_returns)

lemma wait_loop_frame:
  assumes "wait_loop obs n c = Some c'"
  shows "cp0_status c' = cp0_status c \<and> cp0_entryhi c' = cp0_entryhi c \<and>
    cp0_config c' = cp0_config c \<and> cp0_random c' = cp0_random c \<and> cp0_wired c' = cp0_wired c \<and>
    tlb_entries c' = tlb_entries c \<and> count_hz c' = count_hz c \<and> nutlb c' = nutlb c \<and> nutlb_valid c' = nutlb_valid c \<and>
    nanotlb c' = nanotlb c \<and> gpr c' = gpr c"
  using assms by (induction obs n c rule: wait_loop.induct) (auto simp: Let_def split: if_splits)

lemma kept_wait [simp]:
  "P e \<Longrightarrow> s \<longrightarrow> env_releases env \<Longrightarrow> kept s P (exec_wait env e)"
  by (auto simp: exec_wait_def env_releases_wait dest!: wait_loop_frame intro!: kept_pair
      split: option.split)

lemma kept_write_cp0 [simp]:
  assumes "P e" "\<And>e. P (handle_cp0_side_effects reg e) \<Longrightarrow> kept s P (k e)"
  shows "kept s P (case exec_write_cp0 now reg v e of None \<Rightarrow> None | Some e \<Rightarrow> k e)"
  using assms(2) inv_write_cp0 [OF assms(1), of reg now v] by (auto split: option.splits)

lemma P_moves [simp]:
  assumes "P e"
  shows "P (snd (exec_mfc0 env d e))" "P (snd (exec_dmfc0 env d e))" "kept s P (exec_mtc0 env d e)"
    "kept s P (exec_dmtc0 env d e)" "P (exec_tlbp e)"
  using assms
  by (simp_all add: exec_mfc0_def exec_dmfc0_def exec_mtc0_def exec_dmtc0_def exec_tlbp_def
      inv_read_cp0 Let_def split_beta)

lemma kept_tlb [simp]: "P e \<Longrightarrow> s \<longrightarrow> env_releases env \<Longrightarrow> kept s P (exec_tlb env d e)"
  by (simp add: exec_tlb_def inv_tlbr inv_tlbwi inv_tlbwr inv_eret Let_def)

lemma cop0_keeps: "s \<longrightarrow> env_releases env \<Longrightarrow> keeps s P (exec_cop0 env)"
  by (simp add: keeps_def exec_cop0_def Let_def)

subsection \<open>The decoder and the step\<close>

lemma reserved_keeps: "keeps s P h_reserved" "keeps s P (lift_handler exec_pref)"
  by (simp_all add: keeps_def h_reserved_def lift_handler_def exec_pref_def)

lemmas handler_keeps =
  integer_keeps0 integer_keeps1 integer_keeps2 integer_keeps3 fpu_keeps0 fpu_keeps1 fpu_keeps2
  memory_keeps reserved_keeps

lemma keeps_snd_if: "keeps s P (snd x) \<Longrightarrow> keeps s P (snd y) \<Longrightarrow> keeps s P (snd (if b then x else y))"
  by simp

lemma keeps_snd: "keeps s P h \<Longrightarrow> keeps s P (snd (d, h))"
  by simp

lemma keeps_lift_if:
  "keeps s P (lift_handler h) \<Longrightarrow> keeps s P (lift_handler k) \<Longrightarrow>
   keeps s P (lift_handler (if b then h else k))"
  by simp

lemma decoders_keep:
  "keeps s P (decode_special m4 f)" "keeps s P (snd (decode_regimm rt raw d))"
  "keeps s P (snd (decode_branch fu op raw d))"
  "keeps s P (decode_fmt_s hf m4 f)" "keeps s P (decode_fmt_d hf m4 f)"
  "keeps s P (decode_cop1x hf m4 f)" "keeps s P (snd (decode_mem m4 op raw d))"
  unfolding decode_special_def decode_regimm_def decode_branch_def
      decode_fmt_s_def decode_fmt_d_def decode_cop1x_def decode_mem_def
  by (intro keeps_if keeps_snd_if keeps_snd keeps_lift_if; rule handler_keeps)+

text \<open>A decoded pair, run on fields that agree on the immediate.\<close>

definition runs :: "'b decoded \<Rightarrow> bool" where
  "runs dh \<longleftrightarrow> (\<forall>d e. P e \<longrightarrow> d_imm d = d_imm (fst dh) \<longrightarrow> kept s P (snd dh d e))"

lemma runs_if: "(b \<Longrightarrow> runs x) \<Longrightarrow> (\<not> b \<Longrightarrow> runs y) \<Longrightarrow> runs (if b then x else y)"
  by simp

lemma runs_keeps: "keeps s P (snd x) \<Longrightarrow> runs x"
  by (simp add: runs_def keeps_def)

lemma runs_imm: "runs (decode_imm fu op r raw d)"
  unfolding decode_imm_def
  by (intro runs_if; (rule runs_keeps, unfold snd_conv, rule handler_keeps)?)
    (auto simp: runs_def next_is_access_def intro!: kept_fused)

lemma runs_special: "runs (decode_special_fused fu m4 f r d)"
  using decoders_keep(1) handler_keeps
  by (auto simp: runs_def keeps_def decode_special_fused_def next_is_access_def intro!: kept_fused)

lemma runs_lui: "runs (decode_lui fu r raw d)"
  unfolding decode_lui_def
  by (rule runs_keeps) (simp add: handler_keeps split: option.split)

lemma runs_cop1: "runs (decode_cop1 hf m4 r f raw d)"
  unfolding decode_cop1_def
  by (intro runs_if; rule runs_keeps, unfold snd_conv,
      (intro keeps_if)?; rule handler_keeps decoders_keep)

lemma kept_decode:
  assumes "P e" "s \<longrightarrow> env_releases env"
  shows "kept s P (exec_decoded_int (decode_into fusion m env hf d) e)"
proof -
  have "runs x \<Longrightarrow> kept s P (snd x ((fst x)\<lparr>d_op := a, d_rs := b, d_rt := c, d_rd := g, d_sa := h,
      d_funct := i, d_flags := j\<rparr>) e)" for x a b c g h i j
    using assms(1) by (simp add: runs_def)
  moreover have "runs (d, exec_cop0 env)" "runs (d, decode_cop1x hf m4 f)"
      "runs (decode_branch fusion op raw d)" "runs (decode_regimm rt raw d)"
      "runs (decode_mem m4 op raw d)" for m4 f op raw rt
    using cop0_keeps [OF assms(2)] by (simp_all add: runs_keeps decoders_keep)
  ultimately show ?thesis
    by (simp add: exec_decoded_int_def decode_into_def Let_def split_beta runs_imm runs_special
        runs_lui runs_cop1)
qed

lemma kept_preamble [simp]: "P e \<Longrightarrow> kept s P (step_preamble now e)"
proof -
  have intr: "P e \<Longrightarrow> P (snd (preamble_interrupts now i e))" for i e
    using inv_soft_reset by (simp add: preamble_interrupts_def Let_def split_beta)
  have bp: "P e \<Longrightarrow> kept s P (preamble_breakpoint e)" for e
    using P_path(1) [of e False BpPc]
    by (auto simp: preamble_breakpoint_def bp_check_def inv_debug intro!: kept_bind kept_pair
        split: bool.split)
  show "P e \<Longrightarrow> kept s P (step_preamble now e)"
    unfolding step_preamble_def Let_def
    by (rule kept_bind) (simp_all add: bp intr step_cycles_def split: option.split)
qed

theorem kept_step:
  assumes "P e" "s \<longrightarrow> env_releases env"
  shows "kept s P (step_int fusion env hf e)"
proof -
  have skip: "kept s P r \<Longrightarrow> kept s P (map_option (\<lambda>(s, e). (s, e\<lparr>skip_breakpoints := False\<rparr>)) r)" for r
    by (cases r) (auto simp: split_beta)
  show ?thesis
    using assms unfolding step_int_def
    by (intro kept_bind kept_preamble kept_option)
      (simp_all add: kept_decode skip kept_bind split: sum.split)
qed

end

end
