(* ===== verification/Machine_Reach.thy ===== *)
theory Machine_Reach
  imports Step_Handlers
begin

text \<open>
  The states a machine can get into: it is built as the three machine constructors build it
  (\<^verbatim>\<open>src/src/machine.rs\<close>, \<^verbatim>\<open>src/src/ip30_machine.rs\<close>, \<^verbatim>\<open>src/src/ip32_machine.rs\<close>), then steps
  of the interpreter, interrupt lines raised and lowered by devices, runs of the Compare timer's
  callback, stops and starts of the processor, and breakpoint commands follow in any order.

  What satisfies the contract of theory \<open>Step_Contract\<close> and holds of a new machine holds of every
  reachable one.
\<close>

section \<open>Boards\<close>

datatype board = Indy | Octane | O2

definition RAM_BASE :: u64 where "RAM_BASE = 0x40000000"
definition RAM_WINDOW_SIZE :: u64 where "RAM_WINDOW_SIZE = 8 * 128 * 1024 * 1024"
definition NO_ECC_BASE :: u64 where "NO_ECC_BASE = 0x80000000"

text \<open>How a board folds physical addresses before its bus decodes them.\<close>

fun configure_board :: "board \<Rightarrow> 'b mips_executor \<Rightarrow> 'b mips_executor" where
  "configure_board Indy e = e\<lparr>phys_mask := 0xFFFFFFFF\<rparr>"
| "configure_board Octane e = e\<lparr>phys_mask := shl 1 40 - 1\<rparr>"
| "configure_board O2 e =
     e\<lparr>phys_alias := Some (NO_ECC_BASE, RAM_WINDOW_SIZE, RAM_BASE), phys_mask := 0xFFFFFFFF\<rparr>"

section \<open>Reachable states\<close>

inductive machine_reach :: "'b mips_executor \<Rightarrow> bool" where
  boot: "mips_tlb_new 48 = Some t \<Longrightarrow>
    machine_reach (cpu_new (configure_board bd (executor_new now b dev m4 t)))"
| step: "machine_reach e \<Longrightarrow> step_int fusion env hf e = Some (st, e') \<Longrightarrow> machine_reach e'"
| raise_line: "machine_reach e \<Longrightarrow> machine_reach (upd_core (set_interrupt i) e)"
| lower_line: "machine_reach e \<Longrightarrow> machine_reach (upd_core (clear_interrupt i) e)"
| timer: "machine_reach e \<Longrightarrow> machine_reach (upd_core (\<lambda>c. snd (ip7_callback ctx c)) e)"
| stop: "machine_reach e \<Longrightarrow> machine_reach (upd_core (on_cpu_stop now) e)"
| start: "machine_reach e \<Longrightarrow> on_cpu_start now (core e) = Some c \<Longrightarrow> machine_reach (e\<lparr>core := c\<rparr>)"
| temp_bp: "machine_reach e \<Longrightarrow> machine_reach (set_temp_breakpoint a e)"
| clear_bp: "machine_reach e \<Longrightarrow> machine_reach (clear_temp_breakpoint e)"
| add_bp: "machine_reach e \<Longrightarrow> machine_reach (add_breakpoint i a k e)"
| remove_bp: "machine_reach e \<Longrightarrow> machine_reach (snd (remove_breakpoint i e))"
| enable_bp: "machine_reach e \<Longrightarrow> machine_reach (snd (set_breakpoint_enabled i v e))"

lemma mild_lines [simp]:
  "mild e (upd_core (set_interrupt i) e)" "mild e (upd_core (clear_interrupt i) e)"
  by (simp_all add: mild_def set_interrupt_def clear_interrupt_def)

text \<open>The timer touches nothing that steers translation.\<close>

lemma core_claim_frame:
  "\<exists>s i f. snd (core_claim_ip7 k c) = c\<lparr>ip7_seq_shared := s, hot_interrupts := i, fasttick_count := f\<rparr>"
  by (auto simp: core_claim_ip7_def split: prod.split)

lemma mild_timer [simp]: "mild e (upd_core (\<lambda>c. snd (ip7_callback ctx c)) e)"
proof -
  obtain s i f where "snd (ip7_callback ctx (core e)) =
      (core e)\<lparr>ip7_seq_shared := s, hot_interrupts := i, fasttick_count := f\<rparr>"
    using core_claim_frame [of "ip7_ticket ctx" "core e"]
    by (auto simp: ip7_callback_def Let_def split_beta)
  then show ?thesis by (simp add: mild_def)
qed

lemma schedule_compare_frame:
  assumes "schedule_compare_timer now c = Some c'"
  shows "\<exists>i m. c' = c\<lparr>timer_id := i, timer_mgr := m\<rparr>"
proof -
  have "\<exists>i m. x = x\<lparr>timer_id := i, timer_mgr := m\<rparr>" for x :: mips_core
    by (rule exI [of _ "timer_id x"], rule exI [of _ "timer_mgr x"]) simp
  with assms show ?thesis
    by (auto simp: schedule_compare_timer_def Let_def split_beta
        split: option.splits if_splits)
qed

lemma mild_stop_start:
  "mild e (upd_core (on_cpu_stop now) e)"
  "on_cpu_start now (core e) = Some c \<Longrightarrow> mild e (e\<lparr>core := c\<rparr>)"
  by (auto simp: mild_def on_cpu_stop_def on_cpu_start_def reanchor_count_and_reschedule_def
      Let_def dest!: schedule_compare_frame split: option.splits)

lemma mild_breakpoints:
  "mild e (set_temp_breakpoint a e)" "mild e (clear_temp_breakpoint e)"
  "mild e (snd (remove_breakpoint i e))" "mild e (snd (set_breakpoint_enabled i v e))"
  "mild e (add_breakpoint i a k e)"
  by (auto simp: mild_def set_temp_breakpoint_def clear_temp_breakpoint_def
      remove_breakpoint_def set_breakpoint_enabled_def add_breakpoint_def Let_def
      split: list.splits option.splits)

context step_invariant
begin

lemma reach:
  assumes "\<not> s" "machine_reach e"
    and boot: "\<And>t bd now b dev m4. mips_tlb_new 48 = Some t \<Longrightarrow>
      P (cpu_new (configure_board bd (executor_new now b dev m4 t)))"
  shows "P e"
  using assms(2)
proof (induction rule: machine_reach.induct)
  case (step e fusion env hf st e')
  with kept_step [of e env fusion hf] assms(1) show ?case by simp
qed (auto intro: boot inv_mild mild_stop_start mild_breakpoints)

text \<open>The strict reading: a step has a result, which is again reachable.\<close>

lemma step_returns:
  assumes s and "P e" "env_releases env"
  obtains st e' where "step_int fusion env hf e = Some (st, e')" "P e'"
  using kept_step [OF assms(2), of env fusion hf] assms(1,3)
  by (cases "step_int fusion env hf e") auto

end

end
