(* ===== verification/Core_Exceptions.thy ===== *)
theory Core_Exceptions
  imports Mips_Boot
begin

text \<open>
  Exception entry and return: what \<^const>\<open>deliver_exception\<close> writes on every branch, that the
  executor comes out of it in kernel mode with its cached state in step with Status, and that
  ERET undoes it.
\<close>

section \<open>Status bits\<close>

lemma and_or_bit_ne_0 [simp]:
  "((s :: u32) OR STATUS_EXL) AND (STATUS_EXL OR STATUS_ERL) \<noteq> 0"
  "((s :: u32) OR STATUS_ERL) AND (STATUS_EXL OR STATUS_ERL) \<noteq> 0"
  "((s :: u32) OR STATUS_EXL) AND STATUS_EXL \<noteq> 0"
  by (rule bit_imp_nonzero [where n = 1], simp add: status_bits bit_simps)
    (rule bit_imp_nonzero [where n = 2], simp add: status_bits bit_simps,
     rule bit_imp_nonzero [where n = 1], simp add: status_bits bit_simps)

lemma status_exl_keeps [simp]:
  "((s :: u32) OR STATUS_EXL) AND STATUS_BEV = s AND STATUS_BEV"
  "((s :: u32) OR STATUS_ERL) AND STATUS_BEV = s AND STATUS_BEV"
  "((s :: u32) OR STATUS_EXL) AND STATUS_KX = s AND STATUS_KX"
  "((s :: u32) OR STATUS_EXL) AND STATUS_FR = s AND STATUS_FR"
  "((s :: u32) OR STATUS_EXL) AND STATUS_ERL = s AND STATUS_ERL"
  "((s :: u32) OR STATUS_EXL) AND STATUS_IE = s AND STATUS_IE"
  by (simp_all add: status_bits word_ao_dist)

lemma status_exl_cleared:
  assumes "s AND STATUS_EXL = 0"
  shows "((s :: u32) OR STATUS_EXL) AND NOT STATUS_EXL = s"
  using assms unfolding STATUS_EXL_def by (rule flag_set_clear)

section \<open>Resynchronisation\<close>

text \<open>The cached selectors agree with Status.\<close>

definition synced :: "'b mips_executor \<Rightarrow> bool" where
  "synced e \<longleftrightarrow>
     translate_fn e = (is_64bit_mode (core e), get_privilege_mode (core e)) \<and>
     fpr_fr1 e = (cp0_status (core e) AND STATUS_FR \<noteq> 0)"

text \<open>What the flush leaves alone.\<close>

lemma core_flush_fields [simp]:
  "cp0_status (core_nanotlb_invalidate c) = cp0_status c"
  "cp0_status (nutlb_clear c) = cp0_status c"
  "pc (core_nanotlb_invalidate c) = pc c" "pc (nutlb_clear c) = pc c"
  "cp0_epc (core_nanotlb_invalidate c) = cp0_epc c" "cp0_epc (nutlb_clear c) = cp0_epc c"
  "cp0_errorepc (core_nanotlb_invalidate c) = cp0_errorepc c"
  "cp0_errorepc (nutlb_clear c) = cp0_errorepc c"
  "cp0_cause (core_nanotlb_invalidate c) = cp0_cause c" "cp0_cause (nutlb_clear c) = cp0_cause c"
  "gpr (core_nanotlb_invalidate c) = gpr c" "gpr (nutlb_clear c) = gpr c"
  "in_delay_slot (core_nanotlb_invalidate c) = in_delay_slot c"
  "in_delay_slot (nutlb_clear c) = in_delay_slot c"
  "cp0_entryhi (core_nanotlb_invalidate c) = cp0_entryhi c"
  "cp0_entryhi (nutlb_clear c) = cp0_entryhi c"
  "cp0_badvaddr (core_nanotlb_invalidate c) = cp0_badvaddr c"
  "cp0_badvaddr (nutlb_clear c) = cp0_badvaddr c"
  "hi (core_nanotlb_invalidate c) = hi c" "hi (nutlb_clear c) = hi c"
  "lo (core_nanotlb_invalidate c) = lo c" "lo (nutlb_clear c) = lo c"
  by (simp_all add: core_nanotlb_invalidate_def nutlb_clear_def Let_def)

lemma mode_cong:
  assumes "cp0_status c = cp0_status c'"
  shows "get_privilege_mode c = get_privilege_mode c'" "is_64bit_mode c = is_64bit_mode c'"
    "interrupts_enabled c = interrupts_enabled c'"
  using assms by (simp_all add: get_privilege_mode_def is_64bit_mode_def interrupts_enabled_def
      split: privilege_mode.split)

lemma mode_flush [simp]:
  "get_privilege_mode (core_nanotlb_invalidate c) = get_privilege_mode c"
  "get_privilege_mode (nutlb_clear c) = get_privilege_mode c"
  "is_64bit_mode (core_nanotlb_invalidate c) = is_64bit_mode c"
  "is_64bit_mode (nutlb_clear c) = is_64bit_mode c"
  by (rule mode_cong; simp)+

lemma mode_upd [simp]:
  "get_privilege_mode (c\<lparr>pc := v\<rparr>) = get_privilege_mode c"
  "get_privilege_mode (c\<lparr>in_delay_slot := b\<rparr>) = get_privilege_mode c"
  by (rule mode_cong; simp)+

lemma synced_core_upd:
  "cp0_status c = cp0_status (core e) \<Longrightarrow> synced (e\<lparr>core := c\<rparr>) = synced e"
  using mode_cong [of c "core e"] by (simp add: synced_def)

lemma resync_synced [simp]: "synced (resync_privilege_state e)"
  by (simp add: synced_def resync_privilege_state_def nanotlb_invalidate_def update_fpr_mode_def
      update_translate_fn_def)

lemma resync_core:
  "core (resync_privilege_state e) = nutlb_clear (core_nanotlb_invalidate (core e))"
  by (simp add: resync_privilege_state_def nanotlb_invalidate_def update_fpr_mode_def
      update_translate_fn_def)

lemma resync_fields [simp]:
  "llbit (resync_privilege_state e) = llbit e" "tlb (resync_privilege_state e) = tlb e"
  "sysad (resync_privilege_state e) = sysad e" "bus (resync_privilege_state e) = bus e"
  "model (resync_privilege_state e) = model e"
  by (simp_all add: resync_privilege_state_def nanotlb_invalidate_def update_fpr_mode_def
      update_translate_fn_def)

lemma synced_privilege:
  "synced e \<Longrightarrow> snd (translate_fn e) = get_privilege_mode (core e)"
  by (simp add: synced_def)

section \<open>Delivery\<close>

text \<open>The vector of an exception, from the Status and the flags of its status word.\<close>

definition exception_vector :: "u32 \<Rightarrow> u32 \<Rightarrow> u64" where
  "exception_vector sr status =
     (if sr AND STATUS_BEV \<noteq> 0 then 0xFFFFFFFFBFC00200 else 0xFFFFFFFF80000000) +
     (if sr AND STATUS_EXL = 0 \<and> status AND EXEC_IS_TLB_REFILL \<noteq> 0
      then (if status AND EXEC_IS_XTLB_REFILL \<noteq> 0 then 0x080 else 0) else 0x180)"

lemma deliver_exception_spec:
  assumes "status AND EXEC_IS_CACHE_ERR = 0"
  shows "deliver_exception_at status fpc bd c =
    c\<lparr>cp0_epc := (if cp0_status c AND STATUS_EXL \<noteq> 0 then cp0_epc c
                  else if bd then fpc - 4 else fpc),
      cp0_cause := (let k = (cp0_cause c AND NOT CAUSE_EXCCODE_MASK)
                              OR (status AND CAUSE_EXCCODE_MASK)
                    in if cp0_status c AND STATUS_EXL \<noteq> 0 then k
                       else if bd then k OR CAUSE_BD else k AND NOT CAUSE_BD),
      cp0_status := cp0_status c OR STATUS_EXL,
      pc := exception_vector (cp0_status c) status, in_delay_slot := False\<rparr>"
  using assms by (auto simp: deliver_exception_at_def exception_vector_def Let_def)

lemma privilege_exl [simp]:
  "status_privilege (s OR STATUS_EXL) = Kernel" "status_privilege (s OR STATUS_ERL) = Kernel"
  by (simp_all add: status_privilege_def)

lemma deliver_exception_kernel [simp]:
  "get_privilege_mode (deliver_exception_at status fpc bd c) = Kernel"
  by (cases "status AND EXEC_IS_CACHE_ERR = 0")
    (simp_all add: deliver_exception_spec get_privilege_mode_def deliver_exception_at_def
      deliver_cache_error_def Let_def)

lemma deliver_exception_gpr [simp]:
  "gpr (deliver_exception_at status fpc bd c) = gpr c"
  "hi (deliver_exception_at status fpc bd c) = hi c"
  "lo (deliver_exception_at status fpc bd c) = lo c"
  "cp0_entryhi (deliver_exception_at status fpc bd c) = cp0_entryhi c"
  "cp0_badvaddr (deliver_exception_at status fpc bd c) = cp0_badvaddr c"
  by (simp_all add: deliver_exception_at_def deliver_cache_error_def Let_def split: prod.splits if_splits)

lemma handle_exception_fst [simp]: "fst (handle_exception s e) = s"
  by (simp add: handle_exception_def Let_def)

lemma handle_exception_synced [simp]: "synced (snd (handle_exception s e))"
  by (simp add: handle_exception_def Let_def)

lemma handle_exception_fields [simp]:
  "tlb (snd (handle_exception s e)) = tlb e" "sysad (snd (handle_exception s e)) = sysad e"
  "bus (snd (handle_exception s e)) = bus e" "model (snd (handle_exception s e)) = model e"
  "llbit (snd (handle_exception s e)) = False"
  "gpr (core (snd (handle_exception s e))) = gpr (core e)"
  by (simp_all add: handle_exception_def Let_def resync_core deliver_exception_def)

lemma handle_exception_core:
  assumes "s AND EXEC_IS_CACHE_ERR = 0"
  shows "core (snd (handle_exception s e)) =
    nutlb_clear (core_nanotlb_invalidate (deliver_exception s (core e)))"
  using assms by (simp add: handle_exception_def Let_def resync_core)

section \<open>Exception entry\<close>

lemma exccode_mask: "CAUSE_EXCCODE_MASK = push_bit 2 (mask 5)"
  by (simp add: CAUSE_EXCCODE_MASK_def mask_eq_exp_minus_1)

lemma exec_status_bits:
  assumes "code < (32 :: u32)"
    "s \<in> {exec_exception code, exec_tlb_miss code, exec_xtlb_miss code}"
  shows "n < 7 \<Longrightarrow> bit s n \<longleftrightarrow> 2 \<le> n \<and> bit code (n - 2)" "\<not> bit s 30"
  using assms small_word_bit [of code 5 28]
  by (auto simp: exec_exception_def exec_tlb_miss_def exec_xtlb_miss_def bit_or_iff
      CAUSE_EXCCODE_SHIFT_def exec_flag_bits bit_push_bit_iff simp del: push_bit_of_1)

lemma exec_status_no_cache_err:
  assumes "code < (32 :: u32)"
    "s \<in> {exec_exception code, exec_tlb_miss code, exec_xtlb_miss code}"
  shows "s AND EXEC_IS_CACHE_ERR = 0"
  using exec_status_bits(2) [OF assms] unfolding EXEC_IS_CACHE_ERR_def
  by (subst flag_test) simp_all

lemma cause_code:
  assumes "code < (32 :: u32)"
    "s \<in> {exec_exception code, exec_tlb_miss code, exec_xtlb_miss code}"
  shows "shr ((k AND NOT CAUSE_EXCCODE_MASK) OR (s AND CAUSE_EXCCODE_MASK)) 2 AND 0x1F = code"
    (is "?w = _")
proof (rule bit_word_eqI)
  fix n assume "n < LENGTH(32)"
  have m: "(0x1F :: u32) = mask 5" by (simp add: mask_eq_exp_minus_1)
  show "bit ?w n = bit code n"
    unfolding m exccode_mask
    using exec_status_bits(1) [OF assms, of "n + 2"] small_word_bit [of code 5 n] assms(1)
    by (auto simp: bit_simps)
qed

lemma cause_bd_code:
  "shr (w OR CAUSE_BD) 2 AND 0x1F = shr w 2 AND 0x1F"
  "shr (w AND NOT CAUSE_BD) 2 AND 0x1F = shr w 2 AND 0x1F"
proof -
  have m: "(0x1F :: u32) = mask 5" by (simp add: mask_eq_exp_minus_1)
  show "shr (w OR CAUSE_BD) 2 AND 0x1F = shr w 2 AND 0x1F"
    "shr (w AND NOT CAUSE_BD) 2 AND 0x1F = shr w 2 AND 0x1F"
    unfolding m CAUSE_BD_def
    by (rule bit_word_eqI; simp only: word_bits; auto)+
qed

lemma cause_bd_test:
  "(w OR CAUSE_BD) AND CAUSE_BD \<noteq> 0" "(w AND NOT CAUSE_BD) AND CAUSE_BD = 0"
  "((w AND NOT CAUSE_EXCCODE_MASK) OR (s AND CAUSE_EXCCODE_MASK)) AND CAUSE_BD = w AND CAUSE_BD"
proof -
  show "(w OR CAUSE_BD) AND CAUSE_BD \<noteq> 0"
    by (rule bit_imp_nonzero [where n = 31]) (simp add: CAUSE_BD_def bit_simps)
  show "(w AND NOT CAUSE_BD) AND CAUSE_BD = 0"
    by (rule bit_word_eqI) (auto simp: bit_simps)
  show "((w AND NOT CAUSE_EXCCODE_MASK) OR (s AND CAUSE_EXCCODE_MASK)) AND CAUSE_BD = w AND CAUSE_BD"
    unfolding exccode_mask CAUSE_BD_def
    by (rule bit_word_eqI; simp only: word_bits; auto)
qed

lemma nutlb_clear_invalid:
  assumes "arr < 2" "i < NUM_NUTLB_ENTRIES"
  shows "\<not> nutlb_is_valid arr i (nutlb_clear c)"
  using assms by (simp add: nutlb_is_valid_def nutlb_clear_def NUM_NUTLB_ENTRIES_def
      NUM_NUTLB_WORDS_def)

lemma handle_exception_regs:
  assumes "s AND EXEC_IS_CACHE_ERR = 0"
  shows "cp0_status (core (snd (handle_exception s e))) = cp0_status (core e) OR STATUS_EXL"
    "cp0_epc (core (snd (handle_exception s e))) =
       (if cp0_status (core e) AND STATUS_EXL \<noteq> 0 then cp0_epc (core e)
        else if in_delay_slot (core e) then pc (core e) - 4 else pc (core e))"
    "pc (core (snd (handle_exception s e))) = exception_vector (cp0_status (core e)) s"
    "in_delay_slot (core (snd (handle_exception s e))) = False"
    "hi (core (snd (handle_exception s e))) = hi (core e)"
    "lo (core (snd (handle_exception s e))) = lo (core e)"
  using assms
  by (simp_all add: handle_exception_core deliver_exception_def deliver_exception_spec)

lemma handle_exception_cause_eq:
  assumes "s AND EXEC_IS_CACHE_ERR = 0"
  shows "cp0_cause (core (snd (handle_exception s e))) =
    (let k = (cp0_cause (core e) AND NOT CAUSE_EXCCODE_MASK) OR (s AND CAUSE_EXCCODE_MASK)
     in if cp0_status (core e) AND STATUS_EXL \<noteq> 0 then k
        else if in_delay_slot (core e) then k OR CAUSE_BD else k AND NOT CAUSE_BD)"
  using assms
  by (simp add: handle_exception_core deliver_exception_def deliver_exception_spec Let_def)

lemma handle_exception_cause:
  assumes "code < (32 :: u32)"
    "s \<in> {exec_exception code, exec_tlb_miss code, exec_xtlb_miss code}"
  shows "shr (cp0_cause (core (snd (handle_exception s e)))) 2 AND 0x1F = code"
    "cp0_cause (core (snd (handle_exception s e))) AND CAUSE_BD \<noteq> 0 \<longleftrightarrow>
       (if cp0_status (core e) AND STATUS_EXL \<noteq> 0 then cp0_cause (core e) AND CAUSE_BD \<noteq> 0
        else in_delay_slot (core e))"
proof -
  note eq = handle_exception_cause_eq [OF exec_status_no_cache_err [OF assms], of e,
      unfolded Let_def]
  show "shr (cp0_cause (core (snd (handle_exception s e)))) 2 AND 0x1F = code"
    by (simp only: eq cause_bd_code cause_code [OF assms] split: if_split) simp
  show "cp0_cause (core (snd (handle_exception s e))) AND CAUSE_BD \<noteq> 0 \<longleftrightarrow>
       (if cp0_status (core e) AND STATUS_EXL \<noteq> 0 then cp0_cause (core e) AND CAUSE_BD \<noteq> 0
        else in_delay_slot (core e))"
    by (cases "in_delay_slot (core e)"; cases "cp0_status (core e) AND STATUS_EXL \<noteq> 0")
      (simp_all only: eq if_True if_False cause_bd_test simp_thms)
qed

lemma aligned_minus_4:
  fixes w :: u64
  shows "w - 4 AND 3 = w AND 3"
proof -
  have m: "v AND 3 = take_bit 2 v" for v :: u64
    by (simp add: take_bit_eq_mask mask_eq_exp_minus_1)
  show ?thesis using word_take_bit_diff [of 2 w 4] by (simp add: m)
qed

lemma privilege_after_exception [simp]:
  "get_privilege_mode (core (snd (handle_exception s e))) = Kernel"
  by (simp add: handle_exception_def Let_def resync_core deliver_exception_def)

lemma no_utlb_after_exception:
  assumes "arr < 2" "i < NUM_NUTLB_ENTRIES"
  shows "\<not> nutlb_is_valid arr i (core (snd (handle_exception s e)))"
  using nutlb_clear_invalid [OF assms] by (simp add: handle_exception_def Let_def resync_core)

section \<open>An executor for the examples\<close>

text \<open>A fresh machine put into user mode, at the delay slot of a branch.\<close>

definition demo_user :: "memory mips_executor" where
  "demo_user =
     (cpu_new (executor_new 0 (mem_new 0) memory_bus False (the (mips_tlb_new 48))))
       \<lparr>core := (mips_core_new 0)\<lparr>cp0_status := 0x10, pc := 0x400100, in_delay_slot := True\<rparr>\<rparr>"

lemma demo_user_core [simp]:
  "cp0_status (core demo_user) = 0x10" "pc (core demo_user) = 0x400100"
  "in_delay_slot (core demo_user)"
  by (simp_all add: demo_user_def)

section \<open>Properties\<close>

text \<open>
  \<^bold>\<open>C12\<close>.  Exception entry.  For every exception code and every way the executor encodes it
  (plain, TLB refill, XTLB refill), exception handling leaves the processor in kernel mode with
  the cached translators in step with Status and no live micro-TLB entry; Cause holds the code;
  a first-level exception saves the faulting instruction (the branch, for one in a delay slot)
  in EPC and sets Cause.BD exactly for a delay slot, a nested one leaves both; control is at the
  architectural vector; general registers, TLB and bus are untouched and the LL reservation is
  gone.
\<close>
theorem exception_entry:
  assumes "code < (32 :: u32)"
    and "s \<in> {exec_exception code, exec_tlb_miss code, exec_xtlb_miss code}"
  shows "let r = handle_exception s e; c = core e; c' = core (snd r);
             nested = (cp0_status c AND STATUS_EXL \<noteq> 0)
    in fst r = s \<and> get_privilege_mode c' = Kernel \<and> synced (snd r) \<and>
       (\<forall>arr i. arr < 2 \<and> i < NUM_NUTLB_ENTRIES \<longrightarrow> \<not> nutlb_is_valid arr i c') \<and>
       shr (cp0_cause c') 2 AND 0x1F = code \<and>
       cp0_epc c' = (if nested then cp0_epc c
                     else if in_delay_slot c then pc c - 4 else pc c) \<and>
       (cp0_cause c' AND CAUSE_BD \<noteq> 0 \<longleftrightarrow>
          (if nested then cp0_cause c AND CAUSE_BD \<noteq> 0 else in_delay_slot c)) \<and>
       pc c' = exception_vector (cp0_status c) s \<and> \<not> in_delay_slot c' \<and>
       gpr c' = gpr c \<and> tlb (snd r) = tlb e \<and> sysad (snd r) = sysad e \<and> \<not> llbit (snd r)"
  unfolding Let_def
  by (intro conjI allI impI)
    (simp_all only: handle_exception_regs [OF exec_status_no_cache_err [OF assms]]
      handle_exception_cause [OF assms] no_utlb_after_exception handle_exception_fst
      handle_exception_synced handle_exception_fields privilege_after_exception simp_thms)

theorem exception_entry_witness:
  "(let r = handle_exception (exec_exception 8) demo_user; c' = core (snd r)
    in get_privilege_mode c' = Kernel \<and> shr (cp0_cause c') 2 AND 0x1F = 8 \<and>
       cp0_epc c' = 0x4000FC \<and> cp0_cause c' AND CAUSE_BD \<noteq> 0 \<and>
       pc c' = 0xFFFFFFFF80000180)"
  using exception_entry [of 8 "exec_exception 8" demo_user]
  by (simp add: Let_def exception_vector_def status_bits exec_exception_def exec_flag_bits
      CAUSE_EXCCODE_SHIFT_def)

text \<open>
  \<^bold>\<open>C13\<close>.  Exception return.  For an instruction at an aligned address, outside exception and
  error level, exception entry followed by ERET resumes at that instruction, or at its branch if
  it was in a delay slot, in the privilege mode it ran in, with Status, the general registers,
  HI, LO, the TLB and the bus as they were.
\<close>
theorem exception_return:
  assumes "s AND EXEC_IS_CACHE_ERR = 0"
    and "cp0_status (core e) AND STATUS_EXL = 0" "cp0_status (core e) AND STATUS_ERL = 0"
    and "pc (core e) AND 3 = 0"
  shows "let r = exec_eret (snd (handle_exception s e)); c = core e; c' = core (snd r)
    in fst r = EXEC_COMPLETE \<and> cp0_status c' = cp0_status c \<and>
       pc c' = (if in_delay_slot c then pc c - 4 else pc c) \<and> \<not> in_delay_slot c' \<and>
       get_privilege_mode c' = get_privilege_mode c \<and> synced (snd r) \<and>
       gpr c' = gpr c \<and> hi c' = hi c \<and> lo c' = lo c \<and>
       tlb (snd r) = tlb e \<and> sysad (snd r) = sysad e"
proof -
  have al: "(if in_delay_slot (core e) then pc (core e) - 4 else pc (core e)) AND 3 = 0"
    using assms(4) by (simp add: aligned_minus_4)
  show ?thesis
    using assms(2,3) al handle_exception_regs [OF assms(1), of e]
      status_exl_cleared [OF assms(2)]
      mode_cong [of "core (snd (handle_exception s e))\<lparr>cp0_status := cp0_status (core e)\<rparr>" "core e"]
    by (simp add: exec_eret_def check_pc_alignment_def Let_def resync_core synced_core_upd)
qed

theorem exception_return_witness:
  "(let r = exec_eret (snd (handle_exception (exec_exception 8) demo_user)); c' = core (snd r)
    in fst r = EXEC_COMPLETE \<and> cp0_status c' = 0x10 \<and> pc c' = 0x4000FC \<and>
       \<not> in_delay_slot c' \<and> get_privilege_mode c' = User)"
  using exception_return [of "exec_exception 8" demo_user]
  by (simp add: Let_def status_bits exec_exception_def exec_flag_bits CAUSE_EXCCODE_SHIFT_def
      get_privilege_mode_def status_privilege_def STATUS_KSU_SHIFT_def KSU_KERNEL_def
      KSU_SUPERVISOR_def KSU_USER_def)

end
