(* ===== verification/Tlb_Vmap.thy ===== *)
theory Tlb_Vmap
  imports Mips_Tlb
begin

text \<open>
  The \<open>vmap\<close> index of the TLB: what a slot may hold given the entries that cover it
  (\<open>slot_rep\<close>), that clearing, refilling and filling compute it, and that a matching entry covers the
  slot of the address (for contiguous page masks).
\<close>

section \<open>Coverage and slots\<close>

definition covers :: "tlb_entry \<Rightarrow> nat \<Rightarrow> bool" where
  "covers e v \<longleftrightarrow> fst (vmap_range e) \<le> v \<and> v < fst (vmap_range e) + snd (vmap_range e)"

definition owners :: "tlb_entry list \<Rightarrow> nat \<Rightarrow> nat \<Rightarrow> nat set" where
  "owners es n v = {i. i < n \<and> covers (es ! i) v}"

definition vmap_slot :: "u64 \<Rightarrow> nat" where
  "vmap_slot va = unat (shr (lo32 va) 13)"

text \<open>What one \<open>vmap_fill_range\<close> does to a slot it reaches.\<close>

definition claim :: "nat \<Rightarrow> u8 \<Rightarrow> u8" where
  "claim i b = (if b = VMAP_MISS then of_nat i else of_nat i OR VMAP_MULTI)"

text \<open>The exact contents of a slot: free, the sole owner, or one of several owners tagged.\<close>

definition slot_rep :: "nat set \<Rightarrow> u8 \<Rightarrow> bool" where
  "slot_rep S b \<longleftrightarrow>
     S = {} \<and> b = VMAP_MISS \<or>
     (\<exists>i. S = {i} \<and> b = of_nat i) \<or>
     (\<exists>i\<in>S. \<exists>j\<in>S. i \<noteq> j \<and> b = of_nat i OR VMAP_MULTI)"

definition vmap_exact :: "mips_tlb \<Rightarrow> bool" where
  "vmap_exact t \<longleftrightarrow>
     (\<forall>v < VMAP_SIZE. slot_rep (owners (entries t) (num_entries t) v) (vmap t v))"

text \<open>The page masks of the architecture (and any other contiguous one): \<open>page_mask | 0x1FFF\<close> is
  a run of ones.\<close>

definition contiguous_mask :: "tlb_entry \<Rightarrow> bool" where
  "contiguous_mask e \<longleftrightarrow> list_ex (\<lambda>k. te_page_mask e OR 0x1FFF = mask k) [13..<33]"

section \<open>Slot bytes\<close>

lemmas vmap_consts = VMAP_MISS_def VMAP_MULTI_def VMAP_IDX_MASK_def

lemma multi_nonzero: "VMAP_MULTI \<noteq> 0"
  by (simp add: VMAP_MULTI_def)

lemma tag_bits:
  assumes "i < 64"
  shows "bit (of_nat i :: u8) 7 = False" "bit (of_nat i :: u8) 6 = False"
proof -
  have "\<not> bit i 7" "\<not> bit i 6" using assms by (simp_all add: bit_iff_odd)
  then show "bit (of_nat i :: u8) 7 = False" "bit (of_nat i :: u8) 6 = False"
    by (simp_all add: bit_of_nat_iff)
qed

lemma tag_small:
  assumes "i < 64"
  shows "unat (of_nat i :: u8) = i"
  using assms by (simp add: unat_of_nat)

lemma tag_not_miss:
  assumes "i < 64"
  shows "(of_nat i :: u8) \<noteq> VMAP_MISS" "(of_nat i :: u8) OR VMAP_MULTI \<noteq> VMAP_MISS"
proof -
  have *: "bit (VMAP_MISS :: u8) 6" by (simp add: VMAP_MISS_def)
  show "(of_nat i :: u8) \<noteq> VMAP_MISS"
    using * tag_bits(2) [OF assms] by metis
  have "\<not> bit ((of_nat i :: u8) OR VMAP_MULTI) 6"
    using tag_bits(2) [OF assms] by (simp add: bit_or_iff VMAP_MULTI_def)
  then show "(of_nat i :: u8) OR VMAP_MULTI \<noteq> VMAP_MISS"
    using * by metis
qed

lemma tag_multi:
  assumes "i < 64"
  shows "(of_nat i :: u8) AND VMAP_MULTI = 0" "((of_nat i :: u8) OR VMAP_MULTI) AND VMAP_MULTI \<noteq> 0"
proof -
  have m: "VMAP_MULTI = push_bit 7 1" by (simp add: VMAP_MULTI_def)
  show "(of_nat i :: u8) AND VMAP_MULTI = 0"
    using tag_bits(1) [OF assms] by (simp add: m and_eq_0_iff_not_bit del: push_bit_of_1)
  show "((of_nat i :: u8) OR VMAP_MULTI) AND VMAP_MULTI \<noteq> 0"
    by (simp add: VMAP_MULTI_def bit.conj_disj_distrib2)
qed

lemma tag_index:
  assumes "i < 64"
  shows "unat ((of_nat i :: u8) AND VMAP_IDX_MASK) = i"
    "unat (((of_nat i :: u8) OR VMAP_MULTI) AND VMAP_IDX_MASK) = i"
proof -
  have m: "VMAP_IDX_MASK = mask 7" by (simp add: VMAP_IDX_MASK_def mask_eq_exp_minus_1)
  have "take_bit 7 i = i" using assms by (simp add: take_bit_nat_eq_self)
  then have i: "(of_nat i :: u8) AND VMAP_IDX_MASK = of_nat i"
    by (simp add: m take_bit_of_nat flip: take_bit_eq_mask)
  then show "unat ((of_nat i :: u8) AND VMAP_IDX_MASK) = i"
    using tag_small [OF assms] by simp
  have "((of_nat i :: u8) OR VMAP_MULTI) AND VMAP_IDX_MASK = of_nat i AND VMAP_IDX_MASK"
    by (simp add: bit.conj_disj_distrib2 VMAP_MULTI_def VMAP_IDX_MASK_def)
  with i show "unat (((of_nat i :: u8) OR VMAP_MULTI) AND VMAP_IDX_MASK) = i"
    using tag_small [OF assms] by simp
qed

lemma slot_rep_claim:
  assumes "slot_rep S b" "S \<subseteq> {..<64}" "i \<notin> S"
  shows "slot_rep (insert i S) (claim i b)"
proof (cases "S = {}")
  case True
  with assms(1) show ?thesis by (auto simp: slot_rep_def claim_def)
next
  case False
  with assms(1) obtain j where j: "j \<in> S" and b: "b = of_nat j \<or> b = of_nat j OR VMAP_MULTI"
    by (auto simp: slot_rep_def)
  from j assms(2) have "j < 64" by auto
  with b tag_not_miss [of j] have "b \<noteq> VMAP_MISS" by metis
  with j assms(3) show ?thesis by (auto simp: slot_rep_def claim_def)
qed

lemma slot_rep_fold_claim:
  assumes "slot_rep S b" "S \<subseteq> {..<64}" "distinct os" "set os \<subseteq> {..<64}" "set os \<inter> S = {}"
  shows "slot_rep (S \<union> set os) (fold claim os b)"
  using assms
proof (induction os arbitrary: S b)
  case Nil
  then show ?case by simp
next
  case (Cons i os)
  have "slot_rep (insert i S) (claim i b)"
    by (rule slot_rep_claim) (use Cons.prems in auto)
  with Cons.IH [of "insert i S" "claim i b"] Cons.prems show ?case
    by simp
qed

section \<open>The loops over the vmap\<close>

lemma vmap_clear_apply:
  "vmap_clear start count vm v =
     (if start \<le> v \<and> v < start + count \<and> v < VMAP_SIZE then VMAP_MISS else vm v)"
  by (induction count) (auto simp: vmap_clear_def Let_def less_Suc_eq)

lemma vmap_fill_range_apply:
  "vmap_fill_range i start count vm v =
     (if start \<le> v \<and> v < start + count \<and> v < VMAP_SIZE then claim i (vm v) else vm v)"
  by (induction count) (auto simp: vmap_fill_range_def claim_def Let_def less_Suc_eq)

lemma vmap_refill_step_apply:
  "vmap_refill_step es index old i vm v =
     (if i \<noteq> index \<and> covers (es ! i) v \<and> fst old \<le> v \<and> v < fst old + snd old \<and> v < VMAP_SIZE
      then claim i (vm v) else vm v)"
  by (auto simp: vmap_refill_step_def covers_def vmap_fill_range_apply Let_def split: prod.splits)

lemma vmap_refill_apply:
  "fold (vmap_refill_step es index old) is vm v =
     (if fst old \<le> v \<and> v < fst old + snd old \<and> v < VMAP_SIZE
      then fold claim (filter (\<lambda>i. i \<noteq> index \<and> covers (es ! i) v) is) (vm v) else vm v)"
  by (induction "is" arbitrary: vm) (auto simp: vmap_refill_step_apply)

lemma vmap_replace_apply:
  assumes "v < VMAP_SIZE"
  shows "vmap (vmap_replace index old t) v =
     (let others = filter (\<lambda>i. i \<noteq> index \<and> covers (entries t ! i) v) [0..<num_entries t];
          b = (if fst old \<le> v \<and> v < fst old + snd old then fold claim others VMAP_MISS else vmap t v)
      in if covers (entries t ! index) v then claim index b else b)"
  using assms
  by (auto simp: vmap_replace_def Let_def vmap_fill_range_apply vmap_refill_apply vmap_clear_apply
      covers_def [of "entries t ! index"] split: prod.splits)

lemma vmap_replace_same [simp]:
  "entries (vmap_replace index old t) = entries t"
  "shadow (vmap_replace index old t) = shadow t"
  "mru_head (vmap_replace index old t) = mru_head t"
  "mru_next (vmap_replace index old t) = mru_next t"
  "num_entries (vmap_replace index old t) = num_entries t"
  "c_attr (vmap_replace index old t) = c_attr t"
  by (simp_all add: vmap_replace_def Let_def split: prod.splits)

text \<open>Replacing the entry of one slot re-establishes the exact contents of every slot, provided the
  slots outside the vacated range were exact.\<close>

lemma slot_rep_replace:
  assumes n: "num_entries t \<le> 64" "index < num_entries t" "index < length (entries t)"
    and v: "v < VMAP_SIZE"
    and old: "\<not> covers (entries t ! index) v \<Longrightarrow> slot_rep (owners (entries t) (num_entries t) v) (vmap t v)"
  shows "slot_rep (owners ((entries t)[index := e]) (num_entries t) v)
           (vmap (vmap_replace index (vmap_range (entries t ! index)) (t\<lparr>entries := (entries t)[index := e], shadow := sh\<rparr>)) v)"
proof -
  let ?es = "(entries t)[index := e]"
  let ?others = "filter (\<lambda>i. i \<noteq> index \<and> covers (?es ! i) v) [0..<num_entries t]"
  define b where
    "b = (if covers (entries t ! index) v then fold claim ?others VMAP_MISS else vmap t v)"
  have set_others: "set ?others = owners (entries t) (num_entries t) v - {index}"
    by (auto simp: owners_def)
  have "slot_rep ({} \<union> set ?others) (fold claim ?others VMAP_MISS)"
    by (rule slot_rep_fold_claim) (use n in \<open>auto simp: slot_rep_def\<close>)
  moreover have "\<not> covers (entries t ! index) v \<Longrightarrow> index \<notin> owners (entries t) (num_entries t) v"
    by (simp add: owners_def)
  ultimately have b: "slot_rep (owners (entries t) (num_entries t) v - {index}) b"
    using old by (auto simp: b_def set_others simp del: set_filter)
  have "slot_rep (insert index (owners (entries t) (num_entries t) v - {index})) (claim index b)"
    by (rule slot_rep_claim [OF b]) (use n in \<open>auto simp: owners_def\<close>)
  moreover have "owners ?es (num_entries t) v =
      (if covers e v then insert index (owners (entries t) (num_entries t) v - {index})
       else owners (entries t) (num_entries t) v - {index})"
    using n by (auto simp: owners_def nth_list_update)
  moreover have "vmap (vmap_replace index (vmap_range (entries t ! index))
      (t\<lparr>entries := ?es, shadow := sh\<rparr>)) v = (if covers e v then claim index b else b)"
    using n v by (simp add: vmap_replace_apply b_def covers_def Let_def)
  ultimately show ?thesis
    using b by simp
qed

section \<open>A matching entry covers the slot of the address\<close>

lemma vmap_range_contiguous:
  assumes "te_page_mask e OR 0x1FFF = mask k" "13 \<le> k" "k < 33"
  shows "vmap_range e = (unat (lo32 (te_entry_hi e)) div 2 ^ k * 2 ^ (k - 13), 2 ^ (k - 13))"
proof -
  have p: "mask k + 1 = (2 ^ k :: u64)" by (simp add: mask_eq_exp_minus_1)
  have s: "shr (2 ^ k :: u64) 13 = 2 ^ (k - 13)"
    using assms(2,3) by (simp add: drop_bit_exp_eq possible_bit_def)
  have u: "unat (2 ^ (k - 13) :: u64) = 2 ^ (k - 13)"
    using assms(3) by (simp add: unat_exp)
  have m: "max (2 ^ (k - 13)) 1 = (2 ^ (k - 13) :: u64)"
    using u by (intro max_absorb1) (simp add: word_le_nat_alt)
  have c: "2 ^ (k - 13) - 1 = (mask (k - 13) :: u64)" by (simp add: mask_eq_exp_minus_1)
  have d: "unat (lo32 (te_entry_hi e)) div 2 ^ 13 div 2 ^ (k - 13) = unat (lo32 (te_entry_hi e)) div 2 ^ k"
    using assms(2) by (simp only: div_mult2_eq [symmetric] flip: power_add) simp
  have z: "unat (zext (shr (lo32 (te_entry_hi e)) 13)) = unat (lo32 (te_entry_hi e)) div 2 ^ 13"
    unfolding unat_drop_bit_div [symmetric] by (rule unat_ucast_up) simp
  show ?thesis
    unfolding vmap_range_def Let_def assms(1) p s m c u unat_and_not_mask z d by (rule refl)
qed

lemma vcmp_masks:
  "(0x00000000FFFFE000 :: u64) = push_bit 13 (mask 19)"
  "(0xC00000FFFFFFE000 :: u64) = push_bit 62 (mask 2) OR push_bit 13 (mask 27)"
  by (simp_all add: mask_eq_exp_minus_1)

lemma derived_fields:
  "te_vcmp32 (tlb_entry_derive e) = NOT (te_page_mask e OR 0x1FFF) AND push_bit 13 (mask 19)"
  "te_vcmp64 (tlb_entry_derive e) =
     NOT (te_page_mask e OR 0x1FFF) AND (push_bit 62 (mask 2) OR push_bit 13 (mask 27))"
  "te_vpn_hi32 (tlb_entry_derive e) = te_entry_hi e AND te_vcmp32 (tlb_entry_derive e)"
  "te_vpn_hi64 (tlb_entry_derive e) = te_entry_hi e AND te_vcmp64 (tlb_entry_derive e)"
  "te_page_mask (tlb_entry_derive e) = te_page_mask e"
  "te_entry_hi (tlb_entry_derive e) = te_entry_hi e"
  "te_entry_lo (tlb_entry_derive e) = te_entry_lo e"
  by (simp_all add: tlb_entry_derive_def Let_def flip: vcmp_masks)

text \<open>Equal compare fields give equal page numbers in the low 32 bits.\<close>

lemma vpn_match_low32:
  assumes "va AND vcmp = hi AND vcmp" "\<And>n. k \<le> n \<Longrightarrow> n < 32 \<Longrightarrow> bit vcmp n"
  shows "unat (lo32 va) div 2 ^ k = unat (lo32 hi) div 2 ^ k"
proof -
  have *: "bit va n = bit hi n" if "k \<le> n" "n < 32" for n
  proof -
    have "bit (va AND vcmp) n = bit (hi AND vcmp) n" using assms(1) by simp
    then show ?thesis using assms(2) [OF that] by (simp add: bit_and_iff)
  qed
  have "shr (lo32 va) k = shr (lo32 hi) k"
    by (intro bit_word_eqI) (auto simp: bit_simps *)
  then have "unat (shr (lo32 va) k) = unat (shr (lo32 hi) k)" by simp
  then show ?thesis by (simp only: unat_drop_bit_div)
qed

lemma match_covers:
  assumes c: "contiguous_mask e" and d: "tlb_entry_derive e = e"
    and m: "shadow_match is64 va asid (shadow_from_entry e table)"
  shows "covers e (vmap_slot va)"
proof -
  from c obtain k where k: "te_page_mask e OR 0x1FFF = mask k" "13 \<le> k" "k < 33"
    by (auto simp: contiguous_mask_def list_ex_iff)
  let ?vcmp = "if is64 then te_vcmp64 e else te_vcmp32 e"
  have "va AND ?vcmp = te_entry_hi e AND ?vcmp"
    using m derived_fields(3,4) [of e] by (auto simp: shadow_match_def shadow_from_entry_def d Let_def)
  moreover have "bit ?vcmp n" if "k \<le> n" "n < 32" for n
    using that k derived_fields(1,2) [of e] by (auto simp: d k(1) bit_simps)
  ultimately have "unat (lo32 va) div 2 ^ k = unat (lo32 (te_entry_hi e)) div 2 ^ k"
    by (rule vpn_match_low32)
  moreover have "unat (lo32 va) div 2 ^ k = vmap_slot va div 2 ^ (k - 13)"
    unfolding vmap_slot_def unat_drop_bit_div
    using k(2) by (simp only: div_mult2_eq [symmetric] flip: power_add) simp
  ultimately show ?thesis
    using dividend_less_div_times [of "2 ^ (k - 13)" "vmap_slot va"]
      div_times_less_eq_dividend [of "vmap_slot va" "2 ^ (k - 13)"]
    by (simp add: covers_def vmap_range_contiguous [OF k] add.commute)
qed

end
