(* ===== verification/Tlb_Mru.thy ===== *)
theory Tlb_Mru
  imports Mips_Tlb
begin

text \<open>
  The most-recently-used lists of the TLB: linked lists threaded through an array of bytes refine
  HOL lists.  The walk ends, finds the first matching slot of the list, and promotion moves that slot
  to the front without losing or duplicating any other.
\<close>

text \<open>\<open>mru_seg nx cur xs fin\<close>: following \<open>nx\<close> from \<open>cur\<close> visits exactly \<open>xs\<close> and arrives at \<open>fin\<close>.\<close>

fun mru_seg :: "u8 list \<Rightarrow> u8 \<Rightarrow> nat list \<Rightarrow> u8 \<Rightarrow> bool" where
  "mru_seg nx cur [] fin \<longleftrightarrow> cur = fin"
| "mru_seg nx cur (x # xs) fin \<longleftrightarrow>
     cur = of_nat x \<and> x < length nx \<and> x < TLB_MAX_ENTRIES \<and> mru_seg nx (nx ! x) xs fin"

text \<open>List \<open>l\<close> of the TLB holds the slots \<open>xs\<close>, most recent first.\<close>

definition mru_list :: "mips_tlb \<Rightarrow> nat \<Rightarrow> nat list \<Rightarrow> bool" where
  "mru_list t l xs \<longleftrightarrow>
     l < length (mru_head t) \<and> l < length (mru_next t) \<and>
     length (mru_next t ! l) = TLB_MAX_ENTRIES \<and>
     mru_seg (mru_next t ! l) (mru_head t ! l) xs MRU_NONE"

text \<open>Every list is a permutation of the live slots.\<close>

definition mru_ok :: "mips_tlb \<Rightarrow> bool" where
  "mru_ok t \<longleftrightarrow>
     length (mru_head t) = MRU_LISTS \<and> length (mru_next t) = MRU_LISTS \<and>
     (\<forall>l < MRU_LISTS. \<exists>xs. mru_list t l xs \<and> distinct xs \<and> set xs = {..<num_entries t})"

lemma mru_tag:
  assumes "x < TLB_MAX_ENTRIES"
  shows "unat (of_nat x :: u8) = x" "(of_nat x :: u8) \<noteq> MRU_NONE"
proof -
  show "unat (of_nat x :: u8) = x"
    using assms by (simp add: TLB_MAX_ENTRIES_def unat_of_nat)
  then show "(of_nat x :: u8) \<noteq> MRU_NONE"
    using assms by (auto simp: TLB_MAX_ENTRIES_def MRU_NONE_def)
qed

lemma mru_seg_append:
  "mru_seg nx cur (xs @ ys) fin \<longleftrightarrow> (\<exists>m. mru_seg nx cur xs m \<and> mru_seg nx m ys fin)"
  by (induction xs arbitrary: cur) auto

lemma mru_seg_update:
  "i \<notin> set xs \<Longrightarrow> mru_seg (nx[i := v]) cur xs fin \<longleftrightarrow> mru_seg nx cur xs fin"
  by (induction xs arbitrary: cur) auto

lemma mru_seg_last:
  assumes "mru_seg nx cur (us @ [p]) fin" "p \<notin> set us"
  shows "mru_seg (nx[p := v]) cur (us @ [p]) v" "nx ! p = fin" "p < length nx" "p < TLB_MAX_ENTRIES"
  using assms by (auto simp: mru_seg_append mru_seg_update)

lemma mru_seg_bounds: "mru_seg nx cur xs fin \<Longrightarrow> x \<in> set xs \<Longrightarrow> x < length nx \<and> x < TLB_MAX_ENTRIES"
  by (induction xs arbitrary: cur) auto

section \<open>The walk\<close>

lemma mru_scan_miss:
  assumes "mru_seg nx cur xs MRU_NONE" "length sh = TLB_MAX_ENTRIES" "\<forall>x \<in> set xs. \<not> P (sh ! x)"
  shows "mru_scan P sh nx prev cur = Some None"
  using assms
proof (induction xs arbitrary: cur prev)
  case Nil
  then show ?case by (simp add: mru_scan.simps)
next
  case (Cons x xs)
  then show ?case
    by (subst mru_scan.simps) (simp add: mru_tag)
qed

lemma mru_scan_hit:
  assumes "mru_seg nx cur (ys @ x # zs) MRU_NONE" "length sh = TLB_MAX_ENTRIES"
    and "\<forall>y \<in> set ys. \<not> P (sh ! y)" "P (sh ! x)"
  shows "mru_scan P sh nx prev cur =
           Some (Some (of_nat x, if ys = [] then prev else of_nat (last ys)))"
  using assms
proof (induction ys arbitrary: cur prev)
  case Nil
  then show ?case by (subst mru_scan.simps) (simp add: mru_tag)
next
  case (Cons y ys)
  then show ?case by (subst mru_scan.simps) (simp add: mru_tag)
qed

text \<open>The walk of a well-formed list always returns, and it finds a match iff the list has one.\<close>

lemma mru_scan_total:
  assumes "mru_seg nx cur xs MRU_NONE" "length sh = TLB_MAX_ENTRIES"
  obtains "mru_scan P sh nx prev cur = Some None" "\<forall>x \<in> set xs. \<not> P (sh ! x)"
  | ys x zs where "xs = ys @ x # zs" "\<forall>y \<in> set ys. \<not> P (sh ! y)" "P (sh ! x)"
      "mru_scan P sh nx prev cur = Some (Some (of_nat x, if ys = [] then prev else of_nat (last ys)))"
proof (cases "\<exists>x \<in> set xs. P (sh ! x)")
  case False
  with assms show ?thesis by (auto intro: that(1) mru_scan_miss)
next
  case True
  then obtain ys x zs where "xs = ys @ x # zs" "\<forall>y \<in> set ys. \<not> P (sh ! y)" "P (sh ! x)"
    using split_list_first_prop [OF True] by blast
  with assms show ?thesis by (auto intro: that(2) mru_scan_hit)
qed

section \<open>Promotion\<close>

lemma mru_seg_promote:
  assumes seg: "mru_seg nx head (ys @ x # zs) MRU_NONE" and d: "distinct (ys @ x # zs)" and ne: "ys \<noteq> []"
  shows "mru_seg ((nx[last ys := nx ! x])[x := head]) (of_nat x) (x # ys @ zs) MRU_NONE"
proof -
  obtain us p where ys: "ys = us @ [p]" using ne by (metis append_butlast_last_id)
  from seg have x: "x < length nx" "x < TLB_MAX_ENTRIES" by (auto dest: mru_seg_bounds)
  from seg obtain m where m: "mru_seg nx head (us @ [p]) m" and rest: "mru_seg nx (nx ! x) zs MRU_NONE"
    by (auto simp: ys mru_seg_append)
  have "mru_seg (nx[p := nx ! x]) head (us @ [p]) (nx ! x)"
    by (rule mru_seg_last(1) [OF m]) (use d ys in auto)
  moreover have "mru_seg (nx[p := nx ! x]) (nx ! x) zs MRU_NONE"
    using rest d by (simp add: mru_seg_update ys)
  ultimately have "mru_seg (nx[p := nx ! x]) head (ys @ zs) MRU_NONE"
    by (auto simp: ys mru_seg_append)
  then have "mru_seg ((nx[p := nx ! x])[x := head]) head (ys @ zs) MRU_NONE"
    using d by (simp add: mru_seg_update)
  with x show ?thesis by (simp add: ys)
qed

lemma mru_promote_same [simp]:
  "entries (mru_promote l c p t) = entries t" "shadow (mru_promote l c p t) = shadow t"
  "num_entries (mru_promote l c p t) = num_entries t" "c_attr (mru_promote l c p t) = c_attr t"
  "vmap (mru_promote l c p t) = vmap t"
  "length (mru_head (mru_promote l c p t)) = length (mru_head t)"
  "length (mru_next (mru_promote l c p t)) = length (mru_next t)"
  by (simp_all add: mru_promote_def Let_def)

text \<open>Promotion is move-to-front on the abstract list and leaves the other lists alone.\<close>

lemma mru_promote_list:
  assumes l: "mru_list t l (ys @ x # zs)" and d: "distinct (ys @ x # zs)"
  shows "mru_list (mru_promote l (of_nat x) (if ys = [] then MRU_NONE else of_nat (last ys)) t) l (x # ys @ zs)"
proof (cases "ys = []")
  case True
  with l show ?thesis by (simp add: mru_promote_def)
next
  case False
  let ?nx = "mru_next t ! l"
  have seg: "mru_seg ?nx (mru_head t ! l) (ys @ x # zs) MRU_NONE"
    using l by (simp add: mru_list_def)
  have b: "last ys < TLB_MAX_ENTRIES" "x < TLB_MAX_ENTRIES"
    using mru_seg_bounds [OF seg, of "last ys"] mru_seg_bounds [OF seg, of x] False by simp_all
  have "mru_seg ((?nx[last ys := ?nx ! x])[x := mru_head t ! l]) (of_nat x) (x # ys @ zs) MRU_NONE"
    by (rule mru_seg_promote [OF seg d False])
  with l False show ?thesis
    by (simp add: mru_list_def mru_promote_def Let_def mru_tag b)
qed

lemma mru_promote_other:
  "l' \<noteq> l \<Longrightarrow> mru_list (mru_promote l c p t) l' xs \<longleftrightarrow> mru_list t l' xs"
  by (simp add: mru_list_def mru_promote_def Let_def)

lemma mru_promote_ok [inv_intros]:
  assumes ok: "mru_ok t" and l: "mru_list t l (ys @ x # zs)" and d: "distinct (ys @ x # zs)"
    and s: "set (ys @ x # zs) = {..<num_entries t}"
  shows "mru_ok (mru_promote l (of_nat x) (if ys = [] then MRU_NONE else of_nat (last ys)) t)"
    (is "mru_ok ?t'")
proof -
  have "\<exists>xs. mru_list ?t' l' xs \<and> distinct xs \<and> set xs = {..<num_entries ?t'}" if "l' < MRU_LISTS" for l'
  proof (cases "l' = l")
    case True
    have "distinct (x # ys @ zs)" "set (x # ys @ zs) = {..<num_entries ?t'}"
      using d s by auto
    then show ?thesis unfolding True using mru_promote_list [OF l d] by blast
  next
    case False
    with ok that show ?thesis by (simp add: mru_ok_def mru_promote_other)
  qed
  with ok show ?thesis by (simp add: mru_ok_def)
qed

section \<open>The canonical order\<close>

lemma fold_list_update:
  "length (fold (\<lambda>i xs. xs[i := f i]) [0..<m] xs) = length xs"
  "j < length xs \<Longrightarrow> fold (\<lambda>i xs. xs[i := f i]) [0..<m] xs ! j = (if j < m then f j else xs ! j)"
  by (induction m) (auto simp: nth_list_update less_Suc_eq)

lemma mru_seg_canonical:
  assumes "n \<le> length nx" "length nx \<le> TLB_MAX_ENTRIES" "i \<le> n"
    and "\<And>j. j + 1 < n \<Longrightarrow> nx ! j = of_nat (j + 1)" "\<And>j. j + 1 = n \<Longrightarrow> nx ! j = fin"
  shows "mru_seg nx (if i = n then fin else of_nat i) [i..<n] fin"
  using assms(3)
proof (induction rule: inc_induct)
  case base
  then show ?case by simp
next
  case (step i)
  then show ?case using assms
    by (cases "Suc i = n") (auto simp: upt_conv_Cons)
qed

lemma mru_canonical_length [simp]: "length (mru_canonical n nx) = length nx"
  by (simp add: mru_canonical_def fold_list_update)

lemma mru_canonical_list:
  assumes "1 < n" "n \<le> TLB_MAX_ENTRIES" "length nx = TLB_MAX_ENTRIES"
  shows "mru_seg ((mru_canonical n nx)[n - 1 := MRU_NONE]) 0 [0..<n] MRU_NONE"
proof -
  let ?nx = "(mru_canonical n nx)[n - 1 := MRU_NONE]"
  have len: "length ?nx = TLB_MAX_ENTRIES"
    by (simp add: mru_canonical_def fold_list_update assms)
  have "mru_seg ?nx (if 0 = n then MRU_NONE else of_nat 0) [0..<n] MRU_NONE"
  proof (rule mru_seg_canonical)
    show "?nx ! j = of_nat (j + 1)" if "j + 1 < n" for j
      using that assms by (simp add: mru_canonical_def fold_list_update less_diff_conv)
    show "?nx ! j = MRU_NONE" if "j + 1 = n" for j
      using that assms len by auto
  qed (use assms len in auto)
  with assms(1) show ?thesis by simp
qed

lemma mru_reset_ok [inv_intros]:
  assumes "length (mru_head t) = MRU_LISTS" "length (mru_next t) = MRU_LISTS"
    and "\<forall>l < MRU_LISTS. length (mru_next t ! l) = TLB_MAX_ENTRIES"
    and "1 < num_entries t" "num_entries t \<le> TLB_MAX_ENTRIES"
  shows "mru_ok (mru_reset t)" "l < MRU_LISTS \<Longrightarrow> mru_list (mru_reset t) l [0..<num_entries t]"
proof -
  show *: "mru_list (mru_reset t) l [0..<num_entries t]" if "l < MRU_LISTS" for l
    using that assms mru_canonical_list [of "num_entries t" "mru_next t ! l"]
    by (simp add: mru_list_def mru_reset_def mru_canonical_length)
  have "num_entries (mru_reset t) = num_entries t" by (simp add: mru_reset_def)
  then show "mru_ok (mru_reset t)"
    using * assms by (auto simp: mru_ok_def mru_reset_def atLeast0LessThan intro!: exI [of _ "[0..<num_entries t]"])
qed

end
