(* ===== verification/Tlb_Lookup.thy ===== *)
theory Tlb_Lookup
  imports Tlb_Vmap Tlb_Mru
begin

text \<open>
  The invariant of the TLB, that every operation keeps it, and that the \<open>vmap\<close> fast path with its
  MRU fallback computes the fully associative lookup over the live entries.
\<close>

section \<open>Specification of the lookup\<close>

definition matching :: "bool \<Rightarrow> mips_tlb \<Rightarrow> u64 \<Rightarrow> u8 \<Rightarrow> nat set" where
  "matching is64 t va asid = {i. i < num_entries t \<and> shadow_match is64 va asid (shadow t ! i)}"

text \<open>The outcomes the architecture allows: that of a matching entry, or a miss when none matches.\<close>

definition lookup_spec :: "bool \<Rightarrow> mips_tlb \<Rightarrow> u64 \<Rightarrow> u8 \<Rightarrow> access_type \<Rightarrow> tlb_result set" where
  "lookup_spec is64 t va asid at =
     (if matching is64 t va asid = {} then {TlbMiss (shr va 13)}
      else (\<lambda>i. shadow_outcome va at (shadow t ! i)) ` matching is64 t va asid)"

section \<open>Invariant\<close>

definition tlb_wf :: "mips_tlb \<Rightarrow> bool" where
  "tlb_wf t \<longleftrightarrow>
     length (entries t) = TLB_MAX_ENTRIES \<and> length (shadow t) = TLB_MAX_ENTRIES \<and>
     length (c_attr t) = 8 \<and> 1 < num_entries t \<and> num_entries t \<le> TLB_MAX_ENTRIES \<and> mru_ok t \<and>
     (\<forall>i < num_entries t. tlb_entry_derive (entries t ! i) = entries t ! i) \<and>
     (\<forall>i < num_entries t. shadow t ! i = shadow_from_entry (entries t ! i) (c_attr t) \<or>
                          shadow t ! i = shadow_invalid \<and> entries t ! i = tlb_entry_new) \<and>
     (\<forall>i < TLB_MAX_ENTRIES. num_entries t \<le> i \<longrightarrow> shadow t ! i = shadow_invalid)"

text \<open>No entry has been written since construction, power-on or a cache attribute table.\<close>

definition tlb_virgin :: "mips_tlb \<Rightarrow> bool" where
  "tlb_virgin t \<longleftrightarrow> (\<forall>i < num_entries t. entries t ! i = tlb_entry_new) \<and>
                    (\<forall>v < VMAP_SIZE. vmap t v = VMAP_MISS)"

definition tlb_inv :: "mips_tlb \<Rightarrow> bool" where
  "tlb_inv t \<longleftrightarrow> tlb_wf t \<and> (vmap_exact t \<or> tlb_virgin t)"

text \<open>The stronger state in which lookups are exact: the untouched entries of a TLB that was never
  written must not match anything.\<close>

definition tlb_settled :: "mips_tlb \<Rightarrow> bool" where
  "tlb_settled t \<longleftrightarrow> tlb_wf t \<and>
     (vmap_exact t \<or> tlb_virgin t \<and> (\<forall>i < num_entries t. shadow t ! i = shadow_invalid))"

text \<open>Every live entry has a contiguous page mask.\<close>

definition masks_ok :: "mips_tlb \<Rightarrow> bool" where
  "masks_ok t \<longleftrightarrow> (\<forall>i < num_entries t. contiguous_mask (entries t ! i))"

lemma tlb_settled_inv: "tlb_settled t \<Longrightarrow> tlb_inv t"
  by (auto simp: tlb_settled_def tlb_inv_def)

section \<open>Blank entries\<close>

lemma shadow_invalid_no_match [simp]: "\<not> shadow_match is64 va asid shadow_invalid"
  by (simp add: shadow_match_def shadow_invalid_def)

lemma trailing_ones_1FFF: "trailing_ones 0x1FFF = 13"
  by (simp add: trailing_ones_def upt_rec)

lemma tlb_entry_new_derived [simp]: "tlb_entry_derive tlb_entry_new = tlb_entry_new"
  by (simp add: tlb_entry_derive_def tlb_entry_new_def trailing_ones_1FFF)

lemma tlb_entry_derive_idem [simp]: "tlb_entry_derive (tlb_entry_derive e) = tlb_entry_derive e"
  by (simp add: tlb_entry_derive_def Let_def)

lemma covers_new [simp]: "covers tlb_entry_new v \<longleftrightarrow> v = 0"
  by (simp add: covers_def vmap_range_def tlb_entry_new_def Let_def)

lemma contiguous_mask_new [simp]: "contiguous_mask tlb_entry_new"
  by (simp add: contiguous_mask_def tlb_entry_new_def mask_eq_exp_minus_1 upt_rec)

lemma virgin_slot_rep:
  assumes "tlb_virgin t" "v < VMAP_SIZE" "v \<noteq> 0"
  shows "slot_rep (owners (entries t) (num_entries t) v) (vmap t v)"
  using assms by (auto simp: tlb_virgin_def owners_def slot_rep_def)

section \<open>Writing an entry\<close>

lemma tlb_write_fields:
  "num_entries (tlb_write index e t) = num_entries t"
  "c_attr (tlb_write index e t) = c_attr t"
  "mru_head (tlb_write index e t) = mru_head t"
  "mru_next (tlb_write index e t) = mru_next t"
  "entries (tlb_write index e t) =
     (if index < num_entries t then (entries t)[index := tlb_entry_derive e] else entries t)"
  "shadow (tlb_write index e t) =
     (if index < num_entries t then (shadow t)[index := shadow_from_entry (tlb_entry_derive e) (c_attr t)]
      else shadow t)"
  by (simp_all add: tlb_write_def Let_def)

lemma tlb_write_ignored [simp]: "\<not> index < num_entries t \<Longrightarrow> tlb_write index e t = t"
  by (simp add: tlb_write_def)

lemma mru_ok_cong:
  assumes "mru_ok t" "mru_head t' = mru_head t" "mru_next t' = mru_next t" "num_entries t' = num_entries t"
  shows "mru_ok t'"
  using assms by (simp add: mru_ok_def mru_list_def)

lemma tlb_write_wf [inv_intros]:
  assumes "tlb_wf t"
  shows "tlb_wf (tlb_write index e t)"
proof -
  have "mru_ok (tlb_write index e t)"
    by (rule mru_ok_cong [of t]) (use assms in \<open>simp_all add: tlb_wf_def tlb_write_fields\<close>)
  with assms show ?thesis
    by (auto simp: tlb_wf_def tlb_write_fields nth_list_update)
qed

lemma tlb_write_exact:
  assumes inv: "tlb_inv t" and i: "index < num_entries t"
  shows "vmap_exact (tlb_write index e t)"
  unfolding vmap_exact_def
proof (intro allI impI)
  fix v assume v: "v < VMAP_SIZE"
  have n: "num_entries t \<le> 64" "index < length (entries t)"
    using inv i by (auto simp: tlb_inv_def tlb_wf_def TLB_MAX_ENTRIES_def)
  have "slot_rep (owners (entries t) (num_entries t) v) (vmap t v)" if "\<not> covers (entries t ! index) v"
  proof (cases "vmap_exact t")
    case True
    with v show ?thesis by (simp add: vmap_exact_def)
  next
    case False
    with inv have *: "tlb_virgin t" by (simp add: tlb_inv_def)
    with that i have "v \<noteq> 0" by (auto simp: tlb_virgin_def)
    with * v show ?thesis by (rule virgin_slot_rep)
  qed
  from slot_rep_replace [OF n(1) i n(2) v this]
  show "slot_rep (owners (entries (tlb_write index e t)) (num_entries (tlb_write index e t)) v)
          (vmap (tlb_write index e t) v)"
    using i by (simp add: tlb_write_fields) (simp add: tlb_write_def Let_def)
qed

lemma tlb_write_inv [inv_intros]:
  assumes "tlb_inv t"
  shows "tlb_inv (tlb_write index e t)"
proof (cases "index < num_entries t")
  case True
  with assms show ?thesis by (auto simp: tlb_inv_def intro: tlb_write_wf tlb_write_exact [unfolded tlb_inv_def])
next
  case False
  with assms show ?thesis by simp
qed

lemma tlb_write_settled [inv_intros]:
  assumes "tlb_inv t" "index < num_entries t"
  shows "tlb_settled (tlb_write index e t)"
  using assms by (auto simp: tlb_settled_def tlb_inv_def intro: tlb_write_wf tlb_write_exact [unfolded tlb_inv_def])

lemma tlb_write_masks:
  assumes "masks_ok t" "contiguous_mask e" "tlb_wf t"
  shows "masks_ok (tlb_write index e t)"
  using assms by (auto simp: masks_ok_def tlb_write_fields nth_list_update contiguous_mask_def derived_fields tlb_wf_def)

section \<open>Construction, reset and attribute tables\<close>

lemma tlb_new_settled [inv_intros]:
  assumes "mips_tlb_new n = Some t"
  shows "tlb_settled t" "tlb_virgin t" "num_entries t = n" "masks_ok t"
proof -
  have n: "1 < n" "n \<le> TLB_MAX_ENTRIES"
    and t: "t = \<lparr>entries = replicate TLB_MAX_ENTRIES tlb_entry_new,
              shadow = replicate TLB_MAX_ENTRIES shadow_invalid,
              mru_head = replicate MRU_LISTS 0,
              mru_next = map (mru_canonical n) (replicate MRU_LISTS (replicate TLB_MAX_ENTRIES MRU_NONE)),
              num_entries = n, c_attr = DEFAULT_C_ATTR, vmap = (\<lambda>_. VMAP_MISS)\<rparr>"
    using assms by (auto simp: mips_tlb_new_def split: if_splits)
  let ?nx = "mru_canonical n (replicate TLB_MAX_ENTRIES MRU_NONE)"
  have "?nx[n - 1 := MRU_NONE] = ?nx"
    using n by (intro nth_equalityI) (auto simp: nth_list_update mru_canonical_def fold_list_update)
  then have "mru_seg ?nx 0 [0..<n] MRU_NONE"
    using mru_canonical_list [of n "replicate TLB_MAX_ENTRIES MRU_NONE"] n by simp
  then have l: "mru_list t l [0..<n]" if "l < MRU_LISTS" for l
    using that by (simp add: mru_list_def t)
  have "mru_ok t"
    unfolding mru_ok_def using l by (auto simp: t atLeast0LessThan intro!: exI [of _ "[0..<n]"])
  then have "tlb_wf t"
    using n by (simp add: tlb_wf_def t DEFAULT_C_ATTR_def)
  moreover show "tlb_virgin t" using n by (simp add: tlb_virgin_def t)
  ultimately show "tlb_settled t" using n by (simp add: tlb_settled_def t)
  show "num_entries t = n" by (simp add: t)
  show "masks_ok t" using n by (simp add: masks_ok_def t)
qed

lemma tlb_power_on_settled [inv_intros]:
  assumes "tlb_wf t"
  shows "tlb_settled (tlb_power_on t)" "masks_ok (tlb_power_on t)"
proof -
  let ?t = "t\<lparr>entries := replicate TLB_MAX_ENTRIES tlb_entry_new,
              shadow := replicate TLB_MAX_ENTRIES shadow_invalid\<rparr>"
  have "mru_ok t" using assms by (simp add: tlb_wf_def)
  then have "mru_ok (mru_reset ?t)"
    by (intro mru_reset_ok) (use assms in \<open>auto simp: mru_ok_def mru_list_def tlb_wf_def\<close>)
  then have "mru_ok (tlb_power_on t)"
    by (rule mru_ok_cong) (simp_all add: tlb_power_on_def)
  then have "tlb_wf (tlb_power_on t)"
    using assms by (simp add: tlb_wf_def) (simp add: tlb_power_on_def mru_reset_def)
  then show "tlb_settled (tlb_power_on t)" "masks_ok (tlb_power_on t)"
    using assms by (simp_all add: tlb_settled_def tlb_virgin_def tlb_power_on_def mru_reset_def masks_ok_def tlb_wf_def)
qed

lemma tlb_set_cache_attrs_inv [inv_intros]:
  assumes "tlb_inv t" "length table = 8"
  shows "tlb_inv (tlb_set_cache_attrs table t)"
proof -
  have f: "entries (tlb_set_cache_attrs table t) = entries t" "c_attr (tlb_set_cache_attrs table t) = table"
    "num_entries (tlb_set_cache_attrs table t) = num_entries t" "vmap (tlb_set_cache_attrs table t) = vmap t"
    "length (shadow (tlb_set_cache_attrs table t)) = length (shadow t)"
    by (simp_all add: tlb_set_cache_attrs_def fold_list_update)
  have s: "shadow (tlb_set_cache_attrs table t) ! i =
      (if i < num_entries t then shadow_from_entry (entries t ! i) table else shadow t ! i)"
    if "i < TLB_MAX_ENTRIES" for i
    using that assms by (simp add: tlb_set_cache_attrs_def fold_list_update tlb_inv_def tlb_wf_def)
  have "mru_ok (tlb_set_cache_attrs table t)"
    by (rule mru_ok_cong [of t]) (use assms in \<open>simp_all add: tlb_inv_def tlb_wf_def tlb_set_cache_attrs_def\<close>)
  then have "tlb_wf (tlb_set_cache_attrs table t)"
    using assms by (auto simp: tlb_wf_def tlb_inv_def f s)
  moreover have "vmap_exact (tlb_set_cache_attrs table t) = vmap_exact t"
    "tlb_virgin (tlb_set_cache_attrs table t) = tlb_virgin t"
    by (simp_all add: vmap_exact_def tlb_virgin_def f)
  ultimately show ?thesis using assms by (simp add: tlb_inv_def)
qed

section \<open>Translation\<close>

lemma vmap_slot_less: "vmap_slot va < VMAP_SIZE"
  using unat_drop_bit_less [of 13 "lo32 va"] by (simp add: vmap_slot_def VMAP_SIZE_def)

lemma matching_owner:
  assumes wf: "tlb_wf t" and m: "masks_ok t" and i: "i \<in> matching is64 t va asid"
  shows "i \<in> owners (entries t) (num_entries t) (vmap_slot va)"
proof -
  have lt: "i < num_entries t" and mt: "shadow_match is64 va asid (shadow t ! i)"
    using i by (auto simp: matching_def)
  then have "shadow t ! i \<noteq> shadow_invalid" by auto
  with wf lt have "shadow t ! i = shadow_from_entry (entries t ! i) (c_attr t)"
    and "tlb_entry_derive (entries t ! i) = entries t ! i"
    by (auto simp: tlb_wf_def)
  with m lt mt have "covers (entries t ! i) (vmap_slot va)"
    by (intro match_covers) (auto simp: masks_ok_def)
  with lt show ?thesis by (simp add: owners_def)
qed

lemma mru_unchanged: "\<exists>h n. t = t\<lparr>mru_head := h, mru_next := n\<rparr>"
  by (intro exI [of _ "mru_head t"] exI [of _ "mru_next t"]) simp

text \<open>The fallback scan over a well-formed TLB.\<close>

lemma mru_lookup_spec:
  assumes wf: "tlb_wf t"
  obtains r t' where "mru_lookup is64 t va asid at = Some (r, t')" "r \<in> lookup_spec is64 t va asid at"
    "mru_ok t'" "\<exists>h n. t' = t\<lparr>mru_head := h, mru_next := n\<rparr>"
proof -
  let ?l = "access_index at"
  let ?P = "shadow_match is64 va asid"
  have "?l < MRU_LISTS" by (cases at) (simp_all add: MRU_LISTS_def)
  with wf obtain xs where xs: "mru_list t ?l xs" "distinct xs" "set xs = {..<num_entries t}"
    by (auto simp: tlb_wf_def mru_ok_def)
  then have seg: "mru_seg (mru_next t ! ?l) (mru_head t ! ?l) xs MRU_NONE"
    by (simp add: mru_list_def)
  have len: "length (shadow t) = TLB_MAX_ENTRIES" using wf by (simp add: tlb_wf_def)
  from seg len show ?thesis
  proof (rule mru_scan_total [where P = ?P and prev = MRU_NONE])
    assume "mru_scan ?P (shadow t) (mru_next t ! ?l) MRU_NONE (mru_head t ! ?l) = Some None"
      and none: "\<forall>x \<in> set xs. \<not> ?P (shadow t ! x)"
    then have "mru_lookup is64 t va asid at = Some (TlbMiss (shr va 13), t)"
      by (simp add: mru_lookup_def Let_def)
    moreover have "matching is64 t va asid = {}"
      using none xs by (auto simp: matching_def)
    ultimately show ?thesis
      using wf by (intro that [of "TlbMiss (shr va 13)" t])
        (auto simp: lookup_spec_def tlb_wf_def intro: mru_unchanged)
  next
    fix ys x zs
    assume split: "xs = ys @ x # zs" and hit: "?P (shadow t ! x)"
      and scan: "mru_scan ?P (shadow t) (mru_next t ! ?l) MRU_NONE (mru_head t ! ?l) =
                 Some (Some (of_nat x, if ys = [] then MRU_NONE else of_nat (last ys)))"
    let ?t' = "mru_promote ?l (of_nat x) (if ys = [] then MRU_NONE else of_nat (last ys)) t"
    have x: "x < num_entries t" using xs(3) split by auto
    with wf have "x < TLB_MAX_ENTRIES" by (simp add: tlb_wf_def)
    then have "mru_lookup is64 t va asid at = Some (shadow_outcome va at (shadow t ! x), ?t')"
      using scan by (simp add: mru_lookup_def Let_def mru_tag)
    moreover have "x \<in> matching is64 t va asid"
      using x hit by (simp add: matching_def)
    moreover have "mru_ok ?t'"
      using wf xs by (intro mru_promote_ok [where zs = zs]) (auto simp: tlb_wf_def split)
    moreover have "\<exists>h n. ?t' = t\<lparr>mru_head := h, mru_next := n\<rparr>"
      by (cases t) (auto simp: mru_promote_def Let_def)
    ultimately show ?thesis
      by (intro that [of "shadow_outcome va at (shadow t ! x)" ?t']) (auto simp: lookup_spec_def)
  qed
qed

lemma tlb_settled_mru:
  assumes "tlb_settled t" "mru_ok (t\<lparr>mru_head := h, mru_next := n\<rparr>)"
  shows "tlb_settled (t\<lparr>mru_head := h, mru_next := n\<rparr>)"
  using assms by (simp add: tlb_settled_def tlb_wf_def vmap_exact_def tlb_virgin_def)

text \<open>The fast path is sound: a free slot or a sole owner that does not match is a definite miss.\<close>

lemma fast_path_miss:
  assumes s: "tlb_settled t" and m: "masks_ok t"
    and slot: "vmap t (vmap_slot va) = VMAP_MISS \<or>
      (\<exists>i. owners (entries t) (num_entries t) (vmap_slot va) = {i} \<and> \<not> shadow_match is64 va asid (shadow t ! i))"
  shows "matching is64 t va asid = {}"
proof -
  have sub: "matching is64 t va asid \<subseteq> owners (entries t) (num_entries t) (vmap_slot va)"
    using s m matching_owner by (auto simp: tlb_settled_def)
  show ?thesis
  proof (cases "vmap t (vmap_slot va) = VMAP_MISS")
    case False
    with slot sub show ?thesis by (auto simp: matching_def)
  next
    case True
    show ?thesis
    proof (cases "vmap_exact t")
      case False
      with s show ?thesis by (auto simp: tlb_settled_def matching_def)
    next
      case exact: True
      then have "slot_rep (owners (entries t) (num_entries t) (vmap_slot va)) VMAP_MISS"
        using True vmap_slot_less by (auto simp: vmap_exact_def dest: spec [of _ "vmap_slot va"])
      moreover have "i < 64" if "i \<in> owners (entries t) (num_entries t) (vmap_slot va)" for i
        using that s by (auto simp: owners_def tlb_settled_def tlb_wf_def TLB_MAX_ENTRIES_def)
      ultimately have "owners (entries t) (num_entries t) (vmap_slot va) = {}"
        unfolding slot_rep_def by (metis tag_not_miss singletonI)
      with sub show ?thesis by simp
    qed
  qed
qed

lemma tlb_translate_cases:
  assumes s: "tlb_settled t" and m: "masks_ok t"
  obtains r t' where "tlb_translate is64 t va asid at = Some (r, t')" "r \<in> lookup_spec is64 t va asid at"
    "tlb_settled t'" "\<exists>h n. t' = t\<lparr>mru_head := h, mru_next := n\<rparr>"
proof -
  let ?v = "vmap_slot va"
  have wf: "tlb_wf t" using s by (simp add: tlb_settled_def)
  have fold: "unat (shr (lo32 va) 13) = ?v" by (simp add: vmap_slot_def)
  have miss: "tlb_translate is64 t va asid at = Some (TlbMiss (shr va 13), t) \<Longrightarrow>
      matching is64 t va asid = {} \<Longrightarrow> ?thesis"
    using s by (intro that) (auto simp: lookup_spec_def intro: mru_unchanged)
  show ?thesis
  proof (cases "vmap t ?v = VMAP_MISS")
    case True
    then have "tlb_translate is64 t va asid at = Some (TlbMiss (shr va 13), t)"
      by (simp add: tlb_translate_def fold)
    then show ?thesis using True s m by (intro miss fast_path_miss) auto
  next
    case False
    with s have "vmap_exact t"
      using vmap_slot_less by (auto simp: tlb_settled_def tlb_virgin_def)
    with False obtain i multi where
      rep: "i \<in> owners (entries t) (num_entries t) ?v"
        "vmap t ?v = (if multi then of_nat i OR VMAP_MULTI else of_nat i)"
        "\<not> multi \<longrightarrow> owners (entries t) (num_entries t) ?v = {i}"
      using vmap_slot_less [of va] unfolding vmap_exact_def slot_rep_def
      by (metis (mono_tags) singletonI)
    then have i: "i < num_entries t" "i < 64" "i < length (shadow t)"
      using wf by (auto simp: owners_def tlb_wf_def TLB_MAX_ENTRIES_def)
    let ?s = "shadow t ! i"
    have tr: "tlb_translate is64 t va asid at =
      (if shadow_match is64 va asid ?s then Some (shadow_outcome va at ?s, t)
       else if \<not> multi then Some (TlbMiss (shr va 13), t)
       else mru_lookup is64 t va asid at)"
      using i(2,3) by (cases multi)
        (simp_all add: tlb_translate_def fold rep(2) tag_index tag_multi tag_not_miss multi_nonzero)
    consider "shadow_match is64 va asid ?s" | "\<not> shadow_match is64 va asid ?s" "\<not> multi"
      | "\<not> shadow_match is64 va asid ?s" multi by blast
    then show ?thesis
    proof cases
      case 1
      then have "i \<in> matching is64 t va asid" using i by (simp add: matching_def)
      then show ?thesis using 1 tr s by (intro that) (auto simp: lookup_spec_def intro: mru_unchanged)
    next
      case 2
      then show ?thesis using tr rep(3) s m by (intro miss fast_path_miss) auto
    next
      case 3
      obtain r t' where "mru_lookup is64 t va asid at = Some (r, t')" "r \<in> lookup_spec is64 t va asid at"
        "mru_ok t'" "\<exists>h n. t' = t\<lparr>mru_head := h, mru_next := n\<rparr>"
        by (rule mru_lookup_spec [OF wf])
      with 3 tr s show ?thesis by (intro that) (auto intro: tlb_settled_mru)
    qed
  qed
qed

end
