(* ===== verification/Tlb_Contract.thy ===== *)
theory Tlb_Contract
  imports Tlb_Lookup
begin

text \<open>
  The contract of the \<^verbatim>\<open>Tlb\<close> trait (\<^verbatim>\<open>src/src/cpu/mips_tlb.rs\<close>) as a locale, its two providers
  (\<open>MipsTlb\<close> and \<open>PassthroughTlb\<close>) as interpretations, the reachable states of the TLB, and the
  properties of the component.
\<close>

section \<open>The passthrough TLB\<close>

record passthrough_tlb =
  max_identity_addr :: u64

definition passthrough_default :: passthrough_tlb where
  "passthrough_default = \<lparr>max_identity_addr = 0x20000000\<rparr>"

definition passthrough_result :: "passthrough_tlb \<Rightarrow> u64 \<Rightarrow> tlb_result" where
  "passthrough_result p va =
     (if va < max_identity_addr p then TlbHit (va AND 0x1FFFFFFF) Uncached True True
      else TlbMiss (shr va 13))"

definition passthrough_translate ::
    "bool \<Rightarrow> passthrough_tlb \<Rightarrow> u64 \<Rightarrow> u8 \<Rightarrow> access_type \<Rightarrow> (tlb_result \<times> passthrough_tlb) option" where
  "passthrough_translate is64 p va asid at = Some (passthrough_result p va, p)"

definition passthrough_probe :: "passthrough_tlb \<Rightarrow> u64 \<Rightarrow> u8 \<Rightarrow> bool \<Rightarrow> u32" where
  "passthrough_probe p va asid is64 = 0x80000000"

section \<open>Contract of the trait\<close>

text \<open>
  \<open>spec\<close> is the set of results the architecture allows for a lookup.  A lookup returns one of them
  and may only change state that no lookup can observe; only a write hit needs the dirty bit.
\<close>

locale tlb_contract =
  fixes inv :: "'t \<Rightarrow> bool"
    and tr :: "bool \<Rightarrow> 't \<Rightarrow> u64 \<Rightarrow> u8 \<Rightarrow> access_type \<Rightarrow> (tlb_result \<times> 't) option"
    and spec :: "bool \<Rightarrow> 't \<Rightarrow> u64 \<Rightarrow> u8 \<Rightarrow> access_type \<Rightarrow> tlb_result set"
  assumes tr_spec: "inv t \<Longrightarrow>
      \<exists>r t'. tr is64 t va asid at = Some (r, t') \<and> r \<in> spec is64 t va asid at \<and>
             inv t' \<and> (\<forall>is64 va asid at. spec is64 t' va asid at = spec is64 t va asid at)"
    and spec_write: "inv t \<Longrightarrow> TlbHit p ca d g \<in> spec is64 t va asid Write \<Longrightarrow> d"
    and spec_vpn2: "inv t \<Longrightarrow> r \<in> spec is64 t va asid at \<Longrightarrow>
      r = TlbMiss w \<or> r = TlbInvalid w \<or> r = TlbModified w \<Longrightarrow> w = shr va 13"
begin

text \<open>A run of lookups, as the executor issues them, results in order.\<close>

fun tr_run :: "'t \<Rightarrow> (bool \<times> u64 \<times> u8 \<times> access_type) list \<Rightarrow> (tlb_result list \<times> 't) option" where
  "tr_run t [] = Some ([], t)"
| "tr_run t ((is64, va, asid, at) # qs) =
     (case tr is64 t va asid at of
        None \<Rightarrow> None
      | Some (r, t') \<Rightarrow> (case tr_run t' qs of None \<Rightarrow> None | Some (rs, t'') \<Rightarrow> Some (r # rs, t'')))"

lemma tr_run_spec:
  assumes "inv t"
  shows "\<exists>rs t'. tr_run t qs = Some (rs, t') \<and> inv t' \<and>
    (\<forall>is64 va asid at. spec is64 t' va asid at = spec is64 t va asid at) \<and>
    list_all2 (\<lambda>r (is64, va, asid, at). r \<in> spec is64 t va asid at) rs qs"
  using assms
proof (induction qs arbitrary: t)
  case Nil
  then show ?case by simp
next
  case (Cons q qs)
  obtain is64 va asid at where q: "q = (is64, va, asid, at)" by (cases q)
  obtain r t1 where 1: "tr is64 t va asid at = Some (r, t1)" "r \<in> spec is64 t va asid at" "inv t1"
      "\<forall>is64 va asid at. spec is64 t1 va asid at = spec is64 t va asid at"
    using tr_spec [OF Cons.prems] by blast
  with Cons.IH [of t1] show ?case by (auto simp: q)
qed

text \<open>Where the architecture allows one result only, no history of lookups changes it.\<close>

lemma tr_stable:
  assumes "inv t" "spec is64 t va asid at = {r}" "tr_run t qs = Some (rs, t')"
  shows "\<exists>t''. tr is64 t' va asid at = Some (r, t'')"
proof -
  have "inv t'" "spec is64 t' va asid at = {r}"
    using tr_run_spec [OF assms(1), of qs] assms(2,3) by auto
  with tr_spec [of t' is64 va asid at] show ?thesis by auto
qed

end

definition tlb_ready :: "mips_tlb \<Rightarrow> bool" where
  "tlb_ready t \<longleftrightarrow> tlb_settled t \<and> masks_ok t"

lemma matching_mru [simp]:
  "matching is64 (t\<lparr>mru_head := h, mru_next := n\<rparr>) va asid = matching is64 t va asid"
  by (simp add: matching_def)

lemma lookup_spec_mru [simp]:
  "lookup_spec is64 (t\<lparr>mru_head := h, mru_next := n\<rparr>) va asid at = lookup_spec is64 t va asid at"
  by (simp add: lookup_spec_def)

lemma tlb_translate_ready:
  assumes "tlb_ready t"
  obtains r t' where "tlb_translate is64 t va asid at = Some (r, t')" "r \<in> lookup_spec is64 t va asid at"
    "tlb_ready t'" "\<exists>h n. t' = t\<lparr>mru_head := h, mru_next := n\<rparr>"
proof -
  obtain r t' where *: "tlb_translate is64 t va asid at = Some (r, t')"
    "r \<in> lookup_spec is64 t va asid at" "tlb_settled t'" and
    t': "\<exists>h n. t' = t\<lparr>mru_head := h, mru_next := n\<rparr>"
    by (rule tlb_translate_cases [of t is64 va asid at]) (use assms in \<open>auto simp: tlb_ready_def\<close>)
  moreover from assms t' have "masks_ok t'" by (auto simp: tlb_ready_def masks_ok_def)
  ultimately show ?thesis by (intro that) (simp_all add: tlb_ready_def)
qed

interpretation jtlb: tlb_contract tlb_ready tlb_translate lookup_spec
proof (unfold_locales, goal_cases)
  case (1 t is64 va asid at)
  then show ?case by (rule tlb_translate_ready [of t is64 va asid at]) auto
next
  case (2 t p ca d g is64 va asid)
  then show ?case by (auto simp: lookup_spec_def shadow_outcome_def Let_def split: if_splits)
next
  case (3 t r is64 va asid at w)
  then show ?case by (auto simp: lookup_spec_def shadow_outcome_def Let_def split: if_splits)
qed

interpretation ptlb: tlb_contract "\<lambda>_. True" passthrough_translate
  "\<lambda>is64 p va asid at. {passthrough_result p va}"
  by unfold_locales (auto simp: passthrough_translate_def passthrough_result_def split: if_splits)

section \<open>Reachable states\<close>

text \<open>The states the executor drives the TLB through: construction, a cache attribute table, entry
  writes, lookups and power-on, in any order.\<close>

inductive tlb_reach :: "mips_tlb \<Rightarrow> bool" where
  reach_new: "mips_tlb_new n = Some t \<Longrightarrow> tlb_reach t"
| reach_attrs: "tlb_reach t \<Longrightarrow> length table = 8 \<Longrightarrow> tlb_reach (tlb_set_cache_attrs table t)"
| reach_write: "tlb_reach t \<Longrightarrow> tlb_reach (tlb_write i e t)"
| reach_translate: "tlb_reach t \<Longrightarrow> tlb_translate is64 t va asid at = Some (r, t') \<Longrightarrow> tlb_reach t'"
| reach_power_on: "tlb_reach t \<Longrightarrow> tlb_reach (tlb_power_on t)"

lemma mru_lookup_keeps:
  assumes "tlb_inv t" "mru_lookup is64 t va asid at = Some (r, t')"
  shows "tlb_inv t'"
proof -
  have wf: "tlb_wf t" using assms(1) by (simp add: tlb_inv_def)
  obtain h n where "mru_ok t'" "t' = t\<lparr>mru_head := h, mru_next := n\<rparr>"
    by (rule mru_lookup_spec [OF wf, of is64 va asid at]) (use assms(2) in auto)
  with assms(1) show ?thesis
    by (simp add: tlb_inv_def tlb_wf_def vmap_exact_def tlb_virgin_def)
qed

lemma tlb_translate_keeps [inv_intros]:
  assumes "tlb_inv t" "tlb_translate is64 t va asid at = Some (r, t')"
  shows "tlb_inv t'"
  using assms mru_lookup_keeps
  by (auto simp: tlb_translate_def Let_def split: if_splits option.splits)

lemma tlb_reach_inv: "tlb_reach t \<Longrightarrow> tlb_inv t"
proof (induction rule: tlb_reach.induct)
  case (reach_new n t)
  then show ?case by (auto intro: tlb_settled_inv tlb_new_settled)
next
  case (reach_power_on t)
  then have "tlb_wf t" by (simp add: tlb_inv_def)
  then show ?case by (intro tlb_settled_inv tlb_power_on_settled)
qed (auto intro: inv_intros)

text \<open>In every such state, whatever the page masks, a lookup returns, and what it finds is the
  outcome of an entry that matches.\<close>

lemma tlb_translate_sound:
  assumes inv: "tlb_inv t"
  obtains r t' where "tlb_translate is64 t va asid at = Some (r, t')"
    "r = TlbMiss (shr va 13) \<or> (\<exists>i \<in> matching is64 t va asid. r = shadow_outcome va at (shadow t ! i))"
proof -
  let ?v = "vmap_slot va"
  have wf: "tlb_wf t" using inv by (simp add: tlb_inv_def)
  have fold: "unat (shr (lo32 va) 13) = ?v" by (simp add: vmap_slot_def)
  show ?thesis
  proof (cases "vmap t ?v = VMAP_MISS")
    case True
    then show ?thesis by (intro that [of "TlbMiss (shr va 13)" t]) (simp_all add: tlb_translate_def fold)
  next
    case False
    with inv have "vmap_exact t" using vmap_slot_less by (auto simp: tlb_inv_def tlb_virgin_def)
    with False obtain i multi where
      rep: "i \<in> owners (entries t) (num_entries t) ?v"
        "vmap t ?v = (if multi then of_nat i OR VMAP_MULTI else of_nat i)"
      using vmap_slot_less [of va] unfolding vmap_exact_def slot_rep_def
      by (metis (mono_tags) singletonI)
    then have i: "i < num_entries t" "i < 64" "i < length (shadow t)"
      using wf by (auto simp: owners_def tlb_wf_def TLB_MAX_ENTRIES_def)
    let ?s = "shadow t ! i"
    have tr: "tlb_translate is64 t va asid at =
      (if shadow_match is64 va asid ?s then Some (shadow_outcome va at ?s, t)
       else if \<not> multi then Some (TlbMiss (shr va 13), t)
       else mru_lookup is64 t va asid at)"
      using i(2,3) by (cases multi)
        (simp_all add: tlb_translate_def fold rep(2) tag_index tag_multi tag_not_miss multi_nonzero)
    obtain r t' where "mru_lookup is64 t va asid at = Some (r, t')" "r \<in> lookup_spec is64 t va asid at"
      by (rule mru_lookup_spec [OF wf])
    with tr i that show ?thesis
      by (auto simp: lookup_spec_def matching_def split: if_splits)
  qed
qed

end
