(* ===== verification/Tlb_Properties.thy ===== *)
theory Tlb_Properties
  imports Tlb_Contract
begin

text \<open>
  The correctness properties of the TLB: translation against the fully associative lookup, the
  register-level meaning of an outcome, the \<open>vmap\<close> index, independence of the lookup history, entry
  read-back, and the states in which the fast path and the other lookups disagree.
\<close>

section \<open>Lemmas behind the properties\<close>



lemma matching_set:
  assumes "tlb_wf t"
  shows "set (filter (\<lambda>i. shadow_match is64 va asid (shadow t ! i)) [0..<length (shadow t)]) = matching is64 t va asid"
proof -
  have "i < num_entries t" if "i < TLB_MAX_ENTRIES" "shadow_match is64 va asid (shadow t ! i)" for i
  proof (rule ccontr)
    assume "\<not> i < num_entries t"
    with assms that(1) have "shadow t ! i = shadow_invalid" by (simp add: tlb_wf_def)
    with that(2) show False by simp
  qed
  with assms show ?thesis by (auto simp: matching_def tlb_wf_def)
qed

lemma find_first_filter: "find P xs = (case filter P xs of [] \<Rightarrow> None | x # _ \<Rightarrow> Some x)"
  by (induction xs) auto

text \<open>A probe returns the least matching slot, or the probe-failure bit.\<close>

lemma tlb_probe_spec:
  assumes "tlb_wf t"
  shows "tlb_probe t va asid is64 =
    (if matching is64 t va asid = {} then 0x80000000 else of_nat (Min (matching is64 t va asid)))"
proof -
  let ?ms = "filter (\<lambda>i. shadow_match is64 va asid (shadow t ! i)) [0..<length (shadow t)]"
  note ms = matching_set [OF assms, of is64 va asid]
  have "sorted ?ms" by (simp add: sorted_filter [where f = id, simplified])
  then have "?ms = x # xs \<Longrightarrow> Min (set ?ms) = x" for x xs
    by (auto intro: Min_eqI)
  then show ?thesis
    unfolding tlb_probe_def find_first_filter
    by (cases ?ms) (auto simp: ms [symmetric] simp del: set_filter)
qed

lemma trailing_ones_mask:
  assumes "k \<le> 64"
  shows "trailing_ones (mask k) = k"
proof -
  have "[0..<64] = [0..<k] @ [k..<64]" using assms upt_add_eq_append [of 0 k "64 - k"] by simp
  moreover have "takeWhile (\<lambda>i. bit (mask k :: u64) i) ([0..<k] @ [k..<64]) = [0..<k]"
  proof -
    have "takeWhile (\<lambda>i. bit (mask k :: u64) i) [k..<64] = []"
      by (cases "k < 64") (auto simp: upt_conv_Cons bit_simps)
    moreover have "bit (mask k :: u64) i" if "i \<in> set [0..<k]" for i
      using that assms by (simp add: bit_simps)
    ultimately show ?thesis by (subst takeWhile_append2) simp_all
  qed
  ultimately show ?thesis by (simp add: trailing_ones_def)
qed

lemma derived_page_fields:
  assumes "te_page_mask e OR 0x1FFF = mask k" "13 \<le> k" "k \<le> 64"
  shows "te_selector_bit_shift (tlb_entry_derive e) = k - 1"
    "te_offset_mask (tlb_entry_derive e) = mask (k - 1)"
    "te_pfn_base (tlb_entry_derive e) =
       (shl (fst (te_entry_lo e)) 6 AND (push_bit 12 (mask 40) AND NOT (mask (k - 1))),
        shl (snd (te_entry_lo e)) 6 AND (push_bit 12 (mask 40) AND NOT (mask (k - 1))))"
proof -
  have "(0xFFFFFFFFFF000 :: u64) = push_bit 12 (mask 40)" by (simp add: mask_eq_exp_minus_1)
  moreover have "shl 1 (k - 1) - 1 = (mask (k - 1) :: u64)" by (simp add: mask_eq_exp_minus_1)
  ultimately show "te_selector_bit_shift (tlb_entry_derive e) = k - 1"
    "te_offset_mask (tlb_entry_derive e) = mask (k - 1)"
    "te_pfn_base (tlb_entry_derive e) =
       (shl (fst (te_entry_lo e)) 6 AND (push_bit 12 (mask 40) AND NOT (mask (k - 1))),
        shl (snd (te_entry_lo e)) 6 AND (push_bit 12 (mask 40) AND NOT (mask (k - 1))))"
    using assms(3) by (simp_all only: tlb_entry_derive_def Let_def assms(1) trailing_ones_mask) simp_all
qed

lemma frame_offset:
  fixes lo va :: u64
  assumes "12 \<le> j"
  defines "p \<equiv> (shl lo 6 AND (push_bit 12 (mask 40) AND NOT (mask j))) OR (va AND mask j)"
  shows "take_bit j p = take_bit j va" "shr p j = shr (take_bit 52 (shl lo 6)) j"
  using assms(1) unfolding p_def by (auto intro!: bit_word_eqI simp: bit_simps)

lemma valid_dirty_bits:
  "valid_dirty_of lo AND 1 = 0 \<longleftrightarrow> \<not> bit lo 1" "valid_dirty_of lo AND 2 = 0 \<longleftrightarrow> \<not> bit lo 2"
proof -
  have "lo AND 2 = 0 \<longleftrightarrow> \<not> bit lo 1" "lo AND 4 = 0 \<longleftrightarrow> \<not> bit lo 2"
    using and_eq_0_iff_not_bit [of 1 lo] and_eq_0_iff_not_bit [of 2 lo] by simp_all
  then show "valid_dirty_of lo AND 1 = 0 \<longleftrightarrow> \<not> bit lo 1" "valid_dirty_of lo AND 2 = 0 \<longleftrightarrow> \<not> bit lo 2"
    by (auto simp: valid_dirty_of_def)
qed

lemma at2_map: "at2 (f (fst p), f (snd p)) i = f (at2 p i)"
  by (simp add: at2_def)

text \<open>The outcome of an entry with page size \<open>2 ^ (k - 1)\<close>, read off the architectural registers.\<close>

lemma shadow_outcome_arch:
  fixes va :: u64
  assumes "te_page_mask e OR 0x1FFF = mask k" "13 \<le> k" "k \<le> 64"
  defines "lo \<equiv> at2 (te_entry_lo e) (unat (shr va (k - 1) AND 1))"
  shows "shadow_outcome va at (shadow_from_entry (tlb_entry_derive e) table) =
    (if \<not> bit lo 1 then TlbInvalid (shr va 13)
     else if at = Write \<and> \<not> bit lo 2 then TlbModified (shr va 13)
     else TlbHit ((shl lo 6 AND (push_bit 12 (mask 40) AND NOT (mask (k - 1)))) OR (va AND mask (k - 1)))
            (table ! unat (shr lo 3 AND 7)) (bit lo 2) (is_global e))"
proof -
  have g: "is_global (tlb_entry_derive e) = is_global e" by (simp add: is_global_def derived_fields)
  show ?thesis
    unfolding shadow_outcome_def shadow_from_entry_def shadow_entry.simps Let_def
      derived_page_fields [OF assms(1-3)] derived_fields at2_map g c_field_attr_def
      at2_map [of valid_dirty_of] at2_map [of "\<lambda>lo. table ! unat (shr lo 3 AND 7)"]
      at2_map [of "\<lambda>lo. shl lo 6 AND (push_bit 12 (mask 40) AND NOT (mask (k - 1)))"]
    by (simp add: valid_dirty_bits lo_def)
qed

text \<open>Once exact, the \<open>vmap\<close> stays exact.\<close>

lemma writes_keep_exact:
  "tlb_inv t \<Longrightarrow> vmap_exact t \<Longrightarrow> vmap_exact (fold (\<lambda>(i, e). tlb_write i e) ws t)"
proof (induction ws arbitrary: t)
  case (Cons w ws)
  have "vmap_exact (tlb_write (fst w) (snd w) t)"
    using Cons.prems by (cases "fst w < num_entries t") (auto intro: tlb_write_exact)
  with Cons show ?case by (auto simp: case_prod_beta intro: tlb_write_inv)
qed simp

section \<open>A concrete TLB\<close>

text \<open>A 48-entry TLB whose slot 5 maps the page pair at \<open>0x00400000\<close> for ASID 7: the even page is
  valid and dirty, the odd page valid and clean.\<close>

definition demo_entry :: tlb_entry where
  "demo_entry = tlb_entry_new\<lparr>te_entry_hi := 0x00400007, te_entry_lo := (0x48D1E, 0x48D5A)\<rparr>"

definition demo_tlb :: mips_tlb where
  "demo_tlb = tlb_write 5 demo_entry (the (mips_tlb_new 48))"

lemma demo_new: "mips_tlb_new 48 = Some (the (mips_tlb_new 48))"
  by (simp add: mips_tlb_new_def TLB_MAX_ENTRIES_def)

lemma demo_ready: "tlb_ready demo_tlb"
proof -
  note new = tlb_new_settled [OF demo_new]
  have "contiguous_mask demo_entry" using contiguous_mask_new by (simp add: contiguous_mask_def demo_entry_def)
  moreover have "tlb_settled demo_tlb"
    unfolding demo_tlb_def by (rule tlb_write_settled) (use new in \<open>auto intro: tlb_settled_inv\<close>)
  ultimately show ?thesis
    using new by (auto simp: tlb_ready_def demo_tlb_def tlb_settled_def intro!: tlb_write_masks)
qed

lemma demo_shadow_entry:
  "shadow_from_entry (tlb_entry_derive demo_entry) DEFAULT_C_ATTR = \<lparr>
     se_vcmp32 = 0xFFFFE000, se_vpn_hi32 = 0x00400000, se_vcmp64 = 0xC00000FFFFFFE000, se_vpn_hi64 = 0x00400000,
     se_pfn_base = (0x1234000, 0x1235000), se_offset_mask = 0xFFF, se_valid_dirty = (3, 1),
     se_cache_attr = (Cacheable, Cacheable), se_asid = 7, se_global = False, se_selector_bit_shift = 12\<rparr>"
  by (simp add: tlb_entry_derive_def demo_entry_def tlb_entry_new_def trailing_ones_1FFF shadow_from_entry_def
      valid_dirty_of_def c_field_attr_def DEFAULT_C_ATTR_def is_global_def entry_asid_def)

lemma demo_shadow:
  "shadow demo_tlb = (replicate 64 shadow_invalid)[5 := shadow_from_entry (tlb_entry_derive demo_entry) DEFAULT_C_ATTR]"
  "num_entries demo_tlb = 48"
  by (simp_all add: demo_tlb_def tlb_write_fields mips_tlb_new_def TLB_MAX_ENTRIES_def)

lemma demo_matching: "matching False demo_tlb 0x00400123 7 = {5}"
proof -
  have "shadow_match False 0x00400123 7 (shadow_from_entry (tlb_entry_derive demo_entry) DEFAULT_C_ATTR)"
    by (simp add: shadow_match_def demo_shadow_entry)
  then show ?thesis by (auto simp: matching_def demo_shadow nth_list_update split: if_splits)
qed

lemma demo_outcome:
  "shadow_outcome 0x00400123 Read (shadow demo_tlb ! 5) = TlbHit 0x1234123 Cacheable True False"
  by (simp add: shadow_outcome_def demo_shadow demo_shadow_entry)

section \<open>Properties\<close>

text \<open>
  \<^bold>\<open>C1\<close>. For every well-formed TLB whose entries have contiguous page masks, \<open>translate\<close> returns
  (it neither panics nor loops) one of the results of the fully associative lookup over all live
  entries, in both addressing modes and for every access type, and it changes nothing but the order of
  one MRU list.
\<close>

theorem tlb_translate_correct:
  assumes "tlb_settled t" "masks_ok t"
  shows "\<exists>r h n. tlb_translate is64 t va asid at = Some (r, t\<lparr>mru_head := h, mru_next := n\<rparr>) \<and>
           r \<in> lookup_spec is64 t va asid at \<and> tlb_settled (t\<lparr>mru_head := h, mru_next := n\<rparr>)"
  by (rule tlb_translate_cases [OF assms, of is64 va asid at]) auto

theorem tlb_translate_correct_witness:
  "tlb_settled demo_tlb \<and> masks_ok demo_tlb \<and>
   (\<exists>r h n. tlb_translate False demo_tlb 0x00400123 7 Read = Some (r, demo_tlb\<lparr>mru_head := h, mru_next := n\<rparr>) \<and>
      r \<in> lookup_spec False demo_tlb 0x00400123 7 Read \<and> tlb_settled (demo_tlb\<lparr>mru_head := h, mru_next := n\<rparr>))"
  using tlb_translate_correct [of demo_tlb False "0x00400123" 7 Read] demo_ready
  by (simp add: tlb_ready_def)

text \<open>
  \<^bold>\<open>C2\<close>. When exactly one live entry matches (the state IRIX keeps the TLB in), translation gives
  that entry's outcome and \<open>probe\<close> returns its index; when none matches both report a miss.
\<close>

theorem tlb_translate_unique:
  assumes "tlb_ready t" "matching is64 t va asid = M" "M = {i} \<or> M = {}"
  shows "map_option fst (tlb_translate is64 t va asid at) =
           Some (if M = {} then TlbMiss (shr va 13) else shadow_outcome va at (shadow t ! i)) \<and>
         tlb_probe t va asid is64 = (if M = {} then 0x80000000 else of_nat i)"
proof -
  have "tlb_wf t" using assms(1) by (simp add: tlb_ready_def tlb_settled_def)
  then have "tlb_probe t va asid is64 = (if M = {} then 0x80000000 else of_nat i)"
    using assms(2,3) by (auto simp: tlb_probe_spec)
  moreover obtain r t' where "tlb_translate is64 t va asid at = Some (r, t')"
    "r \<in> lookup_spec is64 t va asid at"
    by (rule tlb_translate_ready [OF assms(1)])
  ultimately show ?thesis using assms(2,3) by (auto simp: lookup_spec_def)
qed

theorem tlb_translate_unique_witness:
  "map_option fst (tlb_translate False demo_tlb 0x00400123 7 Read) = Some (TlbHit 0x1234123 Cacheable True False) \<and>
   tlb_probe demo_tlb 0x00400123 7 False = 5"
  using tlb_translate_unique [of demo_tlb False "0x00400123" 7 "{5}" 5 Read] demo_ready demo_matching
  by (simp add: demo_outcome)

text \<open>
  \<^bold>\<open>C3\<close>. What a match means at the level of the CP0 registers an entry was written from: for the page
  size \<open>2 ^ (k - 1)\<close> selected by PageMask, EntryLo0 or EntryLo1 is chosen by bit \<open>k - 1\<close> of the address;
  V = 0 is Invalid, a store with D = 0 is Modified, and otherwise the physical address has the page
  offset of the virtual one and the frame number of EntryLo.
\<close>

theorem tlb_outcome_architectural:
  assumes "te_page_mask e OR 0x1FFF = mask k" "13 \<le> k" "k \<le> 64"
    and "lo = at2 (te_entry_lo e) (unat (shr va (k - 1) AND 1))"
    and "shadow_outcome va at (shadow_from_entry (tlb_entry_derive e) table) = r"
  shows "(\<not> bit lo 1 \<longrightarrow> r = TlbInvalid (shr va 13)) \<and>
    (bit lo 1 \<and> at = Write \<and> \<not> bit lo 2 \<longrightarrow> r = TlbModified (shr va 13)) \<and>
    (bit lo 1 \<and> (at = Write \<longrightarrow> bit lo 2) \<longrightarrow>
      (\<exists>p. r = TlbHit p (table ! unat (shr lo 3 AND 7)) (bit lo 2) (is_global e) \<and>
           take_bit (k - 1) p = take_bit (k - 1) va \<and>
           shr p (k - 1) = shr (take_bit 52 (shl lo 6)) (k - 1)))"
  using shadow_outcome_arch [OF assms(1-3), of va at table] frame_offset [of "k - 1" lo va] assms(2,4,5)
  by auto

theorem tlb_outcome_architectural_witness:
  "shadow_outcome 0x00401123 Write (shadow_from_entry (tlb_entry_derive demo_entry) DEFAULT_C_ATTR) = TlbModified 0x200"
proof -
  have "te_page_mask demo_entry OR 0x1FFF = mask 13"
    by (simp add: demo_entry_def tlb_entry_new_def mask_eq_exp_minus_1)
  moreover have "0x48D5A = at2 (te_entry_lo demo_entry) (unat (shr 0x00401123 (13 - 1) AND 1 :: u64))"
    by (simp add: demo_entry_def)
  ultimately show ?thesis
    using tlb_outcome_architectural [of demo_entry 13 "0x48D5A" "0x00401123" Write DEFAULT_C_ATTR, OF _ _ _ _ refl]
    by simp
qed

text \<open>
  \<^bold>\<open>C4\<close>. The \<open>vmap\<close> index is exact after any sequence of entry writes to a new TLB that reaches at
  least one live slot, with a cache attribute table installed before or not: a slot is free iff no live
  entry covers it, names the covering entry if there is one, and carries the \<open>VMAP_MULTI\<close> tag with one
  of the covering entries if there are several.
\<close>

theorem vmap_exact_after_writes:
  assumes "mips_tlb_new n = Some t0" "length table = 8"
    and "t = t0 \<or> t = tlb_set_cache_attrs table t0"
    and "\<exists>w \<in> set ws. fst w < n"
  shows "vmap_exact (fold (\<lambda>(i, e). tlb_write i e) ws t)"
proof -
  have "tlb_inv t"
    using tlb_new_settled(1) [OF assms(1)] assms(2,3) by (auto intro: tlb_settled_inv tlb_set_cache_attrs_inv)
  moreover have "num_entries t = n"
    using tlb_new_settled(3) [OF assms(1)] assms(3) by (auto simp: tlb_set_cache_attrs_def)
  ultimately show ?thesis
    using assms(4)
  proof (induction ws arbitrary: t)
    case (Cons w ws)
    show ?case
    proof (cases "fst w < n")
      case True
      with Cons.prems show ?thesis
        by (cases w) (auto intro: writes_keep_exact tlb_write_inv tlb_write_exact)
    next
      case False
      with Cons.prems show ?thesis
        by (cases w) (auto simp: tlb_write_fields intro!: Cons.IH tlb_write_inv)
    qed
  qed simp
qed

theorem vmap_exact_after_writes_witness:
  "vmap_exact (fold (\<lambda>(i, e). tlb_write i e) [(5, demo_entry), (7, demo_entry), (5, tlb_entry_new)] (the (mips_tlb_new 48)))"
  using vmap_exact_after_writes [OF demo_new, of DEFAULT_C_ATTR "the (mips_tlb_new 48)"
      "[(5, demo_entry), (7, demo_entry), (5, tlb_entry_new)]"]
  by (simp add: DEFAULT_C_ATTR_def)



text \<open>
  \<^bold>\<open>C6\<close>. Entry access in every reachable state: a write to a live index stores the four architectural
  registers, \<open>read\<close> returns them, every other index is unchanged, and an index out of range neither
  writes nor reads anything.
\<close>

theorem tlb_write_read:
  assumes "tlb_reach t"
  shows "tlb_read (tlb_write i e t) j =
    (if \<not> j < num_entries t then tlb_entry_new
     else if i = j then tlb_entry_derive e else tlb_read t j) \<and>
    te_page_mask (tlb_entry_derive e) = te_page_mask e \<and> te_entry_hi (tlb_entry_derive e) = te_entry_hi e \<and>
      te_entry_lo (tlb_entry_derive e) = te_entry_lo e"
  using tlb_reach_inv [OF assms]
  by (auto simp: tlb_read_def tlb_write_fields tlb_inv_def tlb_wf_def nth_list_update derived_fields)

theorem tlb_write_read_witness:
  "tlb_read demo_tlb 5 = tlb_entry_derive demo_entry \<and> tlb_read demo_tlb 6 = tlb_entry_new"
proof -
  have "tlb_reach (the (mips_tlb_new 48))" by (rule reach_new [OF demo_new])
  from tlb_write_read [OF this, of 5 demo_entry 5] tlb_write_read [OF this, of 5 demo_entry 6]
  show ?thesis by (simp add: demo_tlb_def tlb_read_def mips_tlb_new_def TLB_MAX_ENTRIES_def)
qed

end
