(* ===== verification/Control_State.thy ===== *)
theory Control_State
  imports Machine_Reach Core_Exceptions Tlb_Properties
begin

text \<open>
  What each operation that is not mild does to the state that steers translation and privilege:
  the facts the invariants of a machine are built from.  The state is read through a few
  projections, so that one equation says what an operation leaves alone.
\<close>

section \<open>Projections\<close>

definition ctl where
  "ctl c = (gpr c, cp0_entryhi c, cp0_config c, cp0_random c, cp0_wired c, tlb_entries c, count_hz c)"

definition utlb where "utlb c = (nutlb c, nutlb_valid c, nanotlb c)"

definition fixed where
  "fixed e = (model e, phys_alias e, phys_mask e, status_cb_installed e)"

lemma ctl_upd [simp]:
  "ctl (c\<lparr>pc := v1\<rparr>) = ctl c" "ctl (c\<lparr>in_delay_slot := v2\<rparr>) = ctl c"
  "ctl (c\<lparr>cp0_status := v3\<rparr>) = ctl c" "ctl (c\<lparr>cp0_badvaddr := v4\<rparr>) = ctl c"
  "ctl (c\<lparr>cp0_cacheerr := v5\<rparr>) = ctl c" "ctl (c\<lparr>nutlb := v6\<rparr>) = ctl c"
  "ctl (c\<lparr>nutlb_valid := v7\<rparr>) = ctl c" "ctl (c\<lparr>nanotlb := v8\<rparr>) = ctl c"
  by (simp_all add: ctl_def)

lemma ctl_flush [simp]:
  "ctl (nutlb_clear c) = ctl c" "ctl (core_nanotlb_invalidate c) = ctl c"
  "ctl (nutlb_set_valid a i c) = ctl c"
  by (simp_all add: nutlb_clear_def core_nanotlb_invalidate_def nutlb_set_valid_def Let_def)

lemma fixed_upd [simp]:
  "fixed (e\<lparr>core := c\<rparr>) = fixed e" "fixed (e\<lparr>llbit := b\<rparr>) = fixed e" "fixed (e\<lparr>tlb := t\<rparr>) = fixed e"
  "fixed (e\<lparr>sysad := m\<rparr>) = fixed e"
  "fixed (nanotlb_invalidate e) = fixed e" "fixed (resync_privilege_state e) = fixed e"
  by (simp_all add: fixed_def nanotlb_invalidate_def resync_privilege_state_def
      update_fpr_mode_def update_translate_fn_def)

section \<open>Shapes and flushes\<close>

text \<open>The fixed sizes of the arrays, and the register that reads as zero.\<close>

definition arrays_ok :: "'b mips_executor \<Rightarrow> bool" where
  "arrays_ok e \<longleftrightarrow>
     length (gpr (core e)) = 32 \<and> gpr (core e) ! 0 = 0 \<and> length (nanotlb (core e)) = 3 \<and>
     length (nutlb (core e)) = 2 \<and> (\<forall>a < 2. length (nutlb (core e) ! a) = NUM_NUTLB_ENTRIES) \<and>
     length (nutlb_valid (core e)) = 2 \<and>
     (\<forall>a < 2. length (nutlb_valid (core e) ! a) = NUM_NUTLB_WORDS)"

text \<open>No cached translation is left.\<close>

definition flushed :: "mips_core \<Rightarrow> bool" where
  "flushed c \<longleftrightarrow> (\<forall>a < 2. \<forall>i < NUM_NUTLB_ENTRIES. \<not> nutlb_is_valid a i c) \<and>
     (length (nanotlb c) = 3 \<longrightarrow> (\<forall>i < 3. \<not> nano_is_valid (nanotlb c ! i)))"

lemma utlb_flushed: "utlb c = utlb (nutlb_clear (core_nanotlb_invalidate c')) \<Longrightarrow> flushed c"
  using nutlb_clear_invalid [of _ _ c]
  by (auto simp: flushed_def utlb_def nutlb_is_valid_def nutlb_clear_def core_nanotlb_invalidate_def
      nano_is_valid_def nano_invalidate_def Let_def nth_list_update numeral_3_eq_3 less_Suc_eq)

lemma flush_arrays:
  assumes "arrays_ok e" "gpr c = gpr (core e)"
    "utlb c = utlb (nutlb_clear (core_nanotlb_invalidate c'))" "nutlb c' = nutlb (core e)"
    "length (nanotlb c') = length (nanotlb (core e))"
  shows "arrays_ok (e'\<lparr>core := c\<rparr>)"
  using assms by (auto simp: arrays_ok_def utlb_def nutlb_clear_def core_nanotlb_invalidate_def
      Let_def NUM_NUTLB_WORDS_def less_2_cases_iff)

section \<open>Operations that flush\<close>

text \<open>\<open>resets e e'\<close>: whatever changed, no cached translation survived, and registers, sizes and
  configuration are those of before.\<close>

definition resets :: "'b mips_executor \<Rightarrow> 'b mips_executor \<Rightarrow> bool" where
  "resets e e' \<longleftrightarrow> fixed e' = fixed e \<and> flushed (core e') \<and> (arrays_ok e \<longrightarrow> arrays_ok e') \<and>
     tlb_entries (core e') = tlb_entries (core e) \<and> count_hz (core e') = count_hz (core e)"

lemma resets_trans: "resets e e' \<Longrightarrow> resets e' e'' \<Longrightarrow> resets e e''"
  by (auto simp: resets_def)

text \<open>The same state with other values in fields that carry no translation.\<close>

lemma resets_core:
  assumes "resets e e'" "utlb c = utlb (core e')" "gpr c = gpr (core e')"
    "tlb_entries c = tlb_entries (core e')" "count_hz c = count_hz (core e')"
  shows "resets e (e'\<lparr>core := c\<rparr>)"
  using assms by (simp add: resets_def flushed_def utlb_def nutlb_is_valid_def arrays_ok_def)

lemma resets_tlb: "resets e e' \<Longrightarrow> resets e (e'\<lparr>tlb := t\<rparr>)"
  by (simp add: resets_def arrays_ok_def)

lemma utlb_flush_cong:
  "nanotlb c = nanotlb c' \<Longrightarrow> nutlb c = nutlb c' \<Longrightarrow>
   utlb (nutlb_clear (core_nanotlb_invalidate c)) = utlb (nutlb_clear (core_nanotlb_invalidate c'))"
  by (simp add: utlb_def nutlb_clear_def core_nanotlb_invalidate_def Let_def)

lemma resets_invalidate:
  assumes "fixed e' = fixed e" "gpr (core e') = gpr (core e)" "nutlb (core e') = nutlb (core e)"
    "nanotlb (core e') = nanotlb (core e)" "tlb_entries (core e') = tlb_entries (core e)"
    "count_hz (core e') = count_hz (core e)"
  shows "resets e (nanotlb_invalidate e')" "resets e (resync_privilege_state e')"
proof -
  let ?c = "nutlb_clear (core_nanotlb_invalidate (core e'))"
  have f: "flushed ?c" by (rule utlb_flushed) (rule refl)
  have g: "gpr ?c = gpr (core e)" "tlb_entries ?c = tlb_entries (core e)" "count_hz ?c = count_hz (core e)"
    using assms by (simp_all add: nutlb_clear_def core_nanotlb_invalidate_def Let_def)
  have a: "arrays_ok e \<Longrightarrow> arrays_ok (x\<lparr>core := ?c\<rparr>)" for x :: "'a mips_executor"
    by (rule flush_arrays [where c' = "core e'"]) (use assms g in simp_all)
  have k: "arrays_ok x \<longleftrightarrow> arrays_ok (x\<lparr>core := core x\<rparr>)" for x :: "'a mips_executor" by simp
  show "resets e (nanotlb_invalidate e')" "resets e (resync_privilege_state e')"
    using assms(1) f g a [of e'] a [of "update_fpr_mode (update_translate_fn e')"]
    by (simp_all add: resets_def resync_core, simp_all add: nanotlb_invalidate_def
        resync_privilege_state_def update_fpr_mode_def update_translate_fn_def)
qed

text \<open>Exception entry.\<close>

lemma deliver_keeps [simp]:
  "ctl (deliver_exception st c) = ctl c" "utlb (deliver_exception st c) = utlb c"
  by (simp_all add: deliver_exception_def deliver_exception_at_def deliver_cache_error_def ctl_def
      utlb_def Let_def)

lemma deliver_fields [simp]:
  "gpr (deliver_exception st c) = gpr c" "nutlb (deliver_exception st c) = nutlb c"
  "nanotlb (deliver_exception st c) = nanotlb c" "tlb_entries (deliver_exception st c) = tlb_entries c"
  "count_hz (deliver_exception st c) = count_hz c"
  using deliver_keeps [of st c] by (simp_all add: ctl_def utlb_def)

lemma exception_resets [simp]: "resets e (snd (handle_exception st e))"
  by (simp add: handle_exception_def Let_def resets_invalidate)

lemma exception_fixed [simp]: "fixed (snd (handle_exception st e)) = fixed e"
  using exception_resets [of e st] by (simp add: resets_def)

lemma exception_ctl [simp]: "ctl (core (snd (handle_exception st e))) = ctl (core e)"
  by (simp add: handle_exception_def Let_def resync_core)

lemma exception_random [simp]:
  "cp0_random (core (snd (handle_exception st e))) = cp0_random (core e)"
  "cp0_wired (core (snd (handle_exception st e))) = cp0_wired (core e)"
  using exception_ctl [of st e] by (simp_all add: ctl_def)

text \<open>Retiring an instruction moves the program counter, or takes the exception of a misaligned
  target.\<close>

lemma complete_cases:
  obtains (retire) c where "snd (handle_exec_complete e) = e\<lparr>core := c\<rparr>" "ctl c = ctl (core e)"
      "utlb c = utlb (core e)" "cp0_status c = cp0_status (core e)"
  | (fault) c st where "snd (handle_exec_complete e) = snd (handle_exception st (e\<lparr>core := c\<rparr>))"
      "ctl c = ctl (core e)" "utlb c = utlb (core e)" "cp0_status c = cp0_status (core e)"
proof (cases "in_delay_slot (core e)")
  case True
  let ?c = "(core e)\<lparr>pc := delay_slot_target (core e), in_delay_slot := False\<rparr>"
  show ?thesis
  proof (cases "pc ?c AND 3 = 0")
    case False
    then show ?thesis
      using True that(2) [of "exec_exception EXC_ADEL" "?c\<lparr>cp0_badvaddr := pc ?c\<rparr>"]
      by (simp add: handle_exec_complete_def misaligned_fetch_exception_def Let_def utlb_def)
  qed (use True that(1) [of ?c] in \<open>simp add: handle_exec_complete_def Let_def utlb_def\<close>)
next
  case False
  then show ?thesis
    using that(1) [of "(core e)\<lparr>pc := pc (core e) + 4\<rparr>"]
    by (simp add: handle_exec_complete_def utlb_def)
qed

lemma resets_core': "resets e e' \<Longrightarrow> ctl c = ctl (core e') \<Longrightarrow> utlb c = utlb (core e') \<Longrightarrow>
  resets e (e'\<lparr>core := c\<rparr>)"
  by (rule resets_core) (simp_all add: ctl_def)

lemma resets_complete:
  assumes "resets e e'"
  shows "resets e (snd (handle_exec_complete e'))"
  by (cases e' rule: complete_cases)
    (use assms in \<open>auto intro: resets_core' resets_trans [OF resets_core' exception_resets]\<close>)

lemma complete_ctl [simp]: "ctl (core (snd (handle_exec_complete e))) = ctl (core e)"
  by (cases e rule: complete_cases) simp_all

lemma complete_fixed [simp]: "fixed (snd (handle_exec_complete e)) = fixed e"
  by (cases e rule: complete_cases) simp_all

lemma complete_tlb [simp]: "tlb (snd (handle_exec_complete e)) = tlb e"
  by (cases e rule: complete_cases) simp_all

lemma complete_synced: "synced e \<Longrightarrow> synced (snd (handle_exec_complete e))"
  by (cases e rule: complete_cases) (simp_all add: synced_core_upd)

subsection \<open>ERET and soft reset\<close>

lemma eret_effect:
  "resets e (snd (exec_eret e))" "tlb (snd (exec_eret e)) = tlb e"
  "ctl (core (snd (exec_eret e))) = ctl (core e)" "synced (snd (exec_eret e))"
proof -
  obtain t s where e: "exec_eret e = check_pc_alignment
      (upd_core (\<lambda>c. c\<lparr>pc := t, in_delay_slot := False\<rparr>)
        (resync_privilege_state (e\<lparr>core := (core e)\<lparr>cp0_status := s\<rparr>, llbit := False\<rparr>)))"
    by (cases "cp0_status (core e) AND STATUS_ERL = 0") (auto simp: exec_eret_def Let_def)
  let ?r = "resync_privilege_state (e\<lparr>core := (core e)\<lparr>cp0_status := s\<rparr>, llbit := False\<rparr>)"
  let ?e = "upd_core (\<lambda>c. c\<lparr>pc := t, in_delay_slot := False\<rparr>) ?r"
  have 1: "resets e ?e"
    by (rule resets_core') (simp_all add: resets_invalidate utlb_def)
  have 2: "tlb ?e = tlb e" "ctl (core ?e) = ctl (core e)" "synced ?e"
    by (simp_all add: resync_core synced_core_upd)
  show "resets e (snd (exec_eret e))" "tlb (snd (exec_eret e)) = tlb e"
    "ctl (core (snd (exec_eret e))) = ctl (core e)" "synced (snd (exec_eret e))"
    unfolding e check_pc_alignment_def misaligned_fetch_exception_def
    using 1 2 resets_trans [OF resets_core' [OF 1] exception_resets]
    by (simp_all add: utlb_def)
qed

lemma soft_reset_core:
  "core_reset now True c =
     c\<lparr>pc := 0xFFFFFFFFBFC00000, cp0_wired := 0,
       cp0_status := (STATUS_BEV OR STATUS_ERL) OR STATUS_SR, cp0_cause := 0, cp0_epc := 0,
       cp0_errorepc := 0, running := False, halted := False,
       hot_interrupts := hot_interrupts c AND HOST_PARK_BIT\<rparr>"
  by (simp add: core_reset_def reset_registers_def Let_def)

lemma soft_reset_effect:
  "resets e (resync_privilege_state (upd_core (core_reset now True) e))"
  by (rule resets_invalidate) (simp_all add: soft_reset_core)

subsection \<open>TLB instructions\<close>

lemma invalidate_fields [simp]:
  "tlb (nanotlb_invalidate e) = tlb e" "ctl (core (nanotlb_invalidate e)) = ctl (core e)"
  "synced (nanotlb_invalidate e) = synced e" "synced (e\<lparr>tlb := t\<rparr>) = synced e"
  by (simp_all add: nanotlb_invalidate_def synced_core_upd synced_def [of "e\<lparr>tlb := t\<rparr>"]
      synced_def [of e])

lemma tlbr_resets: "exec_tlbr e = e \<or> resets e (exec_tlbr e)"
  by (simp add: exec_tlbr_def Let_def resets_invalidate)

lemma tlbr_effect:
  "tlb (exec_tlbr e) = tlb e" "synced e \<Longrightarrow> synced (exec_tlbr e)" "fixed (exec_tlbr e) = fixed e"
  "\<exists>h. ctl (core (exec_tlbr e)) = ctl ((core e)\<lparr>cp0_entryhi := h\<rparr>)"
  by (auto simp: exec_tlbr_def Let_def synced_core_upd)
    (auto simp: ctl_def)

lemma tlbwi_effect:
  fixes e :: "'b mips_executor"
  defines "i \<equiv> unat (cp0_index (core e) AND CP0_INDEX_SLOT_MASK)"
  shows "tlb (snd (exec_tlbwi e)) =
      (if i < num_entries (tlb e) then tlb_write i (create_tlb_entry_from_cp0 (core e)) (tlb e)
       else tlb e)"
    "synced e \<Longrightarrow> synced (snd (exec_tlbwi e))" "fixed (snd (exec_tlbwi e)) = fixed e"
    "ctl (core (snd (exec_tlbwi e))) = ctl (core e)"
    "i < num_entries (tlb e) \<Longrightarrow> resets e (snd (exec_tlbwi e))"
    "\<not> i < num_entries (tlb e) \<Longrightarrow> snd (exec_tlbwi e) = snd (handle_exec_complete e)"
  unfolding i_def
  by (simp_all add: exec_tlbwi_def Let_def complete_synced
      resets_complete resets_invalidate)

lemma random_frame:
  "\<exists>r k. update_random c = c\<lparr>cp0_random := r, cp0_random_cycle := k\<rparr>"
proof -
  have "\<exists>r k. x = x\<lparr>cp0_random := r, cp0_random_cycle := k\<rparr>" for x :: mips_core
    by (rule exI [of _ "cp0_random x"], rule exI [of _ "cp0_random_cycle x"]) simp
  then show ?thesis by (auto simp: update_random_def Let_def)
qed

lemma random_fields [simp]:
  "gpr (update_random c) = gpr c" "nutlb (update_random c) = nutlb c"
  "nanotlb (update_random c) = nanotlb c" "nutlb_valid (update_random c) = nutlb_valid c"
  "tlb_entries (update_random c) = tlb_entries c" "count_hz (update_random c) = count_hz c"
  "cp0_status (update_random c) = cp0_status c" "cp0_entryhi (update_random c) = cp0_entryhi c"
  "cp0_config (update_random c) = cp0_config c" "cp0_wired (update_random c) = cp0_wired c"
  "cp0_index (update_random c) = cp0_index c"
  using random_frame [of c] by auto

lemma tlbwr_effect:
  fixes e :: "'b mips_executor"
  defines "c \<equiv> update_random (core e)"
  defines "i \<equiv> unat (cp0_random c) mod num_entries (tlb e)"
  shows "tlb (snd (exec_tlbwr e)) = tlb_write i (create_tlb_entry_from_cp0 c) (tlb e)"
    "synced e \<Longrightarrow> synced (snd (exec_tlbwr e))" "ctl (core (snd (exec_tlbwr e))) = ctl c"
    "resets e (snd (exec_tlbwr e))"
  unfolding i_def c_def
  by (simp_all add: exec_tlbwr_def Let_def complete_synced synced_core_upd
      resets_complete resets_invalidate)

section \<open>Coprocessor 0 moves\<close>

text \<open>A change of the core that steers nothing.\<close>

definition calm :: "mips_core \<Rightarrow> mips_core \<Rightarrow> bool" where
  "calm c c' \<longleftrightarrow> ctl c' = ctl c \<and> utlb c' = utlb c \<and> cp0_status c' = cp0_status c"

lemma calm_refl [simp]: "calm c c"
  by (simp add: calm_def)

lemma calm_trans: "calm c c' \<Longrightarrow> calm c' c'' \<Longrightarrow> calm c c''"
  by (simp add: calm_def)

lemma calm_upd [simp]:
  "calm c (d\<lparr>count_read_cycle := v0\<rparr>) = calm c d"
  "calm c (d\<lparr>count_anchor_instant := v1\<rparr>) = calm c d"
  "calm c (d\<lparr>cp0_count := v2\<rparr>) = calm c d"
  "calm c (d\<lparr>cp0_compare := v3\<rparr>) = calm c d"
  "calm c (d\<lparr>cp0_cause := v4\<rparr>) = calm c d"
  "calm c (d\<lparr>hot_interrupts := v5\<rparr>) = calm c d"
  "calm c (d\<lparr>ip7_seq := v6\<rparr>) = calm c d"
  "calm c (d\<lparr>ip7_seq_shared := v7\<rparr>) = calm c d"
  "calm c (d\<lparr>count_last_guest_read := v8\<rparr>) = calm c d"
  "calm c (d\<lparr>fasttick_count := v9\<rparr>) = calm c d"
  "calm c (d\<lparr>timer_id := v10\<rparr>) = calm c d"
  "calm c (d\<lparr>timer_mgr := v11\<rparr>) = calm c d"
  "calm c (d\<lparr>cp0_index := v12\<rparr>) = calm c d"
  "calm c (d\<lparr>cp0_entrylo0 := v13\<rparr>) = calm c d"
  "calm c (d\<lparr>cp0_entrylo1 := v14\<rparr>) = calm c d"
  "calm c (d\<lparr>cp0_context := v15\<rparr>) = calm c d"
  "calm c (d\<lparr>cp0_pagemask := v16\<rparr>) = calm c d"
  "calm c (d\<lparr>cp0_epc := v17\<rparr>) = calm c d"
  "calm c (d\<lparr>cp0_lladdr := v18\<rparr>) = calm c d"
  "calm c (d\<lparr>cp0_watchlo := v19\<rparr>) = calm c d"
  "calm c (d\<lparr>cp0_watchhi := v20\<rparr>) = calm c d"
  "calm c (d\<lparr>cp0_xcontext := v21\<rparr>) = calm c d"
  "calm c (d\<lparr>cp0_ecc := v22\<rparr>) = calm c d"
  "calm c (d\<lparr>cp0_cacheerr := v23\<rparr>) = calm c d"
  "calm c (d\<lparr>cp0_taglo := v24\<rparr>) = calm c d"
  "calm c (d\<lparr>cp0_taghi := v25\<rparr>) = calm c d"
  "calm c (d\<lparr>cp0_errorepc := v26\<rparr>) = calm c d"
  by (simp_all add: calm_def ctl_def utlb_def)

lemma calm_claim [simp]: "calm c (snd (core_claim_ip7 k d)) = calm c d"
  using core_claim_frame [of k d] by auto

lemma calm_materialize [simp]: "calm c (snd (materialize_count now b d)) = calm c d"
  by (simp add: materialize_count_def Let_def)

lemma calm_schedule: "schedule_compare_timer now d = Some d' \<Longrightarrow> calm c d' = calm c d"
  by (auto dest!: schedule_compare_frame)

lemma calm_read_cp0:
  "reg \<noteq> 1 \<Longrightarrow> calm c (snd (read_cp0 now reg c))"
  "snd (read_cp0 now 1 c) = update_random c"
  by (simp_all add: read_cp0_def Let_def split_beta count_now_def)

lemma calm_arm [simp]: "calm c (snd (arm_ip7_sequence d)) = calm c d"
  by (simp add: arm_ip7_sequence_def Let_def)

lemma write_compare_calm:
  "\<exists>d. write_compare now v c = schedule_compare_timer now d \<and> calm c d"
  unfolding write_compare_def Let_def split_beta
  by (rule exI, rule conjI, rule refl) simp

lemma calm_hz: "calm c d \<Longrightarrow> count_hz d = count_hz c"
  by (simp add: calm_def ctl_def)

lemma calm_write_compare: "write_compare now v c = Some c' \<Longrightarrow> calm c c'"
  using write_compare_calm [of now v c] calm_schedule by metis

lemma calm_write_cp0:
  assumes "write_cp0 now reg v c = Some c'" "reg \<notin> {6, 10, 12, 16}"
  shows "calm c c'"
  using assms
  by (auto simp: write_cp0_def Let_def reanchor_count_and_reschedule_def
      dest: calm_write_compare dest!: calm_schedule [of _ _ _ c] split: if_splits)

lemma schedule_returns: "count_hz c \<noteq> 0 \<Longrightarrow> \<exists>c'. schedule_compare_timer now c = Some c'"
  by (auto simp: schedule_compare_timer_def compare_delay_ns_def Let_def split: option.splits prod.splits)

lemma write_cp0_returns: "count_hz c \<noteq> 0 \<Longrightarrow> write_cp0 now reg v c \<noteq> None"
  using write_compare_calm [of now v c]
  by (auto simp: write_cp0_def reanchor_count_and_reschedule_def Let_def calm_hz
      intro!: schedule_returns)

text \<open>A move to coprocessor 0 with its side effects: four registers steer something.\<close>

lemma write_cp0_cases:
  assumes "exec_write_cp0 now reg v e = Some e1" "status_cb_installed e"
  obtains
    (other) c b where "handle_cp0_side_effects reg e1 = e\<lparr>core := c, sysad := b\<rparr>" "calm (core e) c"
  | (wired) k where "handle_cp0_side_effects reg e1 =
      e\<lparr>core := (core e)\<lparr>cp0_wired := lo32 v, cp0_random := tlb_entries (core e) - 1,
                          cp0_random_cycle := k\<rparr>\<rparr>"
  | (flush) h k where "handle_cp0_side_effects reg e1 =
      nanotlb_invalidate (e\<lparr>core := (core e)\<lparr>cp0_entryhi := h, cp0_config := k\<rparr>\<rparr>)"
  | (status) w where "handle_cp0_side_effects reg e1 =
      resync_privilege_state (e\<lparr>core := (core e)\<lparr>cp0_status := w\<rparr>\<rparr>)"
proof -
  obtain c where c: "write_cp0 now reg v (core e) = Some c"
    using assms(1) by (auto simp: exec_write_cp0_def split: option.splits)
  consider "reg = 6" | "reg = 10" | "reg = 12" | "reg = 16" | "reg \<notin> {6, 10, 12, 16}" by blast
  then show thesis
  proof cases
    case 1
    with assms c show thesis
      by (intro wired) (auto simp: exec_write_cp0_def write_cp0_def handle_cp0_side_effects_def)
  next
    case 2
    with assms c show thesis
      by (intro flush [where k = "cp0_config (core e)"])
        (auto simp: exec_write_cp0_def write_cp0_def handle_cp0_side_effects_def)
  next
    case 3
    with assms c show thesis
      by (intro status) (auto simp: exec_write_cp0_def write_cp0_def handle_cp0_side_effects_def)
  next
    case 4
    with assms c show thesis
      by (intro flush [where h = "cp0_entryhi (core e)"])
        (auto simp: exec_write_cp0_def write_cp0_def handle_cp0_side_effects_def Let_def)
  next
    case 5
    with c have k: "calm (core e) c" by (auto dest: calm_write_cp0)
    have e1: "e1 = e\<lparr>core := c\<rparr>" using assms(1) c 5 by (auto simp: exec_write_cp0_def)
    show thesis
    proof (rule other)
      show "handle_cp0_side_effects reg e1 =
          e\<lparr>core := core (handle_cp0_side_effects reg e1), sysad := sysad (handle_cp0_side_effects reg e1)\<rparr>"
        using 5 by (auto simp: e1 handle_cp0_side_effects_def Let_def)
      show "calm (core e) (core (handle_cp0_side_effects reg e1))"
        using 5 k by (auto simp: e1 handle_cp0_side_effects_def Let_def)
    qed
  qed
qed

section \<open>Translations\<close>

text \<open>A translation may reorder the TLB's lists and, on an exception, load the registers that
  describe it; the address space identifier stays.\<close>

definition quiet :: "'b mips_executor \<Rightarrow> 'b mips_executor \<Rightarrow> bool" where
  "quiet e e' \<longleftrightarrow> fixed e' = fixed e \<and> utlb (core e') = utlb (core e) \<and>
     cp0_status (core e') = cp0_status (core e) \<and> translate_fn e' = translate_fn e \<and>
     fpr_fr1 e' = fpr_fr1 e \<and>
     (\<exists>h. ctl (core e') = ctl ((core e)\<lparr>cp0_entryhi := h\<rparr>) \<and>
          h AND 0xFF = cp0_entryhi (core e) AND 0xFF) \<and>
     (\<exists>m n. tlb e' = (tlb e)\<lparr>mru_head := m, mru_next := n\<rparr>) \<and>
     (tlb_inv (tlb e) \<longrightarrow> tlb_inv (tlb e'))"

lemma quiet_core:
  assumes "tlb e' = (tlb e)\<lparr>mru_head := m, mru_next := n\<rparr>"
    "e' = e\<lparr>tlb := tlb e', core := (core e)\<lparr>cp0_badvaddr := a, cp0_entryhi := h, cp0_context := b,
             cp0_xcontext := c\<rparr>\<rparr>"
    "h AND 0xFF = cp0_entryhi (core e) AND 0xFF" "tlb_inv (tlb e) \<Longrightarrow> tlb_inv (tlb e')"
  shows "quiet e e'"
proof -
  have "ctl (core e') = ctl ((core e)\<lparr>cp0_entryhi := h\<rparr>)" "utlb (core e') = utlb (core e)"
    by (subst assms(2), simp add: ctl_def, subst assms(2), simp add: utlb_def)
  moreover have "fixed e' = fixed e" "cp0_status (core e') = cp0_status (core e)"
    "translate_fn e' = translate_fn e" "fpr_fr1 e' = fpr_fr1 e"
    by (subst assms(2), simp)+
  ultimately show ?thesis using assms(1,3,4) unfolding quiet_def by blast
qed

lemma quiet_refl [simp]: "quiet e e"
  by (rule quiet_core [where e = e and e' = e and m = "mru_head (tlb e)"
        and n = "mru_next (tlb e)" and a = "cp0_badvaddr (core e)" and h = "cp0_entryhi (core e)"
        and b = "cp0_context (core e)" and c = "cp0_xcontext (core e)"]) simp_all

lemma mru_promote_frame: "\<exists>m n. mru_promote l k p t = t\<lparr>mru_head := m, mru_next := n\<rparr>"
proof (cases "p = MRU_NONE")
  case True
  then show ?thesis using mru_unchanged [of t] by (simp add: mru_promote_def)
next
  case False
  then show ?thesis by (cases t) (simp add: mru_promote_def Let_def)
qed

lemma tlb_translate_mru:
  assumes "tlb_translate is64 t va asid acc = Some (r, t')"
  shows "\<exists>m n. t' = t\<lparr>mru_head := m, mru_next := n\<rparr>"
  using assms mru_unchanged mru_promote_frame
  by (auto simp: tlb_translate_def mru_lookup_def Let_def split: option.splits if_splits)

lemma asid_of_entryhi [simp]:
  "((va AND (0xC000000000000000 OR 0x000000FFFFFFE000)) OR (h AND 0xFF)) AND 0xFF = (h :: u64) AND 0xFF"
  by (simp add: word_ao_dist and.assoc)

lemma quiet_miss:
  assumes "tlb_translate x (tlb e) va asid acc = Some (r, t)"
  shows "quiet e (e\<lparr>tlb := t\<rparr>)" "quiet e (update_tlb_exception_registers va (e\<lparr>tlb := t\<rparr>))"
proof -
  obtain m n where t: "t = (tlb e)\<lparr>mru_head := m, mru_next := n\<rparr>"
    using tlb_translate_mru [OF assms] by blast
  have k: "tlb_inv (tlb e) \<Longrightarrow> tlb_inv t" using tlb_translate_keeps [OF _ assms] .
  show "quiet e (e\<lparr>tlb := t\<rparr>)"
    by (rule quiet_core [where m = m and n = n and a = "cp0_badvaddr (core e)"
        and h = "cp0_entryhi (core e)" and b = "cp0_context (core e)"
        and c = "cp0_xcontext (core e)"]) (simp_all add: k, simp_all add: t)
  let ?h = "(va AND (0xC000000000000000 OR 0x000000FFFFFFE000)) OR (cp0_entryhi (core e) AND 0xFF)"
  obtain b c where u: "update_tlb_exception_registers va (e\<lparr>tlb := t\<rparr>) =
      e\<lparr>tlb := t, core := (core e)\<lparr>cp0_badvaddr := va, cp0_entryhi := ?h, cp0_context := b,
        cp0_xcontext := c\<rparr>\<rparr>"
    by (simp add: update_tlb_exception_registers_def Let_def)
  show "quiet e (update_tlb_exception_registers va (e\<lparr>tlb := t\<rparr>))"
    unfolding u
    by (rule quiet_core [where m = m and n = n and a = va and h = ?h and b = b and c = c])
      (simp_all only: asid_of_entryhi, simp_all add: k, simp_all add: t)
qed

lemma quiet_tlb_impl:
  assumes "tlb_translate_impl dbg x va acc e = Some (r, e')"
  shows "quiet e e'"
  using assms
  by (auto simp: tlb_translate_impl_def Let_def quiet_miss
      split: option.splits prod.splits if_splits tlb_result.splits)

lemma quiet_addr_error: "quiet e (snd (tr_addr_error dbg va acc e))"
proof -
  have "quiet e (upd_core (\<lambda>c. c\<lparr>cp0_badvaddr := va\<rparr>) e)"
    by (rule quiet_core [where m = "mru_head (tlb e)" and n = "mru_next (tlb e)" and a = va
        and h = "cp0_entryhi (core e)" and b = "cp0_context (core e)"
        and c = "cp0_xcontext (core e)"]) simp_all
  then show ?thesis by (simp add: tr_addr_error_def)
qed

lemma quiet_segments:
  "translate_32bit_impl dbg p va acc e = Some (r, e') \<Longrightarrow> quiet e e'"
  "translate_64bit_impl dbg p va acc e = Some (r, e') \<Longrightarrow> quiet e e'"
  using quiet_addr_error [of e dbg va acc]
  by (auto simp: translate_32bit_impl_def translate_64bit_impl_def Let_def dest: quiet_tlb_impl
      split: if_splits)

lemma quiet_translate:
  "call_translate_fn va acc e = Some (r, e') \<Longrightarrow> quiet e e'"
  "debug_translate va e = Some (r, e') \<Longrightarrow> quiet e e'"
  by (auto simp: call_translate_fn_def debug_translate_def translate_impl_def Let_def
      dest: quiet_segments split: if_splits prod.splits)

end
