(* ===== verification/Machine_Invariants.thy ===== *)
theory Machine_Invariants
  imports Control_State
begin

text \<open>
  Invariants of a machine as instances of the contract of theory \<open>Step_Contract\<close>: register 0 and
  the sizes of the arrays, the agreement of the cached selectors with Status, the
  well-formedness of the TLB and the range of Random.
\<close>

section \<open>Translation through the two caches\<close>

lemma nanotlb_cases:
  assumes "nanotlb_translate acc va e = Some (r, e')"
  obtains (same) "e' = e"
  | (miss) "quiet e e'"
  | (fill_data) w e1 where "call_translate_fn va acc e = Some (r, e1)" "quiet e e1"
      "\<not> tr_is_exception r" "acc = (if w then Write else Read)" "e' = nutlb_fill w va r e1"
  | (fill_fetch) e1 where "call_translate_fn va acc e = Some (r, e1)" "quiet e e1"
      "\<not> tr_is_exception r" "acc = Fetch \<or> acc = Debug"
      "e' = upd_core (\<lambda>c. c\<lparr>nanotlb := (nanotlb c)[access_index acc :=
         nano_fill_raw (va AND NOT 0xFFF) (tr_phys r) (tr_status r AND 7)
           (nanotlb c ! access_index acc)]\<rparr>) e1"
proof -
  have data: thesis if "nutlb_translate w va e = Some (r, e')" "acc = (if w then Write else Read)" for w
    using that same miss fill_data [of _ w]
    by (auto simp: nutlb_translate_def Let_def dest: quiet_translate(1) split: if_splits option.splits)
  have fetch: thesis if "acc = Fetch \<or> acc = Debug"
    using that assms same miss fill_fetch
    by (auto simp: nanotlb_translate_def Let_def dest: quiet_translate(1) split: if_splits option.splits)
  show thesis
    using assms data [of False] data [of True] fetch
    by (cases acc) (auto simp: nanotlb_translate_def)
qed

lemma fill_frame [simp]:
  "ctl (core (nutlb_fill w va r e)) = ctl (core e)"
  "cp0_status (core (nutlb_fill w va r e)) = cp0_status (core e)"
  "fixed (nutlb_fill w va r e) = fixed e" "tlb (nutlb_fill w va r e) = tlb e"
  "synced (nutlb_fill w va r e) = synced e"
  by (simp_all add: nutlb_fill_def Let_def synced_core_upd nutlb_set_valid_def)

lemma fill_arrays: "arrays_ok e \<Longrightarrow> arrays_ok (nutlb_fill w va r e)"
  by (auto simp: nutlb_fill_def Let_def nutlb_set_valid_def arrays_ok_def NUTLB_WRITE_def
      NUTLB_READ_def nth_list_update)

lemma quiet_arrays: "quiet e e' \<Longrightarrow> arrays_ok e \<Longrightarrow> arrays_ok e'"
  by (auto simp: quiet_def arrays_ok_def utlb_def ctl_def)

lemma quiet_synced: "quiet e e' \<Longrightarrow> synced e \<Longrightarrow> synced e'"
  by (auto simp: quiet_def synced_def dest: mode_cong)

lemma flush_random [simp]:
  "cp0_random (core (nanotlb_invalidate e)) = cp0_random (core e)"
  "cp0_wired (core (nanotlb_invalidate e)) = cp0_wired (core e)"
  "cp0_random (core (resync_privilege_state e)) = cp0_random (core e)"
  "cp0_wired (core (resync_privilege_state e)) = cp0_wired (core e)"
  by (simp_all add: resync_core, simp_all add: nanotlb_invalidate_def nutlb_clear_def
      core_nanotlb_invalidate_def Let_def)

section \<open>A smaller contract\<close>

text \<open>Every operation that is not mild is one of a few kinds: a translation, a flush, a write to
  the TLB with a flush, a move of Random, a write to Wired.\<close>

locale control_invariant =
  fixes s :: bool and P :: "'b mips_executor \<Rightarrow> bool"
  assumes ctl_mild: "P e \<Longrightarrow> mild e e' \<Longrightarrow> P e'"
    and ctl_cb: "P e \<Longrightarrow> status_cb_installed e"
    and ctl_strict: "P e \<Longrightarrow> s \<Longrightarrow> tlb_inv (tlb e) \<and> count_hz (core e) \<noteq> 0"
    and ctl_flush: "P e \<Longrightarrow> resets e e' \<Longrightarrow> (synced e \<Longrightarrow> synced e') \<Longrightarrow> tlb e' = tlb e \<Longrightarrow>
      cp0_random (core e') = cp0_random (core e) \<Longrightarrow>
      cp0_wired (core e') \<in> {cp0_wired (core e), 0} \<Longrightarrow> P e'"
    and ctl_tlb: "P e \<Longrightarrow> resets e e' \<Longrightarrow> (synced e \<Longrightarrow> synced e') \<Longrightarrow>
      tlb e' = tlb_write i t (tlb e) \<Longrightarrow>
      cp0_random (core e') \<in> {cp0_random (core e), cp0_random (update_random (core e))} \<Longrightarrow>
      cp0_wired (core e') = cp0_wired (core e) \<Longrightarrow> P e'"
    and ctl_quiet: "P e \<Longrightarrow> quiet e e' \<Longrightarrow> P e'"
    and ctl_fill: "P e \<Longrightarrow> call_translate_fn va (if w then Write else Read) e = Some (r, e1) \<Longrightarrow>
      quiet e e1 \<Longrightarrow> \<not> tr_is_exception r \<Longrightarrow> P (nutlb_fill w va r e1)"
    and ctl_fill_fetch: "P e \<Longrightarrow> call_translate_fn va acc e = Some (r, e1) \<Longrightarrow> quiet e e1 \<Longrightarrow>
      \<not> tr_is_exception r \<Longrightarrow> acc = Fetch \<or> acc = Debug \<Longrightarrow>
      P (upd_core (\<lambda>c. c\<lparr>nanotlb := (nanotlb c)[access_index acc :=
         nano_fill_raw (va AND NOT 0xFFF) (tr_phys r) (tr_status r AND 7)
           (nanotlb c ! access_index acc)]\<rparr>) e1)"
    and ctl_random: "P e \<Longrightarrow> P (upd_core update_random e)"
    and ctl_wired: "P e \<Longrightarrow> P (e\<lparr>core := (core e)\<lparr>cp0_wired := v,
      cp0_random := tlb_entries (core e) - 1, cp0_random_cycle := k\<rparr>\<rparr>)"
begin

lemma calm_kept: "P e \<Longrightarrow> calm (core e) c \<Longrightarrow> P (e\<lparr>core := c, sysad := b\<rparr>)"
  by (rule ctl_mild) (auto simp: mild_def calm_def ctl_def utlb_def)

lemma complete_kept: "P e \<Longrightarrow> P (snd (handle_exec_complete e))"
proof (cases e rule: complete_cases)
  case (retire c)
  then show "P e \<Longrightarrow> ?thesis" using calm_kept [of e c "sysad e"] by (simp add: calm_def)
next
  case (fault c st)
  then have "P e \<Longrightarrow> P (e\<lparr>core := c\<rparr>)" using calm_kept [of e c "sysad e"] by (simp add: calm_def)
  with fault show "P e \<Longrightarrow> ?thesis"
    using ctl_flush [of "e\<lparr>core := c\<rparr>" "snd (handle_exception st (e\<lparr>core := c\<rparr>))"]
    by (simp add: ctl_def)
qed

lemma write_cp0_kept:
  assumes "P e" "exec_write_cp0 now reg v e = Some e1"
  shows "P (handle_cp0_side_effects reg e1)"
  using assms(2) ctl_cb [OF assms(1)]
proof (cases rule: write_cp0_cases)
  case (other c b)
  then show ?thesis using calm_kept [OF assms(1)] by simp
next
  case (wired k)
  then show ?thesis using ctl_wired [OF assms(1)] by simp
next
  case (flush h k)
  then show ?thesis
    by (simp only:) (rule ctl_flush [OF assms(1)],
      simp_all add: resets_invalidate synced_core_upd)
next
  case (status w)
  then show ?thesis
    by (simp only:) (rule ctl_flush [OF assms(1)],
      simp_all add: resets_invalidate)
qed

end

lemma call_translate_returns:
  assumes "tlb_inv (tlb e)"
  shows "call_translate_fn va acc e \<noteq> None" "debug_translate va e \<noteq> None"
proof -
  have t: "tlb_translate_impl dbg x va acc e \<noteq> None" for dbg x acc
    by (rule tlb_translate_sound [OF assms, of x va "ucast (cp0_entryhi (core e) AND 0xFF)" acc])
      (simp add: tlb_translate_impl_def Let_def)
  then show "call_translate_fn va acc e \<noteq> None" "debug_translate va e \<noteq> None"
    unfolding call_translate_fn_def debug_translate_def translate_impl_def translate_32bit_impl_def
      translate_64bit_impl_def Let_def
    by (simp_all split: prod.split)
qed

lemma nanotlb_returns:
  assumes "tlb_inv (tlb e)"
  shows "nanotlb_translate acc va e \<noteq> None"
proof
  assume "nanotlb_translate acc va e = None"
  then have "call_translate_fn va acc e = None"
    by (cases acc) (auto simp: nanotlb_translate_def nutlb_translate_def Let_def
        split: option.splits if_splits)
  then show False using call_translate_returns(1) [OF assms] by simp
qed

lemma exec_write_cp0_returns:
  "count_hz (core e) \<noteq> 0 \<Longrightarrow> exec_write_cp0 now reg v e \<noteq> None"
  using write_cp0_returns [of "core e" now reg v]
  by (auto simp: exec_write_cp0_def Let_def split: option.split)

sublocale control_invariant \<subseteq> step_invariant s P
proof (unfold_locales, goal_cases)
  case (1 e e')
  then show ?case by (rule ctl_mild)
next
  case (2 e st)
  then show ?case by (rule ctl_flush) (use exception_ctl [of st e] in \<open>simp_all add: ctl_def\<close>)
next
  case (3 e)
  then show ?case by (rule ctl_flush) (use eret_effect [of e] in \<open>simp_all add: ctl_def\<close>)
next
  case (4 e acc va)
  have "P e'" if "nanotlb_translate acc va e = Some (r, e')" for r e'
    using that by (cases rule: nanotlb_cases) (use 4 in \<open>auto intro: ctl_quiet ctl_fill ctl_fill_fetch\<close>)
  then show ?case
    using nanotlb_returns [of e acc va] ctl_strict [OF 4]
    by (cases "nanotlb_translate acc va e") (auto simp: split_paired_all)
next
  case (5 e va)
  have "P e'" if "debug_translate va e = Some (r, e')" for r e'
    using 5 quiet_translate(2) [OF that] by (rule ctl_quiet)
  then show ?case
    using call_translate_returns(2) [of e va] ctl_strict [OF 5]
    by (cases "debug_translate va e") (auto simp: split_paired_all)
next
  case (6 e now reg)
  then show ?case
    using calm_kept [of e "snd (read_cp0 now reg (core e))" "sysad e"] ctl_random [of e]
    by (cases "reg = 1") (simp_all add: calm_read_cp0)
next
  case (7 e reg now v)
  then show ?case
    using write_cp0_kept [OF 7] ctl_strict [OF 7] exec_write_cp0_returns [of e now reg v]
    by (auto split: option.split)
next
  case (8 e)
  show ?case
  proof (cases "exec_tlbr e = e")
    case False
    then show ?thesis
      using ctl_flush [OF 8, of "exec_tlbr e"] tlbr_resets [of e] tlbr_effect [of e]
      by (auto simp: ctl_def)
  qed (use 8 in simp)
next
  case (9 e)
  show ?case
  proof (cases "unat (cp0_index (core e) AND CP0_INDEX_SLOT_MASK) < num_entries (tlb e)")
    case True
    then show ?thesis
      by (intro ctl_tlb [OF 9 tlbwi_effect(5) tlbwi_effect(2)])
        (use tlbwi_effect(1,4) [of e] in \<open>simp_all add: ctl_def\<close>)
  next
    case False
    then show ?thesis using complete_kept [OF 9] by (simp add: tlbwi_effect(6))
  qed
next
  case (10 e)
  show ?case
    by (rule ctl_tlb [OF 10 tlbwr_effect(4) tlbwr_effect(2) tlbwr_effect(1)])
      (use tlbwr_effect(3) [of e] in \<open>simp_all add: ctl_def\<close>)
next
  case (11 e now)
  then show ?case
    by (rule ctl_flush)
      (use soft_reset_effect [of e now] in \<open>simp_all add: soft_reset_core\<close>)
qed

section \<open>The invariant\<close>

text \<open>Random selects a live entry, and one above the wired ones as long as there is any.\<close>

definition random_ok :: "mips_core \<Rightarrow> bool" where
  "random_ok c \<longleftrightarrow> cp0_random c < tlb_entries c \<and>
     (cp0_wired c < tlb_entries c \<longrightarrow> cp0_wired c \<le> cp0_random c)"

definition machine_ok :: "'b mips_executor \<Rightarrow> bool" where
  "machine_ok e \<longleftrightarrow> arrays_ok e \<and> status_cb_installed e \<and> synced e \<and> tlb_inv (tlb e) \<and>
     num_entries (tlb e) = unat (tlb_entries (core e)) \<and> random_ok (core e) \<and>
     count_hz (core e) \<noteq> 0"

lemma random_offset:
  fixes n w x :: u32
  assumes "unat w < unat n" "unat x < unat n - unat w"
  shows "x + w < n \<and> w \<le> x + w"
proof -
  have "unat (x + w) = unat x + unat w"
    using assms unsigned_less [where ?'a = nat and w = n] by (intro unat_add_lem [THEN iffD1]) auto
  then show ?thesis using assms by (simp add: word_less_nat_alt word_le_nat_alt)
qed

lemma update_random_ok:
  assumes "random_ok c"
  shows "random_ok (update_random c)"
proof -
  let ?n = "tlb_entries c" and ?w = "cp0_wired c"
  have n: "0 < unat ?n" using assms by (auto simp: random_ok_def word_less_nat_alt)
  then have p: "unat (?n - 1) = unat ?n - 1" by (intro unat_minus_one) auto
  show ?thesis
  proof (cases "?w < ?n")
    case True
    then have w: "unat ?w < unat ?n" "\<not> ?n - 1 < ?w" by (simp_all add: word_less_nat_alt p)
    have range: "unat (?n - ?w) = unat ?n - unat ?w" "?n - ?w \<noteq> 0"
      using w by (auto simp: unat_sub word_le_nat_alt)
    have "unat (x mod (?n - ?w)) < unat ?n - unat ?w" for x
      using w(1) by (simp add: unat_mod range(1))
    then have "x mod (?n - ?w) + ?w < ?n \<and> ?w \<le> x mod (?n - ?w) + ?w" for x
      by (intro random_offset [OF w(1)])
    then show ?thesis
      using assms w range(2) by (simp add: random_ok_def update_random_def Let_def)
  next
    case False
    then have "unat ?n \<le> unat ?w" "?n - 1 < ?w" "?n - 1 < ?n"
      using n p by (simp_all add: word_less_nat_alt)
    with False show ?thesis by (simp add: random_ok_def update_random_def Let_def)
  qed
qed

lemma fixed_cb: "fixed e' = fixed e \<Longrightarrow> status_cb_installed e' = status_cb_installed e"
  by (simp add: fixed_def)

lemma quiet_machine: "machine_ok e \<Longrightarrow> quiet e e' \<Longrightarrow> machine_ok e'"
  using quiet_arrays [of e e'] quiet_synced [of e e']
  by (auto simp: machine_ok_def quiet_def ctl_def random_ok_def fixed_def)

interpretation machine: control_invariant s machine_ok for s :: bool
proof (unfold_locales, goal_cases)
  case (1 e e')
  then show ?case
    by (auto simp: machine_ok_def arrays_ok_def mild_def random_ok_def synced_def dest: mode_cong)
next
  case (2 e)
  then show ?case by (simp add: machine_ok_def)
next
  case (3 e)
  then show ?case by (simp add: machine_ok_def)
next
  case (4 e e')
  then show ?case by (auto simp: machine_ok_def resets_def fixed_def random_ok_def)
next
  case (5 e e' i t)
  then show ?case
    using update_random_ok [of "core e"]
    by (auto simp: machine_ok_def resets_def fixed_def random_ok_def tlb_write_fields intro: tlb_write_inv)
next
  case (6 e e')
  then show ?case by (rule quiet_machine)
next
  case (7 e va w r e1)
  then show ?case
    using quiet_machine [of e e1] fill_arrays [of e1 w va r]
      fixed_cb [OF fill_frame(3) [of w va r e1]] fill_frame(1) [of w va r e1]
    by (simp add: machine_ok_def random_ok_def ctl_def)
next
  case (8 e va acc r e1)
  then show ?case
    using quiet_machine [of e e1] by (simp add: machine_ok_def arrays_ok_def random_ok_def synced_core_upd)
next
  case (9 e)
  then show ?case
    using update_random_ok [of "core e"]
    by (auto simp: machine_ok_def arrays_ok_def synced_core_upd)
next
  case (10 e v k)
  then have n: "0 < unat (tlb_entries (core e))" by (auto simp: machine_ok_def random_ok_def word_less_nat_alt)
  then have "unat (tlb_entries (core e) - 1) = unat (tlb_entries (core e)) - 1"
    by (intro unat_minus_one) auto
  with 10 n show ?case
    by (auto simp: machine_ok_def arrays_ok_def random_ok_def synced_core_upd word_less_nat_alt
        word_le_nat_alt)
qed

section \<open>New machines\<close>

lemma configure_board_fields [simp]:
  "core (configure_board bd e) = core e" "tlb (configure_board bd e) = tlb e"
  "translate_fn (configure_board bd e) = translate_fn e"
  "fpr_fr1 (configure_board bd e) = fpr_fr1 e" "model (configure_board bd e) = model e"
  by (cases bd; simp)+

lemma boot_fields:
  assumes "e = cpu_new (configure_board bd (executor_new now b dev m4 t))"
  shows "synced e" "status_cb_installed e"
    "tlb e = tlb_set_cache_attrs (cache_attr_table (passthrough_model m4)) t"
    "gpr (core e) = replicate 32 0" "nanotlb (core e) = replicate 3 nano_default"
    "nutlb (core e) = replicate 2 (replicate NUM_NUTLB_ENTRIES nu_default)"
    "nutlb_valid (core e) = replicate 2 (replicate NUM_NUTLB_WORDS 0)"
    "cp0_random (core e) = 47" "cp0_wired (core e) = 0" "tlb_entries (core e) = 48"
    "count_hz (core e) = DEFAULT_COUNT_HZ" "cp0_status (core e) = STATUS_BEV OR STATUS_ERL"
proof -
  have c: "core e = (mips_core_new now)\<lparr>cp0_config := passthrough_config, tlb_entries := 48,
      reset_prid := model_prid (passthrough_model m4), reset_fir := model_fir (passthrough_model m4),
      cp0_prid := model_prid (passthrough_model m4), fpu_fir := model_fir (passthrough_model m4)\<rparr>"
    by (simp add: assms cpu_new_def install_status_cb_def executor_new_def update_fpr_mode_def
        update_translate_fn_def passthrough_model_def Let_def)
  show "gpr (core e) = replicate 32 0" "nanotlb (core e) = replicate 3 nano_default"
    "nutlb (core e) = replicate 2 (replicate NUM_NUTLB_ENTRIES nu_default)"
    "nutlb_valid (core e) = replicate 2 (replicate NUM_NUTLB_WORDS 0)"
    "cp0_random (core e) = 47" "cp0_wired (core e) = 0" "tlb_entries (core e) = 48"
    "count_hz (core e) = DEFAULT_COUNT_HZ" "cp0_status (core e) = STATUS_BEV OR STATUS_ERL"
    by (simp_all add: c mips_core_new_def reset_registers_def mips_core_zero_def
        disarm_compare_timer_def Let_def)
  show "synced e" "status_cb_installed e"
    "tlb e = tlb_set_cache_attrs (cache_attr_table (passthrough_model m4)) t"
    by (simp_all add: assms cpu_new_def install_status_cb_def executor_new_def update_fpr_mode_def
        update_translate_fn_def synced_def Let_def)
qed

lemma boot_ok:
  assumes "mips_tlb_new 48 = Some t"
  shows "machine_ok (cpu_new (configure_board bd (executor_new now b dev m4 t)))"
proof -
  note b = boot_fields [OF refl, of bd now b dev m4 t]
  have "tlb_inv (tlb_set_cache_attrs (cache_attr_table (passthrough_model m4)) t)"
    by (rule tlb_set_cache_attrs_inv [OF tlb_settled_inv])
      (use tlb_new_settled [OF assms] in \<open>simp_all add: cache_attr_table_def\<close>)
  then show ?thesis
    using tlb_new_settled(3) [OF assms]
    by (simp add: machine_ok_def b arrays_ok_def random_ok_def DEFAULT_COUNT_HZ_def
        tlb_set_cache_attrs_def)
qed

theorem machine_reach_ok: "machine_reach e \<Longrightarrow> machine_ok e"
  by (rule machine.reach [of False]) (auto intro: boot_ok)

end
