(* ===== verification/Segments.thy ===== *)
theory Segments
  imports Machine_Invariants
begin

text \<open>
  The address map of the architecture, by address ranges, and the translations it allows.  The
  segment decoders of \<^verbatim>\<open>src/src/cpu/mips_exec.rs\<close> refine it in both addressing modes.
\<close>

section \<open>The address map\<close>

text \<open>What a virtual address is: a window on physical memory with a cache attribute, a mapped
  address looked up with 32- or 64-bit tags, or nothing the mode may touch.\<close>

datatype segment = Window u64 u32 | Mapped bool | AddrError

definition segment_32 :: "privilege_mode \<Rightarrow> 'b mips_executor \<Rightarrow> u64 \<Rightarrow> segment" where
  "segment_32 p e va =
     (let a = unat va mod 2 ^ 32
      in if a < 0x80000000 then
           (if cp0_status (core e) AND STATUS_ERL \<noteq> 0 then Window (word_of_nat a) TR_UNCACHED
            else Mapped False)
         else if a < 0xA0000000 then
           (if p = Kernel then Window (word_of_nat (a - 0x80000000)) (kseg0_cache_attr e) else AddrError)
         else if a < 0xC0000000 then
           (if p = Kernel then Window (word_of_nat (a - 0xA0000000)) TR_UNCACHED else AddrError)
         else if a < 0xE0000000 then (if p = User then AddrError else Mapped False)
         else (if p = Kernel then Mapped False else AddrError))"

definition segment_64 :: "privilege_mode \<Rightarrow> 'b mips_executor \<Rightarrow> u64 \<Rightarrow> segment" where
  "segment_64 p e va =
     (let a = unat va
      in if a < 2 ^ 40 then
           (if cp0_status (core e) AND STATUS_ERL \<noteq> 0 then Window (fold_phys e va) TR_UNCACHED
            else Mapped True)
         else if a < 2 ^ 62 then AddrError
         else if a < 2 ^ 63 then (if p = User then AddrError else Mapped True)
         else if p \<noteq> Kernel then AddrError
         else if a < 0x9000000000000000 then AddrError
         else if a < 0xC000000000000000 then
           Window (fold_phys e (word_of_nat (a mod 2 ^ 59)))
             (decode_cache_attr (model e) (word_of_nat (a div 2 ^ 59 mod 8)))
         else if 0xFFFFFFFF80000000 \<le> a \<and> a < 0xFFFFFFFFA0000000 then
           Window (word_of_nat (a - 0xFFFFFFFF80000000)) (kseg0_cache_attr e)
         else if 0xFFFFFFFFA0000000 \<le> a \<and> a < 0xFFFFFFFFC0000000 then
           Window (word_of_nat (a - 0xFFFFFFFFA0000000)) TR_UNCACHED
         else Mapped True)"

definition segment_of :: "privilege_mode \<Rightarrow> 'b mips_executor \<Rightarrow> u64 \<Rightarrow> segment" where
  "segment_of p e va =
     (if is_64bit_mode (core e) then segment_64 p e va else segment_32 p e va)"

section \<open>Refinement\<close>

text \<open>What the decoders do with a segment.\<close>

definition translate_segment ::
  "bool \<Rightarrow> segment \<Rightarrow> u64 \<Rightarrow> access_type \<Rightarrow> 'b mips_executor
     \<Rightarrow> (translate_result \<times> 'b mips_executor) option" where
  "translate_segment dbg sg va acc e =
     (case sg of
        Window pa c \<Rightarrow> Some (tr_ok pa c, e)
      | Mapped x \<Rightarrow> tlb_translate_impl dbg x va acc e
      | AddrError \<Rightarrow> Some (tr_addr_error dbg va acc e))"

lemma unat_lo32: "unat (lo32 va) = unat va mod 2 ^ 32"
  by (simp add: unsigned_ucast_eq take_bit_eq_mod)

lemma window_29:
  assumes "unat w div 2 ^ 29 = k"
  shows "(zext ((w :: u32) AND 0x1FFFFFFF) :: u64) = word_of_nat (unat w - k * 2 ^ 29)"
proof -
  have "(0x1FFFFFFF :: u32) = mask 29" by (simp add: mask_eq_exp_minus_1)
  then have "unat (w AND 0x1FFFFFFF) = unat w mod 2 ^ 29" using unat_and_mask [of w 29] by simp
  also have "\<dots> = unat w - k * 2 ^ 29" using assms by (simp add: minus_div_mult_eq_mod flip: assms)
  finally have "unat (w AND 0x1FFFFFFF) = unat w - k * 2 ^ 29" .
  moreover have "(zext v :: u64) = word_of_nat (unat v)" for v :: u32 by simp
  ultimately show ?thesis by metis
qed

lemma translate_32_segment:
  "translate_32bit_impl dbg p va acc e = translate_segment dbg (segment_32 p e va) va acc e"
proof -
  let ?w = "lo32 va"
  define a where "a = unat ?w"
  have z: "zext ?w = (word_of_nat a :: u64)" by (simp add: a_def)
  have seg: "unat (shr ?w 29) = a div 2 ^ 29" by (simp add: a_def unat_drop_bit_div)
  have m: "unat va mod 2 ^ 32 = a" by (simp add: a_def unat_lo32)
  have eqs: "a div 2 ^ 29 \<le> 3 \<longleftrightarrow> a < 0x80000000" "a div 2 ^ 29 = 4 \<longleftrightarrow> 0x80000000 \<le> a \<and> a < 0xA0000000"
    "a div 2 ^ 29 = 5 \<longleftrightarrow> 0xA0000000 \<le> a \<and> a < 0xC0000000"
    "a div 2 ^ 29 = 6 \<longleftrightarrow> 0xC0000000 \<le> a \<and> a < 0xE0000000" by auto
  have w: "a div 2 ^ 29 = k \<Longrightarrow> (zext (?w AND 0x1FFFFFFF) :: u64) = word_of_nat (a - k * 2 ^ 29)" for k
    unfolding a_def by (rule window_29)
  show ?thesis
    using w [of 4] w [of 5] z
    unfolding translate_32bit_impl_def translate_segment_def segment_32_def Let_def seg m eqs
    by (cases p) (auto split: if_splits)
qed

lemma word_eq_nat: "(w :: 'a :: len word) = v \<longleftrightarrow> unat w = unat v"
  by (simp add: word_unat_eq_iff)

lemma word_of_unat: "unat w = n \<Longrightarrow> (w :: 'a :: len word) = word_of_nat n"
  by auto

lemma translate_64_segment:
  "translate_64bit_impl dbg p va acc e = translate_segment dbg (segment_64 p e va) va acc e"
proof -
  define a where "a = unat va"
  have lt: "a < 2 ^ 64" unfolding a_def using unsigned_less [of va, where ?'a = nat] by simp
  have top62: "unat (shr va 62) = a div 2 ^ 62" by (simp add: a_def unat_drop_bit_div)
  have hi40: "shr va 40 \<noteq> 0 \<longleftrightarrow> 2 ^ 40 \<le> a"
    by (simp add: word_eq_nat unat_drop_bit_div div_greater_zero_iff flip: a_def)
  have b: "unat (shr va 59 AND 7) = a div 2 ^ 59 mod 8"
    using unat_and_mask [of "shr va 59" 3] by (simp add: a_def unat_drop_bit_div mask_eq_exp_minus_1)
  have bits: "(2 \<le> shr va 59 AND 7 \<and> shr va 59 AND 7 \<le> 7) \<longleftrightarrow> 2 \<le> a div 2 ^ 59 mod 8"
    using mod_less_divisor [of 8 "a div 2 ^ 59"] by (auto simp: word_le_nat_alt b)
  have low: "va AND 0x07FFFFFFFFFFFFFF = word_of_nat (a mod 2 ^ 59)"
    using unat_and_mask [of va 59] by (intro word_of_unat) (simp add: a_def mask_eq_exp_minus_1)
  have attr: "lo32 (shr va 59 AND 7) = word_of_nat (a div 2 ^ 59 mod 8)"
    by (intro word_of_unat) (simp add: unat_lo32 b)
  have hi32: "shr va 32 = 0xFFFFFFFF \<longleftrightarrow> a div 2 ^ 32 = 0xFFFFFFFF"
    by (simp add: word_eq_nat unat_drop_bit_div a_def)
  have l: "unat (lo32 va) = a mod 2 ^ 32" by (simp add: a_def unat_lo32)
  have sg: "unat (shr (lo32 va) 29 AND 7) = a mod 2 ^ 32 div 2 ^ 29"
    using unat_and_mask [of "shr (lo32 va) 29" 3] by (simp add: unat_drop_bit_div l mask_eq_exp_minus_1)
  have l64: "a div 2 ^ 62 = 0 \<longleftrightarrow> a < 2 ^ 62" "a div 2 ^ 62 = 1 \<longleftrightarrow> 2 ^ 62 \<le> a \<and> a < 2 ^ 63"
    "a div 2 ^ 62 = 2 \<longleftrightarrow> 2 ^ 63 \<le> a \<and> a < 0xC000000000000000"
    by auto
  have xkphys: "2 \<le> a div 2 ^ 59 mod 8 \<longleftrightarrow> \<not> a < 0x9000000000000000"
    if "2 ^ 63 \<le> a" "a < 0xC000000000000000"
  proof -
    define q where "q = a div 2 ^ 59"
    have "q < 18 \<longleftrightarrow> a < 0x9000000000000000" "16 \<le> q" "q < 24" using that by (auto simp: q_def)
    moreover from this have "q mod 8 = q - 16" by (intro mod_nat_eqI) auto
    ultimately show ?thesis unfolding q_def [symmetric] by linarith
  qed
  define d r where "d = a div 2 ^ 32" and "r = a mod 2 ^ 32"
  have lr: "unat (lo32 va) = r" by (simp add: l r_def)
  have dr: "a = d * 2 ^ 32 + r" "r < 2 ^ 32" by (simp_all add: d_def r_def)
  have seg: "r div 0x20000000 = 4 \<longleftrightarrow> 0x80000000 \<le> r \<and> r < 0xA0000000"
    "r div 0x20000000 = 5 \<longleftrightarrow> 0xA0000000 \<le> r \<and> r < 0xC0000000" by auto
  have top: "d = 0xFFFFFFFF \<longleftrightarrow> 0xFFFFFFFF00000000 \<le> a" using lt by (auto simp: d_def)
  have seg4: "shr va 32 = 0xFFFFFFFF \<and> shr (lo32 va) 29 AND 7 = 4 \<longleftrightarrow>
      0xFFFFFFFF80000000 \<le> a \<and> a < 0xFFFFFFFFA0000000"
    and seg5: "shr va 32 = 0xFFFFFFFF \<and> shr (lo32 va) 29 AND 7 = 5 \<longleftrightarrow>
      0xFFFFFFFFA0000000 \<le> a \<and> a < 0xFFFFFFFFC0000000"
    unfolding hi32 word_eq_nat [of "shr (lo32 va) 29 AND 7"] sg d_def [symmetric] r_def [symmetric]
    using dr by (cases "d = 0xFFFFFFFF"; insert top; simp add: seg; linarith)+
  have win: "(zext (lo32 va AND 0x1FFFFFFF) :: u64) = word_of_nat (a - 0xFFFFFFFF80000000)"
    if k: "0xFFFFFFFF80000000 \<le> a" "a < 0xFFFFFFFFA0000000"
  proof -
    have "d = 0xFFFFFFFF" using k top by simp
    then have "unat (lo32 va) div 2 ^ 29 = 4" "unat (lo32 va) - 4 * 2 ^ 29 = a - 0xFFFFFFFF80000000"
      using k dr by (simp_all add: lr seg)
    then show ?thesis using window_29 [of "lo32 va" 4] by simp
  qed
  have win5: "(zext (lo32 va AND 0x1FFFFFFF) :: u64) = word_of_nat (a - 0xFFFFFFFFA0000000)"
    if k: "0xFFFFFFFFA0000000 \<le> a" "a < 0xFFFFFFFFC0000000"
  proof -
    have "d = 0xFFFFFFFF" using k top by simp
    then have "unat (lo32 va) div 2 ^ 29 = 5" "unat (lo32 va) - 5 * 2 ^ 29 = a - 0xFFFFFFFFA0000000"
      using k dr by (simp_all add: lr seg)
    then show ?thesis using window_29 [of "lo32 va" 5] by simp
  qed
  show ?thesis
    unfolding translate_64bit_impl_def translate_segment_def segment_64_def Let_def top62 hi40 bits low
      attr seg4 seg5 l64 a_def [symmetric]
    using xkphys win win5 lt by (cases p) (auto split: if_splits)
qed

lemma call_translate_segment:
  assumes "synced e"
  shows "call_translate_fn va acc e =
    translate_segment False (segment_of (get_privilege_mode (core e)) e va) va acc e"
  using assms
  by (simp add: call_translate_fn_def synced_def segment_of_def translate_32_segment translate_64_segment)

section \<open>Allowed translations\<close>

definition tlb_asid :: "'b mips_executor \<Rightarrow> u8" where
  "tlb_asid e = ucast (cp0_entryhi (core e) AND 0xFF)"

text \<open>The pairs of physical address and cache attribute the architecture allows: that of a window,
  or that of a matching valid entry (dirty for a store).\<close>

definition arch_maps :: "access_type \<Rightarrow> u64 \<Rightarrow> 'b mips_executor \<Rightarrow> (u64 \<times> u32) set" where
  "arch_maps acc va e =
     (case segment_of (get_privilege_mode (core e)) e va of
        Window pa c \<Rightarrow> {(pa, c)}
      | AddrError \<Rightarrow> {}
      | Mapped x \<Rightarrow>
          {(fold_phys e pa, cache_attr_code a) | pa a d g i.
             i \<in> matching x (tlb e) va (tlb_asid e) \<and>
             shadow_outcome va acc (shadow (tlb e) ! i) = TlbHit pa a d g})"

lemma exception_bit [simp]:
  "exec_exception c AND EXEC_IS_EXCEPTION \<noteq> 0" "exec_tlb_miss c AND EXEC_IS_EXCEPTION \<noteq> 0"
  "exec_xtlb_miss c AND EXEC_IS_EXCEPTION \<noteq> 0"
  by (rule bit_imp_nonzero [where n = 27],
      simp add: exec_exception_def exec_tlb_miss_def exec_xtlb_miss_def exec_flag_bits bit_simps)+

lemma attr_low [simp]:
  "decode_cache_attr m k AND 7 = decode_cache_attr m k" "TR_UNCACHED AND 7 = TR_UNCACHED"
  by (auto simp: decode_cache_attr_def TR_UNCACHED_def TR_CACHEABLE_def TR_CACHEABLE_COH_def Let_def)

lemma attr_mapped [simp]:
  "(cache_attr_code a OR TR_MAPPED OR (if g then TR_GLOBAL else 0)) AND 7 = cache_attr_code a"
  by (cases a; simp add: TR_MAPPED_def TR_GLOBAL_def)

lemma attr_small:
  "cache_attr_code a < 8" "decode_cache_attr m k < 8" "TR_UNCACHED < 8"
  by (cases a; simp)
    (auto simp: decode_cache_attr_def TR_UNCACHED_def TR_CACHEABLE_def TR_CACHEABLE_COH_def Let_def)

definition attr_ok :: "segment \<Rightarrow> bool" where
  "attr_ok sg \<longleftrightarrow> (case sg of Window pa c \<Rightarrow> c AND 7 = c | _ \<Rightarrow> True)"

lemma attr_ok_if: "attr_ok x \<Longrightarrow> attr_ok y \<Longrightarrow> attr_ok (if b then x else y)"
  by simp

lemma segment_attr_ok: "attr_ok (segment_of p e va)"
  unfolding segment_of_def segment_32_def segment_64_def Let_def
  by (intro attr_ok_if; simp add: attr_ok_def kseg0_cache_attr_def)

lemma segment_cases:
  obtains (window) pa c where "segment_of p e va = Window pa c" "c AND 7 = c"
  | (mapped) x where "segment_of p e va = Mapped x"
  | (error) "segment_of p e va = AddrError"
  using segment_attr_ok [of p e va] by (cases "segment_of p e va") (auto simp: attr_ok_def)

lemma translate_allowed:
  assumes "synced e" "tlb_inv (tlb e)" "call_translate_fn va acc e = Some (r, e')"
    "\<not> tr_is_exception r"
  shows "(tr_phys r, tr_status r AND 7) \<in> arch_maps acc va e"
proof (cases rule: segment_cases [of "get_privilege_mode (core e)" e va])
  case (window pa c)
  then show ?thesis
    using assms by (auto simp: call_translate_segment translate_segment_def arch_maps_def tr_ok_def)
next
  case error
  then show ?thesis
    using assms by (auto simp: call_translate_segment translate_segment_def tr_addr_error_def
        tr_exc_def tr_is_exception_def)
next
  case (mapped x)
  then have t: "tlb_translate_impl False x va acc e = Some (r, e')"
    using assms by (simp add: call_translate_segment translate_segment_def)
  obtain q t' where q: "tlb_translate x (tlb e) va (tlb_asid e) acc = Some (q, t')"
    and ok: "q = TlbMiss (shr va 13) \<or>
      (\<exists>i \<in> matching x (tlb e) va (tlb_asid e). q = shadow_outcome va acc (shadow (tlb e) ! i))"
    by (rule tlb_translate_sound [OF assms(2)])
  have f: "fold_phys (e\<lparr>tlb := t'\<rparr>) = fold_phys e" by (simp add: fun_eq_iff fold_phys_def)
  obtain pa a d g where hit: "q = TlbHit pa a d g"
    using t q assms(4) by (cases q) (auto simp: tlb_translate_impl_def tlb_asid_def Let_def tr_exc_def
        tr_is_exception_def split: if_splits)
  then have r: "r = tr_ok_mapped (fold_phys e pa) (cache_attr_code a) g"
    using t q assms(4) by (auto simp: tlb_translate_impl_def tlb_asid_def Let_def tr_exc_def
        tr_is_exception_def f split: if_splits)
  obtain i where "i \<in> matching x (tlb e) va (tlb_asid e)"
      "shadow_outcome va acc (shadow (tlb e) ! i) = TlbHit pa a d g"
    using ok hit by auto
  moreover have "(tr_phys r, tr_status r AND 7) = (fold_phys e pa, cache_attr_code a)"
    by (simp only: r tr_ok_mapped_def translate_result.simps attr_mapped)
  ultimately show ?thesis unfolding arch_maps_def using mapped by simp blast
qed

end
