(* ===== verification/Pages.thy ===== *)
theory Pages
  imports Segments
begin

text \<open>
  Translation is uniform over a page: two addresses of one 4 KB page translate alike up to the
  offset.  This is what lets the nano- and micro-TLB remember one address for the whole page.
\<close>

section \<open>The page of an address\<close>

text \<open>\<open>repage p v\<close> is the address in the page of \<open>p\<close> at the offset of \<open>v\<close>.\<close>

definition repage :: "u64 \<Rightarrow> u64 \<Rightarrow> u64" where
  "repage p v = (p AND NOT 0xFFF) OR (v AND 0xFFF)"

lemma page_mask: "(0xFFF :: u64) = mask 12"
  by (simp add: mask_eq_exp_minus_1)

lemma repage_bits [simp]: "bit (repage p v) n \<longleftrightarrow> (if n < 12 then bit v n else bit p n)"
  unfolding repage_def page_mask by (cases "n < 64") (auto simp: bit_simps dest: bit_imp_le_length)

lemma repage_add: "repage p v = p - (p AND 0xFFF) + (v AND 0xFFF)"
proof -
  have "p = (p AND NOT 0xFFF) OR (p AND 0xFFF)"
    unfolding page_mask by (rule bit_word_eqI) (simp only: word_bits; auto)
  also have "\<dots> = (p AND NOT 0xFFF) + (p AND 0xFFF)"
    unfolding page_mask by (rule disjunctive_add [symmetric]) (auto simp: bit_simps)
  finally have "p AND NOT 0xFFF = p - (p AND 0xFFF)" by (metis add_diff_cancel_right')
  moreover have "repage p v = (p AND NOT 0xFFF) + (v AND 0xFFF)"
    unfolding repage_def page_mask by (rule disjunctive_add [symmetric]) (auto simp: bit_simps)
  ultimately show ?thesis by simp
qed

lemma low_diff: "c AND 0xFFF = 0 \<Longrightarrow> (p - c) AND 0xFFF = (p :: u64) AND 0xFFF"
  using word_take_bit_diff [of 12 p c] unfolding page_mask by (simp add: take_bit_eq_mask)

lemma low_add: "c AND 0xFFF = 0 \<Longrightarrow> (p + c) AND 0xFFF = (p :: u64) AND 0xFFF"
  using word_take_bit_add [of 12 p c] unfolding page_mask by (simp add: take_bit_eq_mask)

lemma repage_shift:
  assumes "c AND 0xFFF = 0"
  shows "repage (p - c) v = repage p v - c" "repage (p + c) v = repage p v + c"
  using low_diff [OF assms, of p] low_add [OF assms, of p] by (simp_all add: repage_add)

lemma aligned_bit:
  assumes "m AND 0xFFF = 0" "n < 12"
  shows "\<not> bit (m :: u64) n"
  using arg_cong [OF assms(1), of "\<lambda>w. bit w n"] assms(2) unfolding page_mask by (simp add: bit_simps)

lemma full_bit:
  assumes "m AND 0xFFF = 0xFFF" "n < 12"
  shows "bit (m :: u64) n"
  using arg_cong [OF assms(1), of "\<lambda>w. bit w n"] assms(2) unfolding page_mask by (simp add: bit_simps)

lemma repage_and:
  assumes "m AND 0xFFF = 0xFFF"
  shows "repage (p AND m) v = repage p v AND m"
proof (rule bit_word_eqI)
  fix n
  have "n < 12 \<Longrightarrow> bit m n" using assms by (rule full_bit)
  then show "bit (repage (p AND m) v) n = bit (repage p v AND m) n"
    by (auto simp: bit_and_iff)
qed

lemma shr_repage [simp]: "shr (repage p v) 12 = shr p 12"
  by (rule bit_word_eqI) (simp add: bit_drop_bit_eq)

lemma unat_repage: "unat (repage p v) div 4096 = unat p div 4096"
  "unat (repage p v) mod 4096 = unat v mod 4096"
proof -
  show "unat (repage p v) div 4096 = unat p div 4096"
    using unat_drop_bit_div [of 12 "repage p v"] unat_drop_bit_div [of 12 p] unfolding shr_repage by simp
  have "repage p v AND mask 12 = v AND mask 12"
    by (rule bit_word_eqI) (auto simp: bit_simps)
  then show "unat (repage p v) mod 4096 = unat v mod 4096"
    using unat_and_mask [of "repage p v" 12] unat_and_mask [of v 12] by simp
qed

lemma repage_nat: "unat q div 4096 = unat p div 4096 \<Longrightarrow> unat q mod 4096 = unat v mod 4096 \<Longrightarrow> q = repage p v"
  by (metis div_mult_mod_eq unat_repage word_unat_eq_iff)

lemma aligned_dvd: "s AND 0xFFF = 0 \<Longrightarrow> 4096 dvd unat (s :: u64)"
  using unat_and_mask [of s 12] unfolding page_mask by (simp add: dvd_eq_mod_eq_0)

lemma repage_less:
  assumes "s AND 0xFFF = 0"
  shows "repage p v < s \<longleftrightarrow> p < s"
proof -
  obtain k where k: "unat s = k * 4096" using aligned_dvd [OF assms] by (auto elim: dvdE)
  have "x < s \<longleftrightarrow> unat x div 4096 < k" for x
    by (simp add: word_less_nat_alt k div_less_iff_less_mult)
  then show ?thesis by (simp add: unat_repage)
qed

lemma repage_same: "repage v v = v"
  by (rule repage_nat [symmetric]) auto

lemma same_page: "va AND NOT 0xFFF = va' AND NOT 0xFFF \<Longrightarrow> repage va va' = va'"
  using repage_same [of va'] by (simp add: repage_def)

section \<open>Address folding\<close>

text \<open>A board folds whole pages.\<close>

definition fold_ok :: "'b mips_executor \<Rightarrow> bool" where
  "fold_ok e \<longleftrightarrow> phys_mask e AND 0xFFF = 0xFFF \<and>
     (case phys_alias e of None \<Rightarrow> True
      | Some (b, sz, t) \<Rightarrow> b AND 0xFFF = 0 \<and> sz AND 0xFFF = 0 \<and> t AND 0xFFF = 0)"

lemma fold_repage:
  assumes "fold_ok e"
  shows "fold_phys e (repage p v) = repage (fold_phys e p) v"
  using assms
  by (auto simp: fold_ok_def fold_phys_def Let_def repage_and repage_less repage_shift
      simp flip: repage_shift(1) split: option.splits)

lemma board_folds: "fold_ok (configure_board bd (executor_new now b dev m4 t))"
  by (cases bd) (simp_all add: fold_ok_def executor_new_def update_fpr_mode_def
      update_translate_fn_def NO_ECC_BASE_def RAM_WINDOW_SIZE_def RAM_BASE_def Let_def)

section \<open>Segments\<close>

fun move_segment :: "u64 \<Rightarrow> segment \<Rightarrow> segment" where
  "move_segment v (Window pa c) = Window (repage pa v) c"
| "move_segment v (Mapped x) = Mapped x"
| "move_segment v AddrError = AddrError"

lemma page_less:
  fixes a a' k :: nat
  assumes "a' div 4096 = a div 4096" "4096 dvd k"
  shows "a' < k \<longleftrightarrow> a < k"
proof -
  obtain m where "k = m * 4096" using assms(2) by (auto elim: dvdE)
  then show ?thesis using assms(1) by (simp flip: div_less_iff_less_mult)
qed

lemma unat_word_of_nat: "n < 2 ^ 64 \<Longrightarrow> unat (word_of_nat n :: u64) = n"
  by (simp add: unsigned_of_nat take_bit_nat_eq_self)

lemma window_page:
  assumes "a' div 4096 = a div 4096" "a' mod 4096 = unat v mod 4096" "4096 dvd c"
    "c \<le> a" "a < 2 ^ 64" "a' < 2 ^ 64"
  shows "word_of_nat (a' - c) = repage (word_of_nat (a - c)) v"
proof -
  obtain m where m: "c = 4096 * m" using assms(3) by (auto elim: dvdE)
  have ca: "c \<le> a'" using page_less [OF assms(1,3)] assms(4) by simp
  have d: "(x - c) div 4096 = x div 4096 - m" "(x - c) mod 4096 = x mod 4096" if "c \<le> x" for x
  proof -
    have "x = (x - c) + c" using that by simp
    then obtain y where "x = y + c" by blast
    then show "(x - c) div 4096 = x div 4096 - m" "(x - c) mod 4096 = x mod 4096" by (simp_all add: m)
  qed
  have u: "unat (word_of_nat (x - c) :: u64) = x - c" if "x < 2 ^ 64" for x
    using that by (intro unat_word_of_nat) simp
  show ?thesis
    by (rule repage_nat) (simp_all only: u [OF assms(5)] u [OF assms(6)] d [OF ca] d [OF assms(4)] assms(1,2))
qed

lemma segment_32_page: "segment_32 p e (repage va v) = move_segment v (segment_32 p e va)"
proof -
  define a a' where "a = unat va mod 2 ^ 32" and "a' = unat (repage va v) mod 2 ^ 32"
  have m: "x mod 2 ^ 32 div 4096 = x div 4096 mod 2 ^ 20" "x mod 2 ^ 32 mod 4096 = x mod 4096" for x :: nat
    using div_exp_mod_exp_eq [of x 12 20] mod_mod_cancel [of 4096 "2 ^ 32" x] by simp_all
  have pg: "a' div 4096 = a div 4096" "a' mod 4096 = unat v mod 4096"
    unfolding a_def a'_def m by (simp_all add: unat_repage)
  have lt: "a < 2 ^ 64" "a' < 2 ^ 64" by (simp_all add: a_def a'_def less_trans [OF mod_less_divisor])
  show ?thesis
    unfolding segment_32_def a_def [symmetric] a'_def [symmetric] Let_def
    using window_page [where c = "0", OF pg _ _ lt]  window_page [where c = "0x80000000", OF pg _ _ lt]
      window_page [where c = "0xA0000000", OF pg _ _ lt]
    by (simp add: page_less [OF pg(1)])
qed

lemma segment_64_page:
  assumes "fold_ok e"
  shows "segment_64 p e (repage va v) = move_segment v (segment_64 p e va)"
proof -
  define a a' where "a = unat va" and "a' = unat (repage va v)"
  have pg: "a' div 4096 = a div 4096" "a' mod 4096 = unat v mod 4096"
    by (simp_all add: a_def a'_def unat_repage)
  have lt: "a < 2 ^ 64" "a' < 2 ^ 64"
    unfolding a_def a'_def using unsigned_less [where ?'a = nat and w = va]
      unsigned_less [where ?'a = nat and w = "repage va v"] by simp_all
  have m: "x mod 2 ^ 59 div 4096 = x div 4096 mod 2 ^ 47" "x mod 2 ^ 59 mod 4096 = x mod 4096"
    "x div 2 ^ 59 = x div 4096 div 2 ^ 47" for x :: nat
    using div_exp_mod_exp_eq [of x 12 47] mod_mod_cancel [of 4096 "2 ^ 59" x]
    by (simp_all add: div_mult2_eq [symmetric])
  have attr: "a' div 2 ^ 59 = a div 2 ^ 59" by (simp only: m pg)
  have pgm: "a' mod 2 ^ 59 div 4096 = a mod 2 ^ 59 div 4096" "a' mod 2 ^ 59 mod 4096 = unat v mod 4096"
    by (simp_all only: m pg)
  have "x mod 2 ^ 59 < 2 ^ 64" for x :: nat by (rule less_trans [OF mod_less_divisor]) simp_all
  then have low: "word_of_nat (a' mod 2 ^ 59) = repage (word_of_nat (a mod 2 ^ 59)) v"
    using window_page [where c = 0, OF pgm] by simp
  have less: "a' < k \<longleftrightarrow> a < k" "k \<le> a' \<longleftrightarrow> k \<le> a" if "4096 dvd k" for k
    using page_less [OF pg(1) that] by auto
  show ?thesis
    unfolding segment_64_def a_def [symmetric] a'_def [symmetric] Let_def attr low
    using window_page [where c = "0xFFFFFFFF80000000", OF pg _ _ lt]
      window_page [where c = "0xFFFFFFFFA0000000", OF pg _ _ lt]
    by (simp add: less fold_repage [OF assms])
qed

lemma segment_page:
  "fold_ok e \<Longrightarrow> segment_of p e (repage va v) = move_segment v (segment_of p e va)"
  by (simp add: segment_of_def segment_32_page segment_64_page)

section \<open>TLB entries\<close>

text \<open>A shadow entry whose tags and offsets respect pages.\<close>

definition paged :: "shadow_entry \<Rightarrow> bool" where
  "paged s \<longleftrightarrow> se_vcmp32 s AND 0xFFF = 0 \<and> se_vcmp64 s AND 0xFFF = 0 \<and>
     12 \<le> se_selector_bit_shift s \<and> se_offset_mask s AND 0xFFF = 0xFFF \<and>
     fst (se_pfn_base s) AND 0xFFF = 0 \<and> snd (se_pfn_base s) AND 0xFFF = 0"

lemma repage_high: "m AND 0xFFF = 0 \<Longrightarrow> repage va v AND m = va AND m"
  by (rule bit_word_eqI) (auto simp: bit_and_iff dest: aligned_bit)

lemma match_page: "paged s \<Longrightarrow> shadow_match x (repage va v) asid s = shadow_match x va asid s"
  by (simp add: shadow_match_def paged_def repage_high)

lemma shr_page: "12 \<le> k \<Longrightarrow> shr (repage va v) k = shr va k"
  by (rule bit_word_eqI) (simp add: bit_drop_bit_eq)

lemma outcome_page:
  assumes "paged s" "shadow_outcome va acc s = TlbHit pa a d g"
  shows "shadow_outcome (repage va v) acc s = TlbHit (repage pa v) a d g"
proof -
  define b where "b = at2 (se_pfn_base s) (unat (shr va (se_selector_bit_shift s) AND 1))"
  have b: "b AND 0xFFF = 0" using assms(1) by (simp add: b_def paged_def at2_def)
  have "b OR (repage va v AND se_offset_mask s) = repage (b OR (va AND se_offset_mask s)) v"
  proof (rule bit_word_eqI)
    fix n
    have "n < 12 \<Longrightarrow> bit (se_offset_mask s) n" using assms(1) full_bit by (simp add: paged_def)
    then show "bit (b OR (repage va v AND se_offset_mask s)) n = bit (repage (b OR (va AND se_offset_mask s)) v) n"
      using aligned_bit [OF b, of n] by (auto simp: bit_or_iff bit_and_iff)
  qed
  then show ?thesis
    using assms by (auto simp: shadow_outcome_def paged_def shr_page Let_def b_def split: if_splits)
qed

lemma trailing_ones_13: "13 \<le> trailing_ones (m OR 0x1FFF)"
proof -
  have m13: "(0x1FFF :: u64) = mask 13" by (simp add: mask_eq_exp_minus_1)
  have "bit (m OR 0x1FFF) i" if "i \<in> set [0..<13]" for i
    using that unfolding m13 by (simp add: bit_simps)
  then have "takeWhile (bit (m OR 0x1FFF)) ([0..<13] @ [13..<64]) =
      [0..<13] @ takeWhile (bit (m OR 0x1FFF)) [13..<64]" by (rule takeWhile_append2)
  moreover have "[0..<64] = [0..<13] @ [13..<64]" by (simp add: upt_rec)
  ultimately show ?thesis by (simp add: trailing_ones_def del: upt_rec_numeral)
qed

lemma aligned_and: "c AND 0xFFF = 0 \<Longrightarrow> (w AND c) AND 0xFFF = 0" "c AND 0xFFF = 0 \<Longrightarrow> (c AND w) AND 0xFFF = 0"
  for c w :: u64
  by (simp_all add: and.assoc and.left_commute [of c])

lemma derive_paged: "paged (shadow_from_entry (tlb_entry_derive e) table)"
proof -
  define k where "k = trailing_ones (te_page_mask e OR 0x1FFF) - 1"
  have k: "12 \<le> k" using trailing_ones_13 [of "te_page_mask e"] by (simp add: k_def)
  have off: "(shl 1 k - 1 :: u64) AND 0xFFF = 0xFFF"
  proof -
    have "(shl 1 k - 1 :: u64) = mask k" by (simp add: mask_eq_exp_minus_1 push_bit_of_1)
    then show ?thesis unfolding page_mask using k by (auto intro!: bit_word_eqI simp: bit_simps)
  qed
  have lit: "(0x00000000FFFFE000 :: u64) AND 0xFFF = 0" "(0xC00000FFFFFFE000 :: u64) AND 0xFFF = 0"
    "(0xFFFFFFFFFF000 :: u64) AND 0xFFF = 0" by simp_all
  show ?thesis
    unfolding paged_def shadow_from_entry_def tlb_entry_derive_def Let_def k_def [symmetric]
    using k off by (simp add: aligned_and(1) [OF lit(1)] aligned_and(1) [OF lit(2)]
        aligned_and(1) [OF aligned_and(2) [OF lit(3)]])
qed

lemma shadow_paged:
  assumes "tlb_inv t" "i < num_entries t"
  shows "paged (shadow t ! i)"
proof -
  have "tlb_entry_derive (entries t ! i) = entries t ! i"
    "shadow t ! i = shadow_from_entry (entries t ! i) (c_attr t) \<or> shadow t ! i = shadow_invalid"
    using assms by (auto simp: tlb_inv_def tlb_wf_def)
  moreover have "paged shadow_invalid" by (simp add: paged_def shadow_invalid_def)
  ultimately show ?thesis using derive_paged [of "entries t ! i" "c_attr t"] by auto
qed

end
