(* ===== verification/Utlb_Coherence.thy ===== *)
theory Utlb_Coherence
  imports Pages
begin

text \<open>
  The nano-TLB and the micro-TLB never serve a stale translation: in every reachable state of a
  machine a cached translation is one the address map and the TLB allow now.
\<close>

section \<open>Frames of the allowed translations\<close>

lemma arch_maps_page:
  assumes "fold_ok e" "tlb_inv (tlb e)" "(pa, c) \<in> arch_maps acc va e"
  shows "(repage pa v, c) \<in> arch_maps acc (repage va v) e"
proof (cases "segment_of (get_privilege_mode (core e)) e va")
  case (Mapped x)
  then obtain q a d g i where q: "pa = fold_phys e q" "c = cache_attr_code a"
      "i \<in> matching x (tlb e) va (tlb_asid e)" "shadow_outcome va acc (shadow (tlb e) ! i) = TlbHit q a d g"
    using assms(3) unfolding arch_maps_def by auto
  have p: "paged (shadow (tlb e) ! i)" using q(3) by (intro shadow_paged [OF assms(2)]) (simp add: matching_def)
  then have "i \<in> matching x (tlb e) (repage va v) (tlb_asid e)"
    using q(3) by (simp add: matching_def match_page)
  moreover have "shadow_outcome (repage va v) acc (shadow (tlb e) ! i) = TlbHit (repage q v) a d g"
    by (rule outcome_page [OF p q(4)])
  moreover have "repage pa v = fold_phys e (repage q v)" by (simp add: q(1) fold_repage [OF assms(1)])
  ultimately show ?thesis
    using Mapped q(2) unfolding arch_maps_def segment_page [OF assms(1)] by simp blast
qed (use assms in \<open>auto simp: arch_maps_def segment_page\<close>)

text \<open>What the allowed translations depend on.\<close>

definition same_map :: "'b mips_executor \<Rightarrow> 'b mips_executor \<Rightarrow> bool" where
  "same_map e e' \<longleftrightarrow> cp0_status (core e') = cp0_status (core e) \<and> cp0_config (core e') = cp0_config (core e) \<and>
     tlb_asid e' = tlb_asid e \<and> fixed e' = fixed e \<and>
     (\<exists>m n. tlb e' = (tlb e)\<lparr>mru_head := m, mru_next := n\<rparr>)"

lemma arch_maps_cong:
  assumes "same_map e e'"
  shows "arch_maps acc va e' = arch_maps acc va e"
proof -
  obtain m n where t: "tlb e' = (tlb e)\<lparr>mru_head := m, mru_next := n\<rparr>"
    and st: "cp0_status (core e') = cp0_status (core e)" "cp0_config (core e') = cp0_config (core e)"
    and fx: "model e' = model e" "phys_alias e' = phys_alias e" "phys_mask e' = phys_mask e"
      "tlb_asid e' = tlb_asid e"
    using assms by (auto simp: same_map_def fixed_def)
  note mode = mode_cong [OF st(1)]
  have f: "fold_phys e' = fold_phys e" by (simp add: fun_eq_iff fold_phys_def fx)
  have k: "kseg0_cache_attr e' = kseg0_cache_attr e" by (simp add: kseg0_cache_attr_def fx st)
  have "segment_of p e' va = segment_of p e va" for p
    by (simp only: segment_of_def segment_32_def segment_64_def f k fx st mode)
  then show ?thesis
    unfolding arch_maps_def
    by (cases "segment_of (get_privilege_mode (core e)) e va") (simp_all add: mode f t fx)
qed

lemma same_map_refl [simp]: "same_map e e"
  using mru_unchanged [of "tlb e"] by (simp add: same_map_def)

lemma quiet_same_map: "quiet e e' \<Longrightarrow> same_map e e'"
  by (auto simp: quiet_def same_map_def ctl_def tlb_asid_def)

section \<open>Coherence\<close>

text \<open>The access an array of the micro-TLB serves.\<close>

definition nutlb_access :: "nat \<Rightarrow> access_type" where
  "nutlb_access a = (if a = NUTLB_WRITE then Write else Read)"

definition data_coherent :: "'b mips_executor \<Rightarrow> bool" where
  "data_coherent e \<longleftrightarrow> (\<forall>a < 2. \<forall>va.
     let t = nutlb (core e) ! a ! nutlb_index va
     in nu_virttag t = va AND NOT 0xFFF \<longrightarrow> nutlb_is_valid a (nutlb_index va) (core e) \<longrightarrow>
        (nu_phys_addr t va, nu_cache_attr_raw t) \<in> arch_maps (nutlb_access a) va e)"

definition fetch_coherent :: "'b mips_executor \<Rightarrow> bool" where
  "fetch_coherent e \<longleftrightarrow> (\<forall>va. nano_matches (nanotlb (core e) ! 0) (va AND NOT 0xFFF) \<longrightarrow>
     (nano_phys_addr (nanotlb (core e) ! 0) va, nano_cache_attr_raw (nanotlb (core e) ! 0))
       \<in> arch_maps Fetch va e)"

definition coherent :: "'b mips_executor \<Rightarrow> bool" where
  "coherent e \<longleftrightarrow> machine_ok e \<and> fold_ok e \<and> data_coherent e \<and> fetch_coherent e"

lemma fold_ok_fixed: "fixed e' = fixed e \<Longrightarrow> fold_ok e' = fold_ok e"
  by (simp add: fixed_def fold_ok_def)

lemma coherent_same:
  assumes "same_map e e'" "utlb (core e') = utlb (core e)"
  shows "data_coherent e \<Longrightarrow> data_coherent e'" "fetch_coherent e \<Longrightarrow> fetch_coherent e'"
  using assms by (simp_all add: data_coherent_def fetch_coherent_def utlb_def arch_maps_cong Let_def
      nutlb_is_valid_def)

lemma nutlb_index_less: "nutlb_index va < NUM_NUTLB_ENTRIES"
  using unat_and_mask [of "shr va 12" 8]
  by (simp add: nutlb_index_def NUTLB_INDEX_MASK_def NUM_NUTLB_ENTRIES_def mask_eq_exp_minus_1)

lemma nano_tag_valid: "nano_matches t p \<Longrightarrow> nano_is_valid t"
  using bit_imp_nonzero [of "p OR 1" 0] by (auto simp: nano_matches_def nano_is_valid_def bit_simps)

lemma flushed_coherent:
  assumes "flushed (core e)" "length (nanotlb (core e)) = 3"
  shows "data_coherent e" "fetch_coherent e"
proof -
  have "\<not> nutlb_is_valid a (nutlb_index va) (core e)" if "a < 2" for a va
    using assms(1) nutlb_index_less [of va] that by (simp add: flushed_def)
  then show "data_coherent e" by (simp add: data_coherent_def Let_def)
  show "fetch_coherent e"
    using assms by (auto simp: fetch_coherent_def flushed_def dest!: nano_tag_valid)
qed

text \<open>The two fills store the page of an allowed translation.\<close>

lemma fill_entry:
  fixes c :: u32 and pa va :: u64
  assumes "c AND 7 = c"
  shows "((((pa AND NOT 0xFFF) OR zext c) AND NOT 0xFFF) OR (va AND 0xFFF)) = repage pa va"
    "lo32 (((pa AND NOT 0xFFF) OR zext c) AND 7) = c"
proof -
  have c: "bit c n \<Longrightarrow> n < 3" for n
    using arg_cong [OF assms, of "\<lambda>w. bit w n"] bit_mask_iff [of 3 n, where ?'a = "32 word"]
    by (auto simp: bit_and_iff mask_eq_exp_minus_1)
  have 7: "(7 :: u64) = mask 3" by (simp add: mask_eq_exp_minus_1)
  show "((((pa AND NOT 0xFFF) OR zext c) AND NOT 0xFFF) OR (va AND 0xFFF)) = repage pa va"
    unfolding repage_def page_mask by (rule bit_word_eqI) (auto simp: bit_simps dest: c)
  show "lo32 (((pa AND NOT 0xFFF) OR zext c) AND 7) = c"
    unfolding page_mask 7 by (rule bit_word_eqI) (auto simp: bit_simps dest: c)
qed

lemma valid_bit: "nutlb_is_valid a i c \<longleftrightarrow> bit (nutlb_valid c ! a ! (i div 64)) (i mod 64)"
  by (simp add: nutlb_is_valid_def bit_iff_and_drop_bit_eq_1 and_one_eq)

lemma valid_set:
  assumes "length (nutlb_valid c) = 2" "length (nutlb_valid c ! a) = NUM_NUTLB_WORDS"
    "a < 2" "b < 2" "i < NUM_NUTLB_ENTRIES" "j < NUM_NUTLB_ENTRIES"
  shows "nutlb_is_valid b j (nutlb_set_valid a i c) \<longleftrightarrow> b = a \<and> j = i \<or> nutlb_is_valid b j c"
proof -
  have len: "i div 64 < length (nutlb_valid c ! a)"
    using assms by (auto simp: NUM_NUTLB_ENTRIES_def NUM_NUTLB_WORDS_def)
  have ij: "j = i \<longleftrightarrow> j div 64 = i div 64 \<and> j mod 64 = i mod 64" by (metis div_mult_mod_eq)
  show ?thesis
    using len assms(1,3,4)
    by (auto simp: valid_bit nutlb_set_valid_def Let_def nth_list_update bit_simps ij split: if_splits)
qed

lemma fill_array_coherent:
  assumes e: "arrays_ok e" "tlb_inv (tlb e)" "fold_ok e" "data_coherent e" and a: "a < 2"
    and r: "(p, c) \<in> arch_maps (nutlb_access a) va e" and c: "c AND 7 = c"
  defines "i \<equiv> nutlb_index va"
    and "t \<equiv> \<lparr>nu_virttag = va AND NOT 0xFFF, nu_phys = (p AND NOT 0xFFF) OR zext c\<rparr>"
  shows "data_coherent (e\<lparr>core := nutlb_set_valid a i
      ((core e)\<lparr>nutlb := (nutlb (core e))[a := (nutlb (core e) ! a)[i := t]]\<rparr>)\<rparr>)"
    (is "data_coherent ?e")
  unfolding data_coherent_def Let_def
proof (intro allI impI)
  fix b va'
  let ?j = "nutlb_index va'"
  let ?u = "nutlb (core ?e) ! b ! ?j"
  assume b: "b < 2" and tag: "nu_virttag ?u = va' AND NOT 0xFFF" and v: "nutlb_is_valid b ?j (core ?e)"
  have m: "arch_maps acc x ?e = arch_maps acc x e" for acc x
    by (rule arch_maps_cong) (simp add: same_map_def nutlb_set_valid_def Let_def tlb_asid_def mru_unchanged)
  have len: "a < length (nutlb (core e))" "i < length (nutlb (core e) ! a)"
    using e(1) a nutlb_index_less by (auto simp: arrays_ok_def i_def)
  then have u: "?u = (if b = a \<and> ?j = i then t else nutlb (core e) ! b ! ?j)"
    by (auto simp: nutlb_set_valid_def Let_def nth_list_update)
  have w: "length (nutlb_valid (core e)) = 2" "length (nutlb_valid (core e) ! a) = NUM_NUTLB_WORDS"
    using e(1) a by (simp_all add: arrays_ok_def)
  have valid: "nutlb_is_valid b ?j (core ?e) \<longleftrightarrow> b = a \<and> ?j = i \<or> nutlb_is_valid b ?j (core e)"
    using valid_set [OF w a b nutlb_index_less nutlb_index_less, of va' va]
    by (simp add: nutlb_is_valid_def nutlb_set_valid_def i_def Let_def)
  show "(nu_phys_addr ?u va', nu_cache_attr_raw ?u) \<in> arch_maps (nutlb_access b) va' ?e"
  proof (cases "b = a \<and> ?j = i")
    case True
    have ut: "?u = t" by (rule trans [OF u if_P [OF True]])
    have va': "repage va va' = va'" using tag unfolding ut by (intro same_page) (simp add: t_def)
    have "nu_phys_addr t va' = repage p va'" "nu_cache_attr_raw t = c"
      by (simp_all only: t_def nu_phys_addr_def nu_cache_attr_raw_def nutlb_entry.simps fill_entry [OF c])
    then show ?thesis
      unfolding ut m using arch_maps_page [OF e(3,2) r, of va'] True by (simp only: va')
  next
    case False
    have ut: "?u = nutlb (core e) ! b ! ?j" by (rule trans [OF u if_not_P [OF False]])
    have "nutlb_is_valid b ?j (core e)" using v valid False by blast
    then show ?thesis
      using e(4) b tag unfolding ut m data_coherent_def Let_def by blast
  qed
qed

lemma fill_coherent:
  assumes "arrays_ok e" "tlb_inv (tlb e)" "fold_ok e" "data_coherent e"
    and "(tr_phys r, tr_status r AND 7) \<in> arch_maps (if w then Write else Read) va e"
  shows "data_coherent (nutlb_fill w va r e)"
proof -
  have "(tr_status r AND 7) AND 7 = tr_status r AND 7" by (simp add: and.assoc)
  then show ?thesis
    using fill_array_coherent [OF assms(1-4), of "if w then NUTLB_WRITE else NUTLB_READ" "tr_phys r"
        "tr_status r AND 7" va] assms(4,5)
    by (cases w) (simp_all add: nutlb_fill_def Let_def nutlb_access_def NUTLB_WRITE_def NUTLB_READ_def)
qed

lemma fetch_fill_coherent:
  assumes e: "tlb_inv (tlb e)" "fold_ok e" "fetch_coherent e" "length (nanotlb (core e)) = 3"
    and r: "acc = Fetch \<Longrightarrow> (p, c AND 7) \<in> arch_maps Fetch va e" and acc: "acc = Fetch \<or> acc = Debug"
  shows "fetch_coherent (upd_core (\<lambda>k. k\<lparr>nanotlb := (nanotlb k)[access_index acc :=
     nano_fill_raw (va AND NOT 0xFFF) p (c AND 7) (nanotlb k ! access_index acc)]\<rparr>) e)"
    (is "fetch_coherent ?e")
proof (cases "acc = Fetch")
  case False
  then show ?thesis using acc e(3,4) by (simp add: list_update_beyond)
next
  case True
  let ?t = "nano_fill_raw (va AND NOT 0xFFF) p (c AND 7) (nanotlb (core e) ! 0)"
  have t: "nanotlb (core ?e) ! 0 = ?t" using True e(4) by simp
  have m: "arch_maps a x ?e = arch_maps a x e" for a x
    by (rule arch_maps_cong) (simp add: same_map_def tlb_asid_def mru_unchanged)
  have c: "(c AND 7) AND 7 = c AND 7" by (simp add: and.assoc)
  show ?thesis
    unfolding fetch_coherent_def t m
  proof (intro allI impI)
    fix va'
    assume "nano_matches ?t (va' AND NOT 0xFFF)"
    then have tag: "(va AND NOT 0xFFF) OR 1 = (va' AND NOT 0xFFF) OR 1"
      by (simp add: nano_matches_def nano_fill_raw_def)
    have "va AND NOT 0xFFF = va' AND NOT 0xFFF"
    proof (rule bit_word_eqI)
      fix n
      show "bit (va AND NOT 0xFFF) n = bit (va' AND NOT 0xFFF) n"
        using arg_cong [OF tag, of "\<lambda>w. bit w n"] unfolding page_mask
        by (cases "n < 12") (auto simp: bit_simps)
    qed
    then have va': "repage va va' = va'" by (rule same_page)
    have "pa_encoded ?t = (p AND NOT 0xFFF) OR zext (c AND 7)" by (simp add: nano_fill_raw_def)
    then have "nano_phys_addr ?t va' = repage p va'" "nano_cache_attr_raw ?t = c AND 7"
      by (simp_all only: nano_phys_addr_def nano_cache_attr_raw_def fill_entry [OF c])
    then show "(nano_phys_addr ?t va', nano_cache_attr_raw ?t) \<in> arch_maps Fetch va' e"
      using arch_maps_page [OF e(2,1) r [OF True], of va'] by (simp only: va')
  qed
qed

lemma coherent_flush: "machine_ok e' \<Longrightarrow> coherent e \<Longrightarrow> resets e e' \<Longrightarrow> coherent e'"
  using flushed_coherent [of e'] fold_ok_fixed [of e' e]
  by (simp add: coherent_def resets_def machine_ok_def arrays_ok_def)

lemma coherent_keep:
  "machine_ok e' \<Longrightarrow> coherent e \<Longrightarrow> same_map e e' \<Longrightarrow> utlb (core e') = utlb (core e) \<Longrightarrow> coherent e'"
  using coherent_same [of e e'] fold_ok_fixed [of e' e] by (simp add: coherent_def same_map_def)

lemma mild_same_map: "mild e e' \<Longrightarrow> same_map e e' \<and> utlb (core e') = utlb (core e)"
  using mru_unchanged [of "tlb e"] by (simp add: mild_def same_map_def utlb_def tlb_asid_def fixed_def)

lemma quiet_coherent: "coherent e \<Longrightarrow> quiet e e' \<Longrightarrow> coherent e'"
  by (rule coherent_keep [OF quiet_machine _ quiet_same_map]) (auto simp: coherent_def quiet_def)

lemma fill_kept:
  assumes "coherent e" "call_translate_fn va (if w then Write else Read) e = Some (r, e1)"
    "quiet e e1" "\<not> tr_is_exception r"
    and r: "(tr_phys r, tr_status r AND 7) \<in> arch_maps (if w then Write else Read) va e"
  shows "coherent (nutlb_fill w va r e1)"
proof -
  have e1: "coherent e1" using assms(1,3) by (rule quiet_coherent)
  have "machine_ok (nutlb_fill w va r e1)"
    using assms by (intro machine.ctl_fill [of e]) (simp_all add: coherent_def)
  moreover have "data_coherent (nutlb_fill w va r e1)"
    using e1 r arch_maps_cong [OF quiet_same_map [OF assms(3)]]
    by (intro fill_coherent) (simp_all add: coherent_def machine_ok_def)
  moreover have "fetch_coherent (nutlb_fill w va r e1)"
  proof -
    have "same_map e1 (nutlb_fill w va r e1)" "nanotlb (core (nutlb_fill w va r e1)) = nanotlb (core e1)"
      using mru_unchanged [of "tlb e1"]
      by (auto simp: same_map_def nutlb_fill_def nutlb_set_valid_def tlb_asid_def Let_def)
    then show ?thesis using e1 by (simp add: coherent_def fetch_coherent_def arch_maps_cong)
  qed
  ultimately show ?thesis
    using e1 fold_ok_fixed [OF fill_frame(3) [of w va r e1]] by (simp add: coherent_def)
qed

lemma fetch_fill_kept:
  assumes "coherent e" "call_translate_fn va acc e = Some (r, e1)" "quiet e e1"
    "\<not> tr_is_exception r" "acc = Fetch \<or> acc = Debug"
    and r: "(tr_phys r, tr_status r AND 7) \<in> arch_maps acc va e"
  shows "coherent (upd_core (\<lambda>c. c\<lparr>nanotlb := (nanotlb c)[access_index acc :=
         nano_fill_raw (va AND NOT 0xFFF) (tr_phys r) (tr_status r AND 7)
           (nanotlb c ! access_index acc)]\<rparr>) e1)" (is "coherent ?e")
proof -
  have e1: "coherent e1" using assms(1,3) by (rule quiet_coherent)
  have "machine_ok ?e"
    using assms by (intro machine.ctl_fill_fetch [of e]) (simp_all add: coherent_def)
  moreover have "fetch_coherent ?e"
    using e1 r assms(5) arch_maps_cong [OF quiet_same_map [OF assms(3)]]
    by (intro fetch_fill_coherent) (simp_all add: coherent_def machine_ok_def arrays_ok_def)
  moreover have "data_coherent ?e"
  proof -
    have "same_map e1 ?e" using mru_unchanged [of "tlb e1"] by (simp add: same_map_def tlb_asid_def)
    then show ?thesis
      using e1 by (simp add: coherent_def data_coherent_def arch_maps_cong nutlb_is_valid_def)
  qed
  ultimately show ?thesis using e1 by (simp add: coherent_def fold_ok_def)
qed

interpretation caches: control_invariant s coherent for s :: bool
proof (unfold_locales, goal_cases)
  case (1 e e')
  then have "machine_ok e'" using machine.ctl_mild [of e e'] by (simp add: coherent_def)
  then show ?case using mild_same_map [OF 1(2)] 1(1) coherent_keep [of e' e] by blast
next
  case (2 e)
  then show ?case by (simp add: coherent_def machine_ok_def)
next
  case (3 e)
  then show ?case by (simp add: coherent_def machine_ok_def)
next
  case (4 e e')
  then have "machine_ok e'" by (intro machine.ctl_flush [of e e']) (simp_all add: coherent_def)
  then show ?case using 4(1,2) by (rule coherent_flush)
next
  case (5 e e' i t)
  then have "machine_ok e'" by (intro machine.ctl_tlb [of e e' i t]) (simp_all add: coherent_def)
  then show ?case using 5(1,2) by (rule coherent_flush)
next
  case (6 e e')
  then show ?case
    by (rule quiet_coherent)
next
  case (7 e va w r e1)
  then have "(tr_phys r, tr_status r AND 7) \<in> arch_maps (if w then Write else Read) va e"
    by (intro translate_allowed [of e]) (auto simp: coherent_def machine_ok_def)
  then show ?case by (rule fill_kept [OF 7])
next
  case (8 e va acc r e1)
  then have "(tr_phys r, tr_status r AND 7) \<in> arch_maps acc va e"
    by (intro translate_allowed [of e]) (auto simp: coherent_def machine_ok_def)
  then show ?case by (rule fetch_fill_kept [OF 8])
next
  case (9 e)
  then have "machine_ok (upd_core update_random e)"
    using machine.ctl_random [of e] by (simp add: coherent_def)
  then show ?case using 9
    by (rule coherent_keep) (simp_all add: same_map_def utlb_def tlb_asid_def mru_unchanged)
next
  case (10 e k v)
  then have "machine_ok (e\<lparr>core := (core e)\<lparr>cp0_wired := v,
      cp0_random := tlb_entries (core e) - 1, cp0_random_cycle := k\<rparr>\<rparr>)"
    using machine.ctl_wired [of e k v] by (simp add: coherent_def)
  then show ?case using 10
    by (rule coherent_keep) (simp_all add: same_map_def utlb_def tlb_asid_def mru_unchanged)
qed

lemma boot_coherent:
  assumes "mips_tlb_new 48 = Some t"
  shows "coherent (cpu_new (configure_board bd (executor_new now b dev m4 t)))" (is "coherent ?e")
proof -
  have "flushed (core ?e)" "length (nanotlb (core ?e)) = 3"
    using nutlb_clear_invalid [of _ _ "core ?e"]
    by (simp_all add: flushed_def boot_fields [OF refl] nutlb_is_valid_def nutlb_clear_def
        nano_is_valid_def nano_default_def)
  moreover have "fold_ok ?e"
    using board_folds [of bd now b dev m4 t] by (simp add: fold_ok_def cpu_new_def install_status_cb_def)
  ultimately show ?thesis
    using boot_ok [OF assms] flushed_coherent [of ?e] by (simp add: coherent_def)
qed

lemma machine_reach_coherent: "machine_reach e \<Longrightarrow> coherent e"
  by (rule caches.reach [of False]) (auto intro: boot_coherent)

text \<open>What a translation returns is allowed, cached or not.\<close>

lemma raw_attr [simp]:
  "nu_cache_attr_raw t AND 7 = nu_cache_attr_raw t" "nano_cache_attr_raw k AND 7 = nano_cache_attr_raw k"
proof -
  have "lo32 (w AND 7) AND 7 = lo32 (w AND 7)" for w :: u64
  proof -
    have 7: "(7 :: u64) = mask 3" "(7 :: u32) = mask 3" by (simp_all add: mask_eq_exp_minus_1)
    show ?thesis unfolding 7 by (rule bit_word_eqI) (auto simp: bit_simps)
  qed
  then show "nu_cache_attr_raw t AND 7 = nu_cache_attr_raw t" "nano_cache_attr_raw k AND 7 = nano_cache_attr_raw k"
    by (simp_all only: nu_cache_attr_raw_def nano_cache_attr_raw_def)
qed

lemma data_translate_allowed:
  assumes "coherent e" "nutlb_translate w va e = Some (r, e')" "\<not> tr_is_exception r"
  shows "(tr_phys r, tr_status r AND 7) \<in> arch_maps (if w then Write else Read) va e"
proof -
  let ?a = "if w then NUTLB_WRITE else NUTLB_READ" and ?i = "nutlb_index va"
  let ?t = "nutlb (core e) ! ?a ! ?i"
  have acc: "nutlb_access ?a = (if w then Write else Read)" "?a < 2"
    by (simp_all add: nutlb_access_def NUTLB_WRITE_def NUTLB_READ_def)
  show ?thesis
  proof (cases "nu_virttag ?t = va AND NOT 0xFFF \<and> nutlb_is_valid ?a ?i (core e)")
    case True
    then have "(nu_phys_addr ?t va, nu_cache_attr_raw ?t) \<in> arch_maps (nutlb_access ?a) va e"
      using assms(1) acc(2) unfolding coherent_def data_coherent_def Let_def by blast
    moreover have "r = tr_ok (nu_phys_addr ?t va) (nu_cache_attr_raw ?t)"
      using assms(2) unfolding nutlb_translate_def Let_def if_P [OF True] by blast
    ultimately show ?thesis unfolding acc(1) by (simp add: tr_ok_def)
  next
    case False
    then obtain e1 where "call_translate_fn va (if w then Write else Read) e = Some (r, e1)"
      using assms(2) unfolding nutlb_translate_def Let_def if_not_P [OF False]
      by (auto split: option.splits)
    then show ?thesis
      using assms(1,3) by (intro translate_allowed [of e]) (auto simp: coherent_def machine_ok_def)
  qed
qed

lemma coherent_translate:
  assumes "coherent e" "nanotlb_translate acc va e = Some (r, e')" "acc \<noteq> Debug"
    "\<not> tr_is_exception r"
  shows "(tr_phys r, tr_status r AND 7) \<in> arch_maps acc va e"
proof (cases acc)
  case Fetch
  have "(tr_phys r, tr_status r AND 7) \<in> arch_maps Fetch va e"
    if "nano_matches (nanotlb (core e) ! 0) (va AND NOT 0xFFF)"
    using assms(1,2) that Fetch unfolding coherent_def fetch_coherent_def
    by (auto simp: nanotlb_translate_def Let_def tr_ok_def)
  moreover have "(tr_phys r, tr_status r AND 7) \<in> arch_maps Fetch va e"
    if k: "\<not> nano_matches (nanotlb (core e) ! 0) (va AND NOT 0xFFF)"
  proof -
    obtain e1 where "call_translate_fn va Fetch e = Some (r, e1)"
      using assms(2) k Fetch by (auto simp: nanotlb_translate_def Let_def split: option.splits)
    then show ?thesis
      using assms(1,4) by (intro translate_allowed [of e]) (auto simp: coherent_def machine_ok_def)
  qed
  ultimately show ?thesis using Fetch by blast
qed (use assms data_translate_allowed [of e False va r e'] data_translate_allowed [of e True va r e'] in
    \<open>simp_all add: nanotlb_translate_def\<close>)

end
