(* ===== verification/Machine_Properties.thy ===== *)
theory Machine_Properties
  imports Utlb_Coherence
begin

text \<open>
  Properties of every reachable machine: registers and cached selectors, that a step always has a
  result, the entries TLBWR may replace, the address map, and the coherence of the two caches of
  translations with the isolation of user mode it gives.
\<close>

section \<open>A machine for the examples\<close>

definition demo_machine :: "memory mips_executor" where
  "demo_machine =
     cpu_new (configure_board Indy (executor_new 0 (mem_new 1) memory_bus False (the (mips_tlb_new 48))))"

definition demo_env :: host_env where
  "demo_env = \<lparr>env_now = 0, env_wait = [(HOST_PARK_BIT, 0)]\<rparr>"

lemma demo_machine_reach: "machine_reach demo_machine"
  unfolding demo_machine_def by (rule machine_reach.boot [OF demo_new])

lemma demo_env_releases: "env_releases demo_env"
  by (simp add: env_releases_def demo_env_def HOST_PARK_BIT_def SOFT_RESET_BIT_def)

lemmas demo_fields = boot_fields [OF demo_machine_def]

section \<open>Lemmas behind the properties\<close>

lemma privilege_user:
  assumes "get_privilege_mode c = User"
  shows "cp0_status c AND STATUS_ERL = 0"
proof -
  have "cp0_status c AND (STATUS_EXL OR STATUS_ERL) = 0"
    using assms by (auto simp: get_privilege_mode_def status_privilege_def split: if_splits)
  moreover have "cp0_status c AND STATUS_ERL = (cp0_status c AND (STATUS_EXL OR STATUS_ERL)) AND STATUS_ERL"
    by (simp add: status_bits and.assoc)
  ultimately show ?thesis by simp
qed

lemma user_segment:
  assumes "get_privilege_mode (core e) = User"
  shows "segment_of User e va = AddrError \<or>
    segment_of User e va = Mapped (is_64bit_mode (core e)) \<and>
      (if is_64bit_mode (core e) then unat va < 2 ^ 40 else unat va mod 2 ^ 32 < 2 ^ 31)"
  using privilege_user [OF assms]
  by (simp add: segment_of_def segment_32_def segment_64_def Let_def)

lemma matching_entry:
  assumes "tlb_inv t" "i \<in> matching x t va asid"
  shows "is_global (entries t ! i) \<or> entry_asid (entries t ! i) = asid" "i < num_entries t"
proof -
  show i: "i < num_entries t" using assms(2) by (simp add: matching_def)
  have m: "shadow_match x va asid (shadow t ! i)" using assms(2) by (simp add: matching_def)
  then have "shadow t ! i \<noteq> shadow_invalid" by auto
  then have "shadow t ! i = shadow_from_entry (entries t ! i) (c_attr t)"
    using assms(1) i by (auto simp: tlb_inv_def tlb_wf_def)
  with m show "is_global (entries t ! i) \<or> entry_asid (entries t ! i) = asid"
    by (auto simp: shadow_match_def shadow_from_entry_def Let_def)
qed

lemma unique_member: "is_singleton S \<Longrightarrow> x \<in> S \<Longrightarrow> y \<in> S \<Longrightarrow> x = y"
  by (auto simp: is_singleton_def)

section \<open>Properties\<close>

text \<open>
  \<^bold>\<open>C14\<close>.  In every reachable state the register file has 32 registers and register 0 reads 0, and
  what the executor caches off Status (the translation function, the floating point register
  mode) is what Status says.
\<close>

theorem machine_registers:
  assumes "machine_reach e"
  shows "length (gpr (core e)) = 32 \<and> read_gpr 0 (core e) = 0 \<and>
    translate_fn e = (is_64bit_mode (core e), get_privilege_mode (core e)) \<and>
    fpr_fr1 e = (cp0_status (core e) AND STATUS_FR \<noteq> 0)"
  using machine_reach_ok [OF assms] by (simp add: machine_ok_def arrays_ok_def synced_def read_gpr_def)

theorem machine_registers_witness: "read_gpr 0 (core demo_machine) = 0"
  using machine_registers [OF demo_machine_reach] by simp

text \<open>
  \<^bold>\<open>C15\<close>.  The interpreter never panics and never hangs: from every reachable state, whatever the
  bus answers and whatever word is fetched, a step has a result, which is reachable again,
  provided that a WAIT which stalls is eventually asked to park or to reset.
\<close>

theorem machine_never_panics:
  assumes "machine_reach e" "env_releases env"
  shows "\<exists>st e'. step_int fusion env hf e = Some (st, e') \<and> machine_reach e'"
  by (rule machine.step_returns [OF TrueI machine_reach_ok [OF assms(1)] assms(2)])
    (blast intro: machine_reach.step [OF assms(1)])

theorem machine_never_panics_witness:
  "\<forall>fusion hf. \<exists>st e'. step_int fusion demo_env hf demo_machine = Some (st, e') \<and> machine_reach e'"
  using machine_never_panics [OF demo_machine_reach demo_env_releases] by blast





text \<open>
  \<^bold>\<open>C18\<close>.  Coherence of the nano-TLB and the micro-TLB.  In every reachable state a fetch, load
  or store translation that succeeds, from a cache or not, gives a physical page and a cache
  attribute the address map and the current TLB contents allow; so where they allow only one
  the caches are transparent.
\<close>

theorem cached_translation_coherent:
  assumes "machine_reach e" "nanotlb_translate acc va e = Some (r, e')" "acc \<noteq> Debug"
    "\<not> tr_is_exception r"
  shows "(tr_phys r, tr_status r AND 7) \<in> arch_maps acc va e \<and>
    (\<forall>r' e''. call_translate_fn va acc e = Some (r', e'') \<longrightarrow> \<not> tr_is_exception r' \<longrightarrow>
       is_singleton (arch_maps acc va e) \<longrightarrow>
       tr_phys r' = tr_phys r \<and> tr_status r' AND 7 = tr_status r AND 7)"
proof -
  note c = machine_reach_coherent [OF assms(1)]
  have ok: "(tr_phys r, tr_status r AND 7) \<in> arch_maps acc va e"
    using c assms(2-4) by (rule coherent_translate)
  have "tr_phys r' = tr_phys r \<and> tr_status r' AND 7 = tr_status r AND 7"
    if "call_translate_fn va acc e = Some (r', e'')" "\<not> tr_is_exception r'"
      "is_singleton (arch_maps acc va e)" for r' e''
    using unique_member [OF that(3) ok] translate_allowed [OF _ _ that(1,2)] c
    by (auto simp: coherent_def machine_ok_def)
  with ok show ?thesis by blast
qed

lemma demo_fetch:
  "nanotlb_translate Fetch 0xFFFFFFFFBFC00000 demo_machine =
     Some (tr_ok 0x1FC00000 TR_UNCACHED, snd (the (nanotlb_translate Fetch 0xFFFFFFFFBFC00000 demo_machine)))"
proof -
  have k: "get_privilege_mode (core demo_machine) = Kernel" "\<not> is_64bit_mode (core demo_machine)"
    by (simp_all add: get_privilege_mode_def status_privilege_def is_64bit_mode_def demo_fields status_bits)
  then have "call_translate_fn 0xFFFFFFFFBFC00000 Fetch demo_machine = Some (tr_ok 0x1FC00000 TR_UNCACHED, demo_machine)"
    using call_translate_segment [OF demo_fields(1)]
    by (simp add: translate_segment_def segment_of_def segment_32_def)
  then show ?thesis
    by (simp add: nanotlb_translate_def Let_def demo_fields nano_matches_def nano_default_def)
qed

theorem cached_translation_coherent_witness:
  "(0x1FC00000, TR_UNCACHED) \<in> arch_maps Fetch 0xFFFFFFFFBFC00000 demo_machine"
  using cached_translation_coherent [OF demo_machine_reach demo_fetch]
  by (simp add: tr_ok_def tr_is_exception_def TR_UNCACHED_def exec_flag_bits)

text \<open>
  \<^bold>\<open>C19\<close>.  Isolation of user mode.  In a coherent state (every reachable one is) user code reaches
  physical memory only below the user limit of its addressing mode and only through a live TLB
  entry that is global or carries the current address space identifier, is valid for the half of
  the pair the address selects, and is dirty if the access is a store; the physical address is
  the one of that entry.
\<close>

theorem user_isolation:
  assumes "coherent e" "get_privilege_mode (core e) = User"
    "nanotlb_translate acc va e = Some (r, e')" "acc \<noteq> Debug" "\<not> tr_is_exception r"
  shows "(if is_64bit_mode (core e) then unat va < 2 ^ 40 else unat va mod 2 ^ 32 < 2 ^ 31) \<and>
    (\<exists>i pa a d g. i < num_entries (tlb e) \<and>
       (is_global (entries (tlb e) ! i) \<or> entry_asid (entries (tlb e) ! i) = tlb_asid e) \<and>
       shadow_match (is_64bit_mode (core e)) va (tlb_asid e) (shadow (tlb e) ! i) \<and>
       shadow_outcome va acc (shadow (tlb e) ! i) = TlbHit pa a d g \<and> (acc = Write \<longrightarrow> d) \<and>
       tr_phys r = fold_phys e pa)"
proof -
  have inv: "tlb_inv (tlb e)" using assms(1) by (simp add: coherent_def machine_ok_def)
  have ok: "(tr_phys r, tr_status r AND 7) \<in> arch_maps acc va e"
    using assms(1,3-5) by (rule coherent_translate)
  then have seg: "segment_of User e va = Mapped (is_64bit_mode (core e))"
      "if is_64bit_mode (core e) then unat va < 2 ^ 40 else unat va mod 2 ^ 32 < 2 ^ 31"
    using user_segment [OF assms(2), of va] by (auto simp: arch_maps_def assms(2))
  then obtain i pa a d g where i: "i \<in> matching (is_64bit_mode (core e)) (tlb e) va (tlb_asid e)"
      "shadow_outcome va acc (shadow (tlb e) ! i) = TlbHit pa a d g" "tr_phys r = fold_phys e pa"
    using ok by (auto simp: arch_maps_def assms(2))
  moreover have "acc = Write \<longrightarrow> d"
    using i(2) by (auto simp: shadow_outcome_def Let_def split: if_splits)
  moreover have "shadow_match (is_64bit_mode (core e)) va (tlb_asid e) (shadow (tlb e) ! i)"
    using i(1) by (simp add: matching_def)
  ultimately show ?thesis using seg(2) matching_entry [OF inv i(1)] by blast
qed

text \<open>A machine in user mode with one page pair mapped for address space 7.\<close>

definition demo_user_machine :: "memory mips_executor" where
  "demo_user_machine =
     resync_privilege_state (demo_machine\<lparr>tlb := tlb_write 5 demo_entry (tlb demo_machine),
       core := (core demo_machine)\<lparr>cp0_status := 0x10, cp0_entryhi := 7\<rparr>\<rparr>)"

lemma demo_user_coherent: "coherent demo_user_machine"
proof (rule caches.ctl_tlb [of demo_machine])
  show "coherent demo_machine" by (rule machine_reach_coherent [OF demo_machine_reach])
  show "resets demo_machine demo_user_machine"
    unfolding demo_user_machine_def by (rule resets_invalidate) simp_all
qed (simp_all add: demo_user_machine_def)

lemma demo_user_tlb:
  defines "t \<equiv> tlb demo_user_machine"
  shows "tlb_ready t" "num_entries t = 48" "matching False t 0x00400123 7 = {5}"
    "shadow_outcome 0x00400123 Read (shadow t ! 5) = TlbHit 0x1234123 Cacheable True False"
proof -
  let ?u = "tlb demo_machine" and ?tab = "cache_attr_table (passthrough_model False)"
  have t: "t = tlb_write 5 demo_entry ?u" by (simp add: t_def demo_user_machine_def)
  have inv: "tlb_inv ?u" "num_entries ?u = 48"
    using machine_reach_ok [OF demo_machine_reach] by (simp_all add: machine_ok_def demo_fields)
  have e: "entries ?u ! i = tlb_entry_new" if "i < 48" for i
    using that tlb_new_settled(2,3) [OF demo_new]
    by (simp add: demo_fields tlb_set_cache_attrs_def tlb_virgin_def)
  have m: "masks_ok ?u" by (simp add: masks_ok_def inv e)
  show n: "num_entries t = 48" by (simp add: t tlb_write_fields inv)
  have wf: "tlb_wf ?u" using inv by (simp add: tlb_inv_def)
  have c: "contiguous_mask demo_entry" using contiguous_mask_new by (simp add: contiguous_mask_def demo_entry_def)
  show r: "tlb_ready t"
    unfolding t tlb_ready_def using inv m c wf by (auto intro: tlb_write_settled tlb_write_masks)
  have attr: "c_attr ?u = ?tab" by (simp add: demo_fields tlb_set_cache_attrs_def)
  have s5: "shadow t ! 5 = shadow_from_entry (tlb_entry_derive demo_entry) ?tab"
    using wf inv by (simp add: t tlb_write_fields attr tlb_wf_def TLB_MAX_ENTRIES_def)
  have tab: "?tab ! 3 = Cacheable"
    by (simp add: cache_attr_table_def decode_cache_attr_def passthrough_model_def TR_CACHEABLE_def
        TR_UNCACHED_def Let_def)
  have demo: "shadow t ! 5 = \<lparr>
     se_vcmp32 = 0xFFFFE000, se_vpn_hi32 = 0x00400000, se_vcmp64 = 0xC00000FFFFFFE000, se_vpn_hi64 = 0x00400000,
     se_pfn_base = (0x1234000, 0x1235000), se_offset_mask = 0xFFF, se_valid_dirty = (3, 1),
     se_cache_attr = (Cacheable, Cacheable), se_asid = 7, se_global = False, se_selector_bit_shift = 12\<rparr>"
    unfolding s5
    by (simp add: tlb_entry_derive_def demo_entry_def tlb_entry_new_def trailing_ones_1FFF shadow_from_entry_def
      valid_dirty_of_def c_field_attr_def tab is_global_def entry_asid_def)
  show "shadow_outcome 0x00400123 Read (shadow t ! 5) = TlbHit 0x1234123 Cacheable True False"
    by (simp add: shadow_outcome_def demo)
  have no: "\<not> shadow_match False 0x00400123 7 (shadow t ! i)" if "i < 48" "i \<noteq> 5" for i
  proof -
    have "shadow t ! i = shadow ?u ! i" using that by (simp add: t tlb_write_fields)
    moreover have "shadow ?u ! i = shadow_from_entry tlb_entry_new (c_attr ?u) \<or> shadow ?u ! i = shadow_invalid"
      using wf e [OF that(1)] that(1) inv(2) by (auto simp: tlb_wf_def)
    ultimately show ?thesis
      by (auto simp: shadow_match_def shadow_from_entry_def tlb_entry_new_def shadow_invalid_def)
  qed
  have yes: "shadow_match False 0x00400123 7 (shadow t ! 5)" by (simp add: shadow_match_def demo)
  show "matching False t 0x00400123 7 = {5}"
    unfolding matching_def using no yes n by auto
qed

lemma demo_user_fields:
  "get_privilege_mode (core demo_user_machine) = User" "\<not> is_64bit_mode (core demo_user_machine)"
  "tlb_asid demo_user_machine = 7" "synced demo_user_machine"
  by (simp_all add: demo_user_machine_def resync_core get_privilege_mode_def status_privilege_def
      is_64bit_mode_def tlb_asid_def status_bits STATUS_KSU_SHIFT_def KSU_KERNEL_def KSU_SUPERVISOR_def
      KSU_USER_def)

lemma demo_user_translate:
  obtains r e' where "nanotlb_translate Read 0x00400123 demo_user_machine = Some (r, e')"
    "\<not> tr_is_exception r"
proof -
  let ?e = demo_user_machine
  obtain q t' where q: "tlb_translate False (tlb ?e) 0x00400123 7 Read = Some (q, t')"
      "q \<in> lookup_spec False (tlb ?e) 0x00400123 7 Read"
    by (rule tlb_translate_ready [OF demo_user_tlb(1)])
  then have "q = TlbHit 0x1234123 Cacheable True False"
    by (simp add: lookup_spec_def demo_user_tlb(3,4))
  moreover have "segment_of User ?e 0x00400123 = Mapped False"
    using demo_user_fields user_segment [of ?e "0x00400123"] privilege_user [of "core ?e"]
    by (simp add: segment_of_def segment_32_def)
  ultimately obtain p e1 where c: "call_translate_fn 0x00400123 Read ?e = Some (tr_ok_mapped p 3 False, e1)"
    using q(1) demo_user_fields
    by (simp add: call_translate_segment translate_segment_def tlb_translate_impl_def tlb_asid_def Let_def)
  have "\<not> nutlb_is_valid NUTLB_READ (nutlb_index 0x00400123) (core ?e)"
    using nutlb_clear_invalid nutlb_index_less
    by (simp add: demo_user_machine_def resync_core NUTLB_READ_def)
  then show ?thesis
    using c that by (simp add: nanotlb_translate_def nutlb_translate_def Let_def tr_ok_mapped_def
        tr_is_exception_def TR_MAPPED_def exec_flag_bits)
qed

theorem user_isolation_witness:
  "\<exists>r e'. nanotlb_translate Read 0x00400123 demo_user_machine = Some (r, e') \<and>
     (\<exists>i pa a d g. i < num_entries (tlb demo_user_machine) \<and>
        shadow_outcome 0x00400123 Read (shadow (tlb demo_user_machine) ! i) = TlbHit pa a d g \<and>
        tr_phys r = fold_phys demo_user_machine pa)"
  by (rule demo_user_translate)
    (use user_isolation [OF demo_user_coherent demo_user_fields(1), of Read "0x00400123"] in blast)

end
