(* ===== verification/Memory_Lanes.thy ===== *)
theory Memory_Lanes
  imports Bus_Memory
begin

text \<open>
  The RAM bank as a big-endian byte store: every access is expressed by byte lanes, the contract the
  rest of the machine relies on is the locale \<open>be_ram\<close>, interpreted on \<open>Memory\<close>, and the block and
  snapshot operations are related to the word array.
\<close>

section \<open>Lanes\<close>

text \<open>The byte offset of an access inside the bank, and the big-endian byte lanes of a value.\<close>

definition mem_off :: "memory \<Rightarrow> u64 \<Rightarrow> nat" where
  "mem_off mem a = unat (a AND mem_addr_mask mem)"

definition lane16 :: "u16 \<Rightarrow> nat \<Rightarrow> u8" where
  "lane16 w k = ucast (shr w (8 - 8 * k))"

definition lane32 :: "u32 \<Rightarrow> nat \<Rightarrow> u8" where
  "lane32 w k = ucast (shr w (24 - 8 * k))"

definition lane64 :: "u64 \<Rightarrow> nat \<Rightarrow> u8" where
  "lane64 w k = ucast (shr w (56 - 8 * k))"

lemma less_4_cases: "k < 4 \<Longrightarrow> k = 0 \<or> k = 1 \<or> k = 2 \<or> k = (3 :: nat)" by auto

lemma unat_low_bits:
  fixes w :: u64
  shows "unat (w AND 3) = unat w mod 4" "unat (w AND 1) = unat w mod 2" "unat (w AND 7) = unat w mod 8"
  using unat_and_mask [of w 2] unat_and_mask [of w 1] unat_and_mask [of w 3]
  by (simp_all add: mask_eq_exp_minus_1)

lemma xor_3_lane:
  fixes w :: u64
  shows "unat (shr (w XOR 3) 2) = unat w div 4" "unat ((w XOR 3) AND 3) = 3 - unat w mod 4"
proof -
  have "(3 :: u64) = mask 2" by (simp add: mask_eq_exp_minus_1)
  then have "shr (w XOR 3) 2 = shr w 2" by (auto intro!: bit_word_eqI simp: bit_simps)
  then show "unat (shr (w XOR 3) 2) = unat w div 4" by (simp add: unat_drop_bit_div)
  have "unat (w AND 3) < 4" by (simp add: unat_low_bits)
  then have "w AND 3 = 0 \<or> w AND 3 = 1 \<or> w AND 3 = 2 \<or> w AND 3 = 3"
    by (auto simp: word_unat_eq_iff dest!: less_4_cases)
  moreover have "(w XOR 3) AND 3 = (w AND 3) XOR 3" by (simp add: bit.conj_xor_distrib2)
  ultimately have "unat ((w XOR 3) AND 3) = 3 - unat (w AND 3)" by auto
  then show "unat ((w XOR 3) AND 3) = 3 - unat w mod 4" by (simp add: unat_low_bits)
qed

lemma xor_1_half:
  fixes w :: u64
  shows "unat (shr (w XOR 1) 1) = unat w div 2" "unat ((w XOR 1) AND 1) = 1 - unat w mod 2"
proof -
  have "(1 :: u64) = mask 1" by (simp add: mask_eq_exp_minus_1)
  then have "shr (w XOR 1) 1 = shr w 1" by (auto intro!: bit_word_eqI simp: bit_simps)
  then show "unat (shr (w XOR 1) 1) = unat w div 2" by (simp add: unat_drop_bit_div)
  have "unat ((w XOR 1) AND 1) = 1 - unat (w AND 1)"
    by (simp only: bit.conj_xor_distrib2) (simp add: and_one_eq mod_2_eq_odd)
  then show "unat ((w XOR 1) AND 1) = 1 - unat w mod 2" by (simp add: unat_low_bits)
qed

text \<open>Replacing one lane of a word.\<close>

lemma lane_insert8:
  assumes "j < 4" "k < 4"
  shows "lane32 ((w AND NOT (shl 0xFF (8 * (3 - j)))) OR shl (ucast (v :: u8)) (8 * (3 - j))) k =
    (if j = k then v else lane32 w k)"
proof -
  have m: "(0xFF :: u32) = mask 8" by (simp add: mask_eq_exp_minus_1)
  show ?thesis
    using less_4_cases [OF assms(1)] less_4_cases [OF assms(2)] unfolding lane32_def m
    by (elim disjE; hypsubst) (auto intro!: bit_word_eqI simp: bit_simps bit_beyond)
qed

lemma lane_insert16:
  assumes "j < 2" "k < 4"
  shows "lane32 ((w AND NOT (shl 0xFFFF (16 * (1 - j)))) OR shl (ucast (v :: u16)) (16 * (1 - j))) k =
    (if k div 2 = j then lane16 v (k mod 2) else lane32 w k)"
proof -
  have m: "(0xFFFF :: u32) = mask 16" by (simp add: mask_eq_exp_minus_1)
  have "j = 0 \<or> j = 1" using assms(1) by auto
  then show ?thesis
    using less_4_cases [OF assms(2)] unfolding lane32_def lane16_def m
    by (elim disjE; hypsubst) (auto intro!: bit_word_eqI simp: bit_simps bit_beyond)
qed

lemma lane64_words:
  "k < 4 \<Longrightarrow> lane32 (ucast (shr v 32)) k = lane64 v k" "k < 4 \<Longrightarrow> lane32 (ucast v) k = lane64 v (4 + k)"
  by (auto intro!: bit_word_eqI simp: lane32_def lane64_def bit_simps dest!: less_4_cases)

lemma lane16_half:
  assumes "j < 2" "k < 2"
  shows "lane16 (ucast (shr w (16 * (1 - j)))) k = lane32 w (2 * j + k)"
proof -
  have "j = 0 \<or> j = 1" "k = 0 \<or> k = 1" using assms by auto
  then show ?thesis
    unfolding lane16_def lane32_def by (elim disjE; hypsubst) (auto intro!: bit_word_eqI simp: bit_simps)
qed

lemma lane64_join:
  assumes "k < 8"
  shows "lane64 (shl (zext hi) 32 OR zext lo) k = (if k < 4 then lane32 hi k else lane32 lo (k - 4))"
proof -
  have "k = 0 \<or> k = 1 \<or> k = 2 \<or> k = 3 \<or> k = 4 \<or> k = 5 \<or> k = 6 \<or> k = 7" using assms by auto
  then show ?thesis
    unfolding lane64_def lane32_def
    by (elim disjE; hypsubst) (auto intro!: bit_word_eqI simp: bit_simps bit_beyond)
qed

lemma lane64_shift: "k < 4 \<Longrightarrow> lane64 (shr v 32) (4 + k) = lane64 v k"
  by (auto intro!: bit_word_eqI simp: lane64_def bit_simps dest!: less_4_cases)

lemma bit_rotl_32:
  fixes w :: u64
  shows "bit (word_rotl 32 w) n \<longleftrightarrow> n < 64 \<and> bit w (if n < 32 then n + 32 else n - 32)"
proof -
  have "n < 64 \<Longrightarrow> (n + 32) mod 64 = (if n < 32 then n + 32 else n - 32)"
    by (simp add: mod_if)
  then show ?thesis by (auto simp: bit_word_rotl_iff)
qed

lemma rotl_32_words:
  fixes w :: u64
  shows
  "word_rotl 32 (zext lo OR shl (zext hi) 32) = shl (zext lo) 32 OR zext hi"
  "ucast (word_rotl 32 w) = (ucast (shr w 32) :: u32)" "ucast (shr (word_rotl 32 w) 32) = (ucast w :: u32)"
  by (auto intro!: bit_word_eqI simp: bit_simps bit_rotl_32 bit_beyond add.commute simp del: bit_word_rotl_iff split: if_splits)

section \<open>Accesses as byte operations\<close>

lemma mem_read8_lane: "mem_read8 mem a = lane32 (mem_data mem (mem_off mem a div 4)) (mem_off mem a mod 4)"
proof -
  have "8 * (3 - mem_off mem a mod 4) = 24 - 8 * (mem_off mem a mod 4)" by simp
  then show ?thesis
    by (simp only: mem_read8_def host_byte_def xor_3_lane lane32_def mem_off_def)
qed

lemma mem_data_write:
  "mem_data (mem_write8 a v8 mem) = (mem_data mem)(mem_off mem a div 4 :=
     (mem_data mem (mem_off mem a div 4) AND NOT (shl 0xFF (8 * (3 - mem_off mem a mod 4))))
       OR shl (ucast v8) (8 * (3 - mem_off mem a mod 4)))"
  "mem_data (mem_write16 a v16 mem) = (mem_data mem)(mem_off mem a div 4 :=
     (mem_data mem (mem_off mem a div 4) AND NOT (shl 0xFFFF (16 * (1 - mem_off mem a div 2 mod 2))))
       OR shl (ucast v16) (16 * (1 - mem_off mem a div 2 mod 2)))"
  "mem_data (mem_write32 a v32 mem) = (mem_data mem)(mem_off mem a div 4 := v32)"
  "mem_data (mem_write64 a v64 mem) =
     (mem_data mem)(2 * (mem_off mem a div 8) := ucast (shr v64 32), 2 * (mem_off mem a div 8) + 1 := ucast v64)"
proof -
  have d: "mem_off mem a div 2 div 2 = mem_off mem a div 4" by (simp add: div_mult2_eq [symmetric])
  have s: "unat (shr (a AND mem_addr_mask mem) n) = mem_off mem a div 2 ^ n" for n
    by (simp only: unat_drop_bit_div mem_off_def)
  show "mem_data (mem_write8 a v8 mem) = (mem_data mem)(mem_off mem a div 4 :=
     (mem_data mem (mem_off mem a div 4) AND NOT (shl 0xFF (8 * (3 - mem_off mem a mod 4))))
       OR shl (ucast v8) (8 * (3 - mem_off mem a mod 4)))"
    by (simp only: mem_write8_def host_set_byte_def xor_3_lane Let_def mem_off_def) simp
  show "mem_data (mem_write16 a v16 mem) = (mem_data mem)(mem_off mem a div 4 :=
     (mem_data mem (mem_off mem a div 4) AND NOT (shl 0xFFFF (16 * (1 - mem_off mem a div 2 mod 2))))
       OR shl (ucast v16) (16 * (1 - mem_off mem a div 2 mod 2)))"
    using d s [of 1] by (simp only: mem_write16_def host_set_half_def xor_1_half Let_def power_one_right) simp
  show "mem_data (mem_write32 a v32 mem) = (mem_data mem)(mem_off mem a div 4 := v32)"
    using s [of 2] by (simp add: mem_write32_def)
  show "mem_data (mem_write64 a v64 mem) =
     (mem_data mem)(2 * (mem_off mem a div 8) := ucast (shr v64 32), 2 * (mem_off mem a div 8) + 1 := ucast v64)"
    using s [of 3] by (simp add: mem_write64_def host_set_qword_def rotl_32_words)
qed

lemma mem_write_same [simp]:
  "mem_addr_mask (mem_write8 a v8 mem) = mem_addr_mask mem" "mem_size_words (mem_write8 a v8 mem) = mem_size_words mem"
  "mem_addr_mask (mem_write16 a v16 mem) = mem_addr_mask mem" "mem_size_words (mem_write16 a v16 mem) = mem_size_words mem"
  "mem_addr_mask (mem_write32 a v32 mem) = mem_addr_mask mem" "mem_size_words (mem_write32 a v32 mem) = mem_size_words mem"
  "mem_addr_mask (mem_write64 a v64 mem) = mem_addr_mask mem" "mem_size_words (mem_write64 a v64 mem) = mem_size_words mem"
  "mem_addr_mask (mem_write64_masked a v64 m64 mem) = mem_addr_mask mem"
  "mem_size_words (mem_write64_masked a v64 m64 mem) = mem_size_words mem"
  by (simp_all add: mem_write8_def host_set_byte_def mem_write16_def host_set_half_def mem_write32_def
      mem_write64_def mem_write64_masked_def host_set_qword_def Let_def)

lemma mem_off_write [simp]:
  "mem_off (mem_write8 a v8 mem) = mem_off mem" "mem_off (mem_write16 a v16 mem) = mem_off mem"
  "mem_off (mem_write32 a v32 mem) = mem_off mem" "mem_off (mem_write64 a v64 mem) = mem_off mem"
  "mem_off (mem_write64_masked a v64 m64 mem) = mem_off mem"
  by (simp_all add: mem_off_def fun_eq_iff)

lemma mod_4_div_2: "y mod 4 div 2 = y div 2 mod (2 :: nat)" "y mod 4 mod 2 = y mod (2 :: nat)"
  using mod_mult2_eq [of y 2 2] by simp_all

lemma half_lane: "x div 2 = y div 2 \<longleftrightarrow> x div 4 = y div 4 \<and> x div 2 mod 2 = y mod 4 div (2 :: nat)"
  using div_mod_eq_iff [of "x div 2" "y div 2" 2] by (simp add: mod_4_div_2 div_mult2_eq [symmetric])

lemma mod_8_mod_4: "y mod 8 = 4 * (y div 4 mod 2) + y mod (4 :: nat)"
  using mod_mult2_eq [of y 4 2] by simp

lemma word_lane: "x div 8 = y div 8 \<longleftrightarrow> y div 4 = 2 * (x div 8) \<or> y div 4 = 2 * (x div 8) + (1 :: nat)"
proof -
  have e: "y div 8 = y div 4 div 2" by (simp add: div_mult2_eq [symmetric])
  have f: "q = m div 2 \<longleftrightarrow> m = 2 * q \<or> m = 2 * q + 1" for q m :: nat by presburger
  show ?thesis unfolding e by (rule f)
qed

lemma word_lane_mod:
  "y div 4 = 2 * q \<Longrightarrow> y mod 8 = y mod 4" "y div 4 = 2 * q + 1 \<Longrightarrow> y mod 8 = 4 + y mod (4 :: nat)"
  by (simp_all add: mod_8_mod_4)

lemma mem_write8_byte:
  "mem_read8 (mem_write8 a v mem) b = (if mem_off mem a = mem_off mem b then v else mem_read8 mem b)"
  unfolding div_mod_eq_iff [of "mem_off mem a" "mem_off mem b" 4]
  by (auto simp: mem_read8_lane mem_data_write lane_insert8)

lemma mem_write16_byte:
  "mem_read8 (mem_write16 a v mem) b =
     (if mem_off mem a div 2 = mem_off mem b div 2 then lane16 v (mem_off mem b mod 2) else mem_read8 mem b)"
  unfolding half_lane [of "mem_off mem a"]
  by (auto simp: mem_read8_lane mem_data_write lane_insert16 mod_4_div_2 simp del: One_nat_def)

lemma mem_write32_byte:
  "mem_read8 (mem_write32 a v mem) b =
     (if mem_off mem a div 4 = mem_off mem b div 4 then lane32 v (mem_off mem b mod 4) else mem_read8 mem b)"
  by (auto simp: mem_read8_lane mem_data_write)

lemma mem_write64_byte:
  "mem_read8 (mem_write64 a v mem) b =
     (if mem_off mem a div 8 = mem_off mem b div 8 then lane64 v (mem_off mem b mod 8) else mem_read8 mem b)"
  unfolding word_lane
  by (auto simp: mem_read8_lane mem_data_write lane64_words lane64_shift word_lane_mod)

lemma lane_extensionality:
  "(\<And>k. k < 2 \<Longrightarrow> lane16 x16 k = lane16 y16 k) \<Longrightarrow> x16 = y16"
  "(\<And>k. k < 4 \<Longrightarrow> lane32 x32 k = lane32 y32 k) \<Longrightarrow> x32 = y32"
  "(\<And>k. k < 8 \<Longrightarrow> lane64 x64 k = lane64 y64 k) \<Longrightarrow> x64 = y64"
proof -
  show "x16 = y16" if *: "\<And>k. k < 2 \<Longrightarrow> lane16 x16 k = lane16 y16 k"
  proof (rule bit_word_eqI)
    fix n assume n: "n < LENGTH(16)"
    have "bit (lane16 x16 (1 - n div 8)) (n mod 8) = bit (lane16 y16 (1 - n div 8)) (n mod 8)"
      using * by simp
    moreover have "8 - 8 * (1 - n div 8) + n mod 8 = n" using n by simp presburger
    ultimately show "bit x16 n = bit y16 n" by (simp add: lane16_def bit_simps)
  qed
  show "x32 = y32" if *: "\<And>k. k < 4 \<Longrightarrow> lane32 x32 k = lane32 y32 k"
  proof (rule bit_word_eqI)
    fix n assume n: "n < LENGTH(32)"
    have "bit (lane32 x32 (3 - n div 8)) (n mod 8) = bit (lane32 y32 (3 - n div 8)) (n mod 8)"
      using * by simp
    moreover have "24 - 8 * (3 - n div 8) + n mod 8 = n" using n by simp presburger
    ultimately show "bit x32 n = bit y32 n" by (simp add: lane32_def bit_simps)
  qed
  show "x64 = y64" if *: "\<And>k. k < 8 \<Longrightarrow> lane64 x64 k = lane64 y64 k"
  proof (rule bit_word_eqI)
    fix n assume n: "n < LENGTH(64)"
    have "bit (lane64 x64 (7 - n div 8)) (n mod 8) = bit (lane64 y64 (7 - n div 8)) (n mod 8)"
      using * by simp
    moreover have "56 - 8 * (7 - n div 8) + n mod 8 = n" using n by simp presburger
    ultimately show "bit x64 n = bit y64 n" by (simp add: lane64_def bit_simps)
  qed
qed

section \<open>Aligned accesses\<close>

lemma aligned_offset:
  fixes a M :: u64
  assumes a: "a AND mask n = 0" and k: "k < 2 ^ n" and M: "M AND mask n = mask n" and n: "n < 64"
  shows "unat ((a + of_nat k) AND M) = unat (a AND M) + k" "unat (a AND M) mod 2 ^ n = 0"
proof -
  let ?x = "of_nat k :: u64"
  have "k < 2 ^ 64" using k n by (meson less_le_trans less_imp_le one_le_numeral power_increasing)
  then have uk: "unat ?x = k" by (simp add: unat_of_nat)
  then have x: "?x = ?x AND mask n"
    using k by (simp add: word_unat_eq_iff unat_and_mask)
  have bx: "bit ?x i \<Longrightarrow> i < n" for i using x by (metis bit_and_iff bit_mask_iff min_less_iff_conj)
  have ba: "i < n \<Longrightarrow> \<not> bit a i" for i
    using arg_cong [OF a, of "\<lambda>w. bit w i"] n by (simp add: bit_simps)
  have bM: "i < n \<Longrightarrow> bit M i" for i
    using arg_cong [OF M, of "\<lambda>w. bit w i"] n by (simp add: bit_simps)
  have "a AND ?x = 0" using ba bx by (intro bit_word_eqI) (auto simp: bit_and_iff)
  then have "a + ?x = a OR ?x" by (rule disjunctive_add_eq_or)
  moreover have "(a OR ?x) AND M = (a AND M) OR ?x"
    using bx bM by (intro bit_word_eqI) (auto simp: bit_and_iff bit_or_iff)
  moreover have "(a AND M) AND ?x = 0"
    using ba bx by (intro bit_word_eqI) (auto simp: bit_and_iff)
  ultimately show "unat ((a + ?x) AND M) = unat (a AND M) + k"
    using uk by (simp add: unat_or_disjoint)
  have "(a AND M) AND mask n = 0" using ba by (intro bit_word_eqI) (auto simp: bit_simps)
  then show "unat (a AND M) mod 2 ^ n = 0" using unat_and_mask [of "a AND M" n] by simp
qed

lemma mem_off_add:
  assumes "mem_lanes mem" "a AND mask n = 0" "k < 2 ^ n" "n \<le> 3"
  shows "mem_off mem (a + of_nat k) = mem_off mem a + k" "mem_off mem a mod 2 ^ n = 0"
proof -
  have M: "mem_addr_mask mem AND mask n = mask n"
  proof (rule bit_word_eqI)
    fix i assume "i < LENGTH(64)"
    have "(7 :: u64) = mask 3" by (simp add: mask_eq_exp_minus_1)
    then have "bit (mem_addr_mask mem AND mask 3) i = bit (mask 3 :: u64) i"
      using assms(1) by (simp add: mem_lanes_def)
    then show "bit (mem_addr_mask mem AND mask n) i = bit (mask n :: u64) i"
      using assms(4) by (auto simp: bit_simps)
  qed
  show "mem_off mem (a + of_nat k) = mem_off mem a + k" "mem_off mem a mod 2 ^ n = 0"
    using aligned_offset [OF assms(2,3) M] assms(4) by (simp_all add: mem_off_def)
qed

text \<open>A wide read is the big-endian concatenation of byte reads.\<close>

lemma mem_read_lanes:
  assumes m: "mem_lanes mem"
  shows "a AND 1 = 0 \<Longrightarrow> k < 2 \<Longrightarrow> lane16 (mem_read16 mem a) k = mem_read8 mem (a + of_nat k)"
    "a AND 3 = 0 \<Longrightarrow> k < 4 \<Longrightarrow> lane32 (mem_read32 mem a) k = mem_read8 mem (a + of_nat k)"
    "a AND 7 = 0 \<Longrightarrow> k < 8 \<Longrightarrow> lane64 (mem_read64 mem a) k = mem_read8 mem (a + of_nat k)"
proof -
  have s: "unat (shr (a AND mem_addr_mask mem) n) = mem_off mem a div 2 ^ n" for n
    by (simp only: unat_drop_bit_div mem_off_def)
  have mm: "(3 :: u64) = mask 2" "(7 :: u64) = mask 3"
    by (simp_all add: mask_eq_exp_minus_1)
  let ?o = "mem_off mem a"
  show "lane16 (mem_read16 mem a) k = mem_read8 mem (a + of_nat k)" if "a AND 1 = 0" "k < 2"
  proof -
    have o: "mem_off mem (a + of_nat k) = ?o + k" "?o mod 2 = 0"
      using mem_off_add [OF m, of a 1 k] that by simp_all
    then have "(?o + k) div 4 = ?o div 4" "(?o + k) mod 4 = 2 * (?o div 2 mod 2) + k"
      using that(2) mod_mult2_eq [of "?o + k" 2 2] mod_0_add [of ?o 2 k] div_mult2_eq [of "?o + k" 2 2]
        div_mult2_eq [of ?o 2 2] by simp_all
    moreover have "lane16 (mem_read16 mem a) k = lane32 (mem_data mem (?o div 4)) (2 * (?o div 2 mod 2) + k)"
      using that(2) div_mult2_eq [of ?o 2 2]
      unfolding mem_read16_def host_half_def xor_1_half s by (simp add: lane16_half del: One_nat_def)
    ultimately show ?thesis by (simp add: mem_read8_lane o)
  qed
  show "lane32 (mem_read32 mem a) k = mem_read8 mem (a + of_nat k)" if "a AND 3 = 0" "k < 4"
    using mem_off_add [OF m that(1) [unfolded mm(1)], of k] that(2) s [of 2]
    by (simp add: mem_read8_lane mem_read32_def mod_0_add)
  show "lane64 (mem_read64 mem a) k = mem_read8 mem (a + of_nat k)" if "a AND 7 = 0" "k < 8"
  proof -
    have o: "mem_off mem (a + of_nat k) = ?o + k" "?o mod 8 = 0"
      using mem_off_add [OF m that(1) [unfolded mm(2)], of k] that(2) by simp_all
    have "(8 * q + k) div 4 = 2 * q + k div 4" "(8 * q + k) mod 4 = k mod 4" for q by presburger+
    moreover obtain q where "?o = 8 * q" using o(2) by (auto simp: mod_eq_0_iff_dvd elim: dvdE)
    ultimately have d: "(?o + k) div 4 = 2 * (?o div 8) + k div 4" "(?o + k) mod 4 = k mod 4"
      by simp_all
    have "mem_read64 mem a = shl (zext (mem_data mem (2 * (?o div 8)))) 32 OR zext (mem_data mem (2 * (?o div 8) + 1))"
      using s [of 3] by (simp add: mem_read64_def host_qword_def rotl_32_words)
    moreover have "k div 4 = (if k < 4 then 0 else 1)" "k mod 4 = (if k < 4 then k else k - 4)"
      using that(2) by (simp_all add: div_nat_eqI mod_nat_eqI)
    ultimately show ?thesis
      using that(2) by (simp add: lane64_join mem_read8_lane o d)
  qed
qed

lemma lane64_merge:
  "lane64 ((old AND NOT m) OR (v AND m)) k = (lane64 old k AND NOT (lane64 m k)) OR (lane64 v k AND lane64 m k)"
  unfolding lane64_def by (auto intro!: bit_word_eqI simp: bit_simps)

lemma rotl_32_merge:
  fixes old v m :: u64
  shows "(old AND NOT (word_rotl 32 m)) OR (word_rotl 32 v AND word_rotl 32 m) =
    word_rotl 32 ((word_rotl 32 old AND NOT m) OR (v AND m))"
  by (rule bit_word_eqI) (auto simp: bit_simps bit_rotl_32 simp del: bit_word_rotl_iff split: if_splits)

lemma mem_write64_masked_alt:
  "mem_write64_masked a v m mem = mem_write64 a ((mem_read64 mem a AND NOT m) OR (v AND m)) mem"
  by (simp add: mem_write64_masked_def mem_write64_def mem_read64_def rotl_32_merge Let_def)

section \<open>The RAM contract\<close>

text \<open>What the CPU, the DMA engines and the default methods of the trait rely on: wide accesses are the
  big-endian composition of byte accesses, for naturally aligned addresses.\<close>

locale be_ram =
  fixes ok :: "'s \<Rightarrow> bool" and off :: "'s \<Rightarrow> u64 \<Rightarrow> nat"
    and rd8 :: "'s \<Rightarrow> u64 \<Rightarrow> u8" and rd16 :: "'s \<Rightarrow> u64 \<Rightarrow> u16"
    and rd32 :: "'s \<Rightarrow> u64 \<Rightarrow> u32" and rd64 :: "'s \<Rightarrow> u64 \<Rightarrow> u64"
    and wr8 :: "u64 \<Rightarrow> u8 \<Rightarrow> 's \<Rightarrow> 's" and wr16 :: "u64 \<Rightarrow> u16 \<Rightarrow> 's \<Rightarrow> 's"
    and wr32 :: "u64 \<Rightarrow> u32 \<Rightarrow> 's \<Rightarrow> 's" and wr64 :: "u64 \<Rightarrow> u64 \<Rightarrow> 's \<Rightarrow> 's"
  assumes off_add: "ok s \<Longrightarrow> a AND mask n = 0 \<Longrightarrow> k < 2 ^ n \<Longrightarrow> n \<le> 3 \<Longrightarrow> off s (a + of_nat k) = off s a + k"
    and off_aligned: "ok s \<Longrightarrow> a AND mask n = 0 \<Longrightarrow> n \<le> 3 \<Longrightarrow> off s a mod 2 ^ n = 0"
    and rd16_lanes: "ok s \<Longrightarrow> a AND 1 = 0 \<Longrightarrow> k < 2 \<Longrightarrow> lane16 (rd16 s a) k = rd8 s (a + of_nat k)"
    and rd32_lanes: "ok s \<Longrightarrow> a AND 3 = 0 \<Longrightarrow> k < 4 \<Longrightarrow> lane32 (rd32 s a) k = rd8 s (a + of_nat k)"
    and rd64_lanes: "ok s \<Longrightarrow> a AND 7 = 0 \<Longrightarrow> k < 8 \<Longrightarrow> lane64 (rd64 s a) k = rd8 s (a + of_nat k)"
    and wr8_byte: "ok s \<Longrightarrow> rd8 (wr8 a v8 s) b = (if off s a = off s b then v8 else rd8 s b)"
    and wr16_byte: "ok s \<Longrightarrow> rd8 (wr16 a v16 s) b =
      (if off s a div 2 = off s b div 2 then lane16 v16 (off s b mod 2) else rd8 s b)"
    and wr32_byte: "ok s \<Longrightarrow> rd8 (wr32 a v32 s) b =
      (if off s a div 4 = off s b div 4 then lane32 v32 (off s b mod 4) else rd8 s b)"
    and wr64_byte: "ok s \<Longrightarrow> rd8 (wr64 a v64 s) b =
      (if off s a div 8 = off s b div 8 then lane64 v64 (off s b mod 8) else rd8 s b)"
    and wr_ok: "ok s \<Longrightarrow> ok (wr8 a v8 s) \<and> ok (wr16 a v16 s) \<and> ok (wr32 a v32 s) \<and> ok (wr64 a v64 s)"
    and wr_off: "ok s \<Longrightarrow> off (wr8 a v8 s) = off s \<and> off (wr16 a v16 s) = off s \<and>
      off (wr32 a v32 s) = off s \<and> off (wr64 a v64 s) = off s"
begin

lemma read_after_write:
  assumes "ok s"
  shows "rd8 (wr8 a v8 s) a = v8"
    "a AND 1 = 0 \<Longrightarrow> rd16 (wr16 a v16 s) a = v16"
    "a AND 3 = 0 \<Longrightarrow> rd32 (wr32 a v32 s) a = v32"
    "a AND 7 = 0 \<Longrightarrow> rd64 (wr64 a v64 s) a = v64"
proof -
  have mm: "(3 :: u64) = mask 2" "(7 :: u64) = mask 3" by (simp_all add: mask_eq_exp_minus_1)
  show "rd8 (wr8 a v8 s) a = v8" using assms by (simp add: wr8_byte)
  show "rd16 (wr16 a v16 s) a = v16" if "a AND 1 = 0"
    using off_add [OF assms, of a 1] off_aligned [OF assms, of a 1] that assms
    by (intro lane_extensionality) (simp add: rd16_lanes wr_ok wr16_byte mod_0_add)
  show "rd32 (wr32 a v32 s) a = v32" if "a AND 3 = 0"
    using off_add [OF assms that [unfolded mm(1)]] off_aligned [OF assms that [unfolded mm(1)]] that assms
    by (intro lane_extensionality) (simp add: rd32_lanes wr_ok wr32_byte mod_0_add)
  show "rd64 (wr64 a v64 s) a = v64" if "a AND 7 = 0"
    using off_add [OF assms that [unfolded mm(2)]] off_aligned [OF assms that [unfolded mm(2)]] that assms
    by (intro lane_extensionality) (simp add: rd64_lanes wr_ok wr64_byte mod_0_add)
qed

text \<open>The lane loop of the default \<open>write64_masked\<close>: after the lanes \<open>is\<close> it has replaced exactly those
  of them whose mask byte is not zero.\<close>

lemma write64_lanes:
  assumes "ok s" "a AND 7 = 0" "set is \<subseteq> {..<8}" "distinct is"
    and "default_write64_lanes (\<lambda>a v s. (BUS_OK, wr8 a v s)) a v m is s = d"
  shows "fst d = BUS_OK \<and> ok (snd d) \<and> off (snd d) = off s \<and>
    rd8 (snd d) b = (if off s b div 8 = off s a div 8 \<and> off s b mod 8 \<in> set is \<and> lane64 m (off s b mod 8) \<noteq> 0
      then lane64 v (off s b mod 8) else rd8 s b)"
  using assms
proof (induction "is" arbitrary: s)
  case Nil
  then show ?case by auto
next
  case (Cons i "is")
  have mm: "(7 :: u64) = mask 3" by (simp add: mask_eq_exp_minus_1)
  have i: "i < 8" using Cons.prems by simp
  have o: "off s (a + of_nat i) = off s a + i" "off s a mod 8 = 0"
    using off_add [OF Cons.prems(1) Cons.prems(2) [unfolded mm], of i]
      off_aligned [OF Cons.prems(1) Cons.prems(2) [unfolded mm]] i by simp_all
  have sel: "off s a + i = off s b \<longleftrightarrow> off s b div 8 = off s a div 8 \<and> off s b mod 8 = i"
    using div_mod_eq_iff [of "off s a + i" "off s b" 8] mod_0_add [OF o(2) i] by auto
  have lane: "shr w ((7 - i) * 8) = shr w (56 - 8 * i)" for w :: u64 by (simp add: algebra_simps)
  have ff: "(0xFF :: u64) = mask 8" by (simp add: mask_eq_exp_minus_1)
  have z: "(shr m ((7 - i) * 8) AND 0xFF = 0) = (lane64 m i = 0)"
    unfolding lane lane64_def ff word_unat_eq_iff unat_and_mask unsigned_ucast_eq
    by (simp add: take_bit_eq_mod)
  show ?case
  proof (cases "lane64 m i = 0")
    case True
    then have "default_write64_lanes (\<lambda>a v s. (BUS_OK, wr8 a v s)) a v m (i # is) s =
      default_write64_lanes (\<lambda>a v s. (BUS_OK, wr8 a v s)) a v m is s"
      using z by (simp add: Let_def)
    with Cons True show ?thesis by auto
  next
    case False
    let ?s = "wr8 (a + of_nat i) (lane64 v i) s"
    have "default_write64_lanes (\<lambda>a v s. (BUS_OK, wr8 a v s)) a v m (i # is) s =
      default_write64_lanes (\<lambda>a v s. (BUS_OK, wr8 a v s)) a v m is ?s"
      using False z by (simp add: Let_def lane lane64_def)
    moreover have "ok ?s" "off ?s = off s" using Cons.prems(1) wr_ok wr_off by blast+
    moreover have "rd8 ?s b = (if off s b div 8 = off s a div 8 \<and> off s b mod 8 = i then lane64 v i else rd8 s b)"
      using Cons.prems(1) by (simp add: wr8_byte o sel)
    ultimately show ?thesis using Cons.IH [of ?s] Cons.prems False by auto
  qed
qed

end

definition ram_ok :: "memory \<Rightarrow> bool" where
  "ram_ok mem \<longleftrightarrow> mem_ok mem \<and> mem_lanes mem"

interpretation ram: be_ram ram_ok mem_off mem_read8 mem_read16 mem_read32 mem_read64
  mem_write8 mem_write16 mem_write32 mem_write64
proof (unfold_locales, goal_cases)
  case (1 s a n k)
  then show ?case by (auto simp: ram_ok_def intro: mem_off_add)
next
  case (2 s a n)
  then show ?case using mem_off_add(2) [of s a n 0] by (simp add: ram_ok_def)
next
  case (10 s a v8 v16 v32 v64)
  then show ?case by (simp add: ram_ok_def mem_ok_def mem_lanes_def)
qed (simp_all add: ram_ok_def mem_read_lanes mem_write8_byte mem_write16_byte mem_write32_byte mem_write64_byte)

section \<open>Block transfers\<close>

lemma mem_off_run:
  assumes "mem_addr_mask mem = mask p" "p \<le> 64" "mem_off mem a + x < 2 ^ p"
  shows "mem_off mem (a + of_nat x) = mem_off mem a + x"
proof -
  have "unat (a + of_nat x) mod 2 ^ p = (unat a + x) mod 2 ^ p"
  proof -
    have "(2 ^ p :: nat) dvd 2 ^ 64" using assms(2) by (rule le_imp_power_dvd)
    then have "((unat a + unat (of_nat x :: u64)) mod 2 ^ 64) mod 2 ^ p = (unat a + unat (of_nat x :: u64)) mod 2 ^ p"
      by (rule mod_mod_cancel)
    moreover have "unat (of_nat x :: u64) mod 2 ^ p = x mod 2 ^ p"
      using \<open>(2 ^ p :: nat) dvd 2 ^ 64\<close> by (simp only: unat_of_nat) (simp add: mod_mod_cancel)
    ultimately show ?thesis by (simp add: unat_word_ariths) (metis mod_add_right_eq)
  qed
  also have "\<dots> = (unat a mod 2 ^ p + x) mod 2 ^ p" by (simp add: mod_simps)
  also have "\<dots> = unat a mod 2 ^ p + x"
    using assms(3) by (simp add: mem_off_def assms(1) unat_and_mask)
  finally show ?thesis by (simp add: mem_off_def assms(1) unat_and_mask)
qed

lemma mem_read32_off: "mem_read32 mem a = mem_data mem (mem_off mem a div 4)"
  using unat_drop_bit_div [of 2 "a AND mem_addr_mask mem"] by (simp add: mem_read32_def mem_off_def)

lemma mem_write32_pair:
  assumes "mem_off mem (a + 4) = mem_off mem a + 4" "mem_off mem a = 8 * q"
  shows "mem_write32 (a + 4) (ucast v) (mem_write32 a (ucast (shr v 32)) mem) = host_set_qword q (word_rotl 32 v) mem"
proof -
  have w: "mem_write32 a v mem = mem\<lparr>mem_data := (mem_data mem)(mem_off mem a div 4 := v)\<rparr>" for a v mem
    using unat_drop_bit_div [of 2 "a AND mem_addr_mask mem"] by (simp add: mem_write32_def mem_off_def)
  have "mem_off (mem\<lparr>mem_data := d\<rparr>) = mem_off mem" for d by (simp add: mem_off_def fun_eq_iff)
  moreover have "(8 * q + 4) div 4 = 2 * q + 1" "8 * q div 4 = 2 * q" by simp_all
  ultimately show ?thesis
    by (simp add: w assms host_set_qword_def rotl_32_words)
qed

text \<open>A run of doublewords starting at host doubleword \<open>q\<close>.\<close>

lemma default_read_block_run:
  assumes "mem_addr_mask mem = mask p" "p \<le> 64" "mem_off mem a = 8 * q" "8 * (q + n) \<le> 2 ^ p"
  shows "default_read_block (\<lambda>a. (BUS_OK, mem_read32 mem a)) a n =
    (BUS_OK, map (\<lambda>i. word_rotl 32 (host_qword mem (q + i))) [0..<n])"
  using assms(3,4)
proof (induction n arbitrary: a q)
  case (Suc n)
  have o: "mem_off mem (a + 4) = 8 * q + 4" "n > 0 \<Longrightarrow> mem_off mem (a + 8) = 8 * (q + 1)"
    using mem_off_run [OF assms(1,2), of a 4] mem_off_run [OF assms(1,2), of a 8] Suc.prems by simp_all
  have hd: "shl (zext (mem_read32 mem a)) 32 OR zext (mem_read32 mem (a + 4)) = word_rotl 32 (host_qword mem q)"
    by (simp add: mem_read32_off Suc.prems o host_qword_def rotl_32_words) 
  have tl: "default_read_block (\<lambda>a. (BUS_OK, mem_read32 mem a)) (a + 8) n =
    (BUS_OK, map (\<lambda>i. word_rotl 32 (host_qword mem (q + 1 + i))) [0..<n])"
    using Suc.IH [of "a + 8" "q + 1"] o(2) Suc.prems by (cases "n = 0") auto
  with hd show ?case by (simp add: upt_Suc_map comp_def del: upt_Suc)
qed simp

lemma default_write_block_run:
  assumes "mem_addr_mask mem = mask p" "p \<le> 64" "mem_off mem a = 8 * q" "8 * (q + length vals) \<le> 2 ^ p"
  shows "default_write_block (\<lambda>a v mem. (BUS_OK, mem_write32 a v mem)) a vals mem =
    (BUS_OK, fold (\<lambda>i mem. host_set_qword (q + i) (word_rotl 32 (vals ! i)) mem) [0..<length vals] mem)"
  using assms(1,3,4)
proof (induction vals arbitrary: a q mem)
  case (Cons v vals)
  let ?m = "host_set_qword q (word_rotl 32 v) mem"
  have o: "mem_off mem (a + 4) = 8 * q + 4" "vals \<noteq> [] \<Longrightarrow> mem_off mem (a + 8) = 8 * (q + 1)"
    using mem_off_run [OF Cons.prems(1) assms(2), of a 4] mem_off_run [OF Cons.prems(1) assms(2), of a 8] Cons.prems
    by (cases vals; simp)+
  have m: "mem_addr_mask ?m = mem_addr_mask mem" "mem_off ?m = mem_off mem"
    by (simp_all add: host_set_qword_def mem_off_def fun_eq_iff)
  have "mem_write32 (a + 4) (ucast v) (mem_write32 a (ucast (shr v 32)) mem) = ?m"
    by (rule mem_write32_pair) (use o Cons.prems in simp_all)
  moreover have "default_write_block (\<lambda>a v mem. (BUS_OK, mem_write32 a v mem)) (a + 8) vals ?m =
    (BUS_OK, fold (\<lambda>i mem. host_set_qword (q + 1 + i) (word_rotl 32 (vals ! i)) mem) [0..<length vals] ?m)"
    using Cons.IH [of ?m "a + 8" "q + 1"] o(2) Cons.prems m by (cases "vals = []") auto
  ultimately show ?case by (simp add: upt_Suc_map fold_map comp_def del: upt_Suc)
qed simp

lemma host_qword_set:
  "host_qword (host_set_qword q v mem) r = (if q = r then v else host_qword mem r)"
proof -
  have "zext (ucast v) OR shl (zext (ucast (shr v 32))) 32 = v"
    by (rule bit_word_eqI) (auto simp: bit_simps)
  moreover have "2 * q \<noteq> 2 * r + 1" "2 * q + 1 \<noteq> 2 * r" by presburger+
  ultimately show ?thesis by (auto simp: host_qword_def host_set_qword_def)
qed

lemma host_qword_fold:
  "host_qword (fold (\<lambda>i mem. host_set_qword (q + i) (f i) mem) [0..<n] mem) r =
     (if q \<le> r \<and> r < q + n then f (r - q) else host_qword mem r)"
  by (induction n) (auto simp: host_qword_set)

section \<open>Snapshots\<close>

lemma be_bytes32: "from_be_bytes32 (to_be_bytes32 w) = w" "length (to_be_bytes32 w) = 4"
proof -
  show "from_be_bytes32 (to_be_bytes32 w) = w"
  proof (rule bit_word_eqI)
    fix n assume "n < LENGTH(32)"
    then consider "n < 8" | "8 \<le> n" "n < 16" | "16 \<le> n" "n < 24" | "24 \<le> n" "n < 32" by fastforce
    then show "bit (from_be_bytes32 (to_be_bytes32 w)) n = bit w n"
      unfolding from_be_bytes32_def to_be_bytes32_def by cases (auto simp: bit_simps)
  qed
qed (simp add: to_be_bytes32_def)

lemma concat_chunk:
  assumes "\<And>x. length (f x) = 4" "i < n"
  shows "take 4 (drop (i * 4) (concat (map f [0..<n]))) = f i"
proof -
  have "[0..<n] = [0..<i] @ i # [Suc i..<n]" using assms(2) by (metis less_imp_add_positive upt_add_eq_append upt_conv_Cons zero_le)
  moreover have "length (concat (map f [0..<i])) = i * 4" using assms(1) by (induction i) auto
  ultimately show ?thesis using assms(1) by simp
qed

section \<open>Properties\<close>

definition demo_mem :: memory where
  "demo_mem = mem_write32 0x1000 0xDEADBEEF (mem_new 1)"

lemma demo_mem_mask: "mem_addr_mask demo_mem = 0xFFFFF" "mem_size_words demo_mem = 262144"
  by (simp_all add: demo_mem_def mem_new_def)

lemma demo_mem_ok: "ram_ok demo_mem"
  by (simp add: ram_ok_def mem_ok_def mem_lanes_def demo_mem_mask)

text \<open>
  \<^bold>\<open>C7\<close>. Each store changes exactly the bytes of its naturally aligned unit and nothing else, whatever the
  address mask and the size of the bank: the byte at any address after a store is the corresponding
  big-endian lane of the stored value if it lies in the unit, and the old byte otherwise.
\<close>

theorem mem_write_bytes:
  "mem_read8 (mem_write8 a v8 mem) b = (if mem_off mem a = mem_off mem b then v8 else mem_read8 mem b) \<and>
   mem_read8 (mem_write16 a v16 mem) b =
     (if mem_off mem a div 2 = mem_off mem b div 2 then lane16 v16 (mem_off mem b mod 2) else mem_read8 mem b) \<and>
   mem_read8 (mem_write32 a v32 mem) b =
     (if mem_off mem a div 4 = mem_off mem b div 4 then lane32 v32 (mem_off mem b mod 4) else mem_read8 mem b) \<and>
   mem_read8 (mem_write64 a v64 mem) b =
     (if mem_off mem a div 8 = mem_off mem b div 8 then lane64 v64 (mem_off mem b mod 8) else mem_read8 mem b)"
  by (simp only: mem_write8_byte mem_write16_byte mem_write32_byte mem_write64_byte simp_thms)

text \<open>
  \<^bold>\<open>C8\<close>. Loads of every width are the big-endian concatenation of byte loads at aligned addresses, and a
  load returns what a store of the same width put there.
\<close>

theorem mem_read_big_endian:
  assumes "ram_ok mem"
  shows "(a AND 1 = 0 \<longrightarrow> (\<forall>k < 2. lane16 (mem_read16 mem a) k = mem_read8 mem (a + of_nat k)) \<and>
             mem_read16 (mem_write16 a v16 mem) a = v16) \<and>
         (a AND 3 = 0 \<longrightarrow> (\<forall>k < 4. lane32 (mem_read32 mem a) k = mem_read8 mem (a + of_nat k)) \<and>
             mem_read32 (mem_write32 a v32 mem) a = v32) \<and>
         (a AND 7 = 0 \<longrightarrow> (\<forall>k < 8. lane64 (mem_read64 mem a) k = mem_read8 mem (a + of_nat k)) \<and>
             mem_read64 (mem_write64 a v64 mem) a = v64)"
  using assms ram.read_after_write [OF assms] by (simp add: ram.rd16_lanes ram.rd32_lanes ram.rd64_lanes)

theorem mem_read_big_endian_witness:
  "mem_read8 demo_mem 0x1001 = 0xAD \<and> mem_read64 (mem_write64 0x1000 5 demo_mem) 0x1000 = 5"
proof -
  have "lane32 (mem_read32 demo_mem 0x1000) 1 = mem_read8 demo_mem (0x1000 + of_nat 1)"
    "mem_read64 (mem_write64 0x1000 5 demo_mem) 0x1000 = 5"
    using mem_read_big_endian [OF demo_mem_ok, of "0x1000" _ _ 5] by simp_all
  moreover have "mem_read32 demo_mem 0x1000 = 0xDEADBEEF"
    by (simp add: demo_mem_def mem_read32_def mem_write32_def mem_new_def)
  ultimately show ?thesis by (simp add: lane32_def)
qed

text \<open>
  \<^bold>\<open>C9\<close>. The masked doubleword store (used by SWL, SWR, SDL and SDR) is the same through all three
  implementations, for a mask of whole bytes at an aligned address: the RAM bank's own, the byte loop of
  the trait's default, and the read-modify-write of the passthrough cache.
\<close>

theorem mem_write64_masked_agree:
  assumes "ram_ok mem" "a AND 7 = 0" "\<forall>k < 8. lane64 m k = 0 \<or> lane64 m k = 0xFF"
  shows "mem_read8 (mem_write64_masked a v m mem) b =
           mem_read8 (snd (default_write64_masked (\<lambda>a v mem. (BUS_OK, mem_write8 a v mem)) a v m mem)) b \<and>
         mem_write64_masked a v m mem = mem_write64 a ((mem_read64 mem a AND NOT m) OR (v AND m)) mem"
proof -
  let ?k = "mem_off mem b mod 8"
  have sub: "set [0..<8] \<subseteq> {..<8 :: nat}" by auto
  have "mem_read8 (snd (default_write64_masked (\<lambda>a v mem. (BUS_OK, mem_write8 a v mem)) a v m mem)) b =
      (if mem_off mem b div 8 = mem_off mem a div 8 \<and> lane64 m ?k \<noteq> 0 then lane64 v ?k else mem_read8 mem b)"
    using ram.write64_lanes [OF assms(1,2) sub distinct_upt refl, of v m b]
    unfolding default_write64_masked_def by simp
  moreover have "lane64 (mem_read64 mem a) ?k = mem_read8 mem b" if "mem_off mem b div 8 = mem_off mem a div 8"
  proof -
    have "mem_off mem a mod 8 = 0" "mem_off mem (a + of_nat ?k) = mem_off mem a + ?k"
      using ram.off_aligned [OF assms(1), of a 3] ram.off_add [OF assms(1), of a 3 ?k] assms(2)
      by (simp_all add: mask_eq_exp_minus_1)
    then have "mem_off mem (a + of_nat ?k) = mem_off mem b"
      using that by (metis add.right_neutral div_mult_mod_eq)
    then show ?thesis using ram.rd64_lanes [OF assms(1,2), of ?k] by (simp add: mem_read8_lane)
  qed
  moreover have "lane64 m ?k = 0 \<or> lane64 m ?k = - 1"
    using assms(3) [rule_format, of ?k] by auto
  ultimately show ?thesis
    by (auto simp: mem_write64_masked_alt mem_write64_byte lane64_merge)
qed

theorem mem_write64_masked_agree_witness:
  "mem_read8 (mem_write64_masked 0x1000 0x1122334455667788 0xFFFF000000000000 demo_mem) 0x1001 =
   mem_read8 (snd (default_write64_masked (\<lambda>a v mem. (BUS_OK, mem_write8 a v mem)) 0x1000 0x1122334455667788
     0xFFFF000000000000 demo_mem)) 0x1001"
proof -
  have "lane64 0xFFFF000000000000 k = 0 \<or> lane64 0xFFFF000000000000 k = 0xFF" if "k < 8" for k
  proof -
    have "k \<in> {0, 1, 2, 3, 4, 5, 6, 7}" using that by auto
    then show ?thesis by (auto simp: lane64_def)
  qed
  then show ?thesis
    by (intro mem_write64_masked_agree [OF demo_mem_ok, THEN conjunct1]) simp_all
qed

text \<open>
  \<^bold>\<open>C10\<close>. The bank's block transfers equal the default ones built from pairs of 32-bit accesses, for a
  doubleword-aligned block inside the address window, and reading a block returns what was written.
\<close>

theorem mem_block_transfers:
  assumes "mem_addr_mask mem = mask p" "p \<le> 64" "2 ^ p \<le> 4 * mem_size_words mem"
    and "mem_off mem a mod 8 = 0" "mem_off mem a + 8 * length vals \<le> 2 ^ p"
  shows "\<exists>xs mem'. mem_read_block mem a (length vals) = Some xs \<and> mem_write_block a vals mem = Some mem' \<and>
    default_read_block (\<lambda>a. (BUS_OK, mem_read32 mem a)) a (length vals) = (BUS_OK, xs) \<and>
    default_write_block (\<lambda>a v mem. (BUS_OK, mem_write32 a v mem)) a vals mem = (BUS_OK, mem') \<and>
    mem_read_block mem' a (length vals) = Some vals"
proof -
  let ?n = "length vals"
  obtain q where q: "mem_off mem a = 8 * q" using assms(4) by (auto simp: mod_eq_0_iff_dvd elim: dvdE)
  have b: "8 * (q + ?n) \<le> 2 ^ p" "2 * (q + ?n) \<le> mem_size_words mem" using assms(3,5) q by simp_all
  let ?m = "fold (\<lambda>i mem. host_set_qword (q + i) (word_rotl 32 (vals ! i)) mem) [0..<?n] mem"
  have s: "unat (shr (a AND mem_addr_mask mem) 3) = q"
    using unat_drop_bit_div [of 3 "a AND mem_addr_mask mem"] q by (simp add: mem_off_def)
  have same: "mem_size_words ?m = mem_size_words mem \<and> mem_addr_mask ?m = mem_addr_mask mem"
    by (rule fold_invariant [where Q = "\<lambda>_. True"]) (auto simp: host_set_qword_def)
  have "word_rotl 32 (word_rotl 32 w) = w" for w :: u64
    by (rule bit_word_eqI) (auto simp: bit_rotl_32)
  then have "map (\<lambda>i. word_rotl 32 (host_qword ?m (q + i))) [0..<?n] = vals"
    by (intro nth_equalityI) (simp_all add: host_qword_fold)
  moreover have "mem_read_block m a ?n = Some (map (\<lambda>i. word_rotl 32 (host_qword m (q + i))) [0..<?n])"
    if "mem_size_words m = mem_size_words mem \<and> mem_addr_mask m = mem_addr_mask mem" for m
    using b(2) that by (simp only: mem_read_block_def Let_def s if_True)
  moreover have "mem_write_block a vals mem = Some ?m"
    using b(2) by (simp only: mem_write_block_def Let_def s if_True)
  ultimately show ?thesis
    using default_read_block_run [OF assms(1,2) q b(1)] default_write_block_run [OF assms(1,2) q b(1)] same
    by simp
qed

theorem mem_block_transfers_witness:
  "\<exists>mem'. mem_write_block 0x1000 [7, 9] demo_mem = Some mem' \<and> mem_read_block mem' 0x1000 (Suc (Suc 0)) = Some [7, 9]"
  using mem_block_transfers [of demo_mem 20 "0x1000" "[7, 9]"]
  by (auto simp: demo_mem_mask mem_off_def mask_eq_exp_minus_1)

text \<open>
  \<^bold>\<open>C11\<close>. Snapshots: restoring the words of a bank, or loading the file image it was saved to, gives every
  word back; a source of another size touches no word beyond either.
\<close>

theorem mem_snapshot_roundtrip:
  "mem_data (mem_restore_words (mem_snapshot_words mem) mem') i =
     (if i < min (mem_size_words mem) (mem_size_words mem') then mem_data mem i else mem_data mem' i) \<and>
   mem_data (mem_load_bin (mem_save_bin mem) mem') i =
     (if i < min (mem_size_words mem) (mem_size_words mem') then mem_data mem i else mem_data mem' i)"
proof -
  have "length (mem_save_bin mem) = 4 * mem_size_words mem"
    unfolding mem_save_bin_def by (induction "mem_size_words mem") (simp_all add: length_concat be_bytes32 comp_def sum_list_triv)
  then show ?thesis
    by (auto simp: mem_restore_words_def mem_snapshot_words_def mem_load_bin_def mem_save_bin_def Let_def
        concat_chunk be_bytes32)
qed

end
