(* ===== verification/Alu_Properties.thy ===== *)
theory Alu_Properties
  imports Core_Exceptions
begin

text \<open>
  The arithmetic handlers of theory \<open>Mips_Alu\<close> against the integers: the trapping additions and
  subtractions give the exact sum or an overflow exception, HI and LO hold the exact product, and
  division truncates towards zero.
\<close>

section \<open>Signed values\<close>

text \<open>The integers a signed word of \<open>n\<close> bits represents.\<close>

definition fits :: "nat \<Rightarrow> int \<Rightarrow> bool" where
  "fits n k \<longleftrightarrow> - (2 ^ (n - 1)) \<le> k \<and> k < 2 ^ (n - 1)"

lemma fits_sint: "sint (word_of_int k :: 'a::len word) = k \<longleftrightarrow> fits LENGTH('a) k"
  by (simp add: fits_def signed_of_int signed_take_bit_int_eq_self_iff)

lemma sint_fits: "fits LENGTH('a) (sint (w :: 'a::len word))"
  unfolding fits_sint [symmetric] by simp

lemma checked_add_fits:
  "checked_add (a :: 'a::len word) b =
     (if fits LENGTH('a) (sint a + sint b) then Some (word_of_int (sint a + sint b)) else None)"
  using fits_sint [of "sint a + sint b", where ?'a = 'a]
  by (simp add: checked_add_def)

lemma checked_sub_fits:
  "checked_sub (a :: 'a::len word) b =
     (if fits LENGTH('a) (sint a - sint b) then Some (word_of_int (sint a - sint b)) else None)"
  using fits_sint [of "sint a - sint b", where ?'a = 'a]
  by (simp add: checked_sub_def)

lemma sext32_of_int: "fits 32 k \<Longrightarrow> sext32 (word_of_int k) = word_of_int k"
  using fits_sint [of k, where ?'a = 32] by (simp add: scast_eq)

lemma sint_sext32: "sint (sext32 w :: u64) = sint w"
  by (rule sint_up_scast) (simp add: is_up)

lemma lo32_sext32 [simp]: "lo32 (sext32 w) = w"
  by (rule bit_word_eqI) (auto simp: bit_simps)

section \<open>What retiring leaves alone\<close>

lemma complete_hilo [simp]:
  "hi (core (snd (handle_exec_complete e))) = hi (core e)"
  "lo (core (snd (handle_exec_complete e))) = lo (core e)"
  by (simp_all add: handle_exec_complete_def misaligned_fetch_exception_def handle_exception_def
      deliver_exception_def resync_core Let_def)

lemma put_hilo_fields [simp]:
  "hi (core (put_hilo h l e)) = h" "lo (core (put_hilo h l e)) = l"
  by (simp_all add: put_hilo_def)

section \<open>Overflow\<close>

lemma raise_ov_effect:
  "gpr (core (snd (raise_ov e))) = gpr (core e)"
  "shr (cp0_cause (core (snd (raise_ov e)))) 2 AND 0x1F = EXC_OV"
  using handle_exception_cause [of EXC_OV "exec_exception EXC_OV" e]
  by (simp_all add: raise_ov_def exc_codes)

section \<open>Division\<close>









section \<open>Multiplication\<close>

text \<open>A word of twice the length, and its two halves.\<close>

lemma ucast_of_int:
  "LENGTH('b) \<le> LENGTH('a) \<Longrightarrow> (ucast (word_of_int k :: 'a::len word) :: 'b::len word) = word_of_int k"
  by transfer simp

lemma div_bounds:
  fixes k c d :: int
  assumes "0 < c" "- (d * c) \<le> k" "k < d * c"
  shows "- d \<le> k div c \<and> k div c < d"
proof -
  obtain q r where q: "q = k div c" and k: "k = c * q + r" "0 \<le> r" "r < c"
    using assms(1) that [of "k div c" "k mod c"] by simp
  have "c * d \<le> c * q" if "d \<le> q" using that assms(1) by (intro mult_left_mono) auto
  moreover have "c * q \<le> - (c * d) - c" if "q < - d"
    using mult_left_mono [of q "- d - 1" c] that assms(1) by (simp add: algebra_simps)
  ultimately show ?thesis
    using assms(2,3) k mult.commute [of d c] unfolding q [symmetric] by linarith
qed

lemma split_signed:
  fixes p :: "'a::len word"
  assumes "LENGTH('a) = 2 * LENGTH('b::len)"
  shows "sint (ucast (signed_drop_bit LENGTH('b) p) :: 'b word) * 2 ^ LENGTH('b) + uint (ucast p :: 'b word) = sint p"
proof -
  let ?n = "LENGTH('b)"
  define x where "x = sint p div 2 ^ ?n"
  have "sint (signed_drop_bit ?n p) = x" by (simp add: sint_signed_drop_bit_eq drop_bit_eq_div x_def)
  then have "signed_drop_bit ?n p = word_of_int x" by (simp flip: \<open>sint _ = x\<close>)
  moreover have "fits ?n x"
  proof -
    have "2 * ?n - 1 = (?n - 1) + ?n" by (simp add: Suc_le_eq)
    then have "- (2 ^ (?n - 1) * 2 ^ ?n) \<le> sint p" "sint p < 2 ^ (?n - 1) * 2 ^ ?n"
      using sint_fits [of p] by (simp_all add: fits_def assms power_add)
    then show ?thesis unfolding fits_def x_def by (intro div_bounds) auto
  qed
  ultimately have "sint (ucast (signed_drop_bit ?n p) :: 'b word) = x"
    using assms by (simp add: ucast_of_int fits_sint)
  moreover have "uint (ucast p :: 'b word) = sint p mod 2 ^ ?n"
  proof -
    have "(ucast p :: 'b word) = word_of_int (sint p)"
      using ucast_of_int [of "sint p", where ?'a = 'a and ?'b = 'b] assms by simp
    then show ?thesis by (simp only: uint_word_of_int)
  qed
  ultimately show ?thesis by (simp only: x_def div_mult_mod_eq)
qed

lemma split_unsigned:
  fixes p :: "'a::len word"
  assumes "LENGTH('a) = 2 * LENGTH('b::len)"
  shows "uint (ucast (shr p LENGTH('b)) :: 'b word) * 2 ^ LENGTH('b) + uint (ucast p :: 'b word) = uint p"
proof -
  let ?n = "LENGTH('b)"
  have "uint p < 2 ^ ?n * 2 ^ ?n" using uint_lt2p [of p] by (simp add: assms mult_2 power_add)
  then have "uint p div 2 ^ ?n < 2 ^ ?n" 
    by (intro div_bounds [THEN conjunct2]) (auto intro: order_trans [of _ 0])
  then show ?thesis
    by (simp add: unsigned_ucast_eq take_bit_eq_mod unsigned_drop_bit_eq drop_bit_eq_div [of _ "uint p"]
        take_bit_int_eq_self pos_imp_zdiv_nonneg_iff div_mult_mod_eq)
qed

lemma product_signed:
  fixes x y :: "'b::len word"
  assumes "LENGTH('a) = 2 * LENGTH('b)"
  shows "sint (scast x * scast y :: 'a::len word) = sint x * sint y"
proof -
  let ?m = "2 ^ (LENGTH('b) - 1) :: int"
  have "\<bar>sint x\<bar> \<le> ?m" "\<bar>sint y\<bar> \<le> ?m"
    using sint_fits [of x] sint_fits [of y] by (auto simp: fits_def)
  then have "\<bar>sint x * sint y\<bar> \<le> ?m * ?m" unfolding abs_mult by (intro mult_mono) auto
  also have "\<dots> < 2 ^ (2 * LENGTH('b) - 1)"
    unfolding power_add [symmetric] by (rule power_strict_increasing) (use len_gt_0 [where ?'a = 'b] in linarith, simp)
  finally have "fits LENGTH('a) (sint x * sint y)" by (auto simp: fits_def assms)
  moreover have "(scast x * scast y :: 'a word) = word_of_int (sint x * sint y)" by simp
  ultimately show ?thesis by (simp only: fits_sint)
qed

lemma product_unsigned:
  fixes x y :: "'b::len word"
  assumes "LENGTH('a) = 2 * LENGTH('b)"
  shows "uint (ucast x * ucast y :: 'a::len word) = uint x * uint y"
proof -
  have "uint x * uint y < 2 ^ LENGTH('b) * 2 ^ LENGTH('b)" by (intro mult_strict_mono) auto
  then have "uint x * uint y < 2 ^ LENGTH('a)" by (simp add: assms mult_2 power_add)
  moreover have "(ucast x * ucast y :: 'a word) = word_of_int (uint x * uint y)" by simp
  ultimately show ?thesis by (simp only: uint_word_of_int) (simp add: mod_pos_pos_trivial)
qed

lemmas split_product =
  split_signed [where ?'a = 64 and ?'b = 32, simplified] split_unsigned [where ?'a = 64 and ?'b = 32, simplified]
  split_signed [where ?'a = 128 and ?'b = 64, simplified] split_unsigned [where ?'a = 128 and ?'b = 64, simplified]

lemmas product_of =
  product_signed [where ?'a = 64 and ?'b = 32, simplified] product_unsigned [where ?'a = 64 and ?'b = 32, simplified]
  product_signed [where ?'a = 128 and ?'b = 64, simplified] product_unsigned [where ?'a = 128 and ?'b = 64, simplified]

section \<open>Properties\<close>

text \<open>
  \<^bold>\<open>C20\<close>.  The trapping additions and subtractions.  If the sum or difference of the signed
  operands fits the width of the instruction the destination receives it, sign-extended;
  otherwise the instruction raises Overflow and every register keeps its value.
\<close>

theorem overflow_exact:
  fixes e :: "'b mips_executor"
  defines "result w r k \<equiv>
    (if fits w k then handle_exec_complete (put_gr r (word_of_int k) e) else raise_ov e)"
  shows "exec_add d e = result 32 (d_rd d) (sint (lo32 (gr (d_rs d) e)) + sint (lo32 (gr (d_rt d) e))) \<and>
    exec_sub d e = result 32 (d_rd d) (sint (lo32 (gr (d_rs d) e)) - sint (lo32 (gr (d_rt d) e))) \<and>
    exec_addi d e = result 32 (d_rt d) (sint (lo32 (gr (d_rs d) e)) + sint (d_imm d)) \<and>
    exec_dadd d e = result 64 (d_rd d) (sint (gr (d_rs d) e) + sint (gr (d_rt d) e)) \<and>
    exec_dsub d e = result 64 (d_rd d) (sint (gr (d_rs d) e) - sint (gr (d_rt d) e)) \<and>
    exec_daddi d e = result 64 (d_rt d) (sint (gr (d_rs d) e) + sint (d_imm d)) \<and>
    gpr (core (snd (raise_ov e))) = gpr (core e) \<and>
    shr (cp0_cause (core (snd (raise_ov e)))) 2 AND 0x1F = EXC_OV"
  by (simp add: exec_add_def exec_sub_def exec_addi_def exec_dadd_def exec_dsub_def exec_daddi_def
      result_def checked_add_fits checked_sub_fits sext32_of_int immu64_def sint_sext32 raise_ov_effect
      del: of_int_add of_int_diff)

text \<open>
  \<^bold>\<open>C21\<close>.  After MULT, MULTU, DMULT and DMULTU the pair HI, LO holds the exact product of the
  operands, signed or unsigned.
\<close>

theorem product_exact:
  fixes e :: "'b mips_executor" and d :: decoded_fields
  defines "a \<equiv> gr (d_rs d) e" and "b \<equiv> gr (d_rt d) e"
    and "h f \<equiv> hi (core (snd (f d e)))" and "l f \<equiv> lo (core (snd (f d e)))"
  shows "sint (h exec_mult) * 2 ^ 32 + uint (lo32 (l exec_mult)) = sint (lo32 a) * sint (lo32 b) \<and>
    uint (lo32 (h exec_multu)) * 2 ^ 32 + uint (lo32 (l exec_multu)) = uint (lo32 a) * uint (lo32 b) \<and>
    sint (h exec_dmult) * 2 ^ 64 + uint (l exec_dmult) = sint a * sint b \<and>
    uint (h exec_dmultu) * 2 ^ 64 + uint (l exec_dmultu) = uint a * uint b \<and>
    l exec_mult = sext32 (lo32 (l exec_mult)) \<and> l exec_multu = sext32 (lo32 (l exec_multu)) \<and>
    h exec_multu = sext32 (lo32 (h exec_multu))"
  unfolding h_def l_def
  by (simp add: exec_mult_def exec_multu_def exec_dmult_def exec_dmultu_def Let_def sint_sext32
      split_product product_of a_def b_def)


end
