(* ===== verification/Data_Path.thy ===== *)
theory Data_Path
  imports Machine_Properties Memory_Lanes Alu_Properties
begin

text \<open>
  Loads and stores end to end, from the virtual address through the micro-TLB to the bytes of a RAM
  bank: alignment faults, the round trip of a store and a load, the unaligned pairs and
  load-linked with store-conditional.
\<close>

section \<open>Accesses to RAM\<close>

definition mem_load :: "nat \<Rightarrow> memory \<Rightarrow> u64 \<Rightarrow> u64" where
  "mem_load sz m a =
     (if sz = 1 then ucast (mem_read8 m a) else if sz = 2 then ucast (mem_read16 m a)
      else if sz = 4 then ucast (mem_read32 m a) else mem_read64 m a)"

definition mem_store :: "nat \<Rightarrow> u64 \<Rightarrow> u64 \<Rightarrow> memory \<Rightarrow> memory" where
  "mem_store sz a v m =
     (if sz = 1 then mem_write8 a (ucast v) m else if sz = 2 then mem_write16 a (ucast v) m
      else if sz = 4 then mem_write32 a (ucast v) m else mem_write64 a v m)"

lemma ram_bus_read: "bus e = memory_bus \<Longrightarrow> bus_read sz a e = ((BUS_OK, mem_load sz (sysad e) a), e)"
  by (simp add: bus_read_def memory_bus_def mem_load_def)

lemma ram_bus_write: "bus e = memory_bus \<Longrightarrow> bus_write sz a v e = (BUS_OK, e\<lparr>sysad := mem_store sz a v (sysad e)\<rparr>)"
  by (simp add: bus_write_def memory_bus_def mem_store_def)

lemma mem_load_store:
  assumes "ram_ok m" "sz \<in> {1, 2, 4, 8}" "a AND align_mask_for sz = 0"
  shows "mem_load sz (mem_store sz a v m) a = v AND mask (8 * sz)"
proof -
  have u: "ucast (ucast v :: u8) = v AND mask 8" "ucast (ucast v :: u16) = v AND mask 16"
    "ucast (ucast v :: u32) = v AND mask 32" "v = v AND mask 64"
    by (rule bit_word_eqI; auto simp: bit_simps dest: bit_imp_le_length)+
  note r = ram.read_after_write [OF assms(1), where a = a]
  from assms(2) consider "sz = 1" | "sz = 2" | "sz = 4" | "sz = 8" by auto
  then show ?thesis
    using assms(3) r u by cases (simp_all add: mem_load_def mem_store_def align_mask_for_def)
qed

section \<open>Translation of a window\<close>

text \<open>An address in an unmapped window.\<close>

definition windowed :: "u64 \<Rightarrow> 'b mips_executor \<Rightarrow> u64 \<Rightarrow> bool" where
  "windowed va e pa \<longleftrightarrow> (\<exists>c. segment_of (get_privilege_mode (core e)) e va = Window pa c)"

text \<open>What an access that succeeds leaves of the executor.\<close>

definition only_utlb :: "'b mips_executor \<Rightarrow> 'b mips_executor \<Rightarrow> bool" where
  "only_utlb e e' \<longleftrightarrow>
     (\<exists>n v. e' = e\<lparr>core := (core e)\<lparr>nutlb := n, nutlb_valid := v\<rparr>\<rparr>)"

lemma only_utlb_refl: "only_utlb e e"
  unfolding only_utlb_def by (rule exI [of _ "nutlb (core e)"], rule exI [of _ "nutlb_valid (core e)"]) simp

lemma only_utlb_fields:
  assumes "only_utlb e e'"
  shows "bus e' = bus e" "sysad e' = sysad e" "mem_bp_count e' = mem_bp_count e" "gpr (core e') = gpr (core e)"
    "in_delay_slot (core e') = in_delay_slot (core e)" "pc (core e') = pc (core e)" "llbit e' = llbit e"
    "skip_breakpoints e' = skip_breakpoints e" "model e' = model e"
  using assms by (auto simp: only_utlb_def)

text \<open>What the segments depend on.\<close>

lemma windowed_cong:
  assumes "cp0_status (core e') = cp0_status (core e)" "cp0_config (core e') = cp0_config (core e)"
    "model e' = model e" "phys_alias e' = phys_alias e" "phys_mask e' = phys_mask e"
  shows "windowed va e' pa = windowed va e pa"
proof -
  have "kseg0_cache_attr e' = kseg0_cache_attr e" "fold_phys e' a = fold_phys e a"
    "is_64bit_mode (core e') = is_64bit_mode (core e)" for a
    using assms mode_cong [of "core e'" "core e"] by (simp_all add: kseg0_cache_attr_def fold_phys_def)
  then have "segment_of p e' va = segment_of p e va" for p
    by (simp only: segment_of_def segment_32_def segment_64_def assms)
  then show ?thesis using mode_cong [OF assms(1)] by (simp add: windowed_def)
qed

lemma only_utlb_windowed: "only_utlb e e' \<Longrightarrow> windowed va e' pa = windowed va e pa"
  by (rule windowed_cong) (auto simp: only_utlb_def)

lemma mild_windowed: "mild e e' \<Longrightarrow> windowed va e' pa = windowed va e pa"
  by (rule windowed_cong) (auto simp: mild_def)

lemma only_utlbI: "only_utlb e (e\<lparr>core := (core e)\<lparr>nutlb := n, nutlb_valid := v\<rparr>\<rparr>)"
  unfolding only_utlb_def by blast

lemma fill_only_utlb: "only_utlb e (nutlb_fill w va r e)"
  by (simp add: nutlb_fill_def nutlb_set_valid_def Let_def only_utlbI only_utlb_refl)

lemma attr_no_exception: "c AND 7 = c \<Longrightarrow> \<not> tr_is_exception (tr_ok pa c)"
proof -
  assume "c AND 7 = c"
  then have "c AND EXEC_IS_EXCEPTION = c AND (7 AND EXEC_IS_EXCEPTION)" by (metis and.assoc)
  also have "7 AND EXEC_IS_EXCEPTION = 0" by (simp add: exec_flag_bits)
  finally show ?thesis by (simp add: tr_is_exception_def tr_ok_def)
qed

lemma window_translate:
  assumes "coherent e" "windowed va e pa" "acc = (if w then Write else Read)"
  obtains r e' where "nanotlb_translate acc va e = Some (r, e')" "\<not> tr_is_exception r" "tr_phys r = pa"
    "only_utlb e e'" "coherent e'"
proof -
  obtain c where seg: "segment_of (get_privilege_mode (core e)) e va = Window pa c"
    using assms(2) by (auto simp: windowed_def)
  have call: "call_translate_fn va acc e = Some (tr_ok pa c, e)"
    using assms(1) by (simp add: call_translate_segment coherent_def machine_ok_def seg translate_segment_def)
  have ok: "\<not> tr_is_exception (tr_ok pa c)"
    using segment_attr_ok [of "get_privilege_mode (core e)" e va] by (simp add: seg attr_ok_def attr_no_exception)
  obtain r e' where t: "nanotlb_translate acc va e = Some (r, e')"
      and e': "e' = e \<and> \<not> tr_is_exception r \<or> r = tr_ok pa c \<and> e' = nutlb_fill w va r e"
  proof -
    let ?arr = "if w then NUTLB_WRITE else NUTLB_READ" and ?i = "nutlb_index va"
    let ?t = "nutlb (core e) ! ?arr ! ?i"
    have n: "nanotlb_translate acc va e = nutlb_translate w va e"
      using assms(3) by (cases w) (simp_all add: nanotlb_translate_def)
    show thesis
    proof (cases "nu_virttag ?t = va AND NOT 0xFFF \<and> nutlb_is_valid ?arr ?i (core e)")
      case True
      then have "nutlb_translate w va e = Some (tr_ok (nu_phys_addr ?t va) (nu_cache_attr_raw ?t), e)"
        unfolding nutlb_translate_def Let_def by (rule if_P)
      then show thesis using that n attr_no_exception [OF raw_attr(1)] by simp
    next
      case False
      then have "nutlb_translate w va e = Some (tr_ok pa c, nutlb_fill w va (tr_ok pa c) e)"
        unfolding nutlb_translate_def Let_def if_not_P [OF False] using call ok assms(3) by simp
      then show thesis using that n by simp
    qed
  qed
  have r: "\<not> tr_is_exception r" using e' ok by auto
  have "acc \<noteq> Debug" using assms(3) by auto
  then have "tr_phys r = pa"
    using coherent_translate [OF assms(1) t _ r] seg by (simp add: arch_maps_def)
  moreover have "only_utlb e e'" using e' only_utlb_refl fill_only_utlb by auto
  moreover have "coherent e'"
    using e' assms(1) caches.ctl_fill [of e va w r e] call assms(3) ok by (auto intro: quiet_refl)
  ultimately show thesis using that t r by blast
qed

section \<open>Accesses to a window\<close>

text \<open>The state of an executor whose bus is one RAM bank and that watches no data address.\<close>

definition on_ram :: "memory mips_executor \<Rightarrow> bool" where
  "on_ram e \<longleftrightarrow> coherent e \<and> bus e = memory_bus \<and> ram_ok (sysad e) \<and> mem_bp_count e = 0"

lemma bp_check_none: "mem_bp_count e = 0 \<Longrightarrow> k \<noteq> BpPc \<Longrightarrow> bp_check dbg k a e = (False, e)"
  by (simp add: bp_check_def bp_hit_def check_breakpoint_def)

lemma ram_read:
  assumes "on_ram e" "windowed va e pa" "va AND align_mask_for sz = 0"
  obtains e' where "read_data sz va e = Some (Inr (mem_load sz (sysad e) pa), e')" "only_utlb e e'" "on_ram e'"
proof -
  obtain r e' where t: "nanotlb_translate Read va e = Some (r, e')" "\<not> tr_is_exception r" "tr_phys r = pa"
      "only_utlb e e'" "coherent e'"
    using assms(1,2) window_translate [of e va pa Read False] by (auto simp: on_ram_def)
  note f = only_utlb_fields [OF t(4)]
  have "read_data sz va e = Some (Inr (mem_load sz (sysad e) pa), e')"
    using assms t f
    by (simp add: read_data_def read_data_impl_def on_ram_def bp_check_none data_translate_def cache_read_def
        ram_bus_read)
  then show thesis using that t f assms(1) by (simp add: on_ram_def)
qed

lemma ram_write:
  assumes "on_ram e" "windowed va e pa" "va AND align_mask_for sz = 0"
  obtains e' where "write_data sz va v e = Some (EXEC_COMPLETE, e'\<lparr>sysad := mem_store sz pa v (sysad e)\<rparr>)"
    "only_utlb e e'" "on_ram (e'\<lparr>sysad := mem_store sz pa v (sysad e)\<rparr>)"
proof -
  obtain r e' where t: "nanotlb_translate Write va e = Some (r, e')" "\<not> tr_is_exception r" "tr_phys r = pa"
      "only_utlb e e'" "coherent e'"
    using assms(1,2) window_translate [of e va pa Write True] by (auto simp: on_ram_def)
  note f = only_utlb_fields [OF t(4)]
  have "write_data sz va v e = Some (EXEC_COMPLETE, e'\<lparr>sysad := mem_store sz pa v (sysad e)\<rparr>)"
    using assms t f
    by (simp add: write_data_def write_data_impl_def on_ram_def bp_check_none data_translate_def cache_write_def
        ram_bus_write EXEC_COMPLETE_def BUS_OK_def)
  moreover have "coherent (e'\<lparr>sysad := m\<rparr>)" for m
    using t(5) by (rule caches.ctl_mild) simp
  moreover have "ram_ok (mem_store sz pa v (sysad e))"
    using assms(1) ram.wr_ok [of "sysad e"] by (simp add: mem_store_def on_ram_def)
  ultimately show thesis using that t f assms(1) by (simp add: on_ram_def)
qed

text \<open>A window keeps the offset within a page.\<close>

lemma repage_self: "repage p p = p"
  by (rule bit_word_eqI) simp

lemma windowed_repage: "coherent e \<Longrightarrow> windowed va e pa \<Longrightarrow> windowed (repage va v) e (repage pa v)"
  using segment_page [of e _ va v] by (auto simp: windowed_def coherent_def)

lemma windowed_unique: "windowed va e pa \<Longrightarrow> windowed va e pa' \<Longrightarrow> pa' = pa"
  by (auto simp: windowed_def)

lemma windowed_low:
  assumes "coherent e" "windowed va e pa" "n < 12"
  shows "bit pa n = bit va n"
  using windowed_unique [OF assms(2)] windowed_repage [OF assms(1,2), of va] assms(3)
  by (metis repage_bits repage_self)

lemma windowed_aligned:
  assumes "coherent e" "windowed va e pa" "sz \<in> {1, 2, 4, 8}" "va AND align_mask_for sz = 0"
  shows "pa AND align_mask_for sz = 0"
proof -
  obtain k where k: "align_mask_for sz = mask k" "k < 12"
    using assms(3) that [of 0] that [of 1] that [of 2] that [of 3]
    by (auto simp: align_mask_for_def mask_eq_exp_minus_1)
  have "bit (pa AND mask k) n = bit (va AND mask k) n" for n
    using windowed_low [OF assms(1,2), of n] k(2) by (auto simp: bit_simps)
  then show ?thesis using assms(4) k(1) by (metis bit_eqI)
qed

lemma windowed_down:
  assumes "coherent e" "windowed va e pa"
  shows "windowed (va AND NOT 3) e (pa AND NOT 3)"
proof -
  have m: "(3 :: u64) = mask 2" by (simp add: mask_eq_exp_minus_1)
  have "va AND NOT 3 = repage va (va AND NOT 3)"
    unfolding m by (rule bit_word_eqI) (auto simp: bit_simps)
  moreover have "pa AND NOT 3 = repage pa (va AND NOT 3)"
    using windowed_low [OF assms] unfolding m by (intro bit_word_eqI) (auto simp: bit_simps)
  ultimately show ?thesis using windowed_repage [OF assms] by metis
qed

section \<open>Unaligned loads\<close>

lemma lwl_lanes:
  assumes "off < 4" "k < 4"
  shows "lane32 (lwl_merge off w rt) k = (if k + off < 4 then lane32 w (k + off) else lane32 rt k)"
proof -
  have m: "(0xFFFFFFFF :: u32) = mask 32" by (simp add: mask_eq_exp_minus_1)
  show ?thesis
    using less_4_cases [OF assms(1)] less_4_cases [OF assms(2)] unfolding lane32_def lwl_merge_def m Let_def
    by (elim disjE; hypsubst) (auto intro!: bit_word_eqI simp: bit_simps bit_beyond)
qed

lemma lwr_lanes:
  assumes "off < 4" "k < 4"
  shows "lane32 (lwr_merge off w rt) k = (if 3 \<le> k + off then lane32 w (k + off - 3) else lane32 rt k)"
proof -
  have m: "(0xFFFFFFFF :: u32) = mask 32" by (simp add: mask_eq_exp_minus_1)
  show ?thesis
    using less_4_cases [OF assms(1)] less_4_cases [OF assms(2)] unfolding lane32_def lwr_merge_def m Let_def
    by (elim disjE; hypsubst) (auto intro!: bit_word_eqI simp: bit_simps bit_beyond)
qed

text \<open>The words around an unaligned address.\<close>

lemma word_and_offset:
  fixes c :: u64
  assumes "c AND 3 = 0" "s < 4"
  shows "(c + of_nat s) AND NOT 3 = c" "unat ((c + of_nat s) AND 3) = s"
proof -
  have m: "(3 :: u64) = mask 2" by (simp add: mask_eq_exp_minus_1)
  have lo: "\<not> bit c n" if "n < 2" for n
    using arg_cong [OF assms(1), of "\<lambda>w. bit w n"] that by (simp add: m bit_simps)
  define t where "t = (of_nat s :: u64)"
  have u: "unat t = s" using assms(2) by (simp add: t_def unat_word_of_nat)
  have hi: "\<not> bit t n" if "2 \<le> n" for n
    using small_word_bit [of t 2 n] that assms(2) u by (auto simp: word_less_nat_alt)
  have "c + t = c OR t"
    by (rule disjunctive_add) (use lo hi in \<open>metis not_le\<close>)
  moreover have "bit ((c OR t) AND NOT 3) n = bit c n" "bit ((c OR t) AND 3) n = bit t n" if "n < LENGTH(64)" for n
    using lo [of n] hi [of n] that unfolding m by (cases "n < 2"; simp add: bit_simps)+
  then have "(c OR t) AND NOT 3 = c" "(c OR t) AND 3 = t" by (blast intro: bit_word_eqI)+
  ultimately show "(c + of_nat s) AND NOT 3 = c" "unat ((c + of_nat s) AND 3) = s"
    using u by (simp_all add: t_def)
qed

lemma down_offset:
  fixes pa :: u64
  obtains b s where "b AND 3 = 0" "s < 4" "pa = b + of_nat s"
proof
  have m: "(3 :: u64) = mask 2" by (simp add: mask_eq_exp_minus_1)
  show "(pa AND NOT 3) AND 3 = 0" unfolding m by (rule bit_word_eqI) (simp add: bit_simps)
  show "unat (pa AND 3) < 4" using unat_low_bits(1) [of pa] by simp
  have "pa = (pa AND NOT 3) OR (pa AND 3)" unfolding m by (rule bit_word_eqI) (auto simp: bit_simps)
  also have "\<dots> = (pa AND NOT 3) + (pa AND 3)"
    unfolding m by (rule disjunctive_add [symmetric]) (auto simp: bit_simps)
  finally show "pa = (pa AND NOT 3) + of_nat (unat (pa AND 3))" by simp
qed

lemma unaligned_word:
  assumes "ram_ok m" "k < 4"
  shows "lane32 (lwr_merge (unat ((pa + 3) AND 3)) (mem_read32 m ((pa + 3) AND NOT 3))
      (lwl_merge (unat (pa AND 3)) (mem_read32 m (pa AND NOT 3)) rt)) k = mem_read8 m (pa + of_nat k)"
proof -
  obtain b s where b: "b AND 3 = 0" "s < 4" "pa = b + of_nat s" by (rule down_offset)
  have r: "lane32 (mem_read32 m c) j = mem_read8 m (c + of_nat j)" if "c AND 3 = 0" "j < 4" for c j
    using ram.rd32_lanes [OF assms(1) that] .
  show ?thesis
  proof (cases "s = 0")
    case True
    then have "pa + 3 = b + of_nat 3" "pa = b" using b(3) by simp_all
    then show ?thesis
      using word_and_offset [OF b(1), of 3] word_and_offset [OF b(1), of 0] assms(2) b(1)
      by (simp add: lwr_lanes lwl_lanes r)
  next
    case False
    then have p: "pa + 3 = (b + 4) + of_nat (s - 1)" using b(3) by (simp add: of_nat_diff)
    have m: "(3 :: u64) = mask 2" by (simp add: mask_eq_exp_minus_1)
    have b4: "(b + 4) AND 3 = 0"
      using b(1) word_take_bit_add [of 2 b 4] unfolding m
      by (simp add: take_bit_eq_mask) (simp flip: take_bit_eq_mask)
    show ?thesis
      unfolding p unfolding b(3)
      using word_and_offset [OF b4, of "s - 1"] word_and_offset [OF b(1,2)] assms(2) b(1,2) b4 False
      by (auto simp: lwr_lanes lwl_lanes r of_nat_diff add.assoc algebra_simps)
  qed
qed

section \<open>Registers and retirement on RAM\<close>

lemma on_ram_regs: "on_ram e \<Longrightarrow> length (gpr (core e)) = 32"
  by (simp add: on_ram_def coherent_def machine_ok_def arrays_ok_def)

lemma on_ram_mild:
  "on_ram e \<Longrightarrow> mild e e' \<Longrightarrow> bus e' = bus e \<Longrightarrow> ram_ok (sysad e') \<Longrightarrow> mem_bp_count e' = mem_bp_count e \<Longrightarrow> on_ram e'"
  using caches.ctl_mild [of e e'] by (simp add: on_ram_def)

text \<open>Writing a register and retiring outside a delay slot.\<close>

definition retire :: "u8 \<Rightarrow> u64 \<Rightarrow> 'b mips_executor \<Rightarrow> 'b mips_executor" where
  "retire r v e = upd_core (\<lambda>c. c\<lparr>pc := pc c + 4\<rparr>) (put_gr r v e)"

lemma retire_complete:
  "\<not> in_delay_slot (core e) \<Longrightarrow> handle_exec_complete (put_gr r v e) = (EXEC_COMPLETE, retire r v e)"
  by (simp add: handle_exec_complete_def retire_def put_gr_def write_gpr_def)

lemma retire_fields [simp]:
  "bus (retire r v e) = bus e" "sysad (retire r v e) = sysad e" "mem_bp_count (retire r v e) = mem_bp_count e"
  "llbit (retire r v e) = llbit e" "in_delay_slot (core (retire r v e)) = in_delay_slot (core e)"
  by (simp_all add: retire_def put_gr_def write_gpr_def)

lemma retire_mild: "mild e (retire r v e)"
  unfolding retire_def by (rule mild_trans [OF mild_put_gr [of e r v]]) (simp add: mild_def)

lemma retire_on_ram: "on_ram e \<Longrightarrow> on_ram (retire r v e)"
  by (rule on_ram_mild [OF _ retire_mild]) (simp_all add: on_ram_def)

lemma retire_gr:
  assumes "length (gpr (core e)) = 32" "unat r < 32" "unat q < 32"
  shows "gr q (retire r v e) = (if q = 0 then 0 else if q = r then v else gr q e)"
proof -
  have "unat (ucast x :: u32) = unat x" for x :: u8 by (rule unat_ucast_up) simp
  moreover have "unat q = 0 \<longleftrightarrow> q = 0" by (rule unat_eq_zero)
  moreover have "unat r = unat q \<longleftrightarrow> q = r" using word_unat_eq_iff [of r q] by auto
  ultimately show ?thesis
    using assms by (simp add: gr_def retire_def put_gr_def read_gpr_def write_gpr_def nth_list_update)
qed

lemma ram_load_completes:
  assumes "on_ram e" "windowed (effective_address d e) e pa" "effective_address d e AND align_mask_for sz = 0"
    "\<not> in_delay_slot (core e)"
  obtains e' where "load_with sz ext d e = Some (EXEC_COMPLETE, e')"
proof -
  obtain f where f: "read_data sz (effective_address d e) e = Some (Inr (mem_load sz (sysad e) pa), f)" "only_utlb e f"
    by (rule ram_read [OF assms(1-3)])
  then have "load_with sz ext d e = Some (EXEC_COMPLETE, retire (d_rt d) (ext (mem_load sz (sysad e) pa)) f)"
    using assms(4) only_utlb_fields(5) [OF f(2)] by (simp add: load_with_def retire_complete)
  then show thesis by (rule that)
qed

lemma on_ram_zero: "on_ram e \<Longrightarrow> gpr (core e) ! 0 = 0"
  by (simp add: on_ram_def coherent_def machine_ok_def arrays_ok_def)

lemma align_4: "(va AND NOT 3) AND align_mask_for 4 = 0"
proof -
  have m: "(3 :: u64) = mask 2" "align_mask_for 4 = mask 2"
    by (simp_all add: mask_eq_exp_minus_1 align_mask_for_def)
  show ?thesis unfolding m by (rule bit_word_eqI) (simp add: bit_simps)
qed

lemma window_offset: "coherent e \<Longrightarrow> windowed va e pa \<Longrightarrow> unat (va AND 3) = unat (pa AND 3)"
proof -
  have m: "(3 :: u64) = mask 2" by (simp add: mask_eq_exp_minus_1)
  assume "coherent e" "windowed va e pa"
  note low = windowed_low [OF this]
  have "va AND 3 = pa AND 3" unfolding m by (rule bit_word_eqI) (use low in \<open>auto simp: bit_simps\<close>)
  then show ?thesis by simp
qed

lemma lo32_ucast: "lo32 (ucast (w :: u32)) = w"
  by (rule bit_word_eqI) (auto simp: bit_simps)

section \<open>Load-linked and store-conditional\<close>

lemma load_linked_ram:
  assumes "on_ram e" "\<not> in_delay_slot (core e)" "windowed (effective_address d e) e pa"
    "effective_address d e AND align_mask_for sz = 0" "d_rt d \<noteq> 0" "unat (d_rt d) < 32"
  shows "\<exists>e1. load_linked sz ext d e = Some (EXEC_COMPLETE, e1) \<and> llbit e1 \<and> sysad e1 = sysad e \<and>
      gr (d_rt d) e1 = ext (mem_load sz (sysad e) pa)"
proof -
  let ?va = "effective_address d e" and ?rt = "d_rt d"
  let ?v = "mem_load sz (sysad e) pa"
  obtain f where r: "read_data sz ?va e = Some (Inr ?v, f)" "only_utlb e f" "on_ram f"
    by (rule ram_read [OF assms(1,3,4)])
  define g where "g = put_gr ?rt (ext ?v) f"
  have m: "mild f g" by (simp add: g_def)
  have "coherent g" using r(3) caches.ctl_mild [OF _ m] by (simp add: on_ram_def)
  moreover have "windowed ?va g pa"
    using assms(3) only_utlb_windowed [OF r(2)] mild_windowed [OF m] by simp
  ultimately obtain tr h where t: "nanotlb_translate Read ?va g = Some (tr, h)" "\<not> tr_is_exception tr" "only_utlb g h"
    by (rule window_translate [where acc = Read and w = False]) simp_all
  note h = only_utlb_fields [OF t(3)] and f = only_utlb_fields [OF r(2)]
  define la where "la = shr (tr_phys tr) 4 AND lladdr_mask (model h)"
  define k where "k = upd_core (\<lambda>c. c\<lparr>cp0_lladdr := la, ll_value := ?v, ll_phys := tr_phys tr\<rparr>)
    (h\<lparr>lladdr := la, llbit := True\<rparr>)"
  have "take_reservation ?va ?v g = Some k"
    using t by (simp add: take_reservation_def k_def la_def Let_def)
  moreover have s: "\<not> in_delay_slot (core k)"
    using assms(2) f h by (simp add: k_def g_def put_gr_def write_gpr_def)
  ultimately have "load_linked sz ext d e = Some (handle_exec_complete k)"
    using r(1) by (simp add: load_linked_def g_def)
  moreover have "handle_exec_complete k = (EXEC_COMPLETE, upd_core (\<lambda>c. c\<lparr>pc := pc c + 4\<rparr>) k)"
    using s by (simp add: handle_exec_complete_def)
  moreover have "gr ?rt (upd_core (\<lambda>c. c\<lparr>pc := pc c + 4\<rparr>) k) = ext ?v"
    using retire_gr [OF on_ram_regs [OF r(3)] assms(6,6), of "ext ?v"] assms(5) h(4)
    by (simp add: k_def g_def gr_def read_gpr_def retire_def)
  moreover have "sysad k = sysad e" "llbit k"
    using f h by (simp_all add: k_def g_def put_gr_def)
  ultimately show ?thesis by auto
qed

lemma store_conditional_ram:
  assumes "on_ram e" "\<not> in_delay_slot (core e)" "windowed (effective_address d e) e pa"
    "effective_address d e AND align_mask_for sz = 0" "d_rt d \<noteq> 0" "unat (d_rt d) < 32"
  shows "\<exists>e1. store_conditional sz d e = Some (EXEC_COMPLETE, e1) \<and> \<not> llbit e1 \<and>
      sysad e1 = (if llbit e then mem_store sz pa (gr (d_rt d) e) (sysad e) else sysad e) \<and>
      gr (d_rt d) e1 = (if llbit e then 1 else 0)"
proof -
  let ?va = "effective_address d e" and ?rt = "d_rt d"
  show ?thesis
  proof (cases "llbit e")
    case False
    then show ?thesis
      using retire_complete [OF assms(2), of ?rt 0] retire_gr [OF on_ram_regs [OF assms(1)] assms(6,6), of 0] assms(5)
      by (auto simp: store_conditional_def)
  next
    case True
    obtain tr f where t: "nanotlb_translate Write ?va e = Some (tr, f)" "\<not> tr_is_exception tr" "only_utlb e f" "coherent f"
      by (rule window_translate [OF _ assms(3), where acc = Write and w = True])
        (use assms(1) in \<open>simp_all add: on_ram_def\<close>)
    note f = only_utlb_fields [OF t(3)]
    have "on_ram f" using assms(1) t(4) f by (simp add: on_ram_def)
    moreover have "windowed ?va f pa" using assms(3) only_utlb_windowed [OF t(3)] by simp
    moreover have "gr ?rt f = gr ?rt e" using f(4) by (simp add: gr_def read_gpr_def)
    ultimately obtain g where w: "write_data sz ?va (gr ?rt e) f =
        Some (EXEC_COMPLETE, g\<lparr>sysad := mem_store sz pa (gr ?rt e) (sysad f)\<rparr>)"
        "only_utlb f g" "on_ram (g\<lparr>sysad := mem_store sz pa (gr ?rt e) (sysad f)\<rparr>)"
      using ram_write [of f ?va pa sz "gr ?rt e"] assms(4) by metis
    note g = only_utlb_fields [OF w(2)]
    let ?g = "g\<lparr>sysad := mem_store sz pa (gr ?rt e) (sysad f)\<rparr>"
    have "store_conditional sz d e = Some (finish_status EXEC_COMPLETE ((put_gr ?rt 1 ?g)\<lparr>llbit := False\<rparr>))"
      using True t w(1) \<open>gr ?rt f = gr ?rt e\<close> by (simp add: store_conditional_def)
    also have "(put_gr ?rt 1 ?g)\<lparr>llbit := False\<rparr> = put_gr ?rt 1 (?g\<lparr>llbit := False\<rparr>)" by (simp add: put_gr_def)
    also have "finish_status EXEC_COMPLETE (put_gr ?rt 1 (?g\<lparr>llbit := False\<rparr>)) =
        (EXEC_COMPLETE, retire ?rt 1 (?g\<lparr>llbit := False\<rparr>))"
      using retire_complete [of "?g\<lparr>llbit := False\<rparr>" ?rt 1] assms(2) f g
      by (simp add: finish_status_def EXEC_COMPLETE_def)
    finally show ?thesis
      using True f retire_gr [of "?g\<lparr>llbit := False\<rparr>" ?rt ?rt 1] on_ram_regs [OF w(3)] assms(5,6) by simp
  qed
qed

section \<open>The machine of the examples\<close>

lemma demo_ram_fields:
  "bus demo_machine = memory_bus" "sysad demo_machine = mem_new 1" "mem_bp_count demo_machine = 0"
  "\<not> in_delay_slot (core demo_machine)" "\<not> llbit demo_machine" "pc (core demo_machine) = 0xFFFFFFFFBFC00000"
  by (simp_all add: demo_machine_def cpu_new_def install_status_cb_def executor_new_def update_fpr_mode_def
      update_translate_fn_def mips_core_new_def reset_registers_def mips_core_zero_def
      disarm_compare_timer_def Let_def)

lemma demo_on_ram: "on_ram demo_machine"
  using machine_reach_coherent [OF demo_machine_reach]
  by (simp add: on_ram_def demo_ram_fields ram_ok_def mem_ok_def mem_lanes_def mem_new_def)

lemma demo_windowed:
  "windowed 0xFFFFFFFFA0001000 demo_machine 0x1000" "windowed 0xFFFFFFFFA0001001 demo_machine 0x1001"
  "windowed 0xFFFFFFFFA0001004 demo_machine 0x1004" "windowed 0 demo_machine 0"
proof -
  have k: "get_privilege_mode (core demo_machine) = Kernel" "\<not> is_64bit_mode (core demo_machine)"
    by (simp_all add: get_privilege_mode_def status_privilege_def is_64bit_mode_def demo_fields status_bits)
  then show "windowed 0xFFFFFFFFA0001000 demo_machine 0x1000" "windowed 0xFFFFFFFFA0001001 demo_machine 0x1001"
    "windowed 0xFFFFFFFFA0001004 demo_machine 0x1004" "windowed 0 demo_machine 0"
    by (simp_all add: windowed_def segment_of_def segment_32_def demo_fields status_bits)
qed

section \<open>Properties\<close>

text \<open>
  \<^bold>\<open>C24\<close>.  A store followed by a load of the same width from the same aligned address of an unmapped
  window of RAM completes and returns the low bytes of the stored value, whatever the micro-TLB
  holds.
\<close>

theorem store_load_roundtrip:
  assumes "on_ram e" "windowed va e pa" "sz \<in> {1, 2, 4, 8}" "va AND align_mask_for sz = 0"
  shows "\<exists>e1 e2. write_data sz va v e = Some (EXEC_COMPLETE, e1) \<and>
    read_data sz va e1 = Some (Inr (v AND mask (8 * sz)), e2) \<and> sysad e2 = mem_store sz pa v (sysad e)"
proof -
  obtain e1 where w: "write_data sz va v e = Some (EXEC_COMPLETE, e1\<lparr>sysad := mem_store sz pa v (sysad e)\<rparr>)"
      "only_utlb e e1" "on_ram (e1\<lparr>sysad := mem_store sz pa v (sysad e)\<rparr>)"
    by (rule ram_write [OF assms(1,2,4)])
  let ?e1 = "e1\<lparr>sysad := mem_store sz pa v (sysad e)\<rparr>"
  have "windowed va ?e1 pa"
    using assms(2) only_utlb_windowed [OF w(2)] mild_windowed [of e1 ?e1] by simp
  then obtain e2 where r: "read_data sz va ?e1 = Some (Inr (mem_load sz (sysad ?e1) pa), e2)" "only_utlb ?e1 e2"
    by (rule ram_read [OF w(3) _ assms(4)])
  have "coherent e" "ram_ok (sysad e)" using assms(1) by (simp_all add: on_ram_def)
  then have "mem_load sz (sysad ?e1) pa = v AND mask (8 * sz)"
    using mem_load_store [OF _ assms(3) windowed_aligned [OF _ assms(2-4)]] by simp
  then show ?thesis using w(1) r only_utlb_fields(2) [OF r(2)] by auto
qed

theorem store_load_roundtrip_witness:
  "\<exists>e1 e2. write_data 4 0xFFFFFFFFA0001000 0x1122334455667788 demo_machine = Some (EXEC_COMPLETE, e1) \<and>
     read_data 4 0xFFFFFFFFA0001000 e1 = Some (Inr 0x55667788, e2)"
  using store_load_roundtrip [OF demo_on_ram demo_windowed(1), of 4 "0x1122334455667788"]
  by (auto simp: align_mask_for_def mask_eq_exp_minus_1)

text \<open>
  \<^bold>\<open>C25\<close>.  LWL at an address and LWR three bytes further load the four bytes from that address on,
  in big-endian order and sign-extended, whether or not the address is aligned.
\<close>

theorem unaligned_load_pair:
  assumes "on_ram e" "\<not> in_delay_slot (core e)" "windowed va e pa" "windowed (va + 3) e (pa + 3)"
    "effective_address d e = va" "d_rs d' = d_rs d" "d_rt d' = d_rt d" "immu64 d' = immu64 d + 3"
    "d_rs d \<noteq> d_rt d" "d_rt d \<noteq> 0" "unat (d_rs d) < 32" "unat (d_rt d) < 32"
  shows "\<exists>e1 e2. exec_lwl d e = Some (EXEC_COMPLETE, e1) \<and> exec_lwr d' e1 = Some (EXEC_COMPLETE, e2) \<and>
    gr (d_rt d) e2 = sext32 (lo32 (gr (d_rt d) e2)) \<and>
    (\<forall>k<4. lane32 (lo32 (gr (d_rt d) e2)) k = mem_read8 (sysad e) (pa + of_nat k))"
proof -
  let ?m = "sysad e" and ?rt = "d_rt d"
  have coh: "coherent e" and ram: "ram_ok ?m" using assms(1) by (simp_all add: on_ram_def)
  have down: "windowed (va AND NOT 3) e (pa AND NOT 3)" "windowed ((va + 3) AND NOT 3) e ((pa + 3) AND NOT 3)"
    using windowed_down [OF coh] assms(3,4) by simp_all
  have low: "unat (va AND 3) = unat (pa AND 3)" "unat ((va + 3) AND 3) = unat ((pa + 3) AND 3)"
    using window_offset [OF coh] assms(3,4) by simp_all
  obtain f where r1: "read_data 4 (va AND NOT 3) e = Some (Inr (mem_load 4 ?m (pa AND NOT 3)), f)"
      "only_utlb e f" "on_ram f"
    by (rule ram_read [OF assms(1) down(1) align_4])
  note f = only_utlb_fields [OF r1(2)]
  define x where "x = lwl_merge (unat (pa AND 3)) (mem_read32 ?m (pa AND NOT 3)) (lo32 (gr ?rt f))"
  define e1 where "e1 = retire ?rt (sext32 x) f"
  have l: "exec_lwl d e = Some (EXEC_COMPLETE, e1)"
    using assms(2,5) r1(1) f(5) low(1) retire_complete [of f]
    by (simp add: exec_lwl_def Let_def mem_load_def e1_def x_def lo32_ucast)
  have e1: "on_ram e1" "sysad e1 = ?m" "\<not> in_delay_slot (core e1)"
    using retire_on_ram [OF r1(3)] f assms(2) by (simp_all add: e1_def)
  have regs: "length (gpr (core f)) = 32" using on_ram_regs [OF r1(3)] .
  have "gr (d_rs d) e1 = gr (d_rs d) e"
    using retire_gr [OF regs assms(12,11)] assms(9) on_ram_zero [OF assms(1)] f(4)
    by (simp add: e1_def gr_def read_gpr_def)
  then have va: "effective_address d' e1 = va + 3"
    using assms(5,6,8) by (simp add: effective_address_def add.assoc)
  have "windowed ((va + 3) AND NOT 3) e1 ((pa + 3) AND NOT 3)"
    using down(2) only_utlb_windowed [OF r1(2)] mild_windowed [OF retire_mild [of f]] by (simp add: e1_def)
  then obtain g where r2: "read_data 4 ((va + 3) AND NOT 3) e1 = Some (Inr (mem_load 4 ?m ((pa + 3) AND NOT 3)), g)"
      "only_utlb e1 g" "on_ram g"
    using ram_read [OF e1(1) _ align_4] e1(2) by metis
  note g = only_utlb_fields [OF r2(2)]
  define y where "y = lwr_merge (unat ((pa + 3) AND 3)) (mem_read32 ?m ((pa + 3) AND NOT 3)) x"
  have "gr ?rt g = sext32 x"
    using retire_gr [OF regs assms(12,12)] assms(10) g(4) by (simp add: e1_def gr_def read_gpr_def)
  then have "exec_lwr d' e1 = Some (EXEC_COMPLETE, retire ?rt (sext32 y) g)"
    using e1(3) va assms(7) r2(1) g(5) low(2) retire_complete [of g]
    by (simp add: exec_lwr_def Let_def mem_load_def y_def lo32_ucast)
  moreover have "gr ?rt (retire ?rt (sext32 y) g) = sext32 y"
    using retire_gr [OF on_ram_regs [OF r2(3)] assms(12,12)] assms(10) by simp
  moreover have "lane32 y k = mem_read8 ?m (pa + of_nat k)" if "k < 4" for k
    unfolding y_def x_def by (rule unaligned_word [OF ram that])
  ultimately show ?thesis using l by auto
qed

definition demo_lwl :: "u32 \<Rightarrow> decoded_fields" where
  "demo_lwl imm = (scratch_instr 0)\<lparr>d_imm := imm, d_rt := 2\<rparr>"

lemma demo_lwl_fields: "d_rt (demo_lwl i) = 2" "d_rs (demo_lwl i) = 0" "immu64 (demo_lwl i) = sext32 i"
  by (simp_all add: demo_lwl_def scratch_instr_def immu64_def)

lemma demo_address:
  "effective_address (demo_lwl 0xA0001001) demo_machine = 0xFFFFFFFFA0001001"
  "effective_address (demo_lwl 0xA0001000) demo_machine = 0xFFFFFFFFA0001000"
  by (simp_all add: effective_address_def demo_lwl_def scratch_instr_def immu64_def gr_def read_gpr_def demo_fields)

theorem unaligned_load_pair_witness:
  "\<exists>e1 e2. exec_lwl (demo_lwl 0xA0001001) demo_machine = Some (EXEC_COMPLETE, e1) \<and>
     exec_lwr (demo_lwl 0xA0001004) e1 = Some (EXEC_COMPLETE, e2) \<and>
     lane32 (lo32 (gr 2 e2)) 3 = mem_read8 (mem_new 1) 0x1004"
  using unaligned_load_pair [OF demo_on_ram demo_ram_fields(4) demo_windowed(2) _ demo_address(1), of "demo_lwl 0xA0001004"]
    demo_windowed(3) demo_ram_fields(2)
  by (fastforce simp: demo_lwl_fields)

text \<open>
  \<^bold>\<open>C26\<close>.  Load-linked and store-conditional.  LL loads and takes the reservation.  SC stores
  exactly if the reservation is still there, reports which in its register, and drops the
  reservation.  Every exception drops it, so an SC after one fails.
\<close>

theorem load_linked_store_conditional:
  assumes "on_ram e" "\<not> in_delay_slot (core e)" "windowed (effective_address d e) e pa"
    "effective_address d e AND align_mask_for sz = 0" "d_rt d \<noteq> 0" "unat (d_rt d) < 32"
  shows "(\<exists>e1. load_linked sz ext d e = Some (EXEC_COMPLETE, e1) \<and> llbit e1 \<and> sysad e1 = sysad e \<and>
      gr (d_rt d) e1 = ext (mem_load sz (sysad e) pa)) \<and>
    (\<exists>e1. store_conditional sz d e = Some (EXEC_COMPLETE, e1) \<and> \<not> llbit e1 \<and>
      sysad e1 = (if llbit e then mem_store sz pa (gr (d_rt d) e) (sysad e) else sysad e) \<and>
      gr (d_rt d) e1 = (if llbit e then 1 else 0)) \<and>
    \<not> llbit (snd (handle_exception st e))"
  using load_linked_ram [OF assms] store_conditional_ram [OF assms] by simp

theorem load_linked_store_conditional_witness:
  "\<exists>e1. store_conditional 4 (demo_lwl 0xA0001000) demo_machine = Some (EXEC_COMPLETE, e1) \<and> gr 2 e1 = 0"
  using load_linked_store_conditional [OF demo_on_ram demo_ram_fields(4), of "demo_lwl 0xA0001000" "0x1000" 4]
    demo_windowed(1) demo_ram_fields(5)
  by (auto simp: demo_address align_mask_for_def demo_lwl_fields)

text \<open>
  \<^bold>\<open>C27\<close>.  A load or store whose address is not a multiple of its width raises an address error
  with that address in BadVAddr and the right code in Cause.  Nothing reaches the bus and no
  register changes.
\<close>

theorem unaligned_access_faults:
  assumes "mem_bp_count e = 0" "effective_address d e AND align_mask_for sz \<noteq> 0"
  shows "\<exists>e1 e2. load_with sz ext d e = Some (exec_exception EXC_ADEL, e1) \<and>
    store_with sz d e = Some (exec_exception EXC_ADES, e2) \<and>
    shr (cp0_cause (core e1)) 2 AND 0x1F = EXC_ADEL \<and> shr (cp0_cause (core e2)) 2 AND 0x1F = EXC_ADES \<and>
    cp0_badvaddr (core e1) = effective_address d e \<and> cp0_badvaddr (core e2) = effective_address d e \<and>
    sysad e1 = sysad e \<and> sysad e2 = sysad e \<and> gpr (core e1) = gpr (core e) \<and> gpr (core e2) = gpr (core e)"
proof -
  let ?f = "upd_core (\<lambda>c. c\<lparr>cp0_badvaddr := effective_address d e\<rparr>) e"
  have "load_with sz ext d e = Some (handle_exception (exec_exception EXC_ADEL) ?f)"
    "store_with sz d e = Some (handle_exception (exec_exception EXC_ADES) ?f)"
    using assms by (simp_all add: load_with_def store_with_def read_data_def read_data_impl_def write_data_def
        write_data_impl_def bp_check_none set_badvaddr_def finish_status_def)
  moreover have "cp0_badvaddr (core (snd (handle_exception s ?f))) = effective_address d e" for s
    by (simp add: handle_exception_def resync_core deliver_exception_def Let_def)
  moreover have "handle_exception s ?f = (s, snd (handle_exception s ?f))" for s by (simp add: prod_eq_iff)
  moreover have "shr (cp0_cause (core (snd (handle_exception (exec_exception c) ?f)))) 2 AND 0x1F = c"
    if "c < 32" for c
    using handle_exception_cause(1) [OF that, of "exec_exception c"] by simp
  ultimately show ?thesis
    by (intro exI [of _ "snd (handle_exception (exec_exception EXC_ADEL) ?f)"]
        exI [of _ "snd (handle_exception (exec_exception EXC_ADES) ?f)"]) (simp add: exc_codes)
qed

theorem unaligned_access_faults_witness:
  "\<exists>e1. load_with 4 sext32_64 (demo_lwl 0xA0001001) demo_machine = Some (exec_exception EXC_ADEL, e1) \<and>
     cp0_badvaddr (core e1) = 0xFFFFFFFFA0001001"
  using unaligned_access_faults [OF demo_ram_fields(3), of "demo_lwl 0xA0001001" 4 sext32_64]
  by (auto simp: demo_address align_mask_for_def)

end
