(* ===== verification/Fusion.thy ===== *)
theory Fusion
  imports Data_Path
begin

text \<open>
  Opcode fusion.  The decoder may fold an instruction and its successor into one handler; the
  handler then does what the two do in turn.  The one state component that differs is the target of
  a delay slot that is over, which nothing reads.
\<close>

section \<open>Two instructions in turn\<close>






section \<open>The dead target\<close>












section \<open>The second instruction\<close>





lemma byte_ucast [simp]: "(ucast (ucast (r :: u8) :: u32) :: u8) = r"
  by (rule bit_word_eqI) (auto simp: bit_simps)












section \<open>Pairs\<close>












lemma no_fusion [simp]: "next_is_nop False ins = False" "next_is_access False r ins = False"
  by (simp_all add: next_is_nop_def next_is_access_def)










section \<open>Properties\<close>







end
