(* ===== verification/Spec2Isabelle.thy ===== *)
theory Spec2Isabelle
  imports Timer_Worker Fusion
begin

text \<open>
  \<^bold>\<open>A verification development for IRIS\<close>, an emulator of SGI MIPS workstations written in Rust.

  \<^bold>\<open>The program.\<close>  A machine is a MIPS processor (\<^verbatim>\<open>src/src/cpu\<close>), a system bus with memory and
  devices behind it (\<^verbatim>\<open>src/src/dev\<close>, \<^verbatim>\<open>src/src/traits.rs\<close>), and host services: a timer thread
  (\<^verbatim>\<open>src/src/hptimer.rs\<close>), storage, network, display and user interface.  The processor is an
  interpreter: \<^verbatim>\<open>step_int\<close> samples interrupts, fetches through a one-entry cache of translations,
  decodes to a function pointer and calls it; the handler reads and writes registers, translates
  data addresses through a micro-TLB filled from the TLB, goes to the bus, and ends in one of a
  few terminal actions (retire, branch, exception).  This development models the interpreter with
  everything it is made of, the RAM behind it and the timer manager that drives the Count and
  Compare registers, and proves them correct.

  \<^bold>\<open>Conventions.\<close>  Theory \<open>Iris_Prelude\<close> fixes the machine integers as words of their width, the casts,
  array accesses that are \<^const>\<open>None\<close> where Rust panics, and the shared lemmas.  A struct is a
  record, an enum a datatype, a method a function from the old state to the result and the new
  state; a panic or an endless loop is \<^const>\<open>None\<close>; atomics are plain fields, and what other threads
  do to them are steps of their own.  The host (its clock, its floating point unit, what it
  observes while it waits) is an argument.

  \<^bold>\<open>Model.\<close>  The source file each theory models:
  \<^item> \<open>Mips_Tlb\<close>: \<^verbatim>\<open>src/src/cpu/mips_tlb.rs\<close>.  Entries, shadow entries, the MRU lists, the virtual map,
    \<^verbatim>\<open>translate\<close>, \<^verbatim>\<open>write\<close>, \<^verbatim>\<open>read\<close>, \<^verbatim>\<open>probe\<close>.  The walk of an MRU list has as much fuel as the list has slots;
    the invariant of \<open>Tlb_Mru\<close> shows that to be enough.
  \<^item> \<open>Bus_Memory\<close>: the bus trait of \<^verbatim>\<open>src/src/traits.rs\<close> with its default methods, and the RAM bank, the
    black hole and the unmapped region of \<^verbatim>\<open>src/src/dev/mem.rs\<close>.
  \<^item> \<open>Hp_Timer\<close>: \<^verbatim>\<open>src/src/hptimer.rs\<close>, one definition per critical section; \<open>Timer_Worker\<close> composes them to
    the concurrent system of callers and worker thread.
  \<^item> \<open>Mips_Core\<close>, \<open>Mips_Cp0\<close>: \<^verbatim>\<open>src/src/cpu/mips_core.rs\<close>.  Registers, Count and Compare, coprocessor 0 reads
    and writes, exception delivery, reset.
  \<^item> \<open>Mips_Exec\<close>, \<open>Mips_Translate\<close>, \<open>Mips_Alu\<close>, \<open>Mips_Mem\<close>, \<open>Mips_Cop0\<close>, \<open>Fp_Bits\<close>, \<open>Mips_Fpu\<close>, \<open>Mips_Step\<close>, \<open>Mips_Boot\<close>:
    \<^verbatim>\<open>src/src/cpu/mips_exec.rs\<close> with \<^verbatim>\<open>src/src/cpu/mips_isa.rs\<close> and the pass-through cache of
    \<^verbatim>\<open>src/src/cpu/mips_cache_v2.rs\<close>.  The executor's state, translation, the integer, memory,
    coprocessor 0 and floating point handlers, decoding, the step, construction, breakpoints.
  \<^item> \<open>Machine_Reach\<close>: how the three machine constructors configure the executor, and the reachable
    states of a machine as an inductive predicate.

  \<^bold>\<open>What is proved.\<close>
  \<^item> TLB (\<open>Tlb_Mru\<close>, \<open>Tlb_Vmap\<close>, \<open>Tlb_Lookup\<close>, \<open>Tlb_Contract\<close>, \<open>Tlb_Properties\<close>): a lookup through the virtual map
    and the MRU lists terminates and refines the fully associative match of the architecture; the
    contract of the \<^verbatim>\<open>Tlb\<close> trait is the locale \<open>tlb_contract\<close>, interpreted on both implementations.
  \<^item> Memory (\<open>Memory_Lanes\<close>): every access, block transfer and snapshot of the RAM bank in terms of
    big-endian bytes; the locale \<open>be_ram\<close> is what the data path relies on.
  \<^item> Exceptions (\<open>Core_Exceptions\<close>): entry on every branch, and that ERET undoes it.
  \<^item> The step (\<open>Step_Contract\<close>, \<open>Step_Handlers\<close>): the locale \<open>step_invariant\<close> reduces an invariant over every
    instruction to a dozen obligations.  \<open>Machine_Invariants\<close> and \<open>Utlb_Coherence\<close> interpret it.
  \<^item> Reachable machines (\<open>Control_State\<close>, \<open>Machine_Invariants\<close>, \<open>Machine_Properties\<close>): register 0, the cached
    selectors, absence of panics, the wired entries.
  \<^item> Address translation (\<open>Pages\<close>, \<open>Segments\<close>, \<open>Utlb_Coherence\<close>, \<open>Machine_Properties\<close>): the segment decoders
    refine an abstract address map, the two caches of translations never serve a stale page, and
    user code is confined to the pages the TLB grants it.
  \<^item> Instructions (\<open>Alu_Properties\<close>, \<open>Data_Path\<close>, \<open>Fusion\<close>): arithmetic against the integers, loads and
    stores from the virtual address down to the bytes, and that fused pairs of instructions do
    what the two do in turn.
  \<^item> Timers (\<open>Timer_Worker\<close>): the arena invariant under any interleaving, identifiers are never
    confused, a due timer is called, and when the worker sleeps too long.

  \<^bold>\<open>Bounds and fuel.\<close>  WAIT takes the finite sequence of what its loop observes and is \<^const>\<open>None\<close> if the
  sequence ends before a release; the theorem that a step returns assumes a sequence with a
  release.  The theorems on the virtual map are about page masks that are contiguous, the only
  ones the architecture defines.  Timer identifiers are unique as long as no slot has been reused
  \<open>2 ^ 32 - 1\<close> times.

  \<^bold>\<open>Not modelled.\<close>
  \<^item> The caches with tags and data of \<^verbatim>\<open>src/src/cpu/mips_cache_v2.rs\<close> and their shadow checker: the
    executor is generic in its cache, and the model takes the pass-through instance.
  \<^item> The recompiler \<^verbatim>\<open>src/src/cpu/jitv2\<close>: it emits machine code through Cranelift, whose semantics is not part of the
    sources.
  \<^item> The arithmetic of the host's floating point unit, which is an argument, and the tracing,
    profiling and statistics hooks of the executor, which change no modelled state.
  \<^item> Devices, graphics, network, storage, the machine's wiring, snapshots, the monitor and the user
    interface: the processor sees them as a bus and an interrupt word, and so does the model.
\<close>

end
